(* ===== verification/Prelude.thy ===== *)
theory Prelude
  imports Main "HOL-Library.Sublist"
begin

text \<open>
  Shared vocabulary of the development: the outcome types of Go functions, the collections
  that the component proofs are driven by, and generic lemmas on lists and association lists.

  A Go function that returns only an \<open>error\<close> is modelled by an option, where \<open>None\<close> is the nil
  error.  A Go function that returns \<open>(T, error)\<close> is modelled by the sum type, where \<open>Inl\<close> carries
  the error.  A \<open>time.Time\<close> is the number of nanoseconds since the zero time of Go, so that
  \<open>IsZero\<close> is equality with 0.
\<close>

named_theorems contract_simps \<open>unfolding rules of validators and guards\<close>
named_theorems store_simps \<open>unfolding rules of store operations\<close>
named_theorems inv_intros \<open>introduction rules of invariants\<close>

subsection \<open>Outcomes\<close>

type_synonym ('e, 'a) result = "'e + 'a"

type_synonym time = int

definition time_IsZero :: "time \<Rightarrow> bool" where
  "time_IsZero t \<longleftrightarrow> t = 0"

text \<open>\<open>Truncate\<close> rounds down to a multiple of the duration since the zero time.\<close>

definition time_Truncate :: "time \<Rightarrow> int \<Rightarrow> time" where
  "time_Truncate t d = (if d \<le> 0 then t else t - t mod d)"

abbreviation (input) Microsecond :: int where "Microsecond \<equiv> 1000"
abbreviation (input) Millisecond :: int where "Millisecond \<equiv> 1000000"
abbreviation (input) Second :: int where "Second \<equiv> 1000000000"

fun rbind :: "('e, 'a) result \<Rightarrow> ('a \<Rightarrow> ('e, 'b) result) \<Rightarrow> ('e, 'b) result" where
  "rbind (Inl e) f = Inl e" |
  "rbind (Inr a) f = f a"

lemma rbind_eq_Inr [simp]: "rbind r f = Inr b \<longleftrightarrow> (\<exists>a. r = Inr a \<and> f a = Inr b)"
  by (cases r) auto

lemma rbind_eq_Inl: "rbind r f = Inl e \<longleftrightarrow> r = Inl e \<or> (\<exists>a. r = Inr a \<and> f a = Inl e)"
  by (cases r) auto

lemma case_error_eq_Inr [simp]:
  "(case r of Inl e \<Rightarrow> Inl (f e) | Inr a \<Rightarrow> g a) = Inr b \<longleftrightarrow> (\<exists>a. r = Inr a \<and> g a = Inr b)"
  by (cases r) auto

text \<open>Running a check that only reports an error before continuing with a value.\<close>

fun guarded :: "'e option \<Rightarrow> ('e, 'a) result \<Rightarrow> ('e, 'a) result" where
  "guarded (Some e) r = Inl e" |
  "guarded None r = r"

lemma guarded_eq_Inr [simp]: "guarded c r = Inr a \<longleftrightarrow> c = None \<and> r = Inr a"
  by (cases c) auto

text \<open>The first error of two checks run in order.\<close>

fun first_error :: "'e option \<Rightarrow> 'e option \<Rightarrow> 'e option" where
  "first_error (Some e) d = Some e" |
  "first_error None d = d"

lemma first_error_None [simp]: "first_error c d = None \<longleftrightarrow> c = None \<and> d = None"
  by (cases c) auto

lemma first_error_Some_ex [simp]: "(\<exists>e. first_error c d = Some e) \<longleftrightarrow> c \<noteq> None \<or> d \<noteq> None"
  by (cases c) auto

text \<open>The first error a check reports on the elements of a list, as in a \<open>for range\<close> loop that
  returns on error.\<close>

fun each_error :: "('a \<Rightarrow> 'e option) \<Rightarrow> 'a list \<Rightarrow> 'e option" where
  "each_error f [] = None" |
  "each_error f (x # xs) = first_error (f x) (each_error f xs)"

lemma each_error_None [simp]: "each_error f xs = None \<longleftrightarrow> (\<forall>x\<in>set xs. f x = None)"
  by (induction xs) auto

lemma each_error_Some: "each_error f xs = Some e \<Longrightarrow> \<exists>x\<in>set xs. f x = Some e"
proof (induction xs)
  case (Cons x xs) then show ?case by (cases "f x") auto
qed simp

lemma time_Truncate_le: "0 < d \<Longrightarrow> time_Truncate t d \<le> t"
  by (simp add: time_Truncate_def)

lemma time_Truncate_mod [simp]: "0 < d \<Longrightarrow> time_Truncate t d mod d = 0"
  by (simp add: time_Truncate_def)

lemma time_Truncate_less: "0 < d \<Longrightarrow> t < time_Truncate t d + d"
  by (simp add: time_Truncate_def)

lemma time_Truncate_id: "t mod d = 0 \<Longrightarrow> time_Truncate t d = t"
  by (simp add: time_Truncate_def)

subsection \<open>Lists\<close>

lemma list_all_take: "list_all P xs \<Longrightarrow> list_all P (take n xs)"
  by (auto simp: list_all_iff dest: in_set_takeD)

lemma sorted_le_last: "sorted xs \<Longrightarrow> x \<in> set xs \<Longrightarrow> x \<le> last xs"
  by (induction xs) (auto split: if_splits)

lemma sorted_snoc_last:
  assumes "sorted xs" "xs \<noteq> [] \<Longrightarrow> last xs \<le> y"
  shows "sorted (xs @ [y])"
proof -
  have "x \<le> y" if "x \<in> set xs" for x
    using sorted_le_last [OF assms(1) that] assms(2) that by (cases xs) auto
  then show ?thesis using assms(1) by (simp add: sorted_append)
qed

lemma find_Some_in_set: "find P xs = Some x \<Longrightarrow> x \<in> set xs \<and> P x"
  by (induction xs) (auto split: if_splits)

lemma find_None_all: "find P xs = None \<longleftrightarrow> (\<forall>x\<in>set xs. \<not> P x)"
  by (induction xs) auto

lemma find_filter_hd: "find P xs = (case filter P xs of [] \<Rightarrow> None | y # _ \<Rightarrow> Some y)"
  by (induction xs) auto

lemma map_of_distinct_find:
  "find (\<lambda>x. key x = k) xs = map_of (map (\<lambda>x. (key x, x)) xs) k"
  by (induction xs) auto

lemma distinct_map_inj_key:
  "distinct (map f xs) \<Longrightarrow> x \<in> set xs \<Longrightarrow> y \<in> set xs \<Longrightarrow> f x = f y \<Longrightarrow> x = y"
  by (meson distinct_map inj_onD)

lemma find_unique:
  assumes "distinct (map key xs)" "x \<in> set xs"
  shows "find (\<lambda>y. key y = key x) xs = Some x"
  using assms
proof (induction xs)
  case (Cons y ys)
  then show ?case by (cases "y = x") force+
qed simp

lemma find_append: "find P (xs @ ys) = (case find P xs of None \<Rightarrow> find P ys | Some x \<Rightarrow> Some x)"
  by (induction xs) auto

end
