(* ===== verification/Regex.thy ===== *)
theory Regex
  imports Prelude
begin

text \<open>
  The regular expressions of the repository: Go's \<open>regexp\<close> package as the sources use it, that is
  anchored patterns over ASCII classes.  Matching is by derivatives, and it is proved to decide the
  language of the expression.  The theory then gives the two patterns shared by the contracts, the
  safe identifier and the strict semantic version, and the lower-case digest test.
\<close>

datatype rexp =
    RZero
  | ROne
  | RCls "char \<Rightarrow> bool"
  | RAlt rexp rexp
  | RSeq rexp rexp
  | RStar rexp

inductive_set star_lang :: "string set \<Rightarrow> string set" for L where
  star_Nil: "[] \<in> star_lang L" |
  star_app: "s \<in> L \<Longrightarrow> t \<in> star_lang L \<Longrightarrow> s @ t \<in> star_lang L"

fun lang :: "rexp \<Rightarrow> string set" where
  "lang RZero = {}" |
  "lang ROne = {[]}" |
  "lang (RCls P) = {[c] | c. P c}" |
  "lang (RAlt r1 r2) = lang r1 \<union> lang r2" |
  "lang (RSeq r1 r2) = {s @ t | s t. s \<in> lang r1 \<and> t \<in> lang r2}" |
  "lang (RStar r) = star_lang (lang r)"

fun rseq :: "rexp \<Rightarrow> rexp \<Rightarrow> rexp" where
  "rseq RZero r = RZero" |
  "rseq ROne r = r" |
  "rseq s r = RSeq s r"

fun ralt :: "rexp \<Rightarrow> rexp \<Rightarrow> rexp" where
  "ralt RZero r = r" |
  "ralt s RZero = s" |
  "ralt s r = RAlt s r"

fun nullable :: "rexp \<Rightarrow> bool" where
  "nullable RZero = False" |
  "nullable ROne = True" |
  "nullable (RCls P) = False" |
  "nullable (RAlt r1 r2) = (nullable r1 \<or> nullable r2)" |
  "nullable (RSeq r1 r2) = (nullable r1 \<and> nullable r2)" |
  "nullable (RStar r) = True"

fun deriv :: "char \<Rightarrow> rexp \<Rightarrow> rexp" where
  "deriv c RZero = RZero" |
  "deriv c ROne = RZero" |
  "deriv c (RCls P) = (if P c then ROne else RZero)" |
  "deriv c (RAlt r1 r2) = ralt (deriv c r1) (deriv c r2)" |
  "deriv c (RSeq r1 r2) =
     (if nullable r1 then ralt (rseq (deriv c r1) r2) (deriv c r2) else rseq (deriv c r1) r2)" |
  "deriv c (RStar r) = rseq (deriv c r) (RStar r)"

fun MatchString :: "rexp \<Rightarrow> string \<Rightarrow> bool" where
  "MatchString r [] = nullable r" |
  "MatchString r (c # s) = MatchString (deriv c r) s"

lemma lang_rseq [simp]: "lang (rseq r s) = lang (RSeq r s)"
  by (cases "(r, s)" rule: rseq.cases) auto

lemma lang_ralt [simp]: "lang (ralt r s) = lang (RAlt r s)"
  by (cases "(r, s)" rule: ralt.cases) auto

lemma nullable_lang: "nullable r \<longleftrightarrow> [] \<in> lang r"
  by (induction r) (auto intro: star_Nil)

lemma star_lang_Cons:
  "c # s \<in> star_lang L \<longleftrightarrow> (\<exists>t u. s = t @ u \<and> c # t \<in> L \<and> u \<in> star_lang L)"
proof
  assume "c # s \<in> star_lang L"
  moreover have "w \<in> star_lang L \<Longrightarrow> w = c # s \<Longrightarrow>
      \<exists>t u. s = t @ u \<and> c # t \<in> L \<and> u \<in> star_lang L" for w
    by (induction rule: star_lang.induct) (auto simp: append_eq_Cons_conv)
  ultimately show "\<exists>t u. s = t @ u \<and> c # t \<in> L \<and> u \<in> star_lang L" by blast
next
  assume "\<exists>t u. s = t @ u \<and> c # t \<in> L \<and> u \<in> star_lang L"
  then show "c # s \<in> star_lang L" using star_app by fastforce
qed

lemma lang_RSeq_Cons:
  "c # s \<in> lang (RSeq r1 r2) \<longleftrightarrow>
     (\<exists>t u. s = t @ u \<and> c # t \<in> lang r1 \<and> u \<in> lang r2) \<or> ([] \<in> lang r1 \<and> c # s \<in> lang r2)"
  by (auto simp: Cons_eq_append_conv)

lemma lang_RSeq_iff:
  "s \<in> lang (RSeq r1 r2) \<longleftrightarrow> (\<exists>t u. s = t @ u \<and> t \<in> lang r1 \<and> u \<in> lang r2)"
  by auto

lemma lang_RSeq_RCls:
  "s \<in> lang (RSeq (RCls P) r) \<longleftrightarrow> (\<exists>c t. s = c # t \<and> P c \<and> t \<in> lang r)"
proof
  assume "\<exists>c t. s = c # t \<and> P c \<and> t \<in> lang r"
  then obtain c t where "s = [c] @ t" "[c] \<in> lang (RCls P)" "t \<in> lang r" by auto
  then show "s \<in> lang (RSeq (RCls P) r)" unfolding lang_RSeq_iff by blast
qed auto

lemma deriv_lang: "s \<in> lang (deriv c r) \<longleftrightarrow> c # s \<in> lang r"
proof (induction r arbitrary: s)
  case (RSeq r1 r2)
  then show ?case
    unfolding lang_RSeq_Cons
    by (simp add: nullable_lang lang_RSeq_iff del: lang.simps(5))
next
  case (RStar r)
  then show ?case by (auto simp: star_lang_Cons)
qed auto

theorem MatchString_lang: "MatchString r s \<longleftrightarrow> s \<in> lang r"
  by (induction s arbitrary: r) (auto simp: nullable_lang deriv_lang)

subsection \<open>Pattern building blocks\<close>

text \<open>The bounded repetition \<open>r{0,n}\<close> and the optional \<open>r?\<close>.\<close>

definition ropt :: "rexp \<Rightarrow> rexp" where
  "ropt r = RAlt ROne r"

fun rupto :: "rexp \<Rightarrow> nat \<Rightarrow> rexp" where
  "rupto r 0 = ROne" |
  "rupto r (Suc n) = RAlt ROne (RSeq r (rupto r n))"

fun rpow :: "rexp \<Rightarrow> nat \<Rightarrow> rexp" where
  "rpow r 0 = ROne" |
  "rpow r (Suc n) = RSeq r (rpow r n)"

definition rplus :: "rexp \<Rightarrow> rexp" where
  "rplus r = RSeq r (RStar r)"

definition rchar :: "char \<Rightarrow> rexp" where
  "rchar c = RCls (\<lambda>d. d = c)"

fun ralts :: "rexp list \<Rightarrow> rexp" where
  "ralts [] = RZero" |
  "ralts (r # rs) = RAlt r (ralts rs)"

fun rseqs :: "rexp list \<Rightarrow> rexp" where
  "rseqs [] = ROne" |
  "rseqs (r # rs) = RSeq r (rseqs rs)"

lemma lang_rupto_RCls: "s \<in> lang (rupto (RCls P) n) \<longleftrightarrow> length s \<le> n \<and> list_all P s"
proof (induction n arbitrary: s)
  case (Suc n) then show ?case
    by (cases s) (auto simp: lang_RSeq_RCls simp del: lang.simps(5))
qed auto

lemma lang_rpow_RCls: "s \<in> lang (rpow (RCls P) n) \<longleftrightarrow> length s = n \<and> list_all P s"
proof (induction n arbitrary: s)
  case (Suc n) then show ?case
    by (cases s) (auto simp: lang_RSeq_RCls simp del: lang.simps(5))
qed auto

subsection \<open>Character classes\<close>

definition char_in :: "char \<Rightarrow> char \<Rightarrow> char \<Rightarrow> bool" where
  "char_in lo hi c \<longleftrightarrow> of_char lo \<le> (of_char c :: nat) \<and> of_char c \<le> (of_char hi :: nat)"

definition is_digit :: "char \<Rightarrow> bool" where
  "is_digit c \<longleftrightarrow> char_in CHR ''0'' CHR ''9'' c"

definition is_alnum :: "char \<Rightarrow> bool" where
  "is_alnum c \<longleftrightarrow> char_in CHR ''A'' CHR ''Z'' c \<or> char_in CHR ''a'' CHR ''z'' c \<or> is_digit c"

definition is_idchar :: "char \<Rightarrow> bool" where
  "is_idchar c \<longleftrightarrow> is_alnum c \<or> c \<in> set ''._:-''"

subsection \<open>Safe identifiers\<close>

text \<open>\<open>^[A-Za-z0-9](?:[A-Za-z0-9._:-]{0,127})$\<close>\<close>

definition safeIdentifierPattern :: rexp where
  "safeIdentifierPattern = RSeq (RCls is_alnum) (rupto (RCls is_idchar) 127)"

text \<open>The identifiers in closed form; every validator proof below works with this predicate.\<close>

fun safe_identifier :: "string \<Rightarrow> bool" where
  "safe_identifier [] = False" |
  "safe_identifier (c # cs) = (is_alnum c \<and> length cs \<le> 127 \<and> list_all is_idchar cs)"

lemma safe_identifier_pattern [simp]:
  "MatchString safeIdentifierPattern s = safe_identifier s"
  by (cases s) (auto simp: MatchString_lang safeIdentifierPattern_def lang_rupto_RCls
      lang_RSeq_RCls simp del: rupto.simps lang.simps(5))

lemma safe_identifier_nonempty [simp]: "safe_identifier s \<Longrightarrow> s \<noteq> []"
  by auto

lemma safe_identifier_length: "safe_identifier s \<Longrightarrow> length s \<le> 128"
  by (cases s) auto

subsection \<open>Semantic versions and digests\<close>

text \<open>The pattern of \<open>$defs/semver\<close> in the common contract schema.\<close>

definition rnumeric :: rexp where
  "rnumeric = RAlt (rchar CHR ''0'')
     (RSeq (RCls (char_in CHR ''1'' CHR ''9'')) (RStar (RCls is_digit)))"

definition is_alnum_dash :: "char \<Rightarrow> bool" where
  "is_alnum_dash c \<longleftrightarrow> is_alnum c \<or> c = CHR ''-''"

definition is_alpha_dash :: "char \<Rightarrow> bool" where
  "is_alpha_dash c \<longleftrightarrow> is_alnum_dash c \<and> \<not> is_digit c"

definition rprerelease :: rexp where
  "rprerelease = RAlt rnumeric
     (RSeq (RStar (RCls is_digit)) (RSeq (RCls is_alpha_dash) (RStar (RCls is_alnum_dash))))"

definition semverPattern :: rexp where
  "semverPattern = rseqs
     [rnumeric, rchar CHR ''.'', rnumeric, rchar CHR ''.'', rnumeric,
      ropt (rseqs [rchar CHR ''-'', rprerelease, RStar (RSeq (rchar CHR ''.'') rprerelease)]),
      ropt (rseqs [rchar CHR ''+'', rplus (RCls is_alnum_dash),
                   RStar (RSeq (rchar CHR ''.'') (rplus (RCls is_alnum_dash)))])]"

text \<open>\<open>^[0-9a-f]{64}$\<close>, the digest pattern of the schemas.\<close>

definition is_lower_hex :: "char \<Rightarrow> bool" where
  "is_lower_hex c \<longleftrightarrow> is_digit c \<or> char_in CHR ''a'' CHR ''f'' c"

definition digestPattern :: rexp where
  "digestPattern = rpow (RCls is_lower_hex) 64"

lemma digestPattern_iff [simp]:
  "MatchString digestPattern s \<longleftrightarrow> length s = 64 \<and> list_all is_lower_hex s"
  by (simp add: MatchString_lang digestPattern_def lang_rpow_RCls del: rpow.simps)

end
