(* ===== verification/Json_Number.thy ===== *)
theory Json_Number
  imports Complex_Main Regex
begin

text \<open>
  The numeric limits of an Agent Card.  \<open>validatePositiveJSONInteger\<close> and \<open>exponentAtLeast\<close>
  (contracts/validate.go) decide on the text of a JSON number, without computing it, whether it is
  a positive integer; \<open>parseCardLimit\<close> (transport/a2a/target.go) later reads the same text at
  invocation time.  The scanning loops are recursions over the remaining text.  Go's \<open>int\<close>
  counters are bounded by the length of the text, so they are naturals here.

  The specification is written independently: a JSON number is a record of its parts, with its text
  and its rational value.
\<close>

subsection \<open>The scanner of the code\<close>

datatype limit_error = SchemaValidationError (instancePath: string) (keyword: string)

abbreviation agentCardLimitValidationError :: "string \<Rightarrow> string \<Rightarrow> limit_error" where
  "agentCardLimitValidationError \<equiv> SchemaValidationError"

fun coefficient_loop :: "string \<Rightarrow> bool \<Rightarrow> nat \<Rightarrow> nat \<Rightarrow> string \<times> bool \<times> nat \<times> nat" where
  "coefficient_loop [] nz tz n = ([], nz, tz, n)" |
  "coefficient_loop (c # cs) nz tz n =
     (if is_digit c then
        (if c = CHR ''0'' then coefficient_loop cs nz (Suc tz) (Suc n)
         else coefficient_loop cs True 0 (Suc n))
      else (c # cs, nz, tz, n))"

definition scan_integer :: "string \<Rightarrow> (string \<times> bool \<times> nat) option" where
  "scan_integer text =
     (case text of
        [] \<Rightarrow> None
      | c # cs \<Rightarrow>
          if c = CHR ''0'' then
            (case cs of
               [] \<Rightarrow> Some (cs, False, 1)
             | d # _ \<Rightarrow> if is_digit d then None else Some (cs, False, 1))
          else if char_in CHR ''1'' CHR ''9'' c then
            (let (rest, nz, tz, _) = coefficient_loop text False 0 0 in Some (rest, nz, tz))
          else None)"

definition scan_fraction ::
    "string \<Rightarrow> bool \<Rightarrow> nat \<Rightarrow> (string \<times> bool \<times> nat \<times> nat) option" where
  "scan_fraction text nz tz =
     (case text of
        [] \<Rightarrow> Some (text, nz, tz, 0)
      | c # cs \<Rightarrow>
          if c = CHR ''.'' then
            (let (rest, nz', tz', n) = coefficient_loop cs nz tz 0
             in if n = 0 then None else Some (rest, nz', tz', n))
          else Some (text, nz, tz, 0))"

definition digit_value :: "char \<Rightarrow> nat" where
  "digit_value c = of_char c - of_char (CHR ''0'')"

fun exponent_loop :: "nat \<Rightarrow> string \<Rightarrow> nat \<Rightarrow> bool \<Rightarrow> nat \<Rightarrow> string \<times> nat \<times> bool \<times> nat" where
  "exponent_loop limit [] m tooLarge n = ([], m, tooLarge, n)" |
  "exponent_loop limit (c # cs) m tooLarge n =
     (if is_digit c then
        (let digit = digit_value c in
         if \<not> tooLarge then
           (if m > limit div 10 \<or> (m = limit div 10 \<and> digit > limit mod 10)
            then exponent_loop limit cs m True (Suc n)
            else exponent_loop limit cs (m * 10 + digit) False (Suc n))
         else exponent_loop limit cs m tooLarge (Suc n))
      else (c # cs, m, tooLarge, n))"

definition scan_exponent :: "nat \<Rightarrow> string \<Rightarrow> (string \<times> bool \<times> nat \<times> bool) option" where
  "scan_exponent limit text =
     (case text of
        [] \<Rightarrow> Some (text, False, 0, False)
      | c # cs \<Rightarrow>
          if c = CHR ''e'' \<or> c = CHR ''E'' then
            (let (neg, ds) =
               (case cs of
                  [] \<Rightarrow> (False, cs)
                | s # t \<Rightarrow> if s = CHR ''+'' \<or> s = CHR ''-'' then (s = CHR ''-'', t) else (False, cs));
                 (rest, m, tooLarge, n) = exponent_loop limit ds 0 False 0
             in if n = 0 then None else Some (rest, neg, m, tooLarge))
          else Some (text, False, 0, False))"

definition exponentAtLeast :: "bool \<Rightarrow> nat \<Rightarrow> bool \<Rightarrow> int \<Rightarrow> bool" where
  "exponentAtLeast negative magnitude tooLarge minimum =
     (let negative = (if magnitude = 0 \<and> \<not> tooLarge then False else negative)
      in if \<not> negative then minimum \<le> 0 \<or> tooLarge \<or> int magnitude \<ge> minimum
         else if minimum \<ge> 0 \<or> tooLarge then False
         else int magnitude \<le> - minimum)"

text \<open>The sign is read first; the three scanners then consume the text from left to right.\<close>

definition strip_minus :: "string \<Rightarrow> bool \<times> string" where
  "strip_minus text =
     (case text of [] \<Rightarrow> (False, text) | c # cs \<Rightarrow> if c = CHR ''-'' then (True, cs) else (False, text))"

definition validatePositiveJSONInteger :: "string \<Rightarrow> string \<Rightarrow> limit_error option" where
  "validatePositiveJSONInteger text path =
     (let typeError = Some (agentCardLimitValidationError path ''type'');
          minimumError = Some (agentCardLimitValidationError path ''minimum'')
      in if text = [] then typeError
         else case strip_minus text of (negative, t0) \<Rightarrow>
         if t0 = [] then typeError
         else case scan_integer t0 of None \<Rightarrow> typeError
         | Some (t1, nz1, tz1) \<Rightarrow>
           (case scan_fraction t1 nz1 tz1 of None \<Rightarrow> typeError
            | Some (t2, nz, tz, fractionDigits) \<Rightarrow>
              (case scan_exponent (length text) t2 of None \<Rightarrow> typeError
               | Some (t3, exponentNegative, exponentMagnitude, exponentTooLarge) \<Rightarrow>
                 if t3 \<noteq> [] then typeError
                 else if \<not> nz then minimumError
                 else if negative then minimumError
                 else if \<not> exponentAtLeast exponentNegative exponentMagnitude exponentTooLarge
                              (int fractionDigits - int tz) then typeError
                 else None)))"

text \<open>\<open>big.Int.SetString(value, 10)\<close>: an optional sign and at least one decimal digit.\<close>

definition digits_value :: "string \<Rightarrow> nat" where
  "digits_value ds = foldl (\<lambda>a c. 10 * a + digit_value c) 0 ds"

definition big_SetString :: "string \<Rightarrow> int option" where
  "big_SetString value =
     (let (neg, ds) = (case value of [] \<Rightarrow> (False, value)
         | c # cs \<Rightarrow> if c = CHR ''-'' then (True, cs) else if c = CHR ''+'' then (False, cs)
                      else (False, value))
      in if ds = [] \<or> \<not> list_all is_digit ds then None
         else Some (if neg then - int (digits_value ds) else int (digits_value ds)))"

definition MaxInt64 :: int where
  "MaxInt64 = 2 ^ 63 - 1"

definition parseCardLimit :: "string \<Rightarrow> int option" where
  "parseCardLimit value =
     (case big_SetString value of
        None \<Rightarrow> None
      | Some parsed \<Rightarrow>
          if parsed \<le> 0 then None
          else if parsed \<ge> 2 ^ 63 then Some MaxInt64
          else Some parsed)"

subsection \<open>The specification: JSON numbers and their value\<close>

record json_number =
  jn_negative :: bool
  jn_integer :: string
  jn_fraction :: "string option"
  jn_exponent :: "(char \<times> string \<times> string) option"

definition wf_integer :: "string \<Rightarrow> bool" where
  "wf_integer ds \<longleftrightarrow> ds \<noteq> [] \<and> list_all is_digit ds \<and> (hd ds = CHR ''0'' \<longrightarrow> ds = ''0'')"

definition wf_digits :: "string \<Rightarrow> bool" where
  "wf_digits ds \<longleftrightarrow> ds \<noteq> [] \<and> list_all is_digit ds"

definition wf_exponent :: "char \<times> string \<times> string \<Rightarrow> bool" where
  "wf_exponent e \<longleftrightarrow> fst e \<in> {CHR ''e'', CHR ''E''} \<and> fst (snd e) \<in> {'''', ''+'', ''-''}
     \<and> wf_digits (snd (snd e))"

definition wf_number :: "json_number \<Rightarrow> bool" where
  "wf_number j \<longleftrightarrow> wf_integer (jn_integer j) \<and>
     (case jn_fraction j of None \<Rightarrow> True | Some f \<Rightarrow> wf_digits f) \<and>
     (case jn_exponent j of None \<Rightarrow> True | Some e \<Rightarrow> wf_exponent e)"

definition fraction_text :: "string option \<Rightarrow> string" where
  "fraction_text f = (case f of None \<Rightarrow> [] | Some ds \<Rightarrow> CHR ''.'' # ds)"

definition exponent_text :: "(char \<times> string \<times> string) option \<Rightarrow> string" where
  "exponent_text e = (case e of None \<Rightarrow> [] | Some (c, s, ds) \<Rightarrow> c # s @ ds)"

definition number_text :: "json_number \<Rightarrow> string" where
  "number_text j = (if jn_negative j then ''-'' else []) @ jn_integer j
     @ fraction_text (jn_fraction j) @ exponent_text (jn_exponent j)"

definition fraction_digits :: "json_number \<Rightarrow> string" where
  "fraction_digits j = (case jn_fraction j of None \<Rightarrow> [] | Some ds \<Rightarrow> ds)"

definition exponent_value :: "(char \<times> string \<times> string) option \<Rightarrow> int" where
  "exponent_value e = (case e of None \<Rightarrow> 0
     | Some (c, s, ds) \<Rightarrow> if s = ''-'' then - int (digits_value ds) else int (digits_value ds))"

definition number_value :: "json_number \<Rightarrow> rat" where
  "number_value j = (if jn_negative j then - 1 else 1)
     * of_nat (digits_value (jn_integer j @ fraction_digits j))
     * 10 powi (exponent_value (jn_exponent j) - int (length (fraction_digits j)))"

subsection \<open>What the loops compute\<close>

definition nonzero :: "string \<Rightarrow> bool" where
  "nonzero ds \<longleftrightarrow> (\<exists>d\<in>set ds. d \<noteq> CHR ''0'')"

definition trailing :: "string \<Rightarrow> nat" where
  "trailing ds = length (takeWhile (\<lambda>d. d = CHR ''0'') (rev ds))"

definition no_digit_head :: "string \<Rightarrow> bool" where
  "no_digit_head r \<longleftrightarrow> r = [] \<or> \<not> is_digit (hd r)"

lemma trailing_snoc [simp]:
  "trailing (ds @ [d]) = (if d = CHR ''0'' then Suc (trailing ds) else 0)"
  by (simp add: trailing_def)

lemma trailing_Nil [simp]: "trailing [] = 0"
  by (simp add: trailing_def)

lemma nonzero_simps [simp]:
  "\<not> nonzero []" "nonzero (ds @ es) \<longleftrightarrow> nonzero ds \<or> nonzero es"
  "nonzero (d # ds) \<longleftrightarrow> d \<noteq> CHR ''0'' \<or> nonzero ds"
  by (auto simp: nonzero_def)

lemma digits_value_snoc [simp]: "digits_value (ds @ [d]) = 10 * digits_value ds + digit_value d"
  by (simp add: digits_value_def)

lemma digits_value_Nil [simp]: "digits_value [] = 0"
  by (simp add: digits_value_def)

lemma coefficient_loop_digits:
  assumes "list_all is_digit ds" "no_digit_head r"
  shows "coefficient_loop (ds @ r) (nonzero pre) (trailing pre) n =
           (r, nonzero (pre @ ds), trailing (pre @ ds), n + length ds)"
  using assms
proof (induction ds arbitrary: pre n)
  case Nil
  then show ?case by (cases r) (auto simp: no_digit_head_def)
next
  case (Cons d ds)
  show ?case
    using Cons.IH [of "pre @ [d]" "Suc n"] Cons.prems by (cases "d = CHR ''0''") simp_all
qed

lemma span_digits:
  obtains ds r where "t = ds @ r" "list_all is_digit ds" "no_digit_head r"
proof
  show "t = takeWhile is_digit t @ dropWhile is_digit t" by simp
  show "list_all is_digit (takeWhile is_digit t)"
    by (auto simp: list_all_iff dest: set_takeWhileD)
  show "no_digit_head (dropWhile is_digit t)"
    using hd_dropWhile [of is_digit t] by (fastforce simp: no_digit_head_def)
qed

lemma digit_value_le: "is_digit d \<Longrightarrow> digit_value d \<le> 9"
  by (auto simp: is_digit_def char_in_def digit_value_def)

lemma digit_value_zero: "is_digit d \<Longrightarrow> digit_value d = 0 \<longleftrightarrow> d = CHR ''0''"
proof -
  assume "is_digit d"
  then have "of_char (CHR ''0'') \<le> (of_char d :: nat)" by (simp add: is_digit_def char_in_def)
  then have "digit_value d = 0 \<longleftrightarrow> of_char d = (of_char (CHR ''0'') :: nat)"
    by (simp add: digit_value_def)
  also have "\<dots> \<longleftrightarrow> d = CHR ''0''" by (rule of_char_eq_iff)
  finally show ?thesis .
qed

lemma digits_value_mono: "m \<le> foldl (\<lambda>a c. 10 * a + digit_value c) m ds"
proof (induction ds arbitrary: m)
  case (Cons d ds)
  have "m \<le> 10 * m + digit_value d" by simp
  also have "\<dots> \<le> foldl (\<lambda>a c. 10 * a + digit_value c) m (d # ds)" using Cons by simp
  finally show ?case .
qed simp

lemma exceeds_limit:
  assumes "digit \<le> 9"
  shows "m > limit div 10 \<or> (m = limit div 10 \<and> digit > limit mod 10) \<longleftrightarrow> limit < m * 10 + (digit :: nat)"
  using assms div_mult_mod_eq [of limit 10] mod_less_divisor [of 10 limit] by linarith

lemma exponent_loop_too_large:
  "list_all is_digit ds \<Longrightarrow> no_digit_head r \<Longrightarrow>
   exponent_loop limit (ds @ r) m True n = (r, m, True, n + length ds)"
proof (induction ds arbitrary: n)
  case Nil then show ?case by (cases r) (auto simp: no_digit_head_def)
qed auto

lemma exponent_loop_digits:
  assumes "list_all is_digit ds" "no_digit_head r" "m \<le> limit"
  shows "\<exists>m' tooLarge. exponent_loop limit (ds @ r) m False n = (r, m', tooLarge, n + length ds)
     \<and> tooLarge = (limit < foldl (\<lambda>a c. 10 * a + digit_value c) m ds)
     \<and> (\<not> tooLarge \<longrightarrow> m' = foldl (\<lambda>a c. 10 * a + digit_value c) m ds)"
  using assms
proof (induction ds arbitrary: m n)
  case Nil
  then show ?case by (cases r) (auto simp: no_digit_head_def)
next
  case (Cons d ds)
  then have d: "is_digit d" "digit_value d \<le> 9" by (auto intro: digit_value_le)
  show ?case
  proof (cases "limit < 10 * m + digit_value d")
    case True
    then have "limit < foldl (\<lambda>a c. 10 * a + digit_value c) (10 * m + digit_value d) ds"
      using digits_value_mono [of "10 * m + digit_value d" ds] by linarith
    with True d Cons.prems show ?thesis
      by (auto simp: exceeds_limit Let_def exponent_loop_too_large mult.commute)
  next
    case False
    with Cons.IH [of "10 * m + digit_value d" "Suc n"] Cons.prems d show ?thesis
      by (simp add: exceeds_limit Let_def mult.commute)
  qed
qed

subsection \<open>What the scanners accept\<close>

lemma nonzero_head_digit:
  "is_digit c \<Longrightarrow> c \<noteq> CHR ''0'' \<longleftrightarrow> char_in CHR ''1'' CHR ''9'' c"
proof -
  assume c: "is_digit c"
  have "c = CHR ''0'' \<longleftrightarrow> of_char c = (of_char (CHR ''0'') :: nat)" by (rule of_char_eq_iff [symmetric])
  with c show ?thesis by (auto simp: is_digit_def char_in_def)
qed

lemma is_digit_0 [simp]: "is_digit CHR ''0''"
  by (simp add: is_digit_def char_in_def)

lemma digit_1_9: "char_in CHR ''1'' CHR ''9'' c \<Longrightarrow> is_digit c \<and> c \<noteq> CHR ''0''"
  by (auto simp: is_digit_def char_in_def)

lemma scan_integer_complete:
  assumes "wf_integer ds" "no_digit_head r"
  shows "scan_integer (ds @ r) = Some (r, nonzero ds, trailing ds)"
proof (cases "hd ds = CHR ''0''")
  case True
  with assms(1) have [simp]: "ds = ''0''" by (simp add: wf_integer_def)
  from assms(2) show ?thesis
    by (cases r) (auto simp: scan_integer_def no_digit_head_def trailing_def)
next
  case False
  with assms(1) obtain c cs where [simp]: "ds = c # cs" and c: "is_digit c" "c \<noteq> CHR ''0''"
    by (cases ds) (auto simp: wf_integer_def)
  from coefficient_loop_digits [of ds r "[]" 0] assms show ?thesis
    using c nonzero_head_digit [OF c(1)] by (simp add: scan_integer_def wf_integer_def)
qed

lemma scan_integer_sound:
  assumes "scan_integer t = Some (r, nz, tz)"
  shows "\<exists>ds. wf_integer ds \<and> t = ds @ r \<and> nz = nonzero ds \<and> tz = trailing ds"
proof -
  obtain ds r' where t: "t = ds @ r'" and ds: "list_all is_digit ds" "no_digit_head r'"
    by (rule span_digits)
  obtain c cs where tc: "t = c # cs" using assms by (cases t) (auto simp: scan_integer_def)
  show ?thesis
  proof (cases "c = CHR ''0''")
    case True
    with assms tc have "r = cs" "nz = nonzero ''0''" "tz = trailing ''0''"
      by (auto simp: scan_integer_def trailing_def split: list.splits if_splits)
    with True tc show ?thesis by (intro exI [of _ "''0''"]) (simp add: wf_integer_def)
  next
    case False
    with assms tc have c: "char_in CHR ''1'' CHR ''9'' c"
      by (auto simp: scan_integer_def split: if_splits)
    with tc t ds have "ds \<noteq> []" "hd ds = c"
      by (cases ds; simp add: no_digit_head_def digit_1_9)+
    with False ds have wf: "wf_integer ds" by (simp add: wf_integer_def)
    with scan_integer_complete [OF wf ds(2)] assms t wf show ?thesis by auto
  qed
qed

definition wf_fraction :: "string option \<Rightarrow> bool" where
  "wf_fraction f \<longleftrightarrow> (case f of None \<Rightarrow> True | Some ds \<Rightarrow> wf_digits ds)"

definition option_digits :: "string option \<Rightarrow> string" where
  "option_digits f = (case f of None \<Rightarrow> [] | Some ds \<Rightarrow> ds)"

lemma scan_fraction_complete:
  assumes "wf_fraction f" "no_digit_head r" "r = [] \<or> hd r \<noteq> CHR ''.''"
  shows "scan_fraction (fraction_text f @ r) (nonzero ds) (trailing ds) =
    Some (r, nonzero (ds @ option_digits f), trailing (ds @ option_digits f), length (option_digits f))"
proof (cases f)
  case None
  with assms(3) show ?thesis
    by (cases r) (auto simp: scan_fraction_def fraction_text_def option_digits_def)
next
  case (Some fs)
  with assms show ?thesis
    using coefficient_loop_digits [of fs r ds 0]
    by (simp add: scan_fraction_def fraction_text_def option_digits_def wf_fraction_def wf_digits_def)
qed

lemma scan_fraction_sound:
  assumes "scan_fraction t (nonzero ds) (trailing ds) = Some (r, nz, tz, n)"
  shows "\<exists>f. wf_fraction f \<and> t = fraction_text f @ r \<and> nz = nonzero (ds @ option_digits f)
     \<and> tz = trailing (ds @ option_digits f) \<and> n = length (option_digits f)"
proof (cases "t \<noteq> [] \<and> hd t = CHR ''.''")
  case False
  with assms have "r = t" "nz = nonzero ds" "tz = trailing ds" "n = 0"
    by (cases t; simp add: scan_fraction_def)+
  then show ?thesis
    by (intro exI [of _ None]) (simp add: wf_fraction_def fraction_text_def option_digits_def)
next
  case True
  then obtain u where t: "t = CHR ''.'' # u" by (cases t) auto
  obtain fs r' where u: "u = fs @ r'" and fs: "list_all is_digit fs" "no_digit_head r'"
    by (rule span_digits)
  from coefficient_loop_digits [OF fs, of ds 0] assms t u
  have "fs \<noteq> []" "r' = r" "nz = nonzero (ds @ fs)" "tz = trailing (ds @ fs)" "n = length fs"
    by (auto simp: scan_fraction_def split: if_splits)
  with t u fs show ?thesis
    by (intro exI [of _ "Some fs"])
      (simp add: wf_fraction_def wf_digits_def fraction_text_def option_digits_def)
qed

text \<open>The exponent scanner knows the exponent exactly, or knows that it exceeds the limit.\<close>

definition exponent_scan :: "nat \<Rightarrow> (char \<times> string \<times> string) option \<Rightarrow> bool \<Rightarrow> nat \<Rightarrow> bool \<Rightarrow> bool" where
  "exponent_scan limit e neg m tooLarge \<longleftrightarrow>
     (case e of None \<Rightarrow> \<not> neg \<and> m = 0 \<and> \<not> tooLarge
      | Some (c, s, ds) \<Rightarrow> neg = (s = ''-'') \<and> tooLarge = (limit < digits_value ds)
          \<and> (\<not> tooLarge \<longrightarrow> m = digits_value ds))"

definition wf_exponent_option :: "(char \<times> string \<times> string) option \<Rightarrow> bool" where
  "wf_exponent_option e \<longleftrightarrow> (case e of None \<Rightarrow> True | Some e \<Rightarrow> wf_exponent e)"

lemma no_digit_sign: "is_digit c \<Longrightarrow> c \<noteq> CHR ''+'' \<and> c \<noteq> CHR ''-'' \<and> c \<noteq> CHR ''.''"
  by (auto simp: is_digit_def char_in_def)

lemma scan_exponent_complete:
  assumes "wf_exponent_option e"
  shows "\<exists>neg m tooLarge. scan_exponent limit (exponent_text e) = Some ([], neg, m, tooLarge)
    \<and> exponent_scan limit e neg m tooLarge"
proof (cases e)
  case None
  then show ?thesis by (auto simp: scan_exponent_def exponent_text_def exponent_scan_def)
next
  case (Some x)
  obtain c s ds where x: "x = (c, s, ds)" by (cases x)
  with assms Some have c: "c = CHR ''e'' \<or> c = CHR ''E''" and s: "s \<in> {'''', ''+'', ''-''}"
    and ds: "ds \<noteq> []" "list_all is_digit ds"
    by (auto simp: wf_exponent_option_def wf_exponent_def wf_digits_def)
  from ds obtain d ds' where d: "ds = d # ds'" "is_digit d" by (cases ds) auto
  obtain m tooLarge where loop: "exponent_loop limit ds 0 False 0 = ([], m, tooLarge, length ds)"
    "tooLarge = (limit < digits_value ds)" "\<not> tooLarge \<longrightarrow> m = digits_value ds"
    using exponent_loop_digits [OF ds(2), of "[]" 0 limit 0]
    by (auto simp: no_digit_head_def digits_value_def)
  have "scan_exponent limit (exponent_text e) = Some ([], s = ''-'', m, tooLarge)"
    using c s loop(1) ds d no_digit_sign [OF d(2)] Some x
    by (auto simp: scan_exponent_def exponent_text_def simp del: exponent_loop.simps)
  with loop Some x show ?thesis by (simp add: exponent_scan_def)
qed

lemma scan_exponent_sound:
  assumes "scan_exponent limit t = Some ([], neg, m, tooLarge)"
  shows "\<exists>e. wf_exponent_option e \<and> t = exponent_text e"
proof (cases t)
  case Nil
  then show ?thesis
    by (intro exI [of _ None]) (simp add: wf_exponent_option_def exponent_text_def)
next
  case (Cons c cs)
  have c: "c = CHR ''e'' \<or> c = CHR ''E''"
    using assms Cons by (auto simp: scan_exponent_def split: if_splits)
  define s where "s = (if cs \<noteq> [] \<and> hd cs \<in> {CHR ''+'', CHR ''-''} then [hd cs] else [])"
  define ds where "ds = (if cs \<noteq> [] \<and> hd cs \<in> {CHR ''+'', CHR ''-''} then tl cs else cs)"
  have cs: "cs = s @ ds" "s \<in> {'''', ''+'', ''-''}" by (auto simp: s_def ds_def)
  obtain us r where us: "ds = us @ r" "list_all is_digit us" "no_digit_head r" by (rule span_digits)
  obtain n m' b where loop: "exponent_loop limit ds 0 False 0 = ([], m', b, n)" "n \<noteq> 0"
    using assms Cons c
    by (auto simp: scan_exponent_def s_def ds_def split: if_splits list.splits prod.splits)
  with exponent_loop_digits [OF us(2,3), of 0 limit 0] us(1) have "r = []" "us \<noteq> []" by auto
  with us cs c Cons show ?thesis
    by (intro exI [of _ "Some (c, s, ds)"])
      (auto simp: wf_exponent_option_def wf_exponent_def wf_digits_def exponent_text_def)
qed

subsection \<open>Integrality from the digits\<close>

lemma exponentAtLeast_iff:
  assumes "exponent_scan limit e neg m tooLarge" "fd \<le> limit" "tz \<le> limit"
  shows "exponentAtLeast neg m tooLarge (int fd - int tz) \<longleftrightarrow> int fd - int tz \<le> exponent_value e"
  using assms
  by (cases e) (auto simp: exponent_scan_def exponentAtLeast_def exponent_value_def Let_def)

lemma digits_value_nonzero: "list_all is_digit ds \<Longrightarrow> nonzero ds \<longleftrightarrow> digits_value ds \<noteq> 0"
  by (induction ds rule: rev_induct) (auto simp: digit_value_zero)

lemma pow10_dvd_digits:
  assumes "list_all is_digit ds" "nonzero ds"
  shows "10 ^ i dvd digits_value ds \<longleftrightarrow> i \<le> trailing ds"
  using assms
proof (induction ds arbitrary: i rule: rev_induct)
  case (snoc d ds)
  show ?case
  proof (cases "d = CHR ''0''")
    case True
    with snoc have "10 ^ i dvd digits_value ds \<longleftrightarrow> i \<le> trailing ds" for i by simp
    with True show ?thesis by (cases i) (simp_all add: digit_value_zero [of d] digit_value_def)
  next
    case False
    with snoc.prems have d: "0 < digit_value d" "digit_value d \<le> 9"
      using digit_value_zero digit_value_le by auto
    have "\<not> 10 ^ Suc k dvd 10 * digits_value ds + digit_value d" for k
    proof
      assume "10 ^ Suc k dvd 10 * digits_value ds + digit_value d"
      moreover have "(10 :: nat) dvd 10 ^ Suc k" by simp
      ultimately have "10 dvd 10 * digits_value ds + digit_value d" using dvd_trans by blast
      then have "10 dvd digit_value d" by (simp add: dvd_add_right_iff)
      with d show False by (auto dest: dvd_imp_le)
    qed
    with False show ?thesis by (cases i) auto
  qed
qed simp

lemma scaled_integral:
  "(of_nat n * 10 powi k :: rat) \<in> \<int> \<longleftrightarrow> 0 \<le> k \<or> 10 ^ nat (- k) dvd n"
proof (cases "0 \<le> k")
  case True
  then have "(of_nat n * 10 powi k :: rat) = of_nat (n * 10 ^ nat k)" by (simp add: power_int_def)
  then have "(of_nat n * 10 powi k :: rat) \<in> \<int>" by (simp only: Ints_of_nat)
  with True show ?thesis by blast
next
  case False
  define j where "j = nat (- k)"
  have "(10 :: rat) powi k = inverse (of_nat (10 ^ j))"
    using False unfolding power_int_def j_def power_inverse by simp
  then have "(of_nat n * 10 powi k :: rat) = of_nat n / of_nat (10 ^ j)"
    by (simp only: divide_inverse)
  also have "\<dots> \<in> \<int> \<longleftrightarrow> 10 ^ j dvd n"
  proof
    assume "(of_nat n / of_nat (10 ^ j) :: rat) \<in> \<int>"
    then obtain z where "(of_nat n / of_nat (10 ^ j) :: rat) = of_int z" by (elim Ints_cases)
    then have "(of_nat n :: rat) = of_int z * of_nat (10 ^ j)"
      by (simp add: nonzero_divide_eq_eq)
    then have "(of_int (int n) :: rat) = of_int (z * int (10 ^ j))"
      by (simp only: of_int_of_nat_eq of_int_mult)
    then have "int n = z * int (10 ^ j)" by (rule of_int_eq_iff [THEN iffD1])
    then have "int (10 ^ j) dvd int n" by (simp only: dvd_triv_right)
    then show "10 ^ j dvd n" by (rule int_dvd_int_iff [THEN iffD1])
  next
    assume "10 ^ j dvd n"
    then obtain m where "n = 10 ^ j * m" by (elim dvdE)
    then have "(of_nat n / of_nat (10 ^ j) :: rat) = of_nat m" by simp
    then show "(of_nat n / of_nat (10 ^ j) :: rat) \<in> \<int>" by (simp only: Ints_of_nat)
  qed
  finally show ?thesis using False unfolding j_def by blast
qed

lemma trailing_le: "trailing ds \<le> length ds"
  unfolding trailing_def using length_takeWhile_le [of _ "rev ds"] by simp

lemma number_value_integral:
  assumes "list_all is_digit ds" "nonzero ds"
  shows "(of_nat (digits_value ds) * 10 powi k :: rat) \<in> \<int> \<longleftrightarrow> - int (trailing ds) \<le> k"
  using scaled_integral [of "digits_value ds" k] pow10_dvd_digits [OF assms, of "nat (- k)"] by auto

lemma number_value_sign:
  assumes "list_all is_digit (jn_integer j @ fraction_digits j)"
  shows "number_value j \<le> 0 \<longleftrightarrow> jn_negative j \<or> \<not> nonzero (jn_integer j @ fraction_digits j)"
proof -
  let ?n = "digits_value (jn_integer j @ fraction_digits j)"
  have pos: "\<not> (10 :: rat) powi k \<le> 0" "0 \<le> (10 :: rat) powi k" for k
    using zero_less_power_int [of "10 :: rat" k] by (simp_all add: not_le less_imp_le)
  then have "number_value j \<le> 0 \<longleftrightarrow> jn_negative j \<or> ?n = 0"
    by (simp add: number_value_def mult_le_0_iff pos)
  with digits_value_nonzero [OF assms] show ?thesis by simp
qed

subsection \<open>Correctness of the limit validation\<close>

lemma wf_numberD:
  assumes "wf_number j"
  shows "wf_integer (jn_integer j)" "wf_fraction (jn_fraction j)" "wf_exponent_option (jn_exponent j)"
    "fraction_digits j = option_digits (jn_fraction j)"
    "list_all is_digit (jn_integer j @ fraction_digits j)"
  using assms
  by (auto simp: wf_number_def wf_fraction_def wf_exponent_option_def wf_integer_def wf_digits_def
      fraction_digits_def option_digits_def split: option.splits)

lemma exponent_head:
  "wf_exponent_option e \<Longrightarrow> no_digit_head (exponent_text e)
     \<and> (exponent_text e = [] \<or> hd (exponent_text e) \<noteq> CHR ''.'')"
  by (auto simp: wf_exponent_option_def wf_exponent_def exponent_text_def no_digit_head_def
      is_digit_def char_in_def split: option.splits)

lemma fraction_head:
  "wf_exponent_option e \<Longrightarrow> no_digit_head (fraction_text f @ exponent_text e)"
  using exponent_head [of e]
  by (cases f) (auto simp: fraction_text_def no_digit_head_def is_digit_def char_in_def)

lemma wf_integer_head: "wf_integer ds \<Longrightarrow> ds \<noteq> [] \<and> hd ds \<noteq> CHR ''-''"
  by (cases ds) (auto simp: wf_integer_def is_digit_def char_in_def)

lemma strip_minus_number_text:
  "wf_number j \<Longrightarrow> strip_minus (number_text j) =
     (jn_negative j, jn_integer j @ fraction_text (jn_fraction j) @ exponent_text (jn_exponent j))"
  using wf_integer_head [OF wf_numberD(1), of j]
  by (cases "jn_integer j") (auto simp: strip_minus_def number_text_def)

lemma validate_number_text:
  assumes wf: "wf_number j"
  shows "validatePositiveJSONInteger (number_text j) path =
    (if number_value j \<le> 0 then Some (agentCardLimitValidationError path ''minimum'')
     else if number_value j \<notin> \<int> then Some (agentCardLimitValidationError path ''type'')
     else None)"
proof -
  let ?ds = "jn_integer j @ fraction_digits j" and ?e = "jn_exponent j"
  note j = wf_numberD [OF wf]
  have len: "length (fraction_digits j) \<le> length (number_text j)"
    "trailing ?ds \<le> length (number_text j)"
    using trailing_le [of ?ds]
    by (auto simp: number_text_def fraction_text_def fraction_digits_def split: option.splits)
  obtain neg m tooLarge where exponent: "scan_exponent (length (number_text j)) (exponent_text ?e) = Some ([], neg, m, tooLarge)"
    "exponent_scan (length (number_text j)) ?e neg m tooLarge"
    using scan_exponent_complete [OF j(3)] by blast
  have integral: "number_value j \<in> \<int> \<longleftrightarrow> int (length (fraction_digits j)) - int (trailing ?ds) \<le> exponent_value ?e"
    if "\<not> jn_negative j" "nonzero ?ds"
  proof -
    have "number_value j = of_nat (digits_value ?ds)
        * 10 powi (exponent_value ?e - int (length (fraction_digits j)))"
      using that(1) unfolding number_value_def by (simp only: if_False mult_1)
    then show ?thesis using number_value_integral [OF j(5) that(2)] by (metis diff_le_eq diff_minus_eq_add
          le_diff_eq uminus_add_conv_diff)
  qed
  have int: "scan_integer (jn_integer j @ fraction_text (jn_fraction j) @ exponent_text ?e) =
      Some (fraction_text (jn_fraction j) @ exponent_text ?e, nonzero (jn_integer j), trailing (jn_integer j))"
    using scan_integer_complete [OF j(1) fraction_head [OF j(3)]] .
  have frac: "scan_fraction (fraction_text (jn_fraction j) @ exponent_text ?e)
      (nonzero (jn_integer j)) (trailing (jn_integer j)) =
      Some (exponent_text ?e, nonzero ?ds, trailing ?ds, length (fraction_digits j))"
    using scan_fraction_complete [OF j(2)] exponent_head [OF j(3)] j(4) by metis
  have "number_text j \<noteq> []" "jn_integer j \<noteq> []"
    using wf_integer_head [OF j(1)] by (auto simp: number_text_def)
  then have "validatePositiveJSONInteger (number_text j) path =
    (if \<not> nonzero ?ds then Some (agentCardLimitValidationError path ''minimum'')
     else if jn_negative j then Some (agentCardLimitValidationError path ''minimum'')
     else if \<not> int (length (fraction_digits j)) - int (trailing ?ds) \<le> exponent_value ?e
     then Some (agentCardLimitValidationError path ''type'') else None)"
    by (simp add: validatePositiveJSONInteger_def strip_minus_number_text [OF wf] int frac exponent(1)
        exponentAtLeast_iff [OF exponent(2) len] del: nonzero_simps)
  then show ?thesis
    unfolding number_value_sign [OF j(5)] using integral by argo
qed

lemma validate_text_sound:
  assumes "validatePositiveJSONInteger text path \<noteq> Some (agentCardLimitValidationError path ''type'')"
  shows "\<exists>j. wf_number j \<and> number_text j = text"
proof -
  obtain neg t0 where t0: "strip_minus text = (neg, t0)" by fastforce
  obtain t1 nz1 tz1 where int: "scan_integer t0 = Some (t1, nz1, tz1)"
    using assms t0 by (auto simp: validatePositiveJSONInteger_def Let_def split: if_splits option.splits)
  then obtain ds where ds: "wf_integer ds" "t0 = ds @ t1" "nz1 = nonzero ds" "tz1 = trailing ds"
    using scan_integer_sound by blast
  obtain t2 nz tz n where frac: "scan_fraction t1 nz1 tz1 = Some (t2, nz, tz, n)"
    using assms t0 int by (auto simp: validatePositiveJSONInteger_def Let_def split: if_splits option.splits)
  then obtain f where f: "wf_fraction f" "t1 = fraction_text f @ t2"
    using scan_fraction_sound ds by blast
  obtain eneg m b where "scan_exponent (length text) t2 = Some ([], eneg, m, b)"
    using assms t0 int frac
    by (auto simp: validatePositiveJSONInteger_def Let_def split: if_splits option.splits)
  then obtain e where e: "wf_exponent_option e" "t2 = exponent_text e"
    using scan_exponent_sound by blast
  have "text = (if neg then ''-'' else []) @ t0"
    using t0 by (auto simp: strip_minus_def split: list.splits if_splits)
  with ds f e show ?thesis
    by (intro exI [of _ "\<lparr>jn_negative = neg, jn_integer = ds, jn_fraction = f, jn_exponent = e\<rparr>"])
      (auto simp: wf_number_def wf_fraction_def wf_exponent_option_def number_text_def)
qed

lemma validate_None_iff:
  "validatePositiveJSONInteger text path = None \<longleftrightarrow>
     (\<exists>j. wf_number j \<and> number_text j = text \<and> number_value j \<in> \<int> \<and> 0 < number_value j)"
proof
  assume none: "validatePositiveJSONInteger text path = None"
  then obtain j where "wf_number j" "number_text j = text" using validate_text_sound [of "text" path] by auto
  with none validate_number_text [of j path] show "\<exists>j. wf_number j \<and> number_text j = text
      \<and> number_value j \<in> \<int> \<and> 0 < number_value j"
    by (intro exI [of _ j]) (auto split: if_splits)
next
  assume "\<exists>j. wf_number j \<and> number_text j = text \<and> number_value j \<in> \<int> \<and> 0 < number_value j"
  then obtain j where j: "wf_number j" "number_text j = text" "number_value j \<in> \<int>" "0 < number_value j"
    by blast
  from validate_number_text [OF j(1), of path] j(2-4) show "validatePositiveJSONInteger text path = None" by auto
qed

lemma accepted_shape:
  assumes "validatePositiveJSONInteger text path = None"
  shows "\<exists>c cs. text = c # cs \<and> is_digit c"
    and "list_all is_digit text \<Longrightarrow> 0 < digits_value text"
proof -
  obtain j where j: "wf_number j" "number_text j = text" "0 < number_value j"
    using assms validate_None_iff by blast
  from j(3) have pos: "\<not> jn_negative j" "nonzero (jn_integer j @ fraction_digits j)"
    using number_value_sign [OF wf_numberD(5) [OF j(1)]] by auto
  obtain c cs where c: "jn_integer j = c # cs" "is_digit c"
    using wf_numberD(1) [OF j(1)] by (cases "jn_integer j") (auto simp: wf_integer_def)
  show "\<exists>c cs. text = c # cs \<and> is_digit c"
    using j(2) pos c by (simp add: number_text_def) blast
  assume digits: "list_all is_digit text"
  have "jn_fraction j = None" "jn_exponent j = None"
    using digits j(2) wf_numberD(3) [OF j(1)]
    by (auto simp: number_text_def fraction_text_def exponent_text_def wf_exponent_option_def
        wf_exponent_def is_digit_def char_in_def split: option.splits)
  with j(2) pos have "nonzero text"
    by (simp add: number_text_def fraction_text_def exponent_text_def fraction_digits_def)
  with digits show "0 < digits_value text" using digits_value_nonzero by blast
qed

lemma big_SetString_digit_head:
  "is_digit c \<Longrightarrow> big_SetString (c # cs) =
     (if list_all is_digit (c # cs) then Some (int (digits_value (c # cs))) else None)"
  using no_digit_sign [of c] by (simp add: big_SetString_def)

subsection \<open>Properties\<close>

text \<open>C33: The registration check of a byte limit accepts a text exactly when it is the text of a
  JSON number whose value is a positive integer, whatever mixture of fraction and exponent
  the number is written with and however large its exponent is.\<close>

theorem positive_integer_limit_iff:
  "validatePositiveJSONInteger text path = None \<longleftrightarrow>
     (\<exists>j. wf_number j \<and> number_text j = text \<and> number_value j \<in> \<int> \<and> 0 < number_value j)"
  by (rule validate_None_iff)

text \<open>C34: A byte limit that registration accepts is readable by the transport exactly when it is
  written with decimal digits only, and is then read as its value saturated at the largest
  64-bit integer; accepted limits in scientific or fractional notation are refused there.\<close>

theorem accepted_limit_at_transport:
  assumes "validatePositiveJSONInteger text path = None"
  shows "parseCardLimit text =
    (if list_all is_digit text then Some (min MaxInt64 (int (digits_value text))) else None)"
proof -
  obtain c cs where c: "text = c # cs" "is_digit c" using accepted_shape(1) [OF assms] by blast
  from big_SetString_digit_head [OF c(2), of cs] c(1) accepted_shape(2) [OF assms]
  show ?thesis by (auto simp: parseCardLimit_def MaxInt64_def)
qed

theorem accepted_limit_at_transport_witness:
  "validatePositiveJSONInteger ''1e3'' ''/limits/maxInputBytes'' = None \<and> parseCardLimit ''1e3'' = None
   \<and> validatePositiveJSONInteger ''1000'' ''/limits/maxInputBytes'' = None \<and> parseCardLimit ''1000'' = Some 1000"
proof -
  have "validatePositiveJSONInteger ''1e3'' ''/limits/maxInputBytes'' = None"
    "validatePositiveJSONInteger ''1000'' ''/limits/maxInputBytes'' = None"
    by code_simp+
  with accepted_limit_at_transport [OF this(1)] accepted_limit_at_transport [OF this(2)] show ?thesis
    by (simp add: is_digit_def char_in_def digits_value_def digit_value_def MaxInt64_def)
qed

end
