(* ===== verification/Runtime_Contracts.thy ===== *)
theory Runtime_Contracts
  imports Regex
begin

text \<open>
  The runtime contracts (contracts/runtime_contracts.go, runtime_contracts_validation.go and the
  schemas they compile): platform errors v4, invocation events 0.3, result stream events v2, the two
  stateful sequence validators and the validation of the projections exposed to readers.

  The JSON Schema documents are translated to predicates on the Go structures: an \<open>omitempty\<close>
  member is absent when it is empty.  The semantic version parser is a third-party
  package; the validators take its strict parser as the argument \<open>strict\<close> (true when
  \<open>semver.StrictNewVersion\<close> reports no error).  The text of a time stamp is represented by
  what the code observes of it: whether the schema accepts its format and the instant it parses to.
\<close>

subsection \<open>Data\<close>

record time_text =
  tt_dateTime :: bool
  tt_instant :: "time option"

definition format_time :: "time \<Rightarrow> time_text" where
  "format_time t = \<lparr>tt_dateTime = True, tt_instant = Some t\<rparr>"

record caller =
  callerType :: string
  callerID :: string

record pre_correlation_error =
  preCode :: string
  preMessage :: string
  preTraceID :: string

record platform_error =
  errCode :: string
  errMessage :: string
  errTraceID :: string
  errInvocationID :: string
  errRootTaskID :: string

record invocation_event =
  evSchemaVersion :: string
  evEventID :: string
  evSequence :: int
  evOccurredAt :: time_text
  evType :: string
  evStatus :: string
  evInvocationID :: string
  evRootTaskID :: string
  evParentInvocationID :: string
  evTraceID :: string
  evCaller :: caller
  evWorkspaceID :: string
  evTargetAgentID :: string
  evAgentCardVersion :: string
  evAgentReleaseID :: string
  evAgentCardDigest :: string
  evCapability :: string
  evChunkIndex :: "int option"
  evChunkBytes :: "int option"
  evLatencyMS :: "int option"
  evError :: "platform_error option"

text \<open>The bytes of a \<open>json.RawMessage\<close>, as the encoder sees them: none, one JSON text, or bytes
  that are not JSON and make the encoding fail.\<close>

datatype raw_message = RawEmpty | RawJSON string | RawInvalid string

record stream_event =
  seSchemaVersion :: string
  seSequence :: int
  seType :: string
  seStatus :: string
  seInvocationID :: string
  seRootTaskID :: string
  seTraceID :: string
  seChunkIndex :: "int option"
  seChunk :: raw_message
  seError :: "platform_error option"

record invocation_record =
  irInvocationID :: string
  irRootTaskID :: string
  irParentInvocationID :: string
  irTraceID :: string
  irCaller :: caller
  irWorkspaceID :: string
  irTargetAgentID :: string
  irAgentCardVersion :: string
  irAgentReleaseID :: string
  irAgentCardDigest :: string
  irCapability :: string
  irStatus :: string
  irLatencyMS :: "int option"
  irErrorCode :: string
  irCreatedAt :: time
  irUpdatedAt :: time

record invocation_detail =
  idInvocation :: invocation_record
  idEvents :: "invocation_event list"

record trace_response =
  trTraceID :: string
  trInvocations :: "invocation_record list"

datatype contract_error =
    ErrRuntimeMediaNotAcceptable
  | ErrRuntimeSequenceTerminal
  | ErrRuntimeStreamInterrupted
  | ErrRuntimeStreamClosed
  | SchemaViolation
  | Errorf string
  | Wrapped string contract_error

subsection \<open>Identifiers, digests and provenance\<close>

definition ParseTraceID :: "string \<Rightarrow> (contract_error, string) result" where
  "ParseTraceID value =
     (if \<not> MatchString safeIdentifierPattern value then Inl (Errorf ''invalid trace id'') else Inr value)"

definition validateSafeContractIdentifier :: "string \<Rightarrow> string \<Rightarrow> contract_error option" where
  "validateSafeContractIdentifier name value =
     (if \<not> MatchString safeIdentifierPattern value then Some (Errorf (''invalid '' @ name)) else None)"

text \<open>\<open>strings.ToLower\<close> and \<open>hex.DecodeString\<close> on bytes.  Bytes outside ASCII are no
  hexadecimal digits, so how \<open>ToLower\<close> maps them is immaterial.\<close>

definition to_lower :: "char \<Rightarrow> char" where
  "to_lower c = (if char_in CHR ''A'' CHR ''Z'' c then char_of (of_char c + (32 :: nat)) else c)"

definition hex_value :: "char \<Rightarrow> nat option" where
  "hex_value c =
     (if is_digit c then Some (of_char c - of_char (CHR ''0''))
      else if char_in CHR ''a'' CHR ''f'' c then Some (of_char c - of_char (CHR ''a'') + 10)
      else if char_in CHR ''A'' CHR ''F'' c then Some (of_char c - of_char (CHR ''A'') + 10)
      else None)"

fun hex_DecodeString :: "string \<Rightarrow> nat list option" where
  "hex_DecodeString [] = Some []" |
  "hex_DecodeString [c] = None" |
  "hex_DecodeString (c # d # s) =
     (case (hex_value c, hex_value d, hex_DecodeString s) of
        (Some h, Some l, Some bs) \<Rightarrow> Some ((16 * h + l) # bs)
      | _ \<Rightarrow> None)"

definition hex_char :: "nat \<Rightarrow> char" where
  "hex_char n = ''0123456789abcdef'' ! n"

definition hex_EncodeToString :: "nat list \<Rightarrow> string" where
  "hex_EncodeToString bs = concat (map (\<lambda>b. [hex_char (b div 16), hex_char (b mod 16)]) bs)"

definition ValidateInvocationReleaseProvenance :: "string \<Rightarrow> string \<Rightarrow> contract_error option" where
  "ValidateInvocationReleaseProvenance releaseID cardDigest =
     (if (releaseID = []) \<noteq> (cardDigest = [])
      then Some (Errorf ''invocation release provenance must contain both release ID and card digest'')
      else if releaseID = [] then None
      else first_error (validateSafeContractIdentifier ''Agent Release ID'' releaseID)
        (if length cardDigest \<noteq> 64 \<or> cardDigest \<noteq> map to_lower cardDigest
         then Some (Errorf ''agent card digest must be canonical lower-case SHA-256'')
         else case hex_DecodeString cardDigest of
           None \<Rightarrow> Some (Errorf ''agent card digest must be canonical lower-case SHA-256'')
         | Some decoded \<Rightarrow>
             if length decoded \<noteq> 32
             then Some (Errorf ''agent card digest must be canonical lower-case SHA-256'')
             else None))"

text \<open>The digest test of the credential contract (contracts/router_agent_credential.go).\<close>

definition isLowerHexDigest :: "string \<Rightarrow> bool" where
  "isLowerHexDigest value =
     (length value = 64 \<and>
      list_all (\<lambda>c. \<not> (\<not> char_in CHR ''0'' CHR ''9'' c \<and> \<not> char_in CHR ''a'' CHR ''f'' c)) value)"

subsection \<open>Platform errors v4\<close>

definition platformErrorV4Messages :: "(string \<times> string) list" where
  "platformErrorV4Messages =
   [(''VALIDATION_ERROR'', ''The request is invalid.''),
    (''UNAUTHENTICATED'', ''Authentication is required.''),
    (''FORBIDDEN'', ''The requested operation is not allowed.''),
    (''NOT_FOUND'', ''The requested resource was not found.''),
    (''CONFLICT'', ''The requested operation conflicts with current state.''),
    (''NOT_ACCEPTABLE'', ''The requested result mode is not acceptable.''),
    (''PAYLOAD_TOO_LARGE'', ''The payload is too large.''),
    (''AGENT_NOT_INSTALLED'', ''The Agent is not installed in this Workspace.''),
    (''INSTALLATION_DISABLED'', ''The Agent installation is disabled.''),
    (''AGENT_DISABLED'', ''The Agent version is disabled.''),
    (''AGENT_RELEASE_UNPUBLISHED'', ''The Agent release is not published.''),
    (''AGENT_RELEASE_SUSPENDED'', ''The Agent release is suspended.''),
    (''AGENT_RELEASE_REVOKED'', ''The Agent release is revoked.''),
    (''CAPABILITY_NOT_ALLOWED'', ''The requested capability is not allowed.''),
    (''ROUTE_NOT_FOUND'', ''No route is available for the Agent.''),
    (''AGENT_AUTH_UNSUPPORTED'', ''The Agent authentication type is not supported for invocation.''),
    (''AGENT_RESPONSE_TOO_LARGE'', ''The Agent response is too large.''),
    (''A2A_PROTOCOL_ERROR'', ''The Agent returned an invalid A2A response.''),
    (''AGENT_UNAVAILABLE'', ''The Agent is unavailable.''),
    (''AGENT_EXECUTION_FAILED'', ''The Agent failed to complete the invocation.''),
    (''DEPENDENCY_ERROR'', ''A required platform dependency failed.''),
    (''TIMEOUT'', ''The invocation timed out.''),
    (''CANCELED'', ''The invocation was canceled.''),
    (''INTERNAL_ERROR'', ''The platform could not complete the request.'')]"

text \<open>The enumerations and the message rules of the schema, in the order of the schema.\<close>

definition error_code_enum :: "string list" where
  "error_code_enum =
   [''VALIDATION_ERROR'', ''UNAUTHENTICATED'', ''FORBIDDEN'', ''NOT_FOUND'', ''CONFLICT'',
    ''NOT_ACCEPTABLE'', ''PAYLOAD_TOO_LARGE'', ''AGENT_NOT_INSTALLED'', ''INSTALLATION_DISABLED'',
    ''AGENT_DISABLED'', ''AGENT_RELEASE_UNPUBLISHED'', ''AGENT_RELEASE_SUSPENDED'',
    ''AGENT_RELEASE_REVOKED'', ''CAPABILITY_NOT_ALLOWED'', ''ROUTE_NOT_FOUND'',
    ''AGENT_AUTH_UNSUPPORTED'', ''AGENT_RESPONSE_TOO_LARGE'', ''A2A_PROTOCOL_ERROR'',
    ''AGENT_UNAVAILABLE'', ''AGENT_EXECUTION_FAILED'', ''DEPENDENCY_ERROR'', ''TIMEOUT'',
    ''CANCELED'', ''INTERNAL_ERROR'']"

definition error_message_enum :: "string list" where
  "error_message_enum =
   [''The request is invalid.'', ''Authentication is required.'',
    ''The requested operation is not allowed.'', ''The requested resource was not found.'',
    ''The requested operation conflicts with current state.'',
    ''The requested result mode is not acceptable.'', ''The payload is too large.'',
    ''The Agent is not installed in this Workspace.'', ''The Agent installation is disabled.'',
    ''The Agent version is disabled.'', ''The Agent release is not published.'',
    ''The Agent release is suspended.'', ''The Agent release is revoked.'',
    ''The requested capability is not allowed.'', ''No route is available for the Agent.'',
    ''The Agent authentication type is not supported for invocation.'',
    ''The Agent response is too large.'', ''The Agent returned an invalid A2A response.'',
    ''The Agent is unavailable.'', ''The Agent failed to complete the invocation.'',
    ''A required platform dependency failed.'', ''The invocation timed out.'',
    ''The invocation was canceled.'', ''The platform could not complete the request.'']"

definition message_rules :: "(string \<times> string) list" where
  "message_rules =
   [(''VALIDATION_ERROR'', ''The request is invalid.''),
    (''UNAUTHENTICATED'', ''Authentication is required.''),
    (''FORBIDDEN'', ''The requested operation is not allowed.''),
    (''NOT_FOUND'', ''The requested resource was not found.''),
    (''CONFLICT'', ''The requested operation conflicts with current state.''),
    (''NOT_ACCEPTABLE'', ''The requested result mode is not acceptable.''),
    (''PAYLOAD_TOO_LARGE'', ''The payload is too large.''),
    (''AGENT_NOT_INSTALLED'', ''The Agent is not installed in this Workspace.''),
    (''INSTALLATION_DISABLED'', ''The Agent installation is disabled.''),
    (''AGENT_DISABLED'', ''The Agent version is disabled.''),
    (''AGENT_RELEASE_UNPUBLISHED'', ''The Agent release is not published.''),
    (''AGENT_RELEASE_SUSPENDED'', ''The Agent release is suspended.''),
    (''AGENT_RELEASE_REVOKED'', ''The Agent release is revoked.''),
    (''CAPABILITY_NOT_ALLOWED'', ''The requested capability is not allowed.''),
    (''ROUTE_NOT_FOUND'', ''No route is available for the Agent.''),
    (''AGENT_AUTH_UNSUPPORTED'', ''The Agent authentication type is not supported for invocation.''),
    (''AGENT_RESPONSE_TOO_LARGE'', ''The Agent response is too large.''),
    (''A2A_PROTOCOL_ERROR'', ''The Agent returned an invalid A2A response.''),
    (''AGENT_UNAVAILABLE'', ''The Agent is unavailable.''),
    (''AGENT_EXECUTION_FAILED'', ''The Agent failed to complete the invocation.''),
    (''DEPENDENCY_ERROR'', ''A required platform dependency failed.''),
    (''TIMEOUT'', ''The invocation timed out.''),
    (''CANCELED'', ''The invocation was canceled.''),
    (''INTERNAL_ERROR'', ''The platform could not complete the request.'')]"

definition error_text_schema :: "string \<Rightarrow> string \<Rightarrow> bool" where
  "error_text_schema code message \<longleftrightarrow>
     code \<in> set error_code_enum \<and> message \<in> set error_message_enum \<and>
     list_all (\<lambda>(c, m). c = code \<longrightarrow> m = message) message_rules"

definition pre_correlation_schema :: "pre_correlation_error \<Rightarrow> bool" where
  "pre_correlation_schema e \<longleftrightarrow> error_text_schema (preCode e) (preMessage e) \<and>
     MatchString safeIdentifierPattern (preTraceID e)"

definition correlated_schema :: "platform_error \<Rightarrow> bool" where
  "correlated_schema e \<longleftrightarrow> error_text_schema (errCode e) (errMessage e) \<and>
     MatchString safeIdentifierPattern (errTraceID e) \<and>
     MatchString safeIdentifierPattern (errInvocationID e) \<and>
     MatchString safeIdentifierPattern (errRootTaskID e)"

definition ValidatePreCorrelationPlatformErrorV4 :: "pre_correlation_error \<Rightarrow> contract_error option" where
  "ValidatePreCorrelationPlatformErrorV4 e = (if pre_correlation_schema e then None else Some SchemaViolation)"

definition ValidateCorrelatedPlatformErrorV4 :: "platform_error \<Rightarrow> contract_error option" where
  "ValidateCorrelatedPlatformErrorV4 e = (if correlated_schema e then None else Some SchemaViolation)"

definition NewPreCorrelationPlatformErrorV4 ::
    "string \<Rightarrow> string \<Rightarrow> (contract_error, pre_correlation_error) result" where
  "NewPreCorrelationPlatformErrorV4 code traceID =
     (case map_of platformErrorV4Messages code of
        None \<Rightarrow> Inl (Errorf ''unknown Platform Error v4 code'')
      | Some message \<Rightarrow>
          rbind (ParseTraceID traceID)
            (\<lambda>_. Inr \<lparr>preCode = code, preMessage = message, preTraceID = traceID\<rparr>))"

definition NewCorrelatedPlatformErrorV4 ::
    "string \<Rightarrow> string \<Rightarrow> string \<Rightarrow> string \<Rightarrow> (contract_error, platform_error) result" where
  "NewCorrelatedPlatformErrorV4 code traceID invocationID rootTaskID =
     rbind (NewPreCorrelationPlatformErrorV4 code traceID) (\<lambda>pre.
       guarded (validateSafeContractIdentifier ''invocation id'' invocationID)
        (guarded (validateSafeContractIdentifier ''root task id'' rootTaskID)
          (Inr \<lparr>errCode = preCode pre, errMessage = preMessage pre, errTraceID = traceID,
                errInvocationID = invocationID, errRootTaskID = rootTaskID\<rparr>)))"

subsection \<open>Invocation events 0.3\<close>

definition caller_schema :: "caller \<Rightarrow> bool" where
  "caller_schema c \<longleftrightarrow> callerType c \<in> {''user'', ''agent'', ''service''} \<and>
     MatchString safeIdentifierPattern (callerID c)"

definition semver_schema :: "(string \<Rightarrow> bool) \<Rightarrow> string \<Rightarrow> bool" where
  "semver_schema strict v \<longleftrightarrow> strict v \<and> MatchString semverPattern v"

definition nonnegative :: "int option \<Rightarrow> bool" where
  "nonnegative n \<longleftrightarrow> (case n of None \<Rightarrow> True | Some k \<Rightarrow> 0 \<le> k)"

definition event_type_enum :: "string list" where
  "event_type_enum = [''created'', ''routing'', ''started'', ''stream'', ''succeeded'', ''failed'',
     ''canceled'', ''timed_out'']"

definition event_status_enum :: "string list" where
  "event_status_enum = [''pending'', ''routing'', ''running'', ''succeeded'', ''failed'', ''canceled'',
     ''timed_out'']"

text \<open>The members and their types.\<close>

definition event_members_schema :: "(string \<Rightarrow> bool) \<Rightarrow> invocation_event \<Rightarrow> bool" where
  "event_members_schema strict e \<longleftrightarrow>
     evSchemaVersion e = ''0.3'' \<and>
     MatchString safeIdentifierPattern (evEventID e) \<and>
     0 \<le> evSequence e \<and>
     tt_dateTime (evOccurredAt e) \<and>
     evType e \<in> set event_type_enum \<and>
     evStatus e \<in> set event_status_enum \<and>
     MatchString safeIdentifierPattern (evInvocationID e) \<and>
     MatchString safeIdentifierPattern (evRootTaskID e) \<and>
     (evParentInvocationID e \<noteq> [] \<longrightarrow> MatchString safeIdentifierPattern (evParentInvocationID e)) \<and>
     MatchString safeIdentifierPattern (evTraceID e) \<and>
     caller_schema (evCaller e) \<and>
     MatchString safeIdentifierPattern (evWorkspaceID e) \<and>
     MatchString safeIdentifierPattern (evTargetAgentID e) \<and>
     semver_schema strict (evAgentCardVersion e) \<and>
     (evAgentReleaseID e \<noteq> [] \<longrightarrow> MatchString safeIdentifierPattern (evAgentReleaseID e)) \<and>
     (evAgentCardDigest e \<noteq> [] \<longrightarrow> MatchString digestPattern (evAgentCardDigest e)) \<and>
     MatchString safeIdentifierPattern (evCapability e) \<and>
     nonnegative (evChunkIndex e) \<and> nonnegative (evChunkBytes e) \<and> nonnegative (evLatencyMS e) \<and>
     (case evError e of None \<Rightarrow> True | Some err \<Rightarrow> correlated_schema err)"

text \<open>The \<open>allOf\<close> rules: release provenance and, per event type, the status and the members that
  must be present or absent.\<close>

definition event_type_rules :: "invocation_event \<Rightarrow> bool" where
  "event_type_rules e \<longleftrightarrow>
     ((evAgentReleaseID e \<noteq> []) = (evAgentCardDigest e \<noteq> [])) \<and>
     (evType e = ''created'' \<longrightarrow> evStatus e = ''pending'' \<and> evChunkIndex e = None \<and>
        evChunkBytes e = None \<and> evLatencyMS e = None \<and> evError e = None) \<and>
     (evType e = ''routing'' \<longrightarrow> evStatus e = ''routing'' \<and> evChunkIndex e = None \<and>
        evChunkBytes e = None \<and> evLatencyMS e = None \<and> evError e = None) \<and>
     (evType e = ''started'' \<longrightarrow> evStatus e = ''running'' \<and> evChunkIndex e = None \<and>
        evChunkBytes e = None \<and> evLatencyMS e = None \<and> evError e = None) \<and>
     (evType e = ''stream'' \<longrightarrow> evStatus e = ''running'' \<and> evChunkIndex e \<noteq> None \<and>
        evChunkBytes e \<noteq> None \<and> evLatencyMS e = None \<and> evError e = None) \<and>
     (evType e = ''succeeded'' \<longrightarrow> evStatus e = ''succeeded'' \<and> evLatencyMS e \<noteq> None \<and>
        evChunkIndex e = None \<and> evChunkBytes e = None \<and> evError e = None) \<and>
     (evType e \<in> {''failed'', ''canceled'', ''timed_out''} \<longrightarrow> evLatencyMS e \<noteq> None \<and>
        evError e \<noteq> None \<and> evChunkIndex e = None \<and> evChunkBytes e = None) \<and>
     (evType e = ''failed'' \<longrightarrow> evStatus e = ''failed'' \<and>
        (case evError e of None \<Rightarrow> True | Some err \<Rightarrow> errCode err \<notin> {''CANCELED'', ''TIMEOUT''})) \<and>
     (evType e = ''canceled'' \<longrightarrow> evStatus e = ''canceled'' \<and>
        (case evError e of None \<Rightarrow> True | Some err \<Rightarrow> errCode err = ''CANCELED'')) \<and>
     (evType e = ''timed_out'' \<longrightarrow> evStatus e = ''timed_out'' \<and>
        (case evError e of None \<Rightarrow> True | Some err \<Rightarrow> errCode err = ''TIMEOUT''))"

definition event_schema :: "(string \<Rightarrow> bool) \<Rightarrow> invocation_event \<Rightarrow> bool" where
  "event_schema strict e \<longleftrightarrow> event_members_schema strict e \<and> event_type_rules e"

definition validateRuntimeNestedErrorCorrelation ::
    "string \<Rightarrow> string \<Rightarrow> string \<Rightarrow> platform_error option \<Rightarrow> contract_error option" where
  "validateRuntimeNestedErrorCorrelation invocationID rootTaskID traceID platformError =
     (case platformError of
        None \<Rightarrow> None
      | Some e \<Rightarrow>
          if errInvocationID e \<noteq> invocationID \<or> errRootTaskID e \<noteq> rootTaskID \<or> errTraceID e \<noteq> traceID
          then Some (Errorf ''nested Platform Error v4 correlation changed'') else None)"

definition ValidateInvocationEventV03 :: "(string \<Rightarrow> bool) \<Rightarrow> invocation_event \<Rightarrow> contract_error option" where
  "ValidateInvocationEventV03 strict event =
     first_error (if event_schema strict event then None else Some SchemaViolation)
      (first_error (ValidateInvocationReleaseProvenance (evAgentReleaseID event) (evAgentCardDigest event))
        (validateRuntimeNestedErrorCorrelation (evInvocationID event) (evRootTaskID event)
          (evTraceID event) (evError event)))"

subsection \<open>The invocation sequence validator\<close>

definition validRuntimeTransition :: "string \<Rightarrow> string \<Rightarrow> string \<Rightarrow> bool" where
  "validRuntimeTransition from eventType to =
     (if from = ''pending'' then
        (eventType = ''routing'' \<and> to = ''routing'') \<or>
        ((eventType = ''canceled'' \<or> eventType = ''timed_out'') \<and> eventType = to)
      else if from = ''routing'' then
        (eventType = ''started'' \<and> to = ''running'') \<or>
        ((eventType = ''failed'' \<or> eventType = ''canceled'' \<or> eventType = ''timed_out'') \<and> eventType = to)
      else if from = ''running'' then
        (eventType = ''stream'' \<and> to = ''running'') \<or>
        ((eventType = ''succeeded'' \<or> eventType = ''failed'' \<or> eventType = ''canceled''
           \<or> eventType = ''timed_out'') \<and> eventType = to)
      else False)"

definition sameRuntimeInvocationContext :: "invocation_event \<Rightarrow> invocation_event \<Rightarrow> bool" where
  "sameRuntimeInvocationContext left right \<longleftrightarrow>
     evInvocationID left = evInvocationID right \<and> evRootTaskID left = evRootTaskID right \<and>
     evParentInvocationID left = evParentInvocationID right \<and> evTraceID left = evTraceID right \<and>
     evCaller left = evCaller right \<and> evWorkspaceID left = evWorkspaceID right \<and>
     evTargetAgentID left = evTargetAgentID right \<and> evAgentCardVersion left = evAgentCardVersion right \<and>
     evAgentReleaseID left = evAgentReleaseID right \<and> evAgentCardDigest left = evAgentCardDigest right \<and>
     evCapability left = evCapability right"

definition isRuntimeTerminalStatus :: "string \<Rightarrow> bool" where
  "isRuntimeTerminalStatus status \<longleftrightarrow> status \<in> {''succeeded'', ''failed'', ''canceled'', ''timed_out''}"

record sequence_validator =
  svLast :: "invocation_event option"
  svNextSequence :: int
  svNextChunkIndex :: int
  svTerminal :: bool

definition initial_sequence_validator :: sequence_validator where
  "initial_sequence_validator =
     \<lparr>svLast = None, svNextSequence = 0, svNextChunkIndex = 0, svTerminal = False\<rparr>"

definition NewRuntimeInvocationSequenceValidator ::
    "'c option \<Rightarrow> (contract_error, sequence_validator) result" where
  "NewRuntimeInvocationSequenceValidator contracts =
     (case contracts of None \<Rightarrow> Inl (Errorf ''runtime contract validator is required'')
      | Some _ \<Rightarrow> Inr initial_sequence_validator)"

text \<open>All assignments of \<open>Accept\<close> follow its last check, so an error leaves the validator as it was.\<close>

definition sequence_order_check :: "sequence_validator \<Rightarrow> invocation_event \<Rightarrow> contract_error option" where
  "sequence_order_check v event =
     (case svLast v of
        None \<Rightarrow>
          if evType event \<noteq> ''created'' \<or> evStatus event \<noteq> ''pending''
          then Some (Errorf ''invocation lifecycle must begin with created/pending'') else None
      | Some prev \<Rightarrow>
          if \<not> sameRuntimeInvocationContext prev event
          then Some (Errorf ''invocation lifecycle context changed'')
          else if \<not> validRuntimeTransition (evStatus prev) (evType event) (evStatus event)
          then Some (Errorf ''invalid Invocation transition %s -> %s/%s'') else None)"

definition sequence_Accept ::
    "(string \<Rightarrow> bool) \<Rightarrow> sequence_validator \<Rightarrow> invocation_event \<Rightarrow> (contract_error, sequence_validator) result" where
  "sequence_Accept strict v event =
     (if svTerminal v then Inl ErrRuntimeSequenceTerminal
      else case ValidateInvocationEventV03 strict event of
        Some err \<Rightarrow> Inl (Wrapped ''validate Invocation Event 0.3: %w'' err)
      | None \<Rightarrow>
        if evSequence event \<noteq> svNextSequence v then Inl (Errorf ''invocation event sequence must be %d'')
        else guarded (sequence_order_check v event)
          (if evType event = ''stream'' \<and> evChunkIndex event \<noteq> Some (svNextChunkIndex v)
           then Inl (Errorf ''invocation stream chunk index must be %d'')
           else Inr \<lparr>svLast = Some event, svNextSequence = svNextSequence v + 1,
                     svNextChunkIndex = (if evType event = ''stream'' then svNextChunkIndex v + 1
                                         else svNextChunkIndex v),
                     svTerminal = isRuntimeTerminalStatus (evStatus event)\<rparr>))"

text \<open>The loop of the callers: feed events until one is refused.\<close>

fun sequence_accept_all ::
    "(string \<Rightarrow> bool) \<Rightarrow> sequence_validator \<Rightarrow> invocation_event list \<Rightarrow> (contract_error, sequence_validator) result" where
  "sequence_accept_all strict v [] = Inr v" |
  "sequence_accept_all strict v (e # es) =
     rbind (sequence_Accept strict v e) (\<lambda>v'. sequence_accept_all strict v' es)"

subsection \<open>Result stream events v2\<close>

definition raw_present :: "raw_message \<Rightarrow> bool" where
  "raw_present r \<longleftrightarrow> r \<noteq> RawEmpty"

definition encodable :: "raw_message \<Rightarrow> bool" where
  "encodable r \<longleftrightarrow> (case r of RawInvalid _ \<Rightarrow> False | _ \<Rightarrow> True)"

definition error_code_of :: "platform_error option \<Rightarrow> string" where
  "error_code_of e = (case e of None \<Rightarrow> [] | Some err \<Rightarrow> errCode err)"

text \<open>The branches of the \<open>oneOf\<close>; they are exclusive because each fixes the type.\<close>

definition stream_shape :: "stream_event \<Rightarrow> bool" where
  "stream_shape e \<longleftrightarrow>
     (seType e = ''accepted'' \<and> seStatus e = ''pending'' \<and> seChunkIndex e = None \<and>
        \<not> raw_present (seChunk e) \<and> seError e = None) \<or>
     (seType e = ''chunk'' \<and> seStatus e = ''running'' \<and> seChunkIndex e \<noteq> None \<and>
        raw_present (seChunk e) \<and> seError e = None) \<or>
     (seType e = ''completed'' \<and> seStatus e = ''succeeded'' \<and> seChunkIndex e = None \<and>
        \<not> raw_present (seChunk e) \<and> seError e = None) \<or>
     (seType e = ''failed'' \<and> seStatus e = ''failed'' \<and> seError e \<noteq> None \<and>
        error_code_of (seError e) \<notin> {''CANCELED'', ''TIMEOUT''} \<and> seChunkIndex e = None \<and>
        \<not> raw_present (seChunk e)) \<or>
     (seType e = ''canceled'' \<and> seStatus e = ''canceled'' \<and> seError e \<noteq> None \<and>
        error_code_of (seError e) = ''CANCELED'' \<and> seChunkIndex e = None \<and>
        \<not> raw_present (seChunk e)) \<or>
     (seType e = ''timed_out'' \<and> seStatus e = ''timed_out'' \<and> seError e \<noteq> None \<and>
        error_code_of (seError e) = ''TIMEOUT'' \<and> seChunkIndex e = None \<and>
        \<not> raw_present (seChunk e))"

definition stream_event_schema :: "stream_event \<Rightarrow> bool" where
  "stream_event_schema e \<longleftrightarrow>
     seSchemaVersion e = ''2'' \<and> 0 \<le> seSequence e \<and>
     seType e \<in> set [''accepted'', ''chunk'', ''completed'', ''failed'', ''canceled'', ''timed_out''] \<and>
     seStatus e \<in> set [''pending'', ''running'', ''succeeded'', ''failed'', ''canceled'', ''timed_out''] \<and>
     MatchString safeIdentifierPattern (seInvocationID e) \<and>
     MatchString safeIdentifierPattern (seRootTaskID e) \<and>
     MatchString safeIdentifierPattern (seTraceID e) \<and>
     nonnegative (seChunkIndex e) \<and>
     (case seError e of None \<Rightarrow> True | Some err \<Rightarrow> correlated_schema err) \<and>
     stream_shape e"

definition ValidateInvocationResultStreamEventV2 :: "stream_event \<Rightarrow> contract_error option" where
  "ValidateInvocationResultStreamEventV2 event =
     first_error (if encodable (seChunk event) \<and> stream_event_schema event then None else Some SchemaViolation)
       (validateRuntimeNestedErrorCorrelation (seInvocationID event) (seRootTaskID event)
          (seTraceID event) (seError event))"

definition isResultStreamTerminal :: "string \<Rightarrow> bool" where
  "isResultStreamTerminal eventType \<longleftrightarrow> eventType \<in> {''completed'', ''failed'', ''canceled'', ''timed_out''}"

record stream_validator =
  rvInvocationID :: string
  rvRootTaskID :: string
  rvTraceID :: string
  rvNextSequence :: int
  rvNextChunkIndex :: int
  rvTerminal :: bool
  rvClosed :: bool

definition NewRuntimeResultStreamSequenceValidator ::
    "'c option \<Rightarrow> string \<Rightarrow> string \<Rightarrow> string \<Rightarrow> (contract_error, stream_validator) result" where
  "NewRuntimeResultStreamSequenceValidator contracts invocationID rootTaskID traceID =
     (case contracts of None \<Rightarrow> Inl (Errorf ''runtime contract validator is required'')
      | Some _ \<Rightarrow>
        guarded (validateSafeContractIdentifier ''invocation id'' invocationID)
         (guarded (validateSafeContractIdentifier ''root task id'' rootTaskID)
           (rbind (ParseTraceID traceID) (\<lambda>_.
              Inr \<lparr>rvInvocationID = invocationID, rvRootTaskID = rootTaskID, rvTraceID = traceID,
                   rvNextSequence = 0, rvNextChunkIndex = 0, rvTerminal = False, rvClosed = False\<rparr>))))"

definition stream_Accept :: "stream_validator \<Rightarrow> stream_event \<Rightarrow> (contract_error, stream_validator) result" where
  "stream_Accept v event =
     (if rvClosed v then Inl ErrRuntimeStreamClosed
      else if rvTerminal v then Inl ErrRuntimeSequenceTerminal
      else case ValidateInvocationResultStreamEventV2 event of
        Some err \<Rightarrow> Inl (Wrapped ''validate Invocation Result Stream Event v2: %w'' err)
      | None \<Rightarrow>
        if seInvocationID event \<noteq> rvInvocationID v \<or> seRootTaskID event \<noteq> rvRootTaskID v
             \<or> seTraceID event \<noteq> rvTraceID v then Inl (Errorf ''result stream correlation changed'')
        else if seSequence event \<noteq> rvNextSequence v then Inl (Errorf ''result stream sequence must be %d'')
        else if rvNextSequence v = 0 \<and> seType event \<noteq> ''accepted''
        then Inl (Errorf ''result stream must begin with accepted'')
        else if rvNextSequence v > 0 \<and> seType event = ''accepted''
        then Inl (Errorf ''result stream accepted event must be first'')
        else if seType event = ''chunk'' \<and> seChunkIndex event \<noteq> Some (rvNextChunkIndex v)
        then Inl (Errorf ''result stream chunk index must be %d'')
        else Inr (v\<lparr>rvNextChunkIndex := (if seType event = ''chunk'' then rvNextChunkIndex v + 1
                                         else rvNextChunkIndex v),
                   rvNextSequence := rvNextSequence v + 1,
                   rvTerminal := isResultStreamTerminal (seType event)\<rparr>))"

definition stream_Finish :: "stream_validator \<Rightarrow> contract_error option \<times> stream_validator" where
  "stream_Finish v =
     (if rvClosed v then (Some ErrRuntimeStreamClosed, v)
      else (if \<not> rvTerminal v then Some ErrRuntimeStreamInterrupted else None, v\<lparr>rvClosed := True\<rparr>))"

fun stream_accept_all :: "stream_validator \<Rightarrow> stream_event list \<Rightarrow> (contract_error, stream_validator) result" where
  "stream_accept_all v [] = Inr v" |
  "stream_accept_all v (e # es) = rbind (stream_Accept v e) (\<lambda>v'. stream_accept_all v' es)"

definition NegotiateInvocationResultMode :: "bool \<Rightarrow> string \<Rightarrow> (contract_error, string) result" where
  "NegotiateInvocationResultMode stream accept =
     (if stream then
        (if accept = ''text/event-stream'' then Inr ''sse'' else Inl ErrRuntimeMediaNotAcceptable)
      else if accept \<in> {''application/json'', ''application/*'', ''*/*''} then Inr ''json''
      else Inl ErrRuntimeMediaNotAcceptable)"

subsection \<open>Projections\<close>

text \<open>The loop over a Go map visits its entries in an arbitrary order; the order only decides
  which name the error carries.\<close>

definition validateInvocationRecordV1 :: "(string \<Rightarrow> bool) \<Rightarrow> invocation_record \<Rightarrow> contract_error option" where
  "validateInvocationRecordV1 strict record =
     first_error (ValidateInvocationReleaseProvenance (irAgentReleaseID record) (irAgentCardDigest record))
    (first_error (each_error (\<lambda>(name, value). validateSafeContractIdentifier name value)
        [(''invocation id'', irInvocationID record), (''root task id'', irRootTaskID record),
         (''workspace id'', irWorkspaceID record), (''target agent id'', irTargetAgentID record),
         (''capability'', irCapability record), (''caller id'', callerID (irCaller record))])
    (first_error (if irParentInvocationID record \<noteq> []
        then validateSafeContractIdentifier ''parent invocation id'' (irParentInvocationID record) else None)
    (first_error (case ParseTraceID (irTraceID record) of Inl e \<Rightarrow> Some e | Inr _ \<Rightarrow> None)
      (if callerType (irCaller record) \<noteq> ''user'' \<and> callerType (irCaller record) \<noteq> ''agent''
            \<and> callerType (irCaller record) \<noteq> ''service'' then Some (Errorf ''caller type is invalid'')
       else if \<not> strict (irAgentCardVersion record) then Some (Errorf ''agent card version is invalid: %w'')
       else if irStatus record \<notin> {''pending'', ''routing'', ''running'', ''succeeded'', ''failed'',
                 ''canceled'', ''timed_out''} then Some (Errorf ''invocation status is invalid'')
       else if \<not> nonnegative (irLatencyMS record)
       then Some (Errorf ''invocation latency must be non-negative'')
       else if irErrorCode record \<noteq> [] \<and> map_of platformErrorV4Messages (irErrorCode record) = None
       then Some (Errorf ''invocation error code is invalid'')
       else if time_IsZero (irCreatedAt record) \<or> time_IsZero (irUpdatedAt record)
       then Some (Errorf ''invocation projection timestamps are required'')
       else None))))"

definition event_matches_record :: "invocation_record \<Rightarrow> invocation_event \<Rightarrow> bool" where
  "event_matches_record record event \<longleftrightarrow>
     evInvocationID event = irInvocationID record \<and> evRootTaskID event = irRootTaskID record \<and>
     evParentInvocationID event = irParentInvocationID record \<and> evTraceID event = irTraceID record \<and>
     evCaller event = irCaller record \<and> evWorkspaceID event = irWorkspaceID record \<and>
     evTargetAgentID event = irTargetAgentID record \<and> evAgentCardVersion event = irAgentCardVersion record \<and>
     evAgentReleaseID event = irAgentReleaseID record \<and> evAgentCardDigest event = irAgentCardDigest record \<and>
     evCapability event = irCapability record"

fun detail_events_check ::
    "(string \<Rightarrow> bool) \<Rightarrow> invocation_record \<Rightarrow> sequence_validator \<Rightarrow> invocation_event list \<Rightarrow> contract_error option" where
  "detail_events_check strict record v [] = None" |
  "detail_events_check strict record v (e # es) =
     (case sequence_Accept strict v e of
        Inl err \<Rightarrow> Some err
      | Inr v' \<Rightarrow>
          if \<not> event_matches_record record e
          then Some (Errorf ''invocation projection context does not match its events'')
          else detail_events_check strict record v' es)"

definition ValidateInvocationDetailResponseV1 ::
    "(string \<Rightarrow> bool) \<Rightarrow> string \<Rightarrow> invocation_detail \<Rightarrow> contract_error option" where
  "ValidateInvocationDetailResponseV1 strict workspaceID detail =
     (case validateInvocationRecordV1 strict (idInvocation detail) of
        Some e \<Rightarrow> Some (Wrapped ''validate Invocation projection: %w'' e)
      | None \<Rightarrow>
        if irWorkspaceID (idInvocation detail) \<noteq> workspaceID
        then Some (Errorf ''invocation projection Workspace does not match the authorized Workspace'')
        else if idEvents detail = []
        then Some (Errorf ''invocation detail requires at least one committed event'')
        else first_error
          (detail_events_check strict (idInvocation detail) initial_sequence_validator (idEvents detail))
          (if irStatus (idInvocation detail) \<noteq> evStatus (last (idEvents detail))
           then Some (Errorf ''invocation projection status does not match its last event'') else None))"

fun trace_check ::
    "(string \<Rightarrow> bool) \<Rightarrow> string \<Rightarrow> string \<Rightarrow> string \<Rightarrow> string list \<Rightarrow> invocation_record list \<Rightarrow> contract_error option" where
  "trace_check strict workspaceID traceID rootTaskID identities [] = None" |
  "trace_check strict workspaceID traceID rootTaskID identities (r # rs) =
     (case validateInvocationRecordV1 strict r of
        Some e \<Rightarrow> Some (Wrapped ''validate Trace Invocation projection: %w'' e)
      | None \<Rightarrow>
        if irWorkspaceID r \<noteq> workspaceID \<or> irTraceID r \<noteq> traceID
        then Some (Errorf ''trace Invocation is outside the authorized Workspace or Trace'')
        else if irRootTaskID r \<noteq> rootTaskID
        then Some (Errorf ''trace response changes root Task within one lineage'')
        else if irInvocationID r \<in> set identities
        then Some (Errorf ''trace response repeats an Invocation'')
        else if irParentInvocationID r \<noteq> [] \<and> irParentInvocationID r = irInvocationID r
        then Some (Errorf ''trace response contains a self-parent Invocation'')
        else if irParentInvocationID r \<noteq> [] \<and> irParentInvocationID r \<notin> set identities
        then Some (Errorf ''trace response child must follow its existing parent'')
        else trace_check strict workspaceID traceID rootTaskID (irInvocationID r # identities) rs)"

definition ValidateTraceResponseV1 ::
    "(string \<Rightarrow> bool) \<Rightarrow> string \<Rightarrow> string \<Rightarrow> trace_response \<Rightarrow> contract_error option" where
  "ValidateTraceResponseV1 strict workspaceID traceID response =
     (if trTraceID response \<noteq> traceID then Some (Errorf ''trace response correlation changed'')
      else case trInvocations response of
        [] \<Rightarrow> Some (Errorf ''trace response requires non-empty Invocation lineage'')
      | r # _ \<Rightarrow> trace_check strict workspaceID traceID (irRootTaskID r) [] (trInvocations response))"

definition ValidateNestedInvocationCorrelation :: "invocation_record \<Rightarrow> invocation_event \<Rightarrow> contract_error option" where
  "ValidateNestedInvocationCorrelation parent child =
     (if irStatus parent \<noteq> ''running'' then Some (Errorf ''nested Invocation parent must be running'')
      else if evType child \<noteq> ''created'' \<or> evStatus child \<noteq> ''pending'' \<or> evSequence child \<noteq> 0
      then Some (Errorf ''nested Invocation child must begin with created/pending sequence zero'')
      else if evParentInvocationID child \<noteq> irInvocationID parent \<or> evInvocationID child = irInvocationID parent
      then Some (Errorf ''nested Invocation parent identity is invalid'')
      else if evRootTaskID child \<noteq> irRootTaskID parent \<or> evTraceID child \<noteq> irTraceID parent
           \<or> evWorkspaceID child \<noteq> irWorkspaceID parent
      then Some (Errorf ''nested Invocation lineage correlation changed'')
      else if callerType (evCaller child) \<noteq> ''agent'' \<or> callerID (evCaller child) \<noteq> irTargetAgentID parent
      then Some (Errorf ''nested Invocation caller does not match parent target Agent'')
      else None)"

end
