(* ===== verification/Sha256.thy ===== *)
theory Sha256
  imports Prelude "HOL-Library.Word"
begin

text \<open>
  Go's \<^verbatim>\<open>crypto/sha256\<close> and the decimal formatting of \<^verbatim>\<open>fmt\<close>, as far as the router and the control plane
  use them: event identifiers, agent credentials and Agent Card digests are SHA-256 sums.
\<close>

unbundle bit_operations_syntax

section \<open>SHA-256\<close>

type_synonym word32 = "32 word"

definition rotr :: "nat \<Rightarrow> word32 \<Rightarrow> word32" where
  "rotr n w = drop_bit n w OR push_bit (32 - n) w"

text \<open>The constants of the algorithm are the first 32 fractional bits of the square roots of the first eight
  primes and of the cube roots of the first sixty-four; the root is found bit by bit.\<close>

fun root_bits :: "nat \<Rightarrow> int \<Rightarrow> nat \<Rightarrow> int \<Rightarrow> int" where
  "root_bits k n 0 r = r" |
  "root_bits k n (Suc b) r = root_bits k n b (if (r + 2 ^ b) ^ k \<le> n then r + 2 ^ b else r)"

definition root_fraction :: "nat \<Rightarrow> int \<Rightarrow> word32" where
  "root_fraction k p = word_of_int (root_bits k (p * 2 ^ (32 * k)) 36 0)"

definition is_prime :: "int \<Rightarrow> bool" where
  "is_prime p \<longleftrightarrow> list_all (\<lambda>d. p mod d \<noteq> 0) [2..p - 1]"

definition sha_round_constants :: "word32 list" where
  "sha_round_constants = map (root_fraction 3) (filter is_prime [2..311])"

definition sha_initial :: "word32 list" where
  "sha_initial = map (root_fraction 2) [2, 3, 5, 7, 11, 13, 17, 19]"

lemma root_bits_power:
  assumes "0 \<le> r" "r ^ k \<le> n" "n < (r + 2 ^ b) ^ k"
  shows "root_bits k n b r ^ k \<le> n" "n < (root_bits k n b r + 1) ^ k"
  using assms by (induction b arbitrary: r) (simp_all add: algebra_simps)

text \<open>A message schedule is extended from its last sixteen words.\<close>

definition schedule_word :: "word32 list \<Rightarrow> word32" where
  "schedule_word ws =
     (let n = length ws; w15 = ws ! (n - 15); w2 = ws ! (n - 2);
          s0 = rotr 7 w15 XOR rotr 18 w15 XOR drop_bit 3 w15;
          s1 = rotr 17 w2 XOR rotr 19 w2 XOR drop_bit 10 w2
      in ws ! (n - 16) + s0 + ws ! (n - 7) + s1)"

definition schedule :: "word32 list \<Rightarrow> word32 list" where
  "schedule block = ((\<lambda>ws. ws @ [schedule_word ws]) ^^ 48) block"

fun sha_round :: "word32 \<times> word32 \<Rightarrow> word32 list \<Rightarrow> word32 list" where
  "sha_round (k, w) [a, b, c, d, e, f, g, h] =
     (let s1 = rotr 6 e XOR rotr 11 e XOR rotr 25 e;
          ch = (e AND f) XOR (NOT e AND g);
          t1 = h + s1 + ch + k + w;
          s0 = rotr 2 a XOR rotr 13 a XOR rotr 22 a;
          maj = (a AND b) XOR (a AND c) XOR (b AND c)
      in [t1 + s0 + maj, a, b, c, d + t1, e, f, g])" |
  "sha_round kw st = st"

definition sha_compress :: "word32 list \<Rightarrow> word32 list \<Rightarrow> word32 list" where
  "sha_compress st block = map2 (+) st (fold sha_round (zip sha_round_constants (schedule block)) st)"

definition big_endian :: "nat \<Rightarrow> int \<Rightarrow> nat list" where
  "big_endian k n = map (\<lambda>i. nat (n div 256 ^ (k - 1 - i) mod 256)) [0..<k]"

definition sha_padding :: "nat list \<Rightarrow> nat list" where
  "sha_padding bytes = bytes @ [128] @ replicate ((119 - length bytes mod 64) mod 64) 0 @
     big_endian 8 (8 * int (length bytes))"

fun sha_words :: "nat list \<Rightarrow> word32 list" where
  "sha_words (a # b # c # d # rest) = word_of_int (((int a * 256 + int b) * 256 + int c) * 256 + int d) # sha_words rest" |
  "sha_words _ = []"

function sha_blocks :: "word32 list \<Rightarrow> word32 list \<Rightarrow> word32 list" where
  "sha_blocks st ws = (if ws = [] then st else sha_blocks (sha_compress st (take 16 ws)) (drop 16 ws))"
  by pat_completeness auto
termination by (relation "measure (length \<circ> snd)") auto

declare sha_blocks.simps [simp del]

definition sha256_bytes :: "nat list \<Rightarrow> nat list" where
  "sha256_bytes bytes = concat (map (big_endian 4 \<circ> uint) (sha_blocks sha_initial (sha_words (sha_padding bytes))))"

definition sha256_Sum256 :: "string \<Rightarrow> nat list" where
  "sha256_Sum256 s = sha256_bytes (map of_char s)"

text \<open>A sum is always thirty-two bytes.\<close>

lemma length_big_endian [simp]: "length (big_endian k n) = k"
  by (simp add: big_endian_def)

lemma big_endian_byte: "b \<in> set (big_endian k n) \<Longrightarrow> b < 256"
  by (auto simp: big_endian_def nat_less_iff)

lemma length_sha_round [simp]: "length (sha_round kw st) = length st"
  by (induction kw st rule: sha_round.induct) (simp_all add: Let_def)

lemma length_fold_sha_round [simp]: "length (fold sha_round kws st) = length st"
  by (induction kws arbitrary: st) simp_all

lemma length_sha_compress [simp]: "length (sha_compress st block) = length st"
  by (simp add: sha_compress_def)

lemma length_sha_blocks [simp]: "length (sha_blocks st ws) = length st"
  by (induction st ws rule: sha_blocks.induct) (subst sha_blocks.simps, simp)

lemma length_sha256 [simp]: "length (sha256_Sum256 s) = 32"
proof -
  have "length (concat (map (big_endian 4 \<circ> uint) (ws :: word32 list))) = 4 * length ws" for ws
    by (induction ws) simp_all
  then show ?thesis by (simp add: sha256_Sum256_def sha256_bytes_def sha_initial_def)
qed

lemma sha256_byte: "b \<in> set (sha256_Sum256 s) \<Longrightarrow> b < 256"
  by (auto simp: sha256_Sum256_def sha256_bytes_def dest: big_endian_byte)

section \<open>Decimal text\<close>

fun nat_text :: "nat \<Rightarrow> string" where
  "nat_text n = (if n < 10 then [char_of (48 + n)] else nat_text (n div 10) @ [char_of (48 + n mod 10)])"

declare nat_text.simps [simp del]

definition int_text :: "int \<Rightarrow> string" where
  "int_text n = (if n < 0 then CHR ''-'' # nat_text (nat (- n)) else nat_text (nat n))"

definition decimal_value :: "string \<Rightarrow> nat" where
  "decimal_value = foldl (\<lambda>acc c. acc * 10 + (of_char c - 48)) 0"

lemma decimal_value_snoc: "decimal_value (s @ [c]) = decimal_value s * 10 + (of_char c - 48)"
  by (simp add: decimal_value_def)

lemma decimal_value_nat_text [simp]: "decimal_value (nat_text n) = n"
proof (induction n rule: nat_text.induct)
  case (1 n)
  show ?case
  proof (cases "n < 10")
    case True
    then show ?thesis by (subst nat_text.simps) (simp add: decimal_value_def)
  next
    case False
    with 1 show ?thesis by (subst nat_text.simps) (simp add: decimal_value_snoc)
  qed
qed

lemma nat_text_inject [simp]: "nat_text m = nat_text n \<longleftrightarrow> m = n"
  by (metis decimal_value_nat_text)

lemma nat_text_digits: "c \<in> set (nat_text n) \<Longrightarrow> 48 \<le> (of_char c :: nat) \<and> of_char c \<le> (57 :: nat)"
proof (induction n rule: nat_text.induct)
  case (1 n)
  show ?case
  proof (cases "n < 10")
    case True
    then show ?thesis using 1(2) by (subst (asm) nat_text.simps) simp
  next
    case False
    have "of_char (char_of (48 + n mod 10) :: char) = 48 + n mod 10" by simp
    moreover have "n mod 10 < 10" by simp
    ultimately show ?thesis using 1 False by (subst (asm) (2) nat_text.simps) auto
  qed
qed

lemma nat_text_nonempty [simp]: "nat_text n \<noteq> []"
  by (subst nat_text.simps) simp

end
