(* ===== verification/Text.thy ===== *)
theory Text
  imports Prelude
begin

text \<open>
  Text as bytes: the runes Go counts in a string, and Go's \<^verbatim>\<open>strings.TrimSpace\<close>. A leading or trailing rune is white space when its UTF-8
  encoding is one of the byte sequences below; bytes that encode no rune are no white space.
\<close>

section \<open>Runes\<close>

text \<open>The bytes after the first one of an encoded rune: how many a first byte asks for, and which range the
  second byte must lie in. A first byte that encodes nothing, or one without its bytes, is a rune of its own.\<close>

definition rune_tail :: "char \<Rightarrow> nat \<times> nat \<times> nat" where
  "rune_tail c = (let b = of_char c :: nat in
     if b < 0xC2 \<or> 0xF4 < b then (0, 0, 0)
     else if b \<le> 0xDF then (1, 0x80, 0xBF)
     else if b = 0xE0 then (2, 0xA0, 0xBF)
     else if b = 0xED then (2, 0x80, 0x9F)
     else if b \<le> 0xEF then (2, 0x80, 0xBF)
     else if b = 0xF0 then (3, 0x90, 0xBF)
     else if b = 0xF4 then (3, 0x80, 0x8F)
     else (3, 0x80, 0xBF))"

definition rune_rest :: "char \<Rightarrow> string \<Rightarrow> nat" where
  "rune_rest c cs = (case rune_tail c of (n, lo, hi) \<Rightarrow>
     (let next_bytes = map of_char (take n cs) :: nat list in
      if length next_bytes = n \<and> n \<noteq> 0 \<and> lo \<le> hd next_bytes \<and> hd next_bytes \<le> hi \<and>
         list_all (\<lambda>b. 0x80 \<le> b \<and> b \<le> 0xBF) (tl next_bytes) then n else 0))"

text \<open>\<^verbatim>\<open>utf8.RuneCountInString\<close>\<close>

fun rune_count :: "string \<Rightarrow> nat" where
  "rune_count [] = 0" |
  "rune_count (c # cs) = Suc (rune_count (drop (rune_rest c cs) cs))"

section \<open>White space\<close>

text \<open>The encodings of the runes \<^verbatim>\<open>unicode.IsSpace\<close> accepts: the six of ASCII, U+0085, U+00A0, U+1680, U+2000 to U+200A,
  U+2028, U+2029, U+202F, U+205F and U+3000.\<close>

definition utf8_spaces :: "string list" where
  "utf8_spaces = map (map char_of)
     ([[9], [10], [11], [12], [13], [32], [0xC2, 0x85], [0xC2, 0xA0], [0xE1, 0x9A, 0x80]] @
      map (\<lambda>n. [0xE2, 0x80, n]) [0x80, 0x81, 0x82, 0x83, 0x84, 0x85, 0x86, 0x87, 0x88, 0x89, 0x8A, 0xA8, 0xA9, 0xAF] @
      [[0xE2, 0x81, 0x9F], [0xE3, 0x80, 0x80 :: nat]])"

definition leading :: "string list \<Rightarrow> string \<Rightarrow> string option" where
  "leading spaces s = find (\<lambda>p. p \<noteq> [] \<and> take (length p) s = p) spaces"

lemma leading_shorter: "leading spaces s = Some p \<Longrightarrow> length (drop (length p) s) < length s"
proof -
  assume "leading spaces s = Some p"
  then have "p \<noteq> []" "take (length p) s = p" by (auto simp: leading_def find_Some_iff)
  then have "s \<noteq> []" by auto
  with \<open>p \<noteq> []\<close> show ?thesis by simp
qed

function trim_left :: "string list \<Rightarrow> string \<Rightarrow> string" where
  "trim_left spaces s = (case leading spaces s of None \<Rightarrow> s | Some p \<Rightarrow> trim_left spaces (drop (length p) s))"
  by pat_completeness auto
termination
  by (relation "measure (\<lambda>(_, s). length s)") (use leading_shorter in auto)

declare trim_left.simps [simp del]

definition TrimSpace :: "string \<Rightarrow> string" where
  "TrimSpace s = rev (trim_left (map rev utf8_spaces) (rev (trim_left utf8_spaces s)))"

lemma trim_left_Nil [simp]: "trim_left spaces [] = []"
  by (subst trim_left.simps) (auto simp: leading_def find_Some_iff split: option.split)

lemma TrimSpace_Nil [simp]: "TrimSpace [] = []"
  by (simp add: TrimSpace_def)

lemma trim_left_suffix: "\<exists>p. s = p @ trim_left spaces s"
proof (induction spaces s rule: trim_left.induct)
  case (1 spaces s)
  show ?case
  proof (cases "leading spaces s")
    case (Some p)
    then obtain q where "drop (length p) s = q @ trim_left spaces (drop (length p) s)" using 1 by blast
    then have "s = (take (length p) s @ q) @ trim_left spaces (drop (length p) s)"
      by (metis append.assoc append_take_drop_id)
    moreover have "trim_left spaces s = trim_left spaces (drop (length p) s)" using Some by (subst trim_left.simps) simp
    ultimately show ?thesis by metis
  qed (subst trim_left.simps, simp)
qed

lemma trim_left_fixed: "trim_left spaces s = s \<longleftrightarrow> leading spaces s = None"
proof
  assume s: "trim_left spaces s = s"
  show "leading spaces s = None"
  proof (rule ccontr)
    assume "leading spaces s \<noteq> None"
    then obtain p where p: "leading spaces s = Some p" by blast
    then have "trim_left spaces s = trim_left spaces (drop (length p) s)" by (subst trim_left.simps) simp
    moreover obtain q where "drop (length p) s = q @ trim_left spaces (drop (length p) s)"
      using trim_left_suffix by blast
    ultimately show False using s leading_shorter [OF p] by (metis length_append not_add_less2)
  qed
qed (subst trim_left.simps, simp)

lemma trim_left_trimmed: "leading spaces (trim_left spaces s) = None"
proof (induction spaces s rule: trim_left.induct)
  case (1 spaces s)
  then show ?case by (subst trim_left.simps) (auto split: option.split)
qed

end
