(* ===== verification/Agent_Card.thy ===== *)
theory Agent_Card
  imports Runtime_Contracts Json_Number Sha256 Text "HOL-Library.List_Lexorder" "HOL-Library.Char_ord"
begin

text \<open>
  Agent Cards, Workspaces and Installations (\<^verbatim>\<open>contracts/contracts.go\<close>, \<^verbatim>\<open>agent_card_semantics.go\<close>,
  \<^verbatim>\<open>installation_contracts.go\<close> and the parts of \<^verbatim>\<open>validate.go\<close> that check them). The schemas are predicates on
  the Go structures. A slice that JSON distinguishes from its nil value is an option. What the code
  takes from the semantic version and schema packages are the members of \<open>contract_library\<close>.
\<close>

section \<open>Data\<close>

record contract_library =
  clStrict :: "string \<Rightarrow> bool"
  clConstraint :: "string \<Rightarrow> bool"
  clCheck :: "string \<Rightarrow> string \<Rightarrow> bool"
  clPrerelease :: "string \<Rightarrow> string"
  clGreaterThan :: "string \<Rightarrow> string \<Rightarrow> bool"
  clEqual :: "string \<Rightarrow> string \<Rightarrow> bool"
  clSemverFormat :: "string \<Rightarrow> bool"
  clUriFormat :: "string \<Rightarrow> bool"

record agent_owner =
  aoID :: string
  aoDisplayName :: string

record agent_protocol =
  apType :: string
  apVersion :: string
  apTransport :: string
  apEndpoint :: string

record agent_skill =
  skID :: string
  skName :: string
  skDescription :: string
  skInputSchema :: "string option"
  skOutputSchema :: "string option"
  skRequiredPermissions :: "string list option"

record permission_declaration =
  pdID :: string
  pdDescription :: string

record agent_limits =
  alTimeoutMS :: int
  alMaxInputBytes :: string
  alMaxOutputBytes :: string
  alStreaming :: bool

record agent_card =
  acSchemaVersion :: string
  acAgentID :: string
  acName :: string
  acDescription :: string
  acOwner :: agent_owner
  acVersion :: string
  acProtocol :: agent_protocol
  acSkills :: "agent_skill list"
  acAuthenticationType :: string
  acPermissions :: "permission_declaration list option"
  acLimits :: agent_limits

record workspace =
  wkWorkspaceID :: string
  wkOwnerID :: string
  wkCreatedAt :: time
  wkUpdatedAt :: time

record installation =
  inInstallationID :: string
  inWorkspaceID :: string
  inAgentID :: string
  inVersionConstraint :: string
  inInstalledVersion :: string
  inInstalledReleaseID :: string
  inAcceptedPermissions :: "string list option"
  inStatus :: string
  inInstalledAt :: time
  inUpdatedAt :: time
  inUninstalledAt :: "time option"

text \<open>Ranging over a slice: the nil slice has no elements.\<close>

definition elems :: "'a list option \<Rightarrow> 'a list" where
  "elems s = (case s of None \<Rightarrow> [] | Some xs \<Rightarrow> xs)"

lemma elems_simps [simp]: "elems None = []" "elems (Some xs) = xs"
  by (simp_all add: elems_def)

section \<open>Semantic rules of Agent Cards\<close>

record semantic_violation =
  svRuleID :: string
  svPath :: string

text \<open>The loop that reports the second and later uses of an identifier.\<close>

fun duplicate_violations ::
    "string \<Rightarrow> string \<Rightarrow> string list \<Rightarrow> nat \<Rightarrow> string list \<Rightarrow> semantic_violation list" where
  "duplicate_violations rule base seen n [] = []" |
  "duplicate_violations rule base seen n (i # is) =
     (if i \<in> set seen then [\<lparr>svRuleID = rule, svPath = base @ nat_text n @ ''/id''\<rparr>] else []) @
     duplicate_violations rule base (i # seen) (Suc n) is"

fun undeclared_violations :: "string list \<Rightarrow> nat \<Rightarrow> nat \<Rightarrow> string list \<Rightarrow> semantic_violation list" where
  "undeclared_violations declared k n [] = []" |
  "undeclared_violations declared k n (p # ps) =
     (if p \<notin> set declared
      then [\<lparr>svRuleID = ''AC-SEM-003'', svPath = ''/skills/'' @ nat_text k @ ''/requiredPermissions/'' @ nat_text n\<rparr>]
      else []) @ undeclared_violations declared k (Suc n) ps"

fun skill_violations :: "string list \<Rightarrow> nat \<Rightarrow> agent_skill list \<Rightarrow> semantic_violation list" where
  "skill_violations declared k [] = []" |
  "skill_violations declared k (s # ss) =
     undeclared_violations declared k 0 (elems (skRequiredPermissions s)) @ skill_violations declared (Suc k) ss"

definition EvaluateAgentCardSemantics :: "agent_card \<Rightarrow> semantic_violation list" where
  "EvaluateAgentCardSemantics acard =
     duplicate_violations ''AC-SEM-001'' ''/skills/'' [] 0 (map skID (acSkills acard)) @
     duplicate_violations ''AC-SEM-002'' ''/permissions/'' [] 0 (map pdID (elems (acPermissions acard))) @
     skill_violations (map pdID (elems (acPermissions acard))) 0 (acSkills acard)"

section \<open>Schemas\<close>

definition text_between :: "nat \<Rightarrow> nat \<Rightarrow> string \<Rightarrow> bool" where
  "text_between lo hi s \<longleftrightarrow> lo \<le> rune_count s \<and> rune_count s \<le> hi"

definition regex_space :: "char \<Rightarrow> bool" where
  "regex_space c \<longleftrightarrow> c \<in> {CHR 0x09, CHR 0x0A, CHR 0x0C, CHR 0x0D, CHR '' ''}"

text \<open>\<^verbatim>\<open>^https?://[^@\s/?#]+(?:[/?#][^\s]*)?$\<close>\<close>

definition endpointPattern :: rexp where
  "endpointPattern = rseqs
     [rseqs (map rchar ''http''), ropt (rchar CHR ''s''), rseqs (map rchar ''://''),
      rplus (RCls (\<lambda>c. \<not> regex_space c \<and> c \<notin> set ''@/?#'')),
      ropt (RSeq (RCls (\<lambda>c. c \<in> set ''/?#'')) (RStar (RCls (\<lambda>c. \<not> regex_space c))))]"

definition skill_schema :: "agent_skill \<Rightarrow> bool" where
  "skill_schema s \<longleftrightarrow> MatchString safeIdentifierPattern (skID s) \<and> text_between 1 120 (skName s) \<and>
     text_between 1 2000 (skDescription s) \<and> skInputSchema s \<noteq> None \<and> skOutputSchema s \<noteq> None \<and>
     (case skRequiredPermissions s of None \<Rightarrow> False
      | Some ps \<Rightarrow> distinct ps \<and> list_all (MatchString safeIdentifierPattern) ps)"

definition permission_schema :: "permission_declaration \<Rightarrow> bool" where
  "permission_schema p \<longleftrightarrow> MatchString safeIdentifierPattern (pdID p) \<and> text_between 1 1000 (pdDescription p)"

definition agent_card_schema :: "contract_library \<Rightarrow> agent_card \<Rightarrow> bool" where
  "agent_card_schema lib acard \<longleftrightarrow>
     acSchemaVersion acard = ''0.2'' \<and>
     MatchString safeIdentifierPattern (acAgentID acard) \<and>
     text_between 1 120 (acName acard) \<and> text_between 1 4000 (acDescription acard) \<and>
     MatchString safeIdentifierPattern (aoID (acOwner acard)) \<and> text_between 1 120 (aoDisplayName (acOwner acard)) \<and>
     clSemverFormat lib (acVersion acard) \<and> MatchString semverPattern (acVersion acard) \<and>
     apType (acProtocol acard) = ''a2a'' \<and> apVersion (acProtocol acard) = ''0.3.0'' \<and>
     apTransport (acProtocol acard) = ''JSONRPC'' \<and>
     clUriFormat lib (apEndpoint (acProtocol acard)) \<and> rune_count (apEndpoint (acProtocol acard)) \<le> 2048 \<and>
     MatchString endpointPattern (apEndpoint (acProtocol acard)) \<and>
     acSkills acard \<noteq> [] \<and> list_all skill_schema (acSkills acard) \<and>
     acAuthenticationType acard \<in> {''none'', ''api_key'', ''http_bearer'', ''oauth2_client_credentials'', ''mutual_tls''} \<and>
     (case acPermissions acard of None \<Rightarrow> False | Some ps \<Rightarrow> list_all permission_schema ps) \<and>
     1 \<le> alTimeoutMS (acLimits acard) \<and> alTimeoutMS (acLimits acard) \<le> 600000"

datatype card_error = CardLimit limit_error | CardSchema | CardSemantics "semantic_violation list"

definition ValidateAgentCard :: "contract_library \<Rightarrow> agent_card \<Rightarrow> card_error option" where
  "ValidateAgentCard lib acard =
     (case validatePositiveJSONInteger (alMaxInputBytes (acLimits acard)) ''/limits/maxInputBytes'' of
        Some e \<Rightarrow> Some (CardLimit e)
      | None \<Rightarrow>
        (case validatePositiveJSONInteger (alMaxOutputBytes (acLimits acard)) ''/limits/maxOutputBytes'' of
           Some e \<Rightarrow> Some (CardLimit e)
         | None \<Rightarrow>
           if \<not> agent_card_schema lib acard then Some CardSchema
           else (case EvaluateAgentCardSemantics acard of [] \<Rightarrow> None | vs \<Rightarrow> Some (CardSemantics vs))))"

text \<open>\<^verbatim>\<open>time.Time.MarshalJSON\<close> refuses years outside 0 to 9999.\<close>

definition time_Marshal :: "time \<Rightarrow> bool" where
  "time_Marshal t \<longleftrightarrow> - 31622400 * Second \<le> t \<and> t < 315537897600 * Second"

definition ValidateWorkspace :: "workspace \<Rightarrow> contract_error option" where
  "ValidateWorkspace w =
     (if time_Marshal (wkCreatedAt w) \<and> time_Marshal (wkUpdatedAt w) \<and>
         MatchString safeIdentifierPattern (wkWorkspaceID w) \<and> MatchString safeIdentifierPattern (wkOwnerID w)
      then None else Some SchemaViolation)"

definition installation_schema :: "contract_library \<Rightarrow> installation \<Rightarrow> bool" where
  "installation_schema lib i \<longleftrightarrow>
     time_Marshal (inInstalledAt i) \<and> time_Marshal (inUpdatedAt i) \<and>
     (case inUninstalledAt i of None \<Rightarrow> True | Some t \<Rightarrow> time_Marshal t) \<and>
     MatchString safeIdentifierPattern (inInstallationID i) \<and> MatchString safeIdentifierPattern (inWorkspaceID i) \<and>
     MatchString safeIdentifierPattern (inAgentID i) \<and>
     inVersionConstraint i \<noteq> [] \<and> list_ex (\<lambda>c. \<not> regex_space c) (inVersionConstraint i) \<and>
     clConstraint lib (inVersionConstraint i) \<and>
     clSemverFormat lib (inInstalledVersion i) \<and> MatchString semverPattern (inInstalledVersion i) \<and>
     (inInstalledReleaseID i \<noteq> [] \<longrightarrow> MatchString safeIdentifierPattern (inInstalledReleaseID i)) \<and>
     (case inAcceptedPermissions i of None \<Rightarrow> False
      | Some ps \<Rightarrow> distinct ps \<and> list_all (MatchString safeIdentifierPattern) ps) \<and>
     inStatus i \<in> {''enabled'', ''disabled'', ''uninstalled''} \<and>
     (inStatus i = ''uninstalled'' \<longleftrightarrow> inUninstalledAt i \<noteq> None)"

section \<open>Installations\<close>

datatype installation_error = InstallationSchema | InstallationRule string

text \<open>The loops compare neighbouring elements of a slice.\<close>

fun strictly_ascending :: "string list \<Rightarrow> bool" where
  "strictly_ascending (a # b # cs) = (\<not> a \<ge> b \<and> strictly_ascending (b # cs))" |
  "strictly_ascending _ = True"

definition validateInstallationV2Semantics :: "contract_library \<Rightarrow> installation \<Rightarrow> installation_error option" where
  "validateInstallationV2Semantics lib i =
     (if \<not> strictly_ascending (elems (inAcceptedPermissions i)) then Some (InstallationRule ''INST-SEM-001'')
      else if inInstalledAt i > inUpdatedAt i then Some (InstallationRule ''INST-SEM-002'')
      else if inStatus i = ''uninstalled'' \<and> inUninstalledAt i \<noteq> Some (inUpdatedAt i)
      then Some (InstallationRule ''INST-SEM-003'')
      else if \<not> clConstraint lib (inVersionConstraint i) then Some (InstallationRule ''INST-SEM-005'')
      else if \<not> clStrict lib (inInstalledVersion i) \<or> \<not> clCheck lib (inVersionConstraint i) (inInstalledVersion i)
      then Some (InstallationRule ''INST-SEM-005'')
      else None)"

definition ValidateInstallation :: "contract_library \<Rightarrow> installation \<Rightarrow> installation_error option" where
  "ValidateInstallation lib i =
     (if \<not> installation_schema lib i then Some InstallationSchema else validateInstallationV2Semantics lib i)"

definition ValidateInstallationImmutablePin :: "installation \<Rightarrow> installation \<Rightarrow> installation_error option" where
  "ValidateInstallationImmutablePin before after =
     (if inVersionConstraint before \<noteq> inVersionConstraint after \<or>
         inInstalledVersion before \<noteq> inInstalledVersion after \<or>
         inInstalledReleaseID before \<noteq> inInstalledReleaseID after \<or>
         length (elems (inAcceptedPermissions before)) \<noteq> length (elems (inAcceptedPermissions after))
      then Some (InstallationRule ''INST-SEM-004'')
      else if list_all (\<lambda>(b, a). b = a) (zip (elems (inAcceptedPermissions before)) (elems (inAcceptedPermissions after)))
      then None
      else Some (InstallationRule ''INST-SEM-004''))"

section \<open>Resolution responses\<close>

record resolve_request =
  rqInvocationID :: string
  rqRootTaskID :: string
  rqTraceID :: string
  rqWorkspaceID :: string
  rqAgentID :: string
  rqVersion :: string
  rqCapability :: string

record resolved_installation =
  riInstallationID :: string
  riWorkspaceID :: string
  riAgentID :: string
  riInstalledVersion :: string
  riInstalledReleaseID :: string
  riAgentCardDigest :: string
  riAcceptedPermissions :: "string list option"
  riStatus :: string

record resolve_response =
  rsCard :: agent_card
  rsInstallation :: resolved_installation

definition ValidateResolveAgentRequestV1 :: "contract_library \<Rightarrow> resolve_request \<Rightarrow> contract_error option" where
  "ValidateResolveAgentRequestV1 lib q =
     first_error
       (each_error (\<lambda>(name, value). validateSafeContractIdentifier name value)
          [(''invocation id'', rqInvocationID q), (''root task id'', rqRootTaskID q), (''workspace id'', rqWorkspaceID q),
           (''agent id'', rqAgentID q), (''capability'', rqCapability q)])
       (if isl (ParseTraceID (rqTraceID q)) then Some (Errorf ''invalid trace id'')
        else if \<not> clStrict lib (rqVersion q) then Some (Errorf ''invalid Agent version'') else None)"

definition ValidateResolveAgentResponseForRequest ::
    "contract_library \<Rightarrow> resolve_request \<Rightarrow> resolve_response \<Rightarrow> contract_error option" where
  "ValidateResolveAgentResponseForRequest lib q r =
     (let acard = rsCard r; i = rsInstallation r in
      case ValidateResolveAgentRequestV1 lib q of Some e \<Rightarrow> Some e
    | None \<Rightarrow>
      if ValidateAgentCard lib acard \<noteq> None then Some (Errorf ''card'')
      else if acAgentID acard \<noteq> rqAgentID q \<or> acVersion acard \<noteq> rqVersion q
      then Some (Errorf ''resolved Card identity does not match request'')
      else (case validateSafeContractIdentifier ''installation id'' (riInstallationID i) of Some e \<Rightarrow> Some e
      | None \<Rightarrow>
        if riWorkspaceID i \<noteq> rqWorkspaceID q \<or> riAgentID i \<noteq> rqAgentID q \<or>
           riInstalledVersion i \<noteq> rqVersion q \<or> riStatus i \<noteq> ''enabled''
        then Some (Errorf ''resolved Installation identity does not match request'')
        else (case ValidateInvocationReleaseProvenance (riInstalledReleaseID i) (riAgentCardDigest i) of
          Some e \<Rightarrow> Some (Wrapped ''resolved Installation release provenance is invalid'' e)
        | None \<Rightarrow>
          if \<not> strictly_ascending (elems (riAcceptedPermissions i))
          then Some (Errorf ''resolved Installation permissions are not canonical'')
          else (case each_error (\<lambda>p. first_error (validateSafeContractIdentifier ''accepted permission'' p)
                  (if p \<notin> set (map pdID (elems (acPermissions acard)))
                   then Some (Errorf ''resolved Installation contains an undeclared permission'') else None))
                  (elems (riAcceptedPermissions i)) of
            Some e \<Rightarrow> Some e
          | None \<Rightarrow>
            (case find (\<lambda>s. skID s = rqCapability q) (acSkills acard) of
               None \<Rightarrow> Some (Errorf ''requested capability is not declared by resolved Card'')
             | Some s \<Rightarrow>
               if list_all (\<lambda>p. p \<in> set (elems (riAcceptedPermissions i))) (elems (skRequiredPermissions s))
               then None
               else Some (Errorf ''resolved Installation does not authorize requested capability''))))))"

section \<open>What the semantic checks decide\<close>

lemma duplicate_violations_empty:
  "duplicate_violations rule base seen n is = [] \<longleftrightarrow> distinct is \<and> set is \<inter> set seen = {}"
  by (induction "is" arbitrary: seen n) auto

lemma undeclared_violations_empty: "undeclared_violations declared k n ps = [] \<longleftrightarrow> set ps \<subseteq> set declared"
  by (induction ps arbitrary: n) auto

lemma skill_violations_empty:
  "skill_violations declared k ss = [] \<longleftrightarrow> (\<forall>s\<in>set ss. set (elems (skRequiredPermissions s)) \<subseteq> set declared)"
  by (induction ss arbitrary: k) (auto simp: undeclared_violations_empty)

lemma duplicate_violations_rule: "v \<in> set (duplicate_violations rule base seen n is) \<Longrightarrow> svRuleID v = rule"
  by (induction "is" arbitrary: seen n) (auto split: if_splits)

lemma undeclared_violations_rule: "v \<in> set (undeclared_violations declared k n ps) \<Longrightarrow> svRuleID v = ''AC-SEM-003''"
  by (induction ps arbitrary: n) (auto split: if_splits)

lemma skill_violations_rule: "v \<in> set (skill_violations declared k ss) \<Longrightarrow> svRuleID v = ''AC-SEM-003''"
  by (induction ss arbitrary: k) (auto dest: undeclared_violations_rule)

text \<open>The semantic evaluation of an Agent Card reports exactly the rules the card violates:
  AC-SEM-001 when two skills share an identifier, AC-SEM-002 when two permissions do, and AC-SEM-003
  when a skill requires a permission the card does not declare; nothing else is ever reported.\<close>

theorem card_semantics_exact:
  "svRuleID ` set (EvaluateAgentCardSemantics acard) =
     (if distinct (map skID (acSkills acard)) then {} else {''AC-SEM-001''}) \<union>
     (if distinct (map pdID (elems (acPermissions acard))) then {} else {''AC-SEM-002''}) \<union>
     (if list_all (\<lambda>s. set (elems (skRequiredPermissions s)) \<subseteq> set (map pdID (elems (acPermissions acard)))) (acSkills acard)
      then {} else {''AC-SEM-003''})"
proof -
  have reported: "svRuleID ` set vs = (if vs = [] then {} else {r})" if "\<forall>v\<in>set vs. svRuleID v = r"
    for vs :: "semantic_violation list" and r
    using that by (cases vs) auto
  let ?P = "map pdID (elems (acPermissions acard))"
  have "svRuleID ` set (duplicate_violations rule base [] 0 is) = (if distinct is then {} else {rule})" for rule base "is"
    using reported [of "duplicate_violations rule base [] 0 is" rule]
    by (simp add: duplicate_violations_empty duplicate_violations_rule)
  moreover have "svRuleID ` set (skill_violations ?P 0 (acSkills acard)) =
      (if list_all (\<lambda>s. set (elems (skRequiredPermissions s)) \<subseteq> set ?P) (acSkills acard) then {} else {''AC-SEM-003''})"
    using reported [of "skill_violations ?P 0 (acSkills acard)" "''AC-SEM-003''"]
      skill_violations_rule [of _ ?P 0 "acSkills acard"]
    by (simp only: skill_violations_empty list_all_iff) blast
  ultimately show ?thesis by (simp only: EvaluateAgentCardSemantics_def set_append image_Un Un_assoc)
qed

lemma strictly_ascending_iff: "strictly_ascending xs \<longleftrightarrow> sorted_wrt (<) xs"
proof (induction xs rule: strictly_ascending.induct)
  case (1 a b cs)
  then show ?case by (auto simp: not_le intro: less_trans)
qed auto

lemma immutable_pin_iff:
  "ValidateInstallationImmutablePin b a = None \<longleftrightarrow>
     inVersionConstraint b = inVersionConstraint a \<and> inInstalledVersion b = inInstalledVersion a \<and>
     inInstalledReleaseID b = inInstalledReleaseID a \<and>
     elems (inAcceptedPermissions b) = elems (inAcceptedPermissions a)"
proof -
  have "list_all (\<lambda>(b, a). b = a) (zip xs ys) \<longleftrightarrow> xs = ys" if "length xs = length ys" for xs ys :: "string list"
    using that by (induction xs ys rule: list_induct2) auto
  then show ?thesis by (auto simp: ValidateInstallationImmutablePin_def)
qed

end
