(* ===== verification/Lifecycle.thy ===== *)
theory Lifecycle
  imports Runtime_Contracts
begin

text \<open>
  Correctness of the runtime contracts of theory \<open>Runtime_Contracts\<close>.  The lifecycle of an
  invocation is specified as an automaton over event types; the stateful validators are shown to
  accept exactly the event lists this automaton and the numbering rules describe.  The projections
  a reader receives are characterised in the same way.
\<close>

subsection \<open>Specification of an invocation lifecycle\<close>

datatype phase = Fresh | Pending | Routing | Running | Finished

definition terminal_type :: "string \<Rightarrow> bool" where
  "terminal_type t \<longleftrightarrow> t \<in> {''succeeded'', ''failed'', ''canceled'', ''timed_out''}"

fun lifecycle_next :: "phase \<Rightarrow> string \<Rightarrow> phase option" where
  "lifecycle_next Fresh t = (if t = ''created'' then Some Pending else None)" |
  "lifecycle_next Pending t =
     (if t = ''routing'' then Some Routing
      else if t \<in> {''canceled'', ''timed_out''} then Some Finished else None)" |
  "lifecycle_next Routing t =
     (if t = ''started'' then Some Running
      else if t \<in> {''failed'', ''canceled'', ''timed_out''} then Some Finished else None)" |
  "lifecycle_next Running t =
     (if t = ''stream'' then Some Running
      else if terminal_type t then Some Finished else None)" |
  "lifecycle_next Finished t = None"

fun lifecycle_phase :: "phase \<Rightarrow> string list \<Rightarrow> phase option" where
  "lifecycle_phase p [] = Some p" |
  "lifecycle_phase p (t # ts) = Option.bind (lifecycle_next p t) (\<lambda>q. lifecycle_phase q ts)"

definition stream_events :: "invocation_event list \<Rightarrow> invocation_event list" where
  "stream_events evs = filter (\<lambda>e. evType e = ''stream'') evs"

definition well_formed_lifecycle :: "(string \<Rightarrow> bool) \<Rightarrow> invocation_event list \<Rightarrow> bool" where
  "well_formed_lifecycle strict evs \<longleftrightarrow>
     list_all (\<lambda>e. ValidateInvocationEventV03 strict e = None) evs \<and>
     list_all (\<lambda>e. sameRuntimeInvocationContext (hd evs) e) evs \<and>
     map evSequence evs = map int [0..<length evs] \<and>
     lifecycle_phase Fresh (map evType evs) \<noteq> None \<and>
     map evChunkIndex (stream_events evs) = map (\<lambda>i. Some (int i)) [0..<length (stream_events evs)]"

text \<open>The state of the validator after an accepted list of events.\<close>

definition validator_of :: "invocation_event list \<Rightarrow> sequence_validator" where
  "validator_of evs = \<lparr>svLast = (if evs = [] then None else Some (last evs)),
     svNextSequence = int (length evs), svNextChunkIndex = int (length (stream_events evs)),
     svTerminal = (evs \<noteq> [] \<and> isRuntimeTerminalStatus (evStatus (last evs)))\<rparr>"

subsection \<open>Facts about validated events\<close>

lemma sameRuntimeInvocationContext_refl [simp]: "sameRuntimeInvocationContext e e"
  by (simp add: sameRuntimeInvocationContext_def)

lemma sameRuntimeInvocationContext_sym: "sameRuntimeInvocationContext a b \<Longrightarrow> sameRuntimeInvocationContext b a"
  by (simp add: sameRuntimeInvocationContext_def)

lemma sameRuntimeInvocationContext_trans:
  "sameRuntimeInvocationContext a b \<Longrightarrow> sameRuntimeInvocationContext b c \<Longrightarrow> sameRuntimeInvocationContext a c"
  by (simp add: sameRuntimeInvocationContext_def)

definition status_of_type :: "string \<Rightarrow> string" where
  "status_of_type t = (if t = ''created'' then ''pending''
     else if t = ''started'' \<or> t = ''stream'' then ''running'' else t)"

lemma valid_event_schema:
  "ValidateInvocationEventV03 strict e = None \<Longrightarrow> event_members_schema strict e \<and> event_type_rules e"
  by (simp add: ValidateInvocationEventV03_def event_schema_def split: if_splits)

lemma valid_event_type:
  assumes "ValidateInvocationEventV03 strict e = None"
  shows "evType e \<in> set event_type_enum"
  using valid_event_schema [OF assms] by (simp add: event_members_schema_def)

lemma valid_event_typeE:
  assumes "ValidateInvocationEventV03 strict e = None"
  obtains "evType e = ''created''" | "evType e = ''routing''" | "evType e = ''started''"
    | "evType e = ''stream''" | "evType e = ''succeeded''" | "evType e = ''failed''"
    | "evType e = ''canceled''" | "evType e = ''timed_out''"
  using valid_event_type [OF assms] unfolding event_type_enum_def
  by (simp only: set_simps insert_iff empty_iff) blast

lemma valid_event_status:
  assumes "ValidateInvocationEventV03 strict e = None"
  shows "evStatus e = status_of_type (evType e)"
proof -
  have rules: "event_type_rules e" using valid_event_schema [OF assms] by blast
  from assms show ?thesis
    by (cases rule: valid_event_typeE) (use rules in \<open>simp_all add: event_type_rules_def status_of_type_def\<close>)
qed

lemma terminal_status_of_type:
  "t \<in> set event_type_enum \<Longrightarrow> isRuntimeTerminalStatus (status_of_type t) \<longleftrightarrow> terminal_type t"
proof -
  have "list_all (\<lambda>t. isRuntimeTerminalStatus (status_of_type t) \<longleftrightarrow> terminal_type t) event_type_enum"
    by code_simp
  then show "t \<in> set event_type_enum \<Longrightarrow> isRuntimeTerminalStatus (status_of_type t) \<longleftrightarrow> terminal_type t"
    by (simp only: list_all_iff)
qed

text \<open>The phase a lifecycle is in after an event of a given type.\<close>

definition phase_of_type :: "string \<Rightarrow> phase" where
  "phase_of_type t = (if t = ''created'' then Pending else if t = ''routing'' then Routing
     else if t = ''started'' \<or> t = ''stream'' then Running else Finished)"

lemma lifecycle_next_target: "lifecycle_next p t = Some q \<Longrightarrow> q = phase_of_type t"
  by (cases p) (auto simp: phase_of_type_def terminal_type_def split: if_splits)

lemma lifecycle_next_terminal: "lifecycle_next p t = Some q \<Longrightarrow> terminal_type t \<Longrightarrow> q = Finished"
  by (cases p) (auto simp: terminal_type_def split: if_splits)

lemma lifecycle_phase_append:
  "lifecycle_phase p (ts @ us) = Option.bind (lifecycle_phase p ts) (\<lambda>q. lifecycle_phase q us)"
  by (induction ts arbitrary: p) (auto split: Option.bind_splits)

lemma lifecycle_phase_last:
  "lifecycle_phase p ts = Some q \<Longrightarrow> ts \<noteq> [] \<Longrightarrow> q = phase_of_type (last ts)"
proof (induction ts arbitrary: p)
  case (Cons t ts)
  then obtain r where r: "lifecycle_next p t = Some r" "lifecycle_phase r ts = Some q"
    by (auto simp: bind_eq_Some_conv)
  show ?case
  proof (cases ts)
    case Nil then show ?thesis using r lifecycle_next_target by simp
  next
    case Cons then show ?thesis using r Cons.IH [of r] by simp
  qed
qed simp

lemma transition_next:
  assumes "t \<in> set event_type_enum" "u \<in> set event_type_enum"
  shows "validRuntimeTransition (status_of_type t) u (status_of_type u) \<longleftrightarrow>
     lifecycle_next (phase_of_type t) u \<noteq> None"
proof -
  have "list_all (\<lambda>t. list_all (\<lambda>u. validRuntimeTransition (status_of_type t) u (status_of_type u) \<longleftrightarrow>
     lifecycle_next (phase_of_type t) u \<noteq> None) event_type_enum) event_type_enum"
    by code_simp
  with assms show ?thesis by (simp only: list_all_iff)
qed

subsection \<open>The sequence validator accepts exactly the well-formed lifecycles\<close>

lemma sequence_Accept_Inr:
  "sequence_Accept strict v e = Inr v' \<longleftrightarrow>
     \<not> svTerminal v \<and> ValidateInvocationEventV03 strict e = None \<and> evSequence e = svNextSequence v \<and>
     sequence_order_check v e = None \<and>
     (evType e = ''stream'' \<longrightarrow> evChunkIndex e = Some (svNextChunkIndex v)) \<and>
     v' = \<lparr>svLast = Some e, svNextSequence = svNextSequence v + 1,
           svNextChunkIndex = (if evType e = ''stream'' then svNextChunkIndex v + 1 else svNextChunkIndex v),
           svTerminal = isRuntimeTerminalStatus (evStatus e)\<rparr>"
  by (auto simp: sequence_Accept_def split: option.splits)

lemma sequence_order_check_None:
  "sequence_order_check v e = None \<longleftrightarrow>
     (case svLast v of None \<Rightarrow> evType e = ''created'' \<and> evStatus e = ''pending''
      | Some prev \<Rightarrow> sameRuntimeInvocationContext prev e
          \<and> validRuntimeTransition (evStatus prev) (evType e) (evStatus e))"
  by (auto simp: sequence_order_check_def split: option.splits)

lemma sequence_accept_all_append:
  "sequence_accept_all strict v (xs @ ys) =
     rbind (sequence_accept_all strict v xs) (\<lambda>v'. sequence_accept_all strict v' ys)"
proof (induction xs arbitrary: v)
  case (Cons x xs)
  then show ?case by (cases "sequence_Accept strict v x") auto
qed simp

lemma stream_events_simps [simp]:
  "stream_events [] = []"
  "stream_events (e # evs) = (if evType e = ''stream'' then e # stream_events evs else stream_events evs)"
  "stream_events (evs @ es) = stream_events evs @ stream_events es"
  by (simp_all add: stream_events_def)

lemma well_formed_Nil [simp]: "well_formed_lifecycle strict []"
  by (simp add: well_formed_lifecycle_def)

lemma well_formed_snoc:
  "well_formed_lifecycle strict (evs @ [e]) \<longleftrightarrow>
     well_formed_lifecycle strict evs \<and> ValidateInvocationEventV03 strict e = None \<and>
     (evs \<noteq> [] \<longrightarrow> sameRuntimeInvocationContext (hd evs) e) \<and> evSequence e = int (length evs) \<and>
     (\<exists>p. lifecycle_phase Fresh (map evType evs) = Some p \<and> lifecycle_next p (evType e) \<noteq> None) \<and>
     (evType e = ''stream'' \<longrightarrow> evChunkIndex e = Some (int (length (stream_events evs))))"
  by (cases evs)
    (auto simp: well_formed_lifecycle_def lifecycle_phase_append bind_eq_Some_conv
      split: Option.bind_splits)

lemma well_formed_last:
  assumes "well_formed_lifecycle strict evs" "evs \<noteq> []"
  shows "ValidateInvocationEventV03 strict (last evs) = None"
    "sameRuntimeInvocationContext (hd evs) (last evs)"
    "lifecycle_phase Fresh (map evType evs) = Some (phase_of_type (evType (last evs)))"
proof -
  from assms show "ValidateInvocationEventV03 strict (last evs) = None"
    "sameRuntimeInvocationContext (hd evs) (last evs)"
    by (auto simp: well_formed_lifecycle_def list_all_iff)
  from assms obtain q where "lifecycle_phase Fresh (map evType evs) = Some q"
    by (auto simp: well_formed_lifecycle_def)
  with lifecycle_phase_last [OF this] assms(2)
  show "lifecycle_phase Fresh (map evType evs) = Some (phase_of_type (evType (last evs)))"
    by (simp add: last_map)
qed

lemma sequence_Accept_validator_of:
  assumes wf: "well_formed_lifecycle strict evs"
  shows "sequence_Accept strict (validator_of evs) e = Inr v' \<longleftrightarrow>
     well_formed_lifecycle strict (evs @ [e]) \<and> v' = validator_of (evs @ [e])"
proof (cases "evs = []")
  case True
  then show ?thesis
    using valid_event_status [of strict e]
    by (auto simp: sequence_Accept_Inr sequence_order_check_None well_formed_snoc [of strict "[]", simplified]
        validator_of_def status_of_type_def stream_events_def split: if_splits)
next
  case False
  note prev = well_formed_last [OF wf False]
  have ctx: "sameRuntimeInvocationContext (last evs) e \<longleftrightarrow> sameRuntimeInvocationContext (hd evs) e"
    using prev(2) sameRuntimeInvocationContext_sym sameRuntimeInvocationContext_trans by blast
  have trans: "validRuntimeTransition (evStatus (last evs)) (evType e) (evStatus e) \<longleftrightarrow>
      lifecycle_next (phase_of_type (evType (last evs))) (evType e) \<noteq> None"
    and terminal: "isRuntimeTerminalStatus (evStatus (last evs)) \<longrightarrow>
      lifecycle_next (phase_of_type (evType (last evs))) (evType e) = None"
    if valid: "ValidateInvocationEventV03 strict e = None"
    using transition_next [OF valid_event_type [OF prev(1)] valid_event_type [OF valid]]
      valid_event_status [OF prev(1)] valid_event_status [OF valid]
      terminal_status_of_type [OF valid_event_type [OF prev(1)]]
    by (auto simp: terminal_type_def phase_of_type_def)
  show ?thesis
    using False wf prev(3) ctx trans terminal
    by (auto simp: sequence_Accept_Inr sequence_order_check_None well_formed_snoc validator_of_def)
qed

lemma sequence_accept_all_iff:
  "sequence_accept_all strict initial_sequence_validator evs = Inr v \<longleftrightarrow>
     well_formed_lifecycle strict evs \<and> v = validator_of evs"
proof (induction evs arbitrary: v rule: rev_induct)
  case Nil
  show ?case by (auto simp: initial_sequence_validator_def validator_of_def stream_events_def)
next
  case (snoc e evs)
  have "sequence_accept_all strict initial_sequence_validator (evs @ [e]) = Inr v \<longleftrightarrow>
      well_formed_lifecycle strict evs \<and> sequence_Accept strict (validator_of evs) e = Inr v"
    by (auto simp: sequence_accept_all_append snoc.IH)
  also have "\<dots> \<longleftrightarrow> well_formed_lifecycle strict (evs @ [e]) \<and> v = validator_of (evs @ [e])"
    using sequence_Accept_validator_of well_formed_snoc by blast
  finally show ?case .
qed

subsection \<open>The result stream validator\<close>

definition open_stream :: "string list \<Rightarrow> bool" where
  "open_stream ts \<longleftrightarrow> ts = [] \<or> hd ts = ''accepted'' \<and> list_all (\<lambda>t. t = ''chunk'') (tl ts)"

text \<open>A complete stream: one accepted event, any number of chunks, one terminal event.\<close>

definition complete_stream :: "string list \<Rightarrow> bool" where
  "complete_stream ts \<longleftrightarrow>
     (\<exists>n t. ts = ''accepted'' # replicate n ''chunk'' @ [t] \<and> isResultStreamTerminal t)"

definition chunk_events :: "stream_event list \<Rightarrow> stream_event list" where
  "chunk_events evs = filter (\<lambda>e. seType e = ''chunk'') evs"

definition numbered_stream :: "string \<Rightarrow> string \<Rightarrow> string \<Rightarrow> stream_event list \<Rightarrow> bool" where
  "numbered_stream invocationID rootTaskID traceID evs \<longleftrightarrow>
     list_all (\<lambda>e. ValidateInvocationResultStreamEventV2 e = None \<and> seInvocationID e = invocationID
        \<and> seRootTaskID e = rootTaskID \<and> seTraceID e = traceID) evs \<and>
     map seSequence evs = map int [0..<length evs] \<and>
     map seChunkIndex (chunk_events evs) = map (\<lambda>i. Some (int i)) [0..<length (chunk_events evs)]"

definition stream_validator_of :: "string \<Rightarrow> string \<Rightarrow> string \<Rightarrow> stream_event list \<Rightarrow> stream_validator" where
  "stream_validator_of invocationID rootTaskID traceID evs =
     \<lparr>rvInvocationID = invocationID, rvRootTaskID = rootTaskID, rvTraceID = traceID,
      rvNextSequence = int (length evs), rvNextChunkIndex = int (length (chunk_events evs)),
      rvTerminal = (evs \<noteq> [] \<and> isResultStreamTerminal (seType (last evs))), rvClosed = False\<rparr>"

lemma stream_event_type:
  "ValidateInvocationResultStreamEventV2 e = None \<Longrightarrow>
     seType e = ''accepted'' \<or> seType e = ''chunk'' \<or> isResultStreamTerminal (seType e)"
  by (auto simp: ValidateInvocationResultStreamEventV2_def stream_event_schema_def isResultStreamTerminal_def
      split: if_splits)

lemma stream_Accept_Inr:
  "stream_Accept v e = Inr v' \<longleftrightarrow>
     \<not> rvClosed v \<and> \<not> rvTerminal v \<and> ValidateInvocationResultStreamEventV2 e = None \<and>
     seInvocationID e = rvInvocationID v \<and> seRootTaskID e = rvRootTaskID v \<and> seTraceID e = rvTraceID v \<and>
     seSequence e = rvNextSequence v \<and>
     (rvNextSequence v = 0 \<longrightarrow> seType e = ''accepted'') \<and> (rvNextSequence v > 0 \<longrightarrow> seType e \<noteq> ''accepted'') \<and>
     (seType e = ''chunk'' \<longrightarrow> seChunkIndex e = Some (rvNextChunkIndex v)) \<and>
     v' = v\<lparr>rvNextChunkIndex := (if seType e = ''chunk'' then rvNextChunkIndex v + 1 else rvNextChunkIndex v),
            rvNextSequence := rvNextSequence v + 1, rvTerminal := isResultStreamTerminal (seType e)\<rparr>"
  by (auto simp: stream_Accept_def split: option.splits)

lemma stream_accept_all_append:
  "stream_accept_all v (xs @ ys) = rbind (stream_accept_all v xs) (\<lambda>v'. stream_accept_all v' ys)"
proof (induction xs arbitrary: v)
  case (Cons x xs)
  then show ?case by (cases "stream_Accept v x") auto
qed simp

lemma chunk_events_simps [simp]:
  "chunk_events [] = []"
  "chunk_events (e # evs) = (if seType e = ''chunk'' then e # chunk_events evs else chunk_events evs)"
  "chunk_events (evs @ es) = chunk_events evs @ chunk_events es"
  by (simp_all add: chunk_events_def)

lemma numbered_stream_snoc:
  "numbered_stream i r t (evs @ [e]) \<longleftrightarrow> numbered_stream i r t evs \<and>
     ValidateInvocationResultStreamEventV2 e = None \<and> seInvocationID e = i \<and> seRootTaskID e = r \<and>
     seTraceID e = t \<and> seSequence e = int (length evs) \<and>
     (seType e = ''chunk'' \<longrightarrow> seChunkIndex e = Some (int (length (chunk_events evs))))"
  by (auto simp: numbered_stream_def)

lemma isResultStreamTerminal_simps [simp]:
  "\<not> isResultStreamTerminal ''accepted''" "\<not> isResultStreamTerminal ''chunk''"
  by (simp_all add: isResultStreamTerminal_def)

lemma open_stream_snoc:
  "open_stream (ts @ [t]) \<longleftrightarrow> (ts = [] \<and> t = ''accepted'') \<or> (ts \<noteq> [] \<and> open_stream ts \<and> t = ''chunk'')"
  by (cases ts) (auto simp: open_stream_def)

lemma open_stream_no_terminal: "open_stream ts \<Longrightarrow> ts \<noteq> [] \<Longrightarrow> \<not> isResultStreamTerminal (last ts)"
  by (induction ts rule: rev_induct) (auto simp: open_stream_snoc)

lemma complete_stream_snoc:
  "complete_stream (ts @ [t]) \<longleftrightarrow> ts \<noteq> [] \<and> open_stream ts \<and> isResultStreamTerminal t"
proof -
  have "ts \<noteq> [] \<and> open_stream ts \<longleftrightarrow> (\<exists>n. ts = ''accepted'' # replicate n ''chunk'')"
    by (cases ts) (auto simp: open_stream_def list_all_iff replicate_eqI intro: replicate_eqI)
  then show ?thesis by (auto simp: complete_stream_def)
qed

lemma complete_stream_last: "complete_stream ts \<Longrightarrow> ts \<noteq> [] \<and> isResultStreamTerminal (last ts)"
  by (auto simp: complete_stream_def)

lemma stream_accept_all_iff:
  "stream_accept_all (stream_validator_of i r t []) evs = Inr v \<longleftrightarrow>
     numbered_stream i r t evs \<and> (open_stream (map seType evs) \<or> complete_stream (map seType evs))
     \<and> v = stream_validator_of i r t evs"
proof (induction evs arbitrary: v rule: rev_induct)
  case Nil
  show ?case by (auto simp: numbered_stream_def open_stream_def)
next
  case (snoc e evs)
  let ?ts = "map seType evs"
  have open_iff: "stream_Accept (stream_validator_of i r t evs) e = Inr v \<longleftrightarrow>
      numbered_stream i r t (evs @ [e]) \<and>
      (open_stream (map seType (evs @ [e])) \<or> complete_stream (map seType (evs @ [e])))
      \<and> v = stream_validator_of i r t (evs @ [e])"
    if "numbered_stream i r t evs" "open_stream ?ts"
    using that open_stream_no_terminal [of ?ts] stream_event_type [of e]
    by (auto simp: stream_Accept_Inr numbered_stream_snoc open_stream_snoc complete_stream_snoc
        stream_validator_of_def last_map)
  have closed: "stream_Accept (stream_validator_of i r t evs) e \<noteq> Inr v" if "complete_stream ?ts"
    using complete_stream_last [OF that] by (auto simp: stream_Accept_def stream_validator_of_def last_map)
  have prefix: "open_stream ?ts"
    if "open_stream (map seType (evs @ [e])) \<or> complete_stream (map seType (evs @ [e]))"
    using that by (auto simp: open_stream_snoc complete_stream_snoc open_stream_def)
  have "stream_accept_all (stream_validator_of i r t []) (evs @ [e]) = Inr v \<longleftrightarrow>
      numbered_stream i r t evs \<and> (open_stream ?ts \<or> complete_stream ?ts)
      \<and> stream_Accept (stream_validator_of i r t evs) e = Inr v"
    by (auto simp: stream_accept_all_append snoc.IH)
  also have "\<dots> \<longleftrightarrow> numbered_stream i r t evs \<and> open_stream ?ts
      \<and> stream_Accept (stream_validator_of i r t evs) e = Inr v"
    using closed by blast
  also have "\<dots> \<longleftrightarrow> numbered_stream i r t (evs @ [e]) \<and>
      (open_stream (map seType (evs @ [e])) \<or> complete_stream (map seType (evs @ [e])))
      \<and> v = stream_validator_of i r t (evs @ [e])"
    using open_iff prefix numbered_stream_snoc by blast
  finally show ?case .
qed

subsection \<open>Projections\<close>

lemma detail_events_check_None:
  "detail_events_check strict record v evs = None \<longleftrightarrow>
     (\<exists>v'. sequence_accept_all strict v evs = Inr v') \<and> list_all (event_matches_record record) evs"
proof (induction evs arbitrary: v)
  case (Cons e es)
  then show ?case by (cases "sequence_Accept strict v e") auto
qed simp

definition parents_first :: "invocation_record list \<Rightarrow> bool" where
  "parents_first rs \<longleftrightarrow> (\<forall>i < length rs. irParentInvocationID (rs ! i) \<noteq> [] \<longrightarrow>
     irParentInvocationID (rs ! i) \<in> irInvocationID ` set (take i rs))"

fun parents_known :: "string set \<Rightarrow> invocation_record list \<Rightarrow> bool" where
  "parents_known known [] = True" |
  "parents_known known (r # rs) \<longleftrightarrow>
     (irParentInvocationID r \<noteq> [] \<longrightarrow> irParentInvocationID r \<in> known) \<and>
     parents_known (insert (irInvocationID r) known) rs"

lemma parents_known_nth:
  "parents_known known rs \<longleftrightarrow> (\<forall>i < length rs. irParentInvocationID (rs ! i) \<noteq> [] \<longrightarrow>
     irParentInvocationID (rs ! i) \<in> known \<union> irInvocationID ` set (take i rs))"
proof (induction rs arbitrary: known)
  case (Cons r rs)
  then show ?case by (auto simp: All_less_Suc2)
qed simp

lemma parents_first_known: "parents_first rs \<longleftrightarrow> parents_known {} rs"
  by (simp add: parents_first_def parents_known_nth)

definition record_in_lineage :: "(string \<Rightarrow> bool) \<Rightarrow> string \<Rightarrow> string \<Rightarrow> string \<Rightarrow> invocation_record \<Rightarrow> bool" where
  "record_in_lineage strict workspaceID traceID rootTaskID r \<longleftrightarrow>
     validateInvocationRecordV1 strict r = None \<and> irWorkspaceID r = workspaceID \<and>
     irTraceID r = traceID \<and> irRootTaskID r = rootTaskID"

lemma trace_check_None:
  "trace_check strict w t root ids rs = None \<longleftrightarrow>
     list_all (record_in_lineage strict w t root) rs \<and> distinct (map irInvocationID rs) \<and>
     set ids \<inter> irInvocationID ` set rs = {} \<and> parents_known (set ids) rs"
proof (induction rs arbitrary: ids)
  case (Cons r rs)
  show ?case
    using Cons.IH [of "irInvocationID r # ids"]
    by (auto simp: record_in_lineage_def split: option.splits)
qed simp

subsection \<open>Platform error tables and digests\<close>

lemma message_rules_table:
  "message_rules = platformErrorV4Messages"
  "error_code_enum = map fst platformErrorV4Messages"
  "error_message_enum = map snd platformErrorV4Messages"
  by (simp_all only: message_rules_def platformErrorV4Messages_def error_code_enum_def
      error_message_enum_def list.map fst_conv snd_conv)

lemma message_table_distinct: "distinct (map fst platformErrorV4Messages)"
  by code_simp

lemma error_text_schema_iff:
  "error_text_schema code message \<longleftrightarrow> map_of platformErrorV4Messages code = Some message"
proof -
  have "map_of platformErrorV4Messages code = Some message \<longleftrightarrow>
      (code, message) \<in> set platformErrorV4Messages"
    using message_table_distinct by simp
  also have "\<dots> \<longleftrightarrow> error_text_schema code message"
    unfolding error_text_schema_def message_rules_table list_all_iff
    using message_table_distinct by (force simp: eq_key_imp_eq_value)
  finally show ?thesis by simp
qed

lemma correlated_schema_iff:
  "correlated_schema e \<longleftrightarrow>
     NewCorrelatedPlatformErrorV4 (errCode e) (errTraceID e) (errInvocationID e) (errRootTaskID e) = Inr e"
  by (cases e) (auto simp: correlated_schema_def error_text_schema_iff NewCorrelatedPlatformErrorV4_def
      NewPreCorrelationPlatformErrorV4_def ParseTraceID_def validateSafeContractIdentifier_def
      split: option.splits)

lemma to_lower_hex: "hex_value c \<noteq> None \<and> to_lower c = c \<longleftrightarrow> is_lower_hex c"
proof -
  let ?n = "of_char c :: nat"
  have "to_lower c = c \<longleftrightarrow> \<not> (65 \<le> ?n \<and> ?n \<le> 90)"
  proof (cases "65 \<le> ?n \<and> ?n \<le> 90")
    case True
    then have "of_char (char_of (?n + 32)) = ?n + 32" by (simp add: of_char_of)
    then have "char_of (?n + 32) \<noteq> c" by (metis add_eq_self_zero zero_neq_numeral)
    with True show ?thesis by (simp add: to_lower_def char_in_def)
  qed (auto simp: to_lower_def char_in_def)
  then show ?thesis by (auto simp: hex_value_def is_lower_hex_def is_digit_def char_in_def)
qed

lemma hex_char_code: "n < 16 \<Longrightarrow> hex_char n = char_of (if n < 10 then n + 48 else n + 87)"
proof -
  have "list_all (\<lambda>n. hex_char n = char_of (if n < 10 then n + 48 else n + 87)) [0..<16]"
    by code_simp
  then show "n < 16 \<Longrightarrow> hex_char n = char_of (if n < 10 then n + 48 else n + 87)"
    by (simp only: list_all_iff set_upt atLeastLessThan_iff le0 simp_thms)
qed

lemma lower_hex_roundtrip:
  "is_lower_hex c \<Longrightarrow> \<exists>n < 16. hex_value c = Some n \<and> hex_char n = c"
proof (cases "is_digit c")
  case True
  then have n: "48 \<le> (of_char c :: nat)" "of_char c \<le> (57 :: nat)"
    by (simp_all add: is_digit_def char_in_def)
  then show ?thesis
    using True hex_char_code [of "of_char c - 48"]
    by (intro exI [of _ "of_char c - 48"]) (auto simp: hex_value_def)
next
  case False
  assume "is_lower_hex c"
  with False have c: "char_in CHR ''a'' CHR ''f'' c" by (simp add: is_lower_hex_def)
  then have n: "97 \<le> (of_char c :: nat)" "of_char c \<le> (102 :: nat)" by (simp_all add: char_in_def)
  then show ?thesis
    using False c hex_char_code [of "of_char c - 87"]
    by (intro exI [of _ "of_char c - 87"]) (auto simp: hex_value_def)
qed

lemma hex_DecodeString_None:
  "hex_DecodeString s \<noteq> None \<longleftrightarrow> even (length s) \<and> list_all (\<lambda>c. hex_value c \<noteq> None) s"
  by (induction s rule: hex_DecodeString.induct) (auto split: option.splits)

lemma hex_DecodeString_length: "hex_DecodeString s = Some bs \<Longrightarrow> length s = 2 * length bs"
  by (induction s arbitrary: bs rule: hex_DecodeString.induct) (auto split: option.splits)

lemma hex_roundtrip:
  "list_all is_lower_hex s \<Longrightarrow> hex_DecodeString s = Some bs \<Longrightarrow> hex_EncodeToString bs = s"
proof (induction s arbitrary: bs rule: hex_DecodeString.induct)
  case (3 c d s)
  obtain h l where h: "h < 16" "hex_value c = Some h" "hex_char h = c"
    and l: "l < 16" "hex_value d = Some l" "hex_char l = d"
    using lower_hex_roundtrip [of c] lower_hex_roundtrip [of d] "3.prems"(1) by auto
  with "3.prems"(2) obtain bs' where "hex_DecodeString s = Some bs'" "bs = (16 * h + l) # bs'"
    by (auto split: option.splits)
  with "3.IH" [of bs'] "3.prems"(1) h l show ?case by (simp add: hex_EncodeToString_def)
qed (simp_all add: hex_EncodeToString_def)

lemma isLowerHexDigest_iff [simp]: "isLowerHexDigest d \<longleftrightarrow> length d = 64 \<and> list_all is_lower_hex d"
  by (auto simp: isLowerHexDigest_def is_lower_hex_def is_digit_def list_all_iff)

lemma lower_hex_digest_decodes:
  "isLowerHexDigest d \<Longrightarrow> \<exists>bs. hex_DecodeString d = Some bs \<and> length bs = 32 \<and> hex_EncodeToString bs = d"
proof -
  assume d: "isLowerHexDigest d"
  then have "hex_DecodeString d \<noteq> None"
    unfolding hex_DecodeString_None list_all_iff isLowerHexDigest_iff using to_lower_hex by auto
  then obtain bs where bs: "hex_DecodeString d = Some bs" by blast
  with d hex_DecodeString_length [OF bs] hex_roundtrip [OF _ bs] show ?thesis by simp
qed

lemma canonical_digest:
  "length d = 64 \<and> d = map to_lower d \<and> (\<exists>bs. hex_DecodeString d = Some bs \<and> length bs = 32) \<longleftrightarrow>
     isLowerHexDigest d"
proof -
  have lower: "d = map to_lower d \<longleftrightarrow> list_all (\<lambda>c. to_lower c = c) d"
    by (induction d) auto
  have "(\<exists>bs. hex_DecodeString d = Some bs \<and> length bs = 32) \<longleftrightarrow> list_all (\<lambda>c. hex_value c \<noteq> None) d"
    if "length d = 64"
  proof
    assume "list_all (\<lambda>c. hex_value c \<noteq> None) d"
    with that hex_DecodeString_None [of d] obtain bs where bs: "hex_DecodeString d = Some bs" by auto
    with that hex_DecodeString_length [OF bs] show "\<exists>bs. hex_DecodeString d = Some bs \<and> length bs = 32" by simp
  qed (use hex_DecodeString_None [of d] in auto)
  with lower show ?thesis
    unfolding isLowerHexDigest_iff list_all_iff using to_lower_hex by blast
qed

lemma provenance_None:
  "ValidateInvocationReleaseProvenance r d = None \<longleftrightarrow>
     r = [] \<and> d = [] \<or> safe_identifier r \<and> isLowerHexDigest d"
  using canonical_digest [of d]
  by (auto simp: ValidateInvocationReleaseProvenance_def validateSafeContractIdentifier_def
      simp del: isLowerHexDigest_iff split: option.splits)

lemma well_formed_terminal:
  assumes "well_formed_lifecycle strict (evs @ e # rest)" and "terminal_type (evType e)"
  shows "rest = []"
proof (cases rest)
  case (Cons r rs)
  with assms(1) have "lifecycle_phase Fresh (map evType evs @ evType e # evType r # map evType rs) \<noteq> None"
    by (simp add: well_formed_lifecycle_def)
  then obtain p q where "lifecycle_next p (evType e) = Some q" "lifecycle_next q (evType r) \<noteq> None"
    by (auto simp: lifecycle_phase_append bind_eq_Some_conv)
  with lifecycle_next_terminal [OF this(1) assms(2)] show ?thesis by simp
qed simp

subsection \<open>Sample data\<close>

text \<open>A concrete lifecycle, used to evaluate the definitions.\<close>

definition sample_caller :: caller where
  "sample_caller = \<lparr>callerType = ''user'', callerID = ''u1''\<rparr>"

definition sample_event :: "int \<Rightarrow> string \<Rightarrow> string \<Rightarrow> invocation_event" where
  "sample_event n ty st =
     \<lparr>evSchemaVersion = ''0.3'', evEventID = ''evt1'', evSequence = n, evOccurredAt = format_time (1000 * (n + 1)),
      evType = ty, evStatus = st, evInvocationID = ''i1'', evRootTaskID = ''t1'', evParentInvocationID = [],
      evTraceID = ''tr1'', evCaller = sample_caller, evWorkspaceID = ''w1'', evTargetAgentID = ''a1'',
      evAgentCardVersion = ''1.0.0'', evAgentReleaseID = [], evAgentCardDigest = [], evCapability = ''c1'',
      evChunkIndex = None, evChunkBytes = None, evLatencyMS = None, evError = None\<rparr>"

definition sample_lifecycle :: "invocation_event list" where
  "sample_lifecycle =
     [sample_event 0 ''created'' ''pending'', sample_event 1 ''routing'' ''routing'',
      sample_event 2 ''started'' ''running'',
      (sample_event 3 ''stream'' ''running'')\<lparr>evChunkIndex := Some 0, evChunkBytes := Some 2\<rparr>,
      (sample_event 4 ''succeeded'' ''succeeded'')\<lparr>evLatencyMS := Some 7\<rparr>]"

definition sample_strict :: "string \<Rightarrow> bool" where
  "sample_strict v \<longleftrightarrow> v = ''1.0.0''"

subsection \<open>Properties\<close>

text \<open>C23: The invocation sequence validator accepts a list of events, fed one by one, exactly when
  every event is contract valid, all share one correlation context, the sequence numbers count from
  zero, the types follow the lifecycle automaton (created, routing, started, streams, one terminal
  event last) and the stream chunks are numbered consecutively.\<close>

theorem sequence_validator_exact:
  "(\<exists>v. sequence_accept_all strict initial_sequence_validator evs = Inr v) \<longleftrightarrow>
     well_formed_lifecycle strict evs"
  by (simp add: sequence_accept_all_iff)

text \<open>Once the sequence validator has accepted a terminal event it refuses every further event,
  so an accepted lifecycle contains at most one terminal event and ends with it.\<close>

theorem nothing_after_terminal:
  assumes "sequence_accept_all strict initial_sequence_validator (evs @ e # rest) = Inr v"
    and "terminal_type (evType e)"
  shows "rest = []"
  using assms well_formed_terminal [of strict evs e rest] by (simp add: sequence_accept_all_iff)

theorem nothing_after_terminal_witness:
  "(\<exists>v. sequence_accept_all sample_strict initial_sequence_validator
      (take 4 sample_lifecycle @ sample_lifecycle ! 4 # []) = Inr v)
   \<and> terminal_type (evType (sample_lifecycle ! 4))
   \<and> (\<forall>r v. sequence_accept_all sample_strict initial_sequence_validator
      (take 4 sample_lifecycle @ sample_lifecycle ! 4 # [r]) \<noteq> Inr v)"
proof -
  have t: "terminal_type (evType (sample_lifecycle ! 4))" by code_simp
  have "well_formed_lifecycle sample_strict (take 4 sample_lifecycle @ sample_lifecycle ! 4 # [])"
    by code_simp
  with nothing_after_terminal [OF _ t] t show ?thesis
    by (auto simp: sequence_accept_all_iff)
qed

text \<open>C24: A result stream validator made for valid correlation identifiers accepts a list of stream
  events and then finishes without error exactly when the list is one accepted event, any number of
  chunks and one terminal event, all contract valid, all carrying the correlation of the stream,
  with consecutive sequence numbers and chunk indexes.\<close>

theorem stream_validator_exact:
  assumes "NewRuntimeResultStreamSequenceValidator (Some c) i r t = Inr v0"
  shows "(\<exists>v. stream_accept_all v0 evs = Inr v \<and> fst (stream_Finish v) = None) \<longleftrightarrow>
     numbered_stream i r t evs \<and> complete_stream (map seType evs)"
proof -
  have v0: "v0 = stream_validator_of i r t []"
    using assms by (auto simp: NewRuntimeResultStreamSequenceValidator_def stream_validator_of_def)
  have "fst (stream_Finish (stream_validator_of i r t evs)) = None \<longleftrightarrow>
      evs \<noteq> [] \<and> isResultStreamTerminal (seType (last evs))"
    by (simp add: stream_Finish_def stream_validator_of_def)
  moreover have "evs \<noteq> [] \<and> isResultStreamTerminal (seType (last evs)) \<longleftrightarrow> complete_stream (map seType evs)"
    if "open_stream (map seType evs) \<or> complete_stream (map seType evs)"
    using that complete_stream_last [of "map seType evs"] open_stream_no_terminal [of "map seType evs"]
    by (auto simp: last_map)
  ultimately show ?thesis unfolding v0 stream_accept_all_iff by blast
qed

definition sample_stream_event :: "int \<Rightarrow> string \<Rightarrow> string \<Rightarrow> stream_event" where
  "sample_stream_event n ty st =
     \<lparr>seSchemaVersion = ''2'', seSequence = n, seType = ty, seStatus = st, seInvocationID = ''i1'',
      seRootTaskID = ''t1'', seTraceID = ''tr1'', seChunkIndex = None, seChunk = RawEmpty, seError = None\<rparr>"

theorem stream_validator_exact_witness:
  "\<exists>v0 v. NewRuntimeResultStreamSequenceValidator (Some ()) ''i1'' ''t1'' ''tr1'' = Inr v0 \<and>
     stream_accept_all v0 [sample_stream_event 0 ''accepted'' ''pending'',
       (sample_stream_event 1 ''chunk'' ''running'')\<lparr>seChunkIndex := Some 0, seChunk := RawJSON ''1''\<rparr>,
       sample_stream_event 2 ''completed'' ''succeeded''] = Inr v \<and> fst (stream_Finish v) = None"
proof -
  let ?evs = "[sample_stream_event 0 ''accepted'' ''pending'',
       (sample_stream_event 1 ''chunk'' ''running'')\<lparr>seChunkIndex := Some 0, seChunk := RawJSON ''1''\<rparr>,
       sample_stream_event 2 ''completed'' ''succeeded'']"
  have new: "NewRuntimeResultStreamSequenceValidator (Some ()) ''i1'' ''t1'' ''tr1'' =
      Inr (stream_validator_of ''i1'' ''t1'' ''tr1'' [])"
    by code_simp
  have "numbered_stream ''i1'' ''t1'' ''tr1'' ?evs" by code_simp
  moreover have "complete_stream (map seType ?evs)"
    unfolding complete_stream_def
    by (intro exI [of _ 1] exI [of _ "''completed''"])
      (simp add: sample_stream_event_def isResultStreamTerminal_def)
  ultimately show ?thesis using stream_validator_exact [OF new, of ?evs] new by blast
qed

text \<open>The v4 error schema accepts a correlated platform error exactly when the constructor of
  the code builds it from its code and correlation: the message table of the code and the message
  rules of the schema agree on all codes, and no other message passes.\<close>

theorem correlated_errors_exact:
  "ValidateCorrelatedPlatformErrorV4 e = None \<longleftrightarrow>
     NewCorrelatedPlatformErrorV4 (errCode e) (errTraceID e) (errInvocationID e) (errRootTaskID e) = Inr e"
  by (simp add: ValidateCorrelatedPlatformErrorV4_def correlated_schema_iff)

text \<open>Release provenance is accepted exactly when both members are absent, or the release is a
  safe identifier and the digest passes the credential contract's test, which is also what the
  schema pattern accepts: the three digest tests of the repository agree.\<close>

theorem release_provenance_exact:
  "(ValidateInvocationReleaseProvenance r d = None \<longleftrightarrow>
      (r = [] \<and> d = []) \<or> (MatchString safeIdentifierPattern r \<and> isLowerHexDigest d)) \<and>
   (isLowerHexDigest d \<longleftrightarrow> MatchString digestPattern d)"
  by (simp add: provenance_None)

text \<open>An invocation detail is exposed to a reader of a Workspace exactly when its record is
  valid and of that Workspace, its events are a non-empty well-formed lifecycle in the context of
  the record, and the status of the record is the status of the last event.\<close>

theorem detail_response_exact:
  "ValidateInvocationDetailResponseV1 strict workspaceID detail = None \<longleftrightarrow>
     validateInvocationRecordV1 strict (idInvocation detail) = None \<and>
     irWorkspaceID (idInvocation detail) = workspaceID \<and> idEvents detail \<noteq> [] \<and>
     well_formed_lifecycle strict (idEvents detail) \<and>
     list_all (event_matches_record (idInvocation detail)) (idEvents detail) \<and>
     irStatus (idInvocation detail) = evStatus (last (idEvents detail))"
  by (auto simp: ValidateInvocationDetailResponseV1_def detail_events_check_None sequence_accept_all_iff
      split: option.splits)

text \<open>A trace response is exposed exactly when it is a non-empty list of valid records of the
  authorised Workspace and Trace with one root task, without repeated invocations and with every
  parent before its children.\<close>

theorem trace_response_exact:
  "ValidateTraceResponseV1 strict w t response = None \<longleftrightarrow>
     trTraceID response = t \<and> trInvocations response \<noteq> [] \<and>
     list_all (record_in_lineage strict w t (irRootTaskID (hd (trInvocations response)))) (trInvocations response) \<and>
     distinct (map irInvocationID (trInvocations response)) \<and> parents_first (trInvocations response)"
proof (cases "trInvocations response")
  case (Cons r rs)
  then show ?thesis
    by (simp add: ValidateTraceResponseV1_def trace_check_None parents_first_known
        del: trace_check.simps parents_known.simps)
qed (simp add: ValidateTraceResponseV1_def)

end
