(* ===== verification/Ledger.thy ===== *)
theory Ledger
  imports Lifecycle "HOL-Library.List_Lexorder" "HOL-Library.Char_ord" "HOL-Library.Product_Lexorder"
begin

text \<open>
  The invocation ledger of the Router (apps/a2a-router/internal/ledger/store.go and its migrations).
  The two tables are lists of rows in insertion order, with nullable columns as options; the
  constraints of the migrations are checked by the table operations, which report the SQLSTATE the
  store classifies.  A transaction is one atomic step (the store locks the projection row).  Every
  call to the database may fail: the record \<open>ledger_env\<close> says which do, and a commit may fail
  before or after it took effect.
\<close>

subsection \<open>Tables\<close>

record projection_row =
  prInvocationID :: string
  prRootTaskID :: string
  prParentInvocationID :: "string option"
  prTraceID :: string
  prCallerType :: string
  prCallerID :: string
  prWorkspaceID :: string
  prTargetAgentID :: string
  prAgentCardVersion :: string
  prAgentReleaseID :: "string option"
  prAgentCardDigest :: "nat list option"
  prCapability :: string
  prStatus :: string
  prLatencyMS :: "int option"
  prErrorCode :: "string option"
  prCreatedAt :: time
  prUpdatedAt :: time

record event_row =
  erEventID :: string
  erInvocationID :: string
  erSequence :: int
  erOccurredAt :: time
  erType :: string
  erStatus :: string
  erRootTaskID :: string
  erParentInvocationID :: "string option"
  erTraceID :: string
  erCallerType :: string
  erCallerID :: string
  erWorkspaceID :: string
  erTargetAgentID :: string
  erAgentCardVersion :: string
  erAgentReleaseID :: "string option"
  erAgentCardDigest :: "nat list option"
  erCapability :: string
  erChunkIndex :: "int option"
  erChunkBytes :: "int option"
  erLatencyMS :: "int option"
  erErrorCode :: "string option"

record ledger_db =
  dbInvocations :: "projection_row list"
  dbEvents :: "event_row list"

definition empty_ledger :: ledger_db where
  "empty_ledger = \<lparr>dbInvocations = [], dbEvents = []\<rparr>"

datatype pg_error = PgError string | PgErrNoRows | PgOther

datatype ledger_error =
    LedgerErrConflict
  | LedgerErrNotFound
  | LedgerErrValidation string
  | LedgerErrDependency string
  | LedgerErrJoined ledger_error ledger_error

datatype commit_outcome = CommitOk | CommitRejected | CommitLost

record ledger_env =
  leBegin :: bool
  leLock :: bool
  leRead :: bool
  leInsertProjection :: bool
  leInsertEvent :: bool
  leUpdate :: bool
  leCommit :: commit_outcome
  leRollback :: bool

definition healthy :: ledger_env where
  "healthy = \<lparr>leBegin = True, leLock = True, leRead = True, leInsertProjection = True,
     leInsertEvent = True, leUpdate = True, leCommit = CommitOk, leRollback = True\<rparr>"

subsection \<open>Column encodings\<close>

definition nullableText :: "string \<Rightarrow> string option" where
  "nullableText value = (if value = [] then None else Some value)"

definition digestBytes :: "string \<Rightarrow> (pg_error, nat list option) result" where
  "digestBytes value =
     (if value = [] then Inr None
      else case hex_DecodeString value of
        None \<Rightarrow> Inl PgOther
      | Some decoded \<Rightarrow> if length decoded \<noteq> 32 then Inl PgOther else Inr (Some decoded))"

definition sameOptionalInt64 :: "int option \<Rightarrow> int option \<Rightarrow> bool" where
  "sameOptionalInt64 left right \<longleftrightarrow> left = right"

definition eventErrorCode :: "invocation_event \<Rightarrow> string" where
  "eventErrorCode event = (case evError event of None \<Rightarrow> [] | Some e \<Rightarrow> errCode e)"

definition error_column :: "invocation_event \<Rightarrow> string option" where
  "error_column event = map_option errCode (evError event)"

text \<open>Reading a nullable text column into a Go string.\<close>

definition from_null :: "string option \<Rightarrow> string" where
  "from_null c = (case c of None \<Rightarrow> [] | Some s \<Rightarrow> s)"

definition assignReleaseProvenance ::
    "string option \<Rightarrow> nat list option \<Rightarrow> (pg_error, string \<times> string) result" where
  "assignReleaseProvenance storedID storedDigest =
     (let digestPresent = (case storedDigest of None \<Rightarrow> False | Some bs \<Rightarrow> length bs > 0)
      in if (storedID \<noteq> None) \<noteq> digestPresent then Inl PgOther
         else case (storedID, storedDigest) of
           (Some r, Some bs) \<Rightarrow> if length bs \<noteq> 32 then Inl PgOther else Inr (r, hex_EncodeToString bs)
         | _ \<Rightarrow> Inr ([], []))"

definition scanProjection :: "projection_row \<Rightarrow> (pg_error, invocation_record) result" where
  "scanProjection row =
     rbind (assignReleaseProvenance (prAgentReleaseID row) (prAgentCardDigest row)) (\<lambda>(release, digest).
       Inr \<lparr>irInvocationID = prInvocationID row, irRootTaskID = prRootTaskID row,
            irParentInvocationID = from_null (prParentInvocationID row), irTraceID = prTraceID row,
            irCaller = \<lparr>callerType = prCallerType row, callerID = prCallerID row\<rparr>,
            irWorkspaceID = prWorkspaceID row, irTargetAgentID = prTargetAgentID row,
            irAgentCardVersion = prAgentCardVersion row, irAgentReleaseID = release,
            irAgentCardDigest = digest, irCapability = prCapability row, irStatus = prStatus row,
            irLatencyMS = prLatencyMS row, irErrorCode = from_null (prErrorCode row),
            irCreatedAt = prCreatedAt row, irUpdatedAt = prUpdatedAt row\<rparr>)"

definition scan_error ::
    "event_row \<Rightarrow> (pg_error, platform_error option) result" where
  "scan_error row =
     (case erErrorCode row of
        None \<Rightarrow> Inr None
      | Some code \<Rightarrow>
          (case NewCorrelatedPlatformErrorV4 code (erTraceID row) (erInvocationID row) (erRootTaskID row) of
             Inl _ \<Rightarrow> Inl PgOther
           | Inr e \<Rightarrow> Inr (Some e)))"

definition scanEvent :: "event_row \<Rightarrow> (pg_error, invocation_event) result" where
  "scanEvent row =
     rbind (scan_error row) (\<lambda>err.
     rbind (assignReleaseProvenance (erAgentReleaseID row) (erAgentCardDigest row)) (\<lambda>(release, digest).
       Inr \<lparr>evSchemaVersion = ''0.3'', evEventID = erEventID row, evSequence = erSequence row,
            evOccurredAt = format_time (erOccurredAt row), evType = erType row, evStatus = erStatus row,
            evInvocationID = erInvocationID row, evRootTaskID = erRootTaskID row,
            evParentInvocationID = from_null (erParentInvocationID row), evTraceID = erTraceID row,
            evCaller = \<lparr>callerType = erCallerType row, callerID = erCallerID row\<rparr>,
            evWorkspaceID = erWorkspaceID row, evTargetAgentID = erTargetAgentID row,
            evAgentCardVersion = erAgentCardVersion row, evAgentReleaseID = release,
            evAgentCardDigest = digest, evCapability = erCapability row,
            evChunkIndex = erChunkIndex row, evChunkBytes = erChunkBytes row,
            evLatencyMS = erLatencyMS row, evError = err\<rparr>))"

fun scan_all :: "('r \<Rightarrow> (pg_error, 'a) result) \<Rightarrow> 'r list \<Rightarrow> (pg_error, 'a list) result" where
  "scan_all f [] = Inr []" |
  "scan_all f (r # rs) = rbind (f r) (\<lambda>x. rbind (scan_all f rs) (\<lambda>xs. Inr (x # xs)))"

subsection \<open>Constraints of the migrations\<close>

definition ledger_error_codes :: "string list" where
  "ledger_error_codes =
   [''VALIDATION_ERROR'', ''UNAUTHENTICATED'', ''FORBIDDEN'', ''NOT_FOUND'', ''CONFLICT'', ''NOT_ACCEPTABLE'',
    ''PAYLOAD_TOO_LARGE'', ''AGENT_NOT_INSTALLED'', ''INSTALLATION_DISABLED'', ''AGENT_DISABLED'',
    ''CAPABILITY_NOT_ALLOWED'', ''ROUTE_NOT_FOUND'', ''AGENT_AUTH_UNSUPPORTED'',
    ''AGENT_RESPONSE_TOO_LARGE'', ''A2A_PROTOCOL_ERROR'', ''AGENT_UNAVAILABLE'',
    ''AGENT_EXECUTION_FAILED'', ''DEPENDENCY_ERROR'', ''TIMEOUT'', ''CANCELED'', ''INTERNAL_ERROR'']"

definition null_or :: "('a \<Rightarrow> bool) \<Rightarrow> 'a option \<Rightarrow> bool" where
  "null_or P x \<longleftrightarrow> (case x of None \<Rightarrow> True | Some a \<Rightarrow> P a)"

definition projection_checks :: "projection_row \<Rightarrow> bool" where
  "projection_checks r \<longleftrightarrow>
     list_all (MatchString safeIdentifierPattern)
       [prInvocationID r, prRootTaskID r, prCallerID r, prWorkspaceID r, prTargetAgentID r, prCapability r,
        prTraceID r] \<and>
     null_or (MatchString safeIdentifierPattern) (prParentInvocationID r) \<and>
     prCallerType r \<in> {''user'', ''service'', ''agent''} \<and>
     prStatus r \<in> {''pending'', ''routing'', ''running'', ''succeeded'', ''failed'', ''canceled'', ''timed_out''} \<and>
     null_or (\<lambda>n. 0 \<le> n) (prLatencyMS r) \<and>
     null_or (\<lambda>c. c \<in> set ledger_error_codes) (prErrorCode r) \<and>
     prCreatedAt r \<le> prUpdatedAt r \<and>
     (prStatus r \<in> {''pending'', ''routing'', ''running''} \<and> prLatencyMS r = None \<and> prErrorCode r = None \<or>
      prStatus r = ''succeeded'' \<and> prLatencyMS r \<noteq> None \<and> prErrorCode r = None \<or>
      prStatus r \<in> {''failed'', ''canceled'', ''timed_out''} \<and> prLatencyMS r \<noteq> None \<and> prErrorCode r \<noteq> None) \<and>
     null_or (MatchString safeIdentifierPattern) (prAgentReleaseID r) \<and>
     null_or (\<lambda>bs. length bs = 32) (prAgentCardDigest r) \<and>
     ((prAgentReleaseID r = None) = (prAgentCardDigest r = None))"

definition event_checks :: "event_row \<Rightarrow> bool" where
  "event_checks r \<longleftrightarrow>
     0 \<le> erSequence r \<and>
     list_all (MatchString safeIdentifierPattern)
       [erEventID r, erInvocationID r, erRootTaskID r, erCallerID r, erWorkspaceID r, erTargetAgentID r,
        erCapability r, erTraceID r] \<and>
     null_or (MatchString safeIdentifierPattern) (erParentInvocationID r) \<and>
     erCallerType r \<in> {''user'', ''service'', ''agent''} \<and>
     null_or (\<lambda>n. 0 \<le> n) (erChunkIndex r) \<and> null_or (\<lambda>n. 0 \<le> n) (erChunkBytes r) \<and>
     null_or (\<lambda>n. 0 \<le> n) (erLatencyMS r) \<and>
     (erType r = ''created'' \<and> erStatus r = ''pending'' \<or>
      erType r = ''routing'' \<and> erStatus r = ''routing'' \<or>
      erType r \<in> {''started'', ''stream''} \<and> erStatus r = ''running'' \<or>
      erType r = erStatus r \<and> erType r \<in> {''succeeded'', ''failed'', ''canceled'', ''timed_out''}) \<and>
     (erType r \<in> {''created'', ''routing'', ''started''} \<and> erChunkIndex r = None \<and> erChunkBytes r = None \<and>
        erLatencyMS r = None \<and> erErrorCode r = None \<or>
      erType r = ''stream'' \<and> erChunkIndex r \<noteq> None \<and> erChunkBytes r \<noteq> None \<and> erLatencyMS r = None \<and>
        erErrorCode r = None \<or>
      erType r = ''succeeded'' \<and> erChunkIndex r = None \<and> erChunkBytes r = None \<and> erLatencyMS r \<noteq> None \<and>
        erErrorCode r = None \<or>
      erType r \<in> {''failed'', ''canceled'', ''timed_out''} \<and> erChunkIndex r = None \<and> erChunkBytes r = None \<and>
        erLatencyMS r \<noteq> None \<and> erErrorCode r \<noteq> None) \<and>
     (erType r = ''canceled'' \<and> erErrorCode r = Some ''CANCELED'' \<or>
      erType r = ''timed_out'' \<and> erErrorCode r = Some ''TIMEOUT'' \<or>
      erType r \<notin> {''canceled'', ''timed_out''}) \<and>
     null_or (\<lambda>c. c \<in> set ledger_error_codes) (erErrorCode r) \<and>
     null_or (MatchString safeIdentifierPattern) (erAgentReleaseID r) \<and>
     null_or (\<lambda>bs. length bs = 32) (erAgentCardDigest r) \<and>
     ((erAgentReleaseID r = None) = (erAgentCardDigest r = None))"

text \<open>The column widths.  A longer value is refused with SQLSTATE 22001 before any constraint.\<close>

definition projection_widths :: "projection_row \<Rightarrow> bool" where
  "projection_widths r \<longleftrightarrow>
     list_all (\<lambda>s. length s \<le> 128)
       [prInvocationID r, prRootTaskID r, from_null (prParentInvocationID r), prTraceID r, prCallerID r,
        prWorkspaceID r, prTargetAgentID r, prAgentCardVersion r, prCapability r,
        from_null (prAgentReleaseID r)] \<and>
     length (prCallerType r) \<le> 16 \<and> length (prStatus r) \<le> 16 \<and> length (from_null (prErrorCode r)) \<le> 64"

definition event_widths :: "event_row \<Rightarrow> bool" where
  "event_widths r \<longleftrightarrow>
     list_all (\<lambda>s. length s \<le> 128)
       [erEventID r, erInvocationID r, erRootTaskID r, from_null (erParentInvocationID r), erTraceID r,
        erCallerID r, erWorkspaceID r, erTargetAgentID r, erAgentCardVersion r, erCapability r,
        from_null (erAgentReleaseID r)] \<and>
     length (erCallerType r) \<le> 16 \<and> length (erType r) \<le> 16 \<and> length (erStatus r) \<le> 16 \<and>
     length (from_null (erErrorCode r)) \<le> 64"

definition insert_invocation_row :: "ledger_db \<Rightarrow> projection_row \<Rightarrow> (pg_error, ledger_db) result" where
  "insert_invocation_row db row =
     (if \<not> projection_widths row then Inl (PgError ''22001'')
      else if \<not> projection_checks row then Inl (PgError ''23514'')
      else if prInvocationID row \<in> set (map prInvocationID (dbInvocations db)) then Inl (PgError ''23505'')
      else if \<not> null_or (\<lambda>p. p \<in> set (map prInvocationID (dbInvocations db)) \<or> p = prInvocationID row)
                 (prParentInvocationID row) then Inl (PgError ''23503'')
      else Inr (db\<lparr>dbInvocations := dbInvocations db @ [row]\<rparr>))"

definition insert_event_row :: "ledger_db \<Rightarrow> event_row \<Rightarrow> (pg_error, ledger_db) result" where
  "insert_event_row db row =
     (if \<not> event_widths row then Inl (PgError ''22001'')
      else if \<not> event_checks row then Inl (PgError ''23514'')
      else if erEventID row \<in> set (map erEventID (dbEvents db)) \<or>
           (erInvocationID row, erSequence row) \<in> set (map (\<lambda>r. (erInvocationID r, erSequence r)) (dbEvents db))
      then Inl (PgError ''23505'')
      else if erInvocationID row \<notin> set (map prInvocationID (dbInvocations db)) then Inl (PgError ''23503'')
      else Inr (db\<lparr>dbEvents := dbEvents db @ [row]\<rparr>))"

subsection \<open>Statements\<close>

definition select_projection :: "ledger_env \<Rightarrow> ledger_db \<Rightarrow> (projection_row \<Rightarrow> bool) \<Rightarrow> (pg_error, invocation_record) result" where
  "select_projection env db P =
     (if \<not> leLock env then Inl PgOther
      else case find P (dbInvocations db) of
        None \<Rightarrow> Inl PgErrNoRows
      | Some row \<Rightarrow> scanProjection row)"

definition lockProjection :: "ledger_env \<Rightarrow> ledger_db \<Rightarrow> string \<Rightarrow> (pg_error, invocation_record) result" where
  "lockProjection env db invocationID =
     select_projection env db (\<lambda>row. prInvocationID row = invocationID)"

definition projection_row_of :: "invocation_event \<Rightarrow> nat list option \<Rightarrow> time \<Rightarrow> projection_row" where
  "projection_row_of event digest occurredAt =
     \<lparr>prInvocationID = evInvocationID event, prRootTaskID = evRootTaskID event,
      prParentInvocationID = nullableText (evParentInvocationID event), prTraceID = evTraceID event,
      prCallerType = callerType (evCaller event), prCallerID = callerID (evCaller event),
      prWorkspaceID = evWorkspaceID event, prTargetAgentID = evTargetAgentID event,
      prAgentCardVersion = evAgentCardVersion event,
      prAgentReleaseID = nullableText (evAgentReleaseID event), prAgentCardDigest = digest,
      prCapability = evCapability event, prStatus = evStatus event, prLatencyMS = None, prErrorCode = None,
      prCreatedAt = occurredAt, prUpdatedAt = occurredAt\<rparr>"

definition insertProjection ::
    "ledger_env \<Rightarrow> ledger_db \<Rightarrow> invocation_event \<Rightarrow> time \<Rightarrow> (pg_error, ledger_db) result" where
  "insertProjection env db event occurredAt =
     rbind (digestBytes (evAgentCardDigest event)) (\<lambda>digest.
       if \<not> leInsertProjection env then Inl PgOther
       else insert_invocation_row db (projection_row_of event digest occurredAt))"

definition event_row_of :: "invocation_event \<Rightarrow> nat list option \<Rightarrow> time \<Rightarrow> event_row" where
  "event_row_of event digest occurredAt =
     \<lparr>erEventID = evEventID event, erInvocationID = evInvocationID event, erSequence = evSequence event,
      erOccurredAt = occurredAt, erType = evType event, erStatus = evStatus event,
      erRootTaskID = evRootTaskID event, erParentInvocationID = nullableText (evParentInvocationID event),
      erTraceID = evTraceID event, erCallerType = callerType (evCaller event),
      erCallerID = callerID (evCaller event), erWorkspaceID = evWorkspaceID event,
      erTargetAgentID = evTargetAgentID event, erAgentCardVersion = evAgentCardVersion event,
      erAgentReleaseID = nullableText (evAgentReleaseID event), erAgentCardDigest = digest,
      erCapability = evCapability event, erChunkIndex = evChunkIndex event,
      erChunkBytes = evChunkBytes event, erLatencyMS = evLatencyMS event,
      erErrorCode = error_column event\<rparr>"

definition insertEvent ::
    "ledger_env \<Rightarrow> ledger_db \<Rightarrow> invocation_event \<Rightarrow> time \<Rightarrow> (pg_error, ledger_db) result" where
  "insertEvent env db event occurredAt =
     rbind (digestBytes (evAgentCardDigest event)) (\<lambda>digest.
       if \<not> leInsertEvent env then Inl PgOther
       else insert_event_row db (event_row_of event digest occurredAt))"

definition updated_projection :: "invocation_event \<Rightarrow> time \<Rightarrow> projection_row \<Rightarrow> projection_row" where
  "updated_projection event occurredAt row =
     row\<lparr>prStatus := evStatus event, prLatencyMS := evLatencyMS event, prErrorCode := error_column event,
         prUpdatedAt := occurredAt\<rparr>"

definition updateProjection ::
    "ledger_env \<Rightarrow> ledger_db \<Rightarrow> invocation_event \<Rightarrow> time \<Rightarrow> (pg_error, ledger_db) result" where
  "updateProjection env db event occurredAt =
     (let matches = (\<lambda>row. prInvocationID row = evInvocationID event);
          changed = filter matches (dbInvocations db)
      in if \<not> leUpdate env then Inl PgOther
         else if \<not> list_all (\<lambda>row. projection_widths (updated_projection event occurredAt row)) changed
         then Inl (PgError ''22001'')
         else if \<not> list_all (\<lambda>row. projection_checks (updated_projection event occurredAt row)) changed
         then Inl (PgError ''23514'')
         else if length changed \<noteq> 1 then Inl PgErrNoRows
         else Inr (db\<lparr>dbInvocations := map (\<lambda>row. if matches row then updated_projection event occurredAt row
                                            else row) (dbInvocations db)\<rparr>))"

definition select_events :: "ledger_db \<Rightarrow> string \<Rightarrow> event_row list" where
  "select_events db invocationID =
     sort_key erSequence (filter (\<lambda>row. erInvocationID row = invocationID) (dbEvents db))"

definition readEvents :: "ledger_env \<Rightarrow> ledger_db \<Rightarrow> string \<Rightarrow> (pg_error, invocation_event list) result" where
  "readEvents env db invocationID =
     (if \<not> leRead env then Inl PgOther else scan_all scanEvent (select_events db invocationID))"

definition classifyWriteError :: "string \<Rightarrow> pg_error \<Rightarrow> ledger_error" where
  "classifyWriteError operation err =
     (case err of
        PgError code \<Rightarrow>
          if code = ''23503'' \<or> code = ''23505'' then LedgerErrConflict
          else if code = ''23514'' then LedgerErrValidation []
          else LedgerErrDependency operation
      | _ \<Rightarrow> LedgerErrDependency operation)"

subsection \<open>Append\<close>

definition validateCandidate :: "(string \<Rightarrow> bool) \<Rightarrow> invocation_event \<Rightarrow> (ledger_error, time) result" where
  "validateCandidate strict event =
     (if ValidateInvocationEventV03 strict event \<noteq> None then Inl (LedgerErrValidation ''Event 0.3'')
      else case tt_instant (evOccurredAt event) of
        None \<Rightarrow> Inl (LedgerErrValidation ''occurredAt'')
      | Some occurredAt \<Rightarrow>
          if occurredAt \<noteq> time_Truncate occurredAt Microsecond
          then Inl (LedgerErrValidation ''occurredAt exceeds PostgreSQL precision'')
          else if evSequence event = 0 \<and> isl (sequence_Accept strict initial_sequence_validator event)
          then Inl (LedgerErrValidation ''initial lifecycle event'')
          else Inr occurredAt)"

text \<open>The branch for sequence zero: the lineage of a child is checked against its locked parent,
  then the projection is created.\<close>

definition append_first ::
    "ledger_env \<Rightarrow> ledger_db \<Rightarrow> invocation_event \<Rightarrow> time \<Rightarrow> (ledger_error, ledger_db) result" where
  "append_first env db event occurredAt =
     guarded
       (if evParentInvocationID event \<noteq> [] then
          (case lockProjection env db (evParentInvocationID event) of
             Inl err \<Rightarrow>
               if err = PgErrNoRows then Some LedgerErrConflict
               else Some (LedgerErrDependency ''lock parent Invocation'')
           | Inr parent \<Rightarrow>
               if ValidateNestedInvocationCorrelation parent event \<noteq> None
               then Some (LedgerErrValidation ''nested lineage'')
               else if occurredAt < irUpdatedAt parent
               then Some (LedgerErrValidation ''child timestamp precedes parent state'')
               else None)
        else None)
       (case insertProjection env db event occurredAt of
          Inl err \<Rightarrow> Inl (classifyWriteError ''insert Invocation projection'' err)
        | Inr db' \<Rightarrow> Inr db')"

text \<open>The branch for later events: the committed history is validated again before the event is
  accepted after it.\<close>

definition projection_state_differs :: "invocation_record \<Rightarrow> invocation_event list \<Rightarrow> bool" where
  "projection_state_differs projection history \<longleftrightarrow>
     tt_instant (evOccurredAt (last history)) \<noteq> Some (irUpdatedAt projection) \<or>
     tt_instant (evOccurredAt (hd history)) \<noteq> Some (irCreatedAt projection) \<or>
     \<not> sameOptionalInt64 (irLatencyMS projection) (evLatencyMS (last history)) \<or>
     irErrorCode projection \<noteq> eventErrorCode (last history)"

definition append_next ::
    "(string \<Rightarrow> bool) \<Rightarrow> ledger_env \<Rightarrow> ledger_db \<Rightarrow> invocation_event \<Rightarrow> time \<Rightarrow> ledger_error option" where
  "append_next strict env db event occurredAt =
     (case lockProjection env db (evInvocationID event) of
        Inl err \<Rightarrow>
          if err = PgErrNoRows then Some LedgerErrConflict
          else Some (LedgerErrDependency ''lock Invocation projection'')
      | Inr projection \<Rightarrow>
        if occurredAt < irUpdatedAt projection
        then Some (LedgerErrValidation ''event timestamp precedes projection'')
        else case readEvents env db (evInvocationID event) of
          Inl _ \<Rightarrow> Some (LedgerErrDependency ''read Invocation history'')
        | Inr history \<Rightarrow>
          if ValidateInvocationDetailResponseV1 strict (irWorkspaceID projection)
               \<lparr>idInvocation = projection, idEvents = history\<rparr> \<noteq> None
          then Some (LedgerErrDependency ''validate committed projection'')
          else if projection_state_differs projection history
          then Some (LedgerErrDependency ''validate projection state'')
          else case sequence_accept_all strict initial_sequence_validator history of
            Inl _ \<Rightarrow> Some (LedgerErrDependency ''validate committed lifecycle'')
          | Inr v \<Rightarrow>
            (case sequence_Accept strict v event of
               Inl _ \<Rightarrow> Some (LedgerErrValidation ''lifecycle transition'')
             | Inr _ \<Rightarrow> None))"

definition append_body ::
    "(string \<Rightarrow> bool) \<Rightarrow> ledger_env \<Rightarrow> ledger_db \<Rightarrow> invocation_event \<Rightarrow> time \<Rightarrow> (ledger_error, ledger_db) result" where
  "append_body strict env db event occurredAt =
     rbind (if evSequence event = 0 then append_first env db event occurredAt
            else guarded (append_next strict env db event occurredAt) (Inr db))
       (\<lambda>db1. case insertEvent env db1 event occurredAt of
          Inl err \<Rightarrow> Inl (classifyWriteError ''insert Invocation event'' err)
        | Inr db2 \<Rightarrow>
          if evSequence event > 0 then
            (case updateProjection env db2 event occurredAt of
               Inl err \<Rightarrow> Inl (classifyWriteError ''update Invocation projection'' err)
             | Inr db3 \<Rightarrow> Inr db3)
          else Inr db2)"

definition rollback :: "ledger_env \<Rightarrow> string \<Rightarrow> ledger_error \<Rightarrow> ledger_error" where
  "rollback env operation err =
     (if leRollback env then err
      else LedgerErrJoined err (LedgerErrDependency (''rollback '' @ operation)))"

definition Append ::
    "(string \<Rightarrow> bool) \<Rightarrow> ledger_env \<Rightarrow> ledger_db \<Rightarrow> invocation_event \<Rightarrow> ledger_error option \<times> ledger_db" where
  "Append strict env db event =
     (case validateCandidate strict event of
        Inl err \<Rightarrow> (Some err, db)
      | Inr occurredAt \<Rightarrow>
        if \<not> leBegin env then (Some (LedgerErrDependency ''begin append''), db)
        else case append_body strict env db event occurredAt of
          Inl err \<Rightarrow> (Some (rollback env ''append'' err), db)
        | Inr db' \<Rightarrow>
          (case leCommit env of
             CommitOk \<Rightarrow> (None, db')
           | CommitRejected \<Rightarrow> (Some (rollback env ''append'' (LedgerErrDependency ''commit append'')), db)
           | CommitLost \<Rightarrow> (Some (rollback env ''append'' (LedgerErrDependency ''commit append'')), db')))"

subsection \<open>Reads\<close>

definition read_detail ::
    "string \<Rightarrow> (string \<Rightarrow> bool) \<Rightarrow> ledger_env \<Rightarrow> ledger_db \<Rightarrow> (projection_row \<Rightarrow> bool) \<Rightarrow> string
     \<Rightarrow> (invocation_record \<Rightarrow> string) \<Rightarrow> (ledger_error, invocation_detail) result" where
  "read_detail what strict env db P invocationID workspaceOf =
     (let fail = (\<lambda>e. Inl (rollback env (what @ '' read'') e))
      in if \<not> leBegin env then Inl (LedgerErrDependency (''begin '' @ what @ '' read''))
      else case select_projection env db P of
        Inl err \<Rightarrow>
          fail (if err = PgErrNoRows then LedgerErrNotFound
                else LedgerErrDependency (''read '' @ what @ '' projection''))
      | Inr projection \<Rightarrow>
        (case readEvents env db invocationID of
           Inl _ \<Rightarrow> fail (LedgerErrDependency (''read '' @ what @ '' events''))
         | Inr events \<Rightarrow>
           (let detail = \<lparr>idInvocation = projection, idEvents = events\<rparr>
            in if ValidateInvocationDetailResponseV1 strict (workspaceOf projection) detail \<noteq> None
               then fail (LedgerErrDependency (''validate stored '' @ what @ '' detail''))
               else if leCommit env \<noteq> CommitOk
               then fail (LedgerErrDependency (''commit '' @ what @ '' read''))
               else Inr detail)))"

definition GetInvocation ::
    "(string \<Rightarrow> bool) \<Rightarrow> ledger_env \<Rightarrow> ledger_db \<Rightarrow> string \<Rightarrow> string \<Rightarrow> (ledger_error, invocation_detail) result" where
  "GetInvocation strict env db workspaceID invocationID =
     read_detail ''Invocation'' strict env db
       (\<lambda>row. prWorkspaceID row = workspaceID \<and> prInvocationID row = invocationID) invocationID (\<lambda>_. workspaceID)"

definition GetInvocationByParentID ::
    "(string \<Rightarrow> bool) \<Rightarrow> ledger_env \<Rightarrow> ledger_db \<Rightarrow> string \<Rightarrow> (ledger_error, invocation_detail) result" where
  "GetInvocationByParentID strict env db invocationID =
     read_detail ''parent Invocation'' strict env db (\<lambda>row. prInvocationID row = invocationID) invocationID
       irWorkspaceID"

text \<open>One pass over the remaining projections, and the loop that repeats it while it progresses.\<close>

fun order_pass ::
    "invocation_record list \<Rightarrow> invocation_record list \<Rightarrow> string list \<Rightarrow> invocation_record list \<Rightarrow> bool
     \<Rightarrow> invocation_record list \<times> string list \<times> invocation_record list \<times> bool" where
  "order_pass [] ordered emitted next progress = (ordered, emitted, next, progress)" |
  "order_pass (v # vs) ordered emitted next progress =
     (if irParentInvocationID v = []
      then order_pass vs (ordered @ [v]) (irInvocationID v # emitted) next True
      else if irParentInvocationID v \<in> set emitted
      then order_pass vs (ordered @ [v]) (irInvocationID v # emitted) next True
      else order_pass vs ordered emitted (next @ [v]) progress)"

lemma order_pass_length:
  "order_pass vs ordered emitted next progress = (ordered', emitted', next', progress') \<Longrightarrow>
     length next' \<le> length next + length vs \<and>
     (progress' \<and> \<not> progress \<longrightarrow> length next' < length next + length vs)"
  by (induction vs ordered emitted "next" progress rule: order_pass.induct) (force split: if_splits)+

function order_loop ::
    "invocation_record list \<Rightarrow> invocation_record list \<Rightarrow> string list \<Rightarrow> (contract_error, invocation_record list) result" where
  "order_loop remaining ordered emitted =
     (if remaining = [] then Inr ordered
      else case order_pass remaining ordered emitted [] False of
        (ordered', emitted', next, progress) \<Rightarrow>
          if \<not> progress then Inl (Errorf ''trace contains missing or cyclic parent lineage'')
          else order_loop next ordered' emitted')"
  by pat_completeness auto
termination
  by (relation "measure (\<lambda>(remaining, _, _). length remaining)") (auto dest: order_pass_length [OF sym])

declare order_loop.simps [simp del]

definition orderTraceProjections ::
    "invocation_record list \<Rightarrow> (contract_error, invocation_record list) result" where
  "orderTraceProjections values = order_loop values [] []"

definition GetTrace ::
    "(string \<Rightarrow> bool) \<Rightarrow> ledger_env \<Rightarrow> ledger_db \<Rightarrow> string \<Rightarrow> string \<Rightarrow> (ledger_error, trace_response) result" where
  "GetTrace strict env db workspaceID traceID =
     (if \<not> leRead env then Inl (LedgerErrDependency ''read Trace projections'')
      else case scan_all scanProjection
          (sort_key (\<lambda>row. (prCreatedAt row, prInvocationID row))
            (filter (\<lambda>row. prWorkspaceID row = workspaceID \<and> prTraceID row = traceID) (dbInvocations db))) of
        Inl _ \<Rightarrow> Inl (LedgerErrDependency ''scan Trace projection'')
      | Inr invocations \<Rightarrow>
        if invocations = [] then Inl LedgerErrNotFound
        else case orderTraceProjections invocations of
          Inl _ \<Rightarrow> Inl (LedgerErrDependency ''order stored Trace'')
        | Inr ordered \<Rightarrow>
          (let result = \<lparr>trTraceID = traceID, trInvocations = ordered\<rparr>
           in if ValidateTraceResponseV1 strict workspaceID traceID result \<noteq> None
              then Inl (LedgerErrDependency ''validate stored Trace'')
              else Inr result))"

end
