(* ===== verification/Transaction.thy ===== *)
theory Transaction
  imports Agent_Card Ledger
begin

text \<open>
  What the stores of the control plane share: the failures of the database they call, transactions,
  and Go errors. A Go error is the list of sentinel errors that \<^verbatim>\<open>errors.Is\<close> finds in it, so joining errors
  is appending. Every call to the database may fail: the record \<open>db_env\<close> says whether the transaction begins,
  which of its statements reach the database, and whether the commit and the rollback succeed; a
  commit may fail before or after it took effect.
\<close>

section \<open>The database\<close>

datatype db_error = DbError (dbCode: string) (dbConstraint: string) | DbNoRows | DbOther

record db_env =
  deBegin :: bool
  deCall :: "nat \<Rightarrow> bool"
  deCommit :: commit_outcome
  deRollback :: bool

definition db_healthy :: db_env where
  "db_healthy = \<lparr>deBegin = True, deCall = (\<lambda>_. True), deCommit = CommitOk, deRollback = True\<rparr>"

lemma db_healthy_simps [simp]:
  "deBegin db_healthy" "deCall db_healthy n" "deCommit db_healthy = CommitOk" "deRollback db_healthy"
  by (simp_all add: db_healthy_def)

text \<open>The n-th statement of an operation.\<close>

definition sql :: "db_env \<Rightarrow> nat \<Rightarrow> (db_error, 'a) result \<Rightarrow> (db_error, 'a) result" where
  "sql env n r = (if deCall env n then r else Inl DbOther)"

lemma sql_Inr [simp]: "sql env n r = Inr a \<longleftrightarrow> deCall env n \<and> r = Inr a"
  by (simp add: sql_def)

lemma sql_healthy [simp]: "sql db_healthy n r = r"
  by (simp add: sql_def)

text \<open>A timestamp parameter loses its nanoseconds.\<close>

definition timestamptz :: "time \<Rightarrow> time" where
  "timestamptz t = time_Truncate t Microsecond"

lemma timestamptz_idem [simp]: "timestamptz (timestamptz t) = timestamptz t"
  by (simp add: timestamptz_def time_Truncate_id)

lemma timestamptz_mono: "s \<le> t \<Longrightarrow> timestamptz s \<le> timestamptz t"
proof -
  assume "s \<le> t"
  then have "s div 1000 * 1000 \<le> t div 1000 * 1000" by (simp add: zdiv_mono1)
  then show ?thesis by (simp add: timestamptz_def time_Truncate_def minus_mod_eq_div_mult)
qed

section \<open>Errors\<close>

text \<open>When a chain of checks and calls succeeds.\<close>

lemma case_errors_eq_Inr [simp]:
  "(case r of Inl e \<Rightarrow> if c e then Inl (f e) else Inl (g e) | Inr a \<Rightarrow> h a) = Inr b \<longleftrightarrow> (\<exists>a. r = Inr a \<and> h a = Inr b)"
  by (cases r) auto

lemma if_error_eq_Inr [simp]:
  "(if c then Inl e else r) = Inr b \<longleftrightarrow> \<not> c \<and> r = Inr b"
  "(if c then r else Inl e) = Inr b \<longleftrightarrow> c \<and> r = Inr b"
  by auto

definition errors_Is :: "'s list \<Rightarrow> 's \<Rightarrow> bool" where
  "errors_Is err s \<longleftrightarrow> s \<in> set err"

lemma errors_Is_simps [simp]: "errors_Is [] s \<longleftrightarrow> False" "errors_Is (e # es) s \<longleftrightarrow> e = s \<or> errors_Is es s"
  by (auto simp: errors_Is_def)

section \<open>Transactions\<close>

text \<open>The body computes the value and the tables at the commit; the deferred rollback of a failed
  transaction may fail too. A transaction that was committed, or whose commit failed, is closed.\<close>

definition run_tx ::
    "'s \<Rightarrow> db_env \<Rightarrow> 'd \<Rightarrow> ('s list, 'a \<times> 'd) result \<Rightarrow> ('s list, 'a) result \<times> 'd" where
  "run_tx dependency env db body =
     (if \<not> deBegin env then (Inl [dependency], db)
      else case body of
        Inl err \<Rightarrow> (Inl (if deRollback env then err else err @ [dependency]), db)
      | Inr (a, db') \<Rightarrow>
        (case deCommit env of
           CommitOk \<Rightarrow> (Inr a, db')
         | CommitRejected \<Rightarrow> (Inl [dependency], db)
         | CommitLost \<Rightarrow> (Inl [dependency], db')))"

lemma run_tx_cases:
  assumes "run_tx dep env db body = (r, db')"
  obtains (unchanged) "db' = db" "\<exists>e. r = Inl e" | (committed) a where "body = Inr (a, db')" "r = Inr a \<or> r = Inl [dep]"
  using assms by (auto simp: run_tx_def split: if_splits sum.splits commit_outcome.splits)

lemma run_tx_Inr:
  "run_tx dep env db body = (Inr a, db') \<longleftrightarrow> deBegin env \<and> body = Inr (a, db') \<and> deCommit env = CommitOk"
  by (auto simp: run_tx_def split: sum.splits commit_outcome.splits)

lemma run_tx_healthy [simp]:
  "run_tx dep db_healthy db (Inl err) = (Inl err, db)" "run_tx dep db_healthy db (Inr (a, db')) = (Inr a, db')"
  by (simp_all add: run_tx_def)

text \<open>A service method returns its result with the tables its last writing call leaves: it stops before
  a write, or writes.\<close>

definition no_write :: "('e, 'a) result \<Rightarrow> ('e, 'a) result \<times> 'd option" where
  "no_write r = (r, None)"

definition with_write :: "('e, 'a) result \<times> 'd \<Rightarrow> ('e, 'a) result \<times> 'd option" where
  "with_write = (\<lambda>(r, db). (r, Some db))"

lemma write_simps [simp]:
  "no_write r \<noteq> (x, Some db)" "with_write p = (x, Some db) \<longleftrightarrow> p = (x, db)"
  by (auto simp: no_write_def with_write_def split: prod.splits)

text \<open>Updating the rows of a table that a condition selects.\<close>

definition update_where :: "('r \<Rightarrow> bool) \<Rightarrow> ('r \<Rightarrow> 'r) \<Rightarrow> 'r list \<Rightarrow> 'r list" where
  "update_where P f rows = map (\<lambda>r. if P r then f r else r) rows"

lemma update_where_simps [simp]:
  "update_where P f [] = []"
  "update_where P f (r # rs) = (if P r then f r else r) # update_where P f rs"
  "length (update_where P f rs) = length rs"
  by (simp_all add: update_where_def)

lemma update_where_key: "(\<And>r. key (f r) = key r) \<Longrightarrow> map key (update_where P f rows) = map key rows"
  by (induction rows) simp_all

lemma set_update_where: "set (update_where P f rows) = (\<lambda>r. if P r then f r else r) ` set rows"
  by (simp add: update_where_def)

lemma find_update_where:
  assumes "\<And>r. Q (f r) = Q r"
  shows "find Q (update_where P f rows) = map_option (\<lambda>r. if P r then f r else r) (find Q rows)"
  using assms by (induction rows) auto

lemma list_ex_key: "list_ex (\<lambda>x. f x = k) xs \<longleftrightarrow> k \<in> f ` set xs"
  by (auto simp: list_ex_iff)

lemma image_update_where: "(\<And>r. key (f r) = key r) \<Longrightarrow> key ` set (update_where P f rows) = key ` set rows"
  by (induction rows) simp_all

lemma filter_key_single: "distinct (map key xs) \<Longrightarrow> x \<in> set xs \<Longrightarrow> filter (\<lambda>y. key y = key x) xs = [x]"
  by (induction xs) (auto simp: filter_empty_conv image_iff)

section \<open>Growth\<close>

text \<open>Tables are appended to and updated in place: each row stays at its position, related to its
  later value.\<close>

definition grown :: "('r \<Rightarrow> 'r \<Rightarrow> bool) \<Rightarrow> 'r list \<Rightarrow> 'r list \<Rightarrow> bool" where
  "grown R xs ys \<longleftrightarrow> (\<exists>zs rest. ys = zs @ rest \<and> list_all2 R xs zs)"

lemma grown_refl: "reflp R \<Longrightarrow> grown R xs xs"
  unfolding grown_def by (rule exI [of _ xs], rule exI [of _ "[]"]) (simp add: list_all2_refl reflpD)

lemma grown_append: "reflp R \<Longrightarrow> grown R xs (xs @ rest)"
  unfolding grown_def by (rule exI [of _ xs], rule exI [of _ rest]) (simp add: list_all2_refl reflpD)

lemma grown_update: "reflp R \<Longrightarrow> (\<And>x. x \<in> set xs \<Longrightarrow> P x \<Longrightarrow> R x (f x)) \<Longrightarrow> grown R xs (update_where P f xs)"
  unfolding grown_def update_where_def
  by (rule exI, rule exI [of _ "[]"]) (auto simp: list_all2_map2 list_all2_same dest: reflpD)

lemma grown_trans:
  assumes "transp R" "grown R xs ys" "grown R ys zs"
  shows "grown R xs zs"
proof -
  obtain ys1 ys2 where y: "ys = ys1 @ ys2" "list_all2 R xs ys1" using assms(2) by (auto simp: grown_def)
  obtain zs1 zs2 where z: "zs = zs1 @ zs2" "list_all2 R ys zs1" using assms(3) by (auto simp: grown_def)
  then obtain u v where uv: "zs1 = u @ v" "list_all2 R ys1 u" using y(1) by (auto simp: list_all2_append1)
  have "list_all2 R xs u"
    by (rule list_all2_trans [OF _ y(2) uv(2)]) (use assms(1) in \<open>blast dest: transpD\<close>)
  then show ?thesis using z(1) uv(1) by (auto simp: grown_def)
qed

lemma grown_in: "grown R xs ys \<Longrightarrow> x \<in> set xs \<Longrightarrow> \<exists>y\<in>set ys. R x y"
proof -
  assume "grown R xs ys" "x \<in> set xs"
  then obtain zs rest i where "ys = zs @ rest" "list_all2 R xs zs" "i < length xs" "x = xs ! i"
    by (auto simp: grown_def in_set_conv_nth)
  then have "zs ! i \<in> set ys \<and> R x (zs ! i)" by (auto simp: list_all2_conv_all_nth)
  then show ?thesis by blast
qed

end
