(* ===== verification/Workspace_Store.thy ===== *)
theory Workspace_Store
  imports Transaction "HOL-Library.Product_Lexorder"
begin

text \<open>
  The Workspaces of the control plane: the sentinel errors and positions of \<^verbatim>\<open>workspace/model.go\<close>, the tables
  of the migrations with their constraints, and the PostgreSQL store (\<^verbatim>\<open>workspace/postgres/store.go\<close>). The rows
  are the contract types themselves; the column \<^verbatim>\<open>installed_release_id\<close> is NULL exactly where the field is
  empty, as \<^verbatim>\<open>nullableReleaseID\<close> writes it and \<^verbatim>\<open>COALESCE\<close> reads it.
\<close>

section \<open>Data\<close>

datatype workspace_sentinel =
    WsErrNotFound | WsErrForbidden | WsErrConflict | WsErrInvalid | WsErrDependency
  | WsErrAgentNotInstalled | WsErrInstallationDisabled | WsErrAgentDisabled
  | WsErrReleaseUnpublished | WsErrReleaseSuspended | WsErrReleaseRevoked | WsErrCapabilityNotAllowed

type_synonym workspace_error = "workspace_sentinel list"

record installation_position =
  ipInstalledAt :: time
  ipInstallationID :: string

section \<open>Tables\<close>

record workspace_db =
  wdWorkspaces :: "workspace list"
  wdInstallations :: "installation list"

definition empty_workspaces :: workspace_db where
  "empty_workspaces = \<lparr>wdWorkspaces = [], wdInstallations = []\<rparr>"

definition workspace_checks :: "workspace \<Rightarrow> bool" where
  "workspace_checks w \<longleftrightarrow> MatchString safeIdentifierPattern (wkWorkspaceID w) \<and>
     MatchString safeIdentifierPattern (wkOwnerID w) \<and> wkCreatedAt w \<le> wkUpdatedAt w"

definition installation_state_timestamps :: "installation \<Rightarrow> bool" where
  "installation_state_timestamps i \<longleftrightarrow>
     (inStatus i \<in> {''enabled'', ''disabled''} \<and> inUninstalledAt i = None) \<or>
     (inStatus i = ''uninstalled'' \<and> inUninstalledAt i = Some (inUpdatedAt i))"

definition installation_checks :: "installation \<Rightarrow> bool" where
  "installation_checks i \<longleftrightarrow> MatchString safeIdentifierPattern (inInstallationID i) \<and>
     MatchString safeIdentifierPattern (inWorkspaceID i) \<and> MatchString safeIdentifierPattern (inAgentID i) \<and>
     inStatus i \<in> {''enabled'', ''disabled'', ''uninstalled''} \<and> inInstalledAt i \<le> inUpdatedAt i \<and>
     installation_state_timestamps i \<and>
     (inInstalledReleaseID i \<noteq> [] \<longrightarrow> MatchString safeIdentifierPattern (inInstalledReleaseID i))"

text \<open>The rows of the partial unique index \<^verbatim>\<open>installations_current_agent_idx\<close> and their key.\<close>

definition current :: "installation \<Rightarrow> bool" where
  "current i \<longleftrightarrow> inStatus i \<noteq> ''uninstalled''"

definition current_key :: "installation \<Rightarrow> string \<times> string" where
  "current_key i = (inWorkspaceID i, inAgentID i)"

section \<open>Statements\<close>

text \<open>An inserted row must pass the checks, the unique indexes and the foreign key, in this order. A
  column without NULL refuses the nil slice.\<close>

definition insert_workspace :: "workspace_db \<Rightarrow> workspace \<Rightarrow> (db_error, workspace_db) result" where
  "insert_workspace db w =
     (if \<not> workspace_checks w then Inl (DbError ''23514'' [])
      else if list_ex (\<lambda>x. wkWorkspaceID x = wkWorkspaceID w) (wdWorkspaces db)
      then Inl (DbError ''23505'' ''workspaces_pkey'')
      else Inr (db\<lparr>wdWorkspaces := wdWorkspaces db @ [w]\<rparr>))"

definition insert_installation :: "workspace_db \<Rightarrow> installation \<Rightarrow> (db_error, workspace_db) result" where
  "insert_installation db i =
     (if inAcceptedPermissions i = None then Inl (DbError ''23502'' [])
      else if \<not> installation_checks i then Inl (DbError ''23514'' [])
      else if list_ex (\<lambda>x. inInstallationID x = inInstallationID i) (wdInstallations db)
      then Inl (DbError ''23505'' ''installations_pkey'')
      else if current i \<and> list_ex (\<lambda>x. current x \<and> current_key x = current_key i) (wdInstallations db)
      then Inl (DbError ''23505'' ''installations_current_agent_idx'')
      else if \<not> list_ex (\<lambda>w. wkWorkspaceID w = inWorkspaceID i) (wdWorkspaces db)
      then Inl (DbError ''23503'' ''installations_workspace_fk'')
      else Inr (db\<lparr>wdInstallations := wdInstallations db @ [i]\<rparr>))"

text \<open>The statement returns the updated row.\<close>

definition update_installation ::
    "workspace_db \<Rightarrow> string \<Rightarrow> string \<Rightarrow> (installation \<Rightarrow> installation) \<Rightarrow> (db_error, installation \<times> workspace_db) result" where
  "update_installation db workspaceID installationID f =
     (let selected = (\<lambda>i. inWorkspaceID i = workspaceID \<and> inInstallationID i = installationID);
          rows = update_where selected f (wdInstallations db) in
      case find selected (wdInstallations db) of
        None \<Rightarrow> Inl DbNoRows
      | Some i \<Rightarrow>
        if \<not> installation_checks (f i) then Inl (DbError ''23514'' [])
        else if \<not> distinct (map current_key (filter current rows))
        then Inl (DbError ''23505'' ''installations_current_agent_idx'')
        else Inr (f i, db\<lparr>wdInstallations := rows\<rparr>))"

definition isUniqueViolation :: "db_error \<Rightarrow> bool" where
  "isUniqueViolation err \<longleftrightarrow> (case err of DbError code _ \<Rightarrow> code = ''23505'' | _ \<Rightarrow> False)"

text \<open>A query of one row: the error \<^verbatim>\<open>pgx.ErrNoRows\<close> is told apart from the others.\<close>

definition one_row :: "db_env \<Rightarrow> nat \<Rightarrow> 'a option \<Rightarrow> (workspace_error, 'a) result" where
  "one_row env n row =
     (case sql env n (case row of None \<Rightarrow> Inl DbNoRows | Some r \<Rightarrow> Inr r) of
        Inl DbNoRows \<Rightarrow> Inl [WsErrNotFound]
      | Inl _ \<Rightarrow> Inl [WsErrDependency]
      | Inr r \<Rightarrow> Inr r)"

lemma one_row_Inr [simp]: "one_row env n row = Inr r \<longleftrightarrow> deCall env n \<and> row = Some r"
  by (auto simp: one_row_def sql_def split: option.splits)

lemma one_row_Inl:
  "one_row env n row = Inl err \<longleftrightarrow>
     (\<not> deCall env n \<and> err = [WsErrDependency]) \<or> (deCall env n \<and> row = None \<and> err = [WsErrNotFound])"
  by (auto simp: one_row_def sql_def split: option.splits)

section \<open>Workspaces\<close>

definition store_CreateWorkspace ::
    "db_env \<Rightarrow> workspace_db \<Rightarrow> workspace \<Rightarrow> (workspace_error, workspace) result \<times> workspace_db" where
  "store_CreateWorkspace env db value' =
     run_tx WsErrDependency env db
       (let row = value'\<lparr>wkCreatedAt := timestamptz (wkCreatedAt value'), wkUpdatedAt := timestamptz (wkUpdatedAt value')\<rparr> in
        case sql env 0 (insert_workspace db row) of
          Inl err \<Rightarrow> if isUniqueViolation err then Inl [WsErrConflict] else Inl [WsErrDependency]
        | Inr db' \<Rightarrow> Inr (row, db'))"

definition store_GetWorkspace :: "db_env \<Rightarrow> workspace_db \<Rightarrow> string \<Rightarrow> (workspace_error, workspace) result" where
  "store_GetWorkspace env db workspaceID = one_row env 0 (find (\<lambda>w. wkWorkspaceID w = workspaceID) (wdWorkspaces db))"

section \<open>Installations\<close>

definition HasCurrentInstallation :: "db_env \<Rightarrow> workspace_db \<Rightarrow> string \<Rightarrow> string \<Rightarrow> (workspace_error, bool) result" where
  "HasCurrentInstallation env db workspaceID agentID =
     (case sql env 0 (Inr (list_ex (\<lambda>i. inWorkspaceID i = workspaceID \<and> inAgentID i = agentID \<and> inStatus i \<noteq> ''uninstalled'')
         (wdInstallations db))) of
        Inl _ \<Rightarrow> Inl [WsErrDependency]
      | Inr found \<Rightarrow> Inr found)"

definition installation_row :: "installation \<Rightarrow> installation" where
  "installation_row i = i\<lparr>inInstalledAt := timestamptz (inInstalledAt i), inUpdatedAt := timestamptz (inUpdatedAt i),
     inUninstalledAt := map_option timestamptz (inUninstalledAt i)\<rparr>"

definition create_installation_body ::
    "db_env \<Rightarrow> workspace_db \<Rightarrow> string \<Rightarrow> installation \<Rightarrow> (workspace_error, installation \<times> workspace_db) result" where
  "create_installation_body env db caller i =
     rbind (one_row env 0 (find (\<lambda>w. wkWorkspaceID w = inWorkspaceID i) (wdWorkspaces db))) (\<lambda>w.
       if wkOwnerID w \<noteq> caller then Inl [WsErrForbidden]
       else case sql env 1 (Inr (list_ex (\<lambda>x. inWorkspaceID x = inWorkspaceID i \<and> inAgentID x = inAgentID i \<and>
                 inStatus x \<noteq> ''uninstalled'') (wdInstallations db))) of
         Inl _ \<Rightarrow> Inl [WsErrDependency]
       | Inr True \<Rightarrow> Inl [WsErrConflict]
       | Inr False \<Rightarrow>
         (case sql env 2 (insert_installation db (installation_row i)) of
            Inl err \<Rightarrow> if isUniqueViolation err then Inl [WsErrConflict] else Inl [WsErrDependency]
          | Inr db' \<Rightarrow> Inr (installation_row i, db')))"

definition CreateInstallation ::
    "db_env \<Rightarrow> workspace_db \<Rightarrow> string \<Rightarrow> installation \<Rightarrow> (workspace_error, installation) result \<times> workspace_db" where
  "CreateInstallation env db caller i = run_tx WsErrDependency env db (create_installation_body env db caller i)"

definition getInstallation :: "db_env \<Rightarrow> workspace_db \<Rightarrow> (installation \<Rightarrow> bool) \<Rightarrow> (workspace_error, installation) result" where
  "getInstallation env db selected = one_row env 0 (find selected (wdInstallations db))"

definition store_GetInstallation ::
    "db_env \<Rightarrow> workspace_db \<Rightarrow> string \<Rightarrow> string \<Rightarrow> (workspace_error, installation) result" where
  "store_GetInstallation env db workspaceID installationID =
     getInstallation env db (\<lambda>i. inWorkspaceID i = workspaceID \<and> inInstallationID i = installationID)"

definition GetCurrentInstallation ::
    "db_env \<Rightarrow> workspace_db \<Rightarrow> string \<Rightarrow> string \<Rightarrow> (workspace_error, installation) result" where
  "GetCurrentInstallation env db workspaceID agentID =
     getInstallation env db (\<lambda>i. inWorkspaceID i = workspaceID \<and> inAgentID i = agentID \<and> inStatus i \<noteq> ''uninstalled'')"

text \<open>The order and the condition of the listing; a timestamp parameter has microseconds.\<close>

definition installation_order :: "installation \<Rightarrow> time \<times> string" where
  "installation_order i = (inInstalledAt i, inInstallationID i)"

definition installation_after :: "installation_position option \<Rightarrow> installation \<Rightarrow> bool" where
  "installation_after after i =
     (case after of None \<Rightarrow> True
      | Some p \<Rightarrow> inInstalledAt i > timestamptz (ipInstalledAt p) \<or>
          (inInstalledAt i = timestamptz (ipInstalledAt p) \<and> inInstallationID i > ipInstallationID p))"

definition store_ListInstallations ::
    "db_env \<Rightarrow> workspace_db \<Rightarrow> string \<Rightarrow> int \<Rightarrow> installation_position option \<Rightarrow>
     (workspace_error, installation list \<times> bool) result" where
  "store_ListInstallations env db workspaceID limit after =
     (case sql env 0 (Inr (take (nat (limit + 1)) (sort_key installation_order
         (filter (\<lambda>i. inWorkspaceID i = workspaceID \<and> installation_after after i) (wdInstallations db))))) of
        Inl _ \<Rightarrow> Inl [WsErrDependency]
      | Inr items \<Rightarrow>
        (let hasMore = (int (length items) > limit) in Inr (if hasMore then take (nat limit) items else items, hasMore)))"

section \<open>Lifecycle\<close>

definition nextLifecycleTime :: "time \<Rightarrow> time \<Rightarrow> time" where
  "nextLifecycleTime previous candidate =
     (let previous = time_Truncate previous Microsecond; candidate = time_Truncate candidate Microsecond in
      if \<not> candidate > previous then previous + Microsecond else candidate)"

definition change_status_body ::
    "db_env \<Rightarrow> workspace_db \<Rightarrow> string \<Rightarrow> string \<Rightarrow> string \<Rightarrow> time \<Rightarrow> (workspace_error, installation \<times> workspace_db) result" where
  "change_status_body env db workspaceID installationID status t =
     rbind (one_row env 0 (find (\<lambda>i. inWorkspaceID i = workspaceID \<and> inInstallationID i = installationID) (wdInstallations db))) (\<lambda>before.
       if inStatus before = ''uninstalled'' \<or> inStatus before = status then Inl [WsErrConflict]
       else if (inStatus before \<noteq> ''enabled'' \<or> status \<noteq> ''disabled'') \<and> (inStatus before \<noteq> ''disabled'' \<or> status \<noteq> ''enabled'')
       then Inl [WsErrConflict]
       else let committedAt = nextLifecycleTime (inUpdatedAt before) t;
                after = before\<lparr>inStatus := status, inUpdatedAt := committedAt\<rparr> in
         if ValidateInstallationImmutablePin before after \<noteq> None then Inl [WsErrDependency]
         else case sql env 1 (update_installation db workspaceID installationID
                 (\<lambda>i. i\<lparr>inStatus := status, inUpdatedAt := timestamptz committedAt\<rparr>)) of
           Inl _ \<Rightarrow> Inl [WsErrDependency]
         | Inr (row, db') \<Rightarrow> Inr (row, db'))"

definition ChangeInstallationStatus ::
    "db_env \<Rightarrow> workspace_db \<Rightarrow> string \<Rightarrow> string \<Rightarrow> string \<Rightarrow> time \<Rightarrow> (workspace_error, installation) result \<times> workspace_db" where
  "ChangeInstallationStatus env db workspaceID installationID status t =
     run_tx WsErrDependency env db (change_status_body env db workspaceID installationID status t)"

definition uninstall_body ::
    "db_env \<Rightarrow> workspace_db \<Rightarrow> string \<Rightarrow> string \<Rightarrow> time \<Rightarrow> (workspace_error, installation \<times> workspace_db) result" where
  "uninstall_body env db workspaceID installationID t =
     rbind (one_row env 0 (find (\<lambda>i. inWorkspaceID i = workspaceID \<and> inInstallationID i = installationID) (wdInstallations db))) (\<lambda>before.
       if inStatus before \<noteq> ''disabled'' then Inl [WsErrConflict]
       else let committedAt = nextLifecycleTime (inUpdatedAt before) t;
                after = before\<lparr>inStatus := ''uninstalled'', inUpdatedAt := committedAt, inUninstalledAt := Some committedAt\<rparr> in
         if ValidateInstallationImmutablePin before after \<noteq> None then Inl [WsErrDependency]
         else case sql env 1 (update_installation db workspaceID installationID
                 (\<lambda>i. i\<lparr>inStatus := ''uninstalled'', inUpdatedAt := timestamptz committedAt,
                        inUninstalledAt := Some (timestamptz committedAt)\<rparr>)) of
           Inl _ \<Rightarrow> Inl [WsErrDependency]
         | Inr (row, db') \<Rightarrow> Inr (row, db'))"

definition UninstallInstallation ::
    "db_env \<Rightarrow> workspace_db \<Rightarrow> string \<Rightarrow> string \<Rightarrow> time \<Rightarrow> (workspace_error, installation) result \<times> workspace_db" where
  "UninstallInstallation env db workspaceID installationID t =
     run_tx WsErrDependency env db (uninstall_body env db workspaceID installationID t)"

end
