(* ===== verification/Catalog_Store.thy ===== *)
theory Catalog_Store
  imports Transaction
begin

text \<open>
  The Catalog of the control plane: its data (\<^verbatim>\<open>catalog/model.go\<close>, the types of \<^verbatim>\<open>trust.go\<close>), the tables of its
  migrations with their constraints, and the PostgreSQL store (\<^verbatim>\<open>catalog/postgres/store.go\<close> and
  \<^verbatim>\<open>trust_store.go\<close>). A table is the list of its rows. The card column holds the text of the card; a row
  carries the card it decodes to beside it.
\<close>

section \<open>Data\<close>

datatype catalog_sentinel =
    CatErrNotFound | CatErrForbidden | CatErrConflict | CatErrInvalid | CatErrDependency
  | CatErrReleaseNotFound | CatErrReleaseConflict | CatErrReleaseInvalid | CatErrReleaseUnavailable
  | CatErrReleaseUnpublished | CatErrReleaseSuspended | CatErrReleaseRevoked
  | CatErrProviderNotFound | CatErrBindingNotFound | CatErrChallengeNotFound | CatErrChallengeExpired
  | CatErrChallengeReused | CatErrWrongProof | CatErrEndpointUnavailable | CatErrRedirectNotAllowed
  | CatErrDisallowedNetwork | CatErrEndpointInvalid | CatErrTrustConflict | CatErrTrustDependency

type_synonym catalog_error = "catalog_sentinel list"

record agent_release =
  arReleaseID :: string
  arProviderID :: string
  arAgentID :: string
  arAgentCardVersion :: string
  arCardDigest :: "nat list"
  arEndpointBindingID :: string
  arEndpointOrigin :: string
  arEndpointPath :: string
  arVerificationMethod :: string
  arVerificationEvidenceDigest :: "nat list option"
  arState :: string
  arCreatedAt :: time
  arUpdatedAt :: time
  arVerifiedAt :: "time option"
  arPublishedAt :: "time option"
  arSuspendedAt :: "time option"
  arRevokedAt :: "time option"

record agent_version =
  avPublicAgentID :: string
  avCard :: agent_card
  avCardJSON :: string
  avCardDigest :: "nat list"
  avStatus :: string
  avRegisteredAt :: time
  avPublishedAt :: "time option"
  avPublicationSequence :: "int option"
  avDisabledAt :: "time option"
  avLegacyUnverified :: bool
  avRelease :: "agent_release option"

record provider =
  pvProviderID :: string
  pvOwnerIdentity :: string
  pvVerificationStatus :: string
  pvVerificationMethod :: string
  pvVerifiedAt :: "time option"
  pvCreatedAt :: time
  pvUpdatedAt :: time

record endpoint_binding =
  ebBindingID :: string
  ebProviderID :: string
  ebAgentID :: string
  ebAgentCardVersion :: string
  ebEndpoint :: string
  ebOrigin :: string
  ebPath :: string
  ebVerificationMethod :: string
  ebVerificationStatus :: string
  ebVerificationEvidenceDigest :: "nat list option"
  ebVerificationFailureCode :: "string option"
  ebCreatedAt :: time
  ebUpdatedAt :: time
  ebVerifiedAt :: "time option"
  ebRevokedAt :: "time option"

record verification_challenge =
  vcChallengeID :: string
  vcBindingID :: string
  vcProofDigest :: "nat list"
  vcExpiresAt :: time
  vcUsedAt :: "time option"
  vcCreatedAt :: time

section \<open>Tables\<close>

record identity_row =
  aiAgentID :: string
  aiOwnerID :: string
  aiCreatedAt :: time
  aiPublicAgentID :: string
  aiProviderID :: "string option"

record version_row =
  vrAgentID :: string
  vrVersion :: string
  vrSchemaVersion :: string
  vrCardJSON :: string
  vrCard :: agent_card
  vrCardName :: string
  vrCardDescription :: string
  vrCardDigest :: "nat list"
  vrStatus :: string
  vrRegisteredAt :: time
  vrPublishedAt :: "time option"
  vrSequence :: "int option"
  vrDisabledAt :: "time option"
  vrLegacyUnverified :: bool

record catalog_db =
  cdIdentities :: "identity_row list"
  cdVersions :: "version_row list"
  cdCapabilities :: "(string \<times> string \<times> string) list"
  cdReleases :: "agent_release list"
  cdProviders :: "provider list"
  cdBindings :: "endpoint_binding list"
  cdChallenges :: "verification_challenge list"
  cdClock :: int

definition empty_catalog :: catalog_db where
  "empty_catalog = \<lparr>cdIdentities = [], cdVersions = [], cdCapabilities = [], cdReleases = [], cdProviders = [],
     cdBindings = [], cdChallenges = [], cdClock = 0\<rparr>"

definition version_key :: "version_row \<Rightarrow> string \<times> string" where
  "version_key r = (vrAgentID r, vrVersion r)"

definition release_key :: "agent_release \<Rightarrow> string \<times> string" where
  "release_key r = (arAgentID r, arAgentCardVersion r)"

text \<open>\<^verbatim>\<open>^agt_[0-9a-f]{32}$\<close>\<close>

definition publicAgentIDPattern :: rexp where
  "publicAgentIDPattern = RSeq (rseqs (map rchar ''agt_'')) (rpow (RCls is_lower_hex) 32)"

definition identity_checks :: "identity_row \<Rightarrow> bool" where
  "identity_checks r \<longleftrightarrow> MatchString safeIdentifierPattern (aiAgentID r) \<and> MatchString safeIdentifierPattern (aiOwnerID r) \<and>
     MatchString publicAgentIDPattern (aiPublicAgentID r)"

definition version_state_timestamps :: "version_row \<Rightarrow> bool" where
  "version_state_timestamps r \<longleftrightarrow>
     (vrStatus r = ''draft'' \<and> vrPublishedAt r = None \<and> vrSequence r = None \<and> vrDisabledAt r = None) \<or>
     (vrStatus r = ''published'' \<and> vrPublishedAt r \<noteq> None \<and> vrSequence r \<noteq> None \<and> vrDisabledAt r = None) \<or>
     (vrStatus r = ''disabled'' \<and> vrDisabledAt r \<noteq> None \<and> (vrPublishedAt r = None \<longleftrightarrow> vrSequence r = None))"

definition version_checks :: "version_row \<Rightarrow> bool" where
  "version_checks r \<longleftrightarrow> MatchString safeIdentifierPattern (vrAgentID r) \<and> vrSchemaVersion r = ''0.2'' \<and>
     length (vrCardDigest r) = 32 \<and> vrStatus r \<in> {''draft'', ''published'', ''disabled''} \<and> version_state_timestamps r"

definition release_state_timestamps :: "agent_release \<Rightarrow> bool" where
  "release_state_timestamps r \<longleftrightarrow>
     (let evidence = (arVerificationEvidenceDigest r \<noteq> None); verified = (arVerifiedAt r \<noteq> None);
          published = (arPublishedAt r \<noteq> None); suspended = (arSuspendedAt r \<noteq> None); revoked = (arRevokedAt r \<noteq> None) in
      (arState r \<in> {''draft'', ''pending_verification''} \<and> \<not> evidence \<and> \<not> verified \<and> \<not> published \<and> \<not> suspended \<and> \<not> revoked) \<or>
      (arState r = ''verified'' \<and> evidence \<and> verified \<and> \<not> published \<and> \<not> suspended \<and> \<not> revoked) \<or>
      (arState r = ''published'' \<and> evidence \<and> verified \<and> published \<and> \<not> suspended \<and> \<not> revoked) \<or>
      (arState r = ''suspended'' \<and> evidence \<and> verified \<and> suspended \<and> \<not> revoked) \<or>
      (arState r = ''revoked'' \<and> evidence \<and> verified \<and> revoked))"

definition release_checks :: "agent_release \<Rightarrow> bool" where
  "release_checks r \<longleftrightarrow> MatchString safeIdentifierPattern (arReleaseID r) \<and> MatchString safeIdentifierPattern (arProviderID r) \<and>
     MatchString safeIdentifierPattern (arAgentID r) \<and> length (arCardDigest r) = 32 \<and>
     (case arVerificationEvidenceDigest r of None \<Rightarrow> True | Some d \<Rightarrow> length d = 32) \<and>
     arState r \<in> {''draft'', ''pending_verification'', ''verified'', ''published'', ''suspended'', ''revoked''} \<and>
     arVerificationMethod r = ''http_well_known'' \<and> arCreatedAt r \<le> arUpdatedAt r \<and> release_state_timestamps r \<and>
     length (arEndpointBindingID r) \<le> 128"

text \<open>The trigger \<^verbatim>\<open>reject_agent_release_bound_mutation\<close>.\<close>

definition release_bound_mutation :: "agent_release \<Rightarrow> agent_release \<Rightarrow> bool" where
  "release_bound_mutation before after \<longleftrightarrow>
     arReleaseID after \<noteq> arReleaseID before \<or> arProviderID after \<noteq> arProviderID before \<or>
     arAgentID after \<noteq> arAgentID before \<or> arAgentCardVersion after \<noteq> arAgentCardVersion before \<or>
     arCardDigest after \<noteq> arCardDigest before \<or> arEndpointBindingID after \<noteq> arEndpointBindingID before \<or>
     arEndpointOrigin after \<noteq> arEndpointOrigin before \<or> arEndpointPath after \<noteq> arEndpointPath before \<or>
     arVerificationMethod after \<noteq> arVerificationMethod before \<or>
     (arVerificationEvidenceDigest after \<noteq> arVerificationEvidenceDigest before \<and>
      \<not> (arState before = ''pending_verification'' \<and> arState after = ''verified'' \<and>
          arVerificationEvidenceDigest before = None \<and> arVerificationEvidenceDigest after \<noteq> None)) \<or>
     arCreatedAt after \<noteq> arCreatedAt before"

definition provider_checks :: "provider \<Rightarrow> bool" where
  "provider_checks p \<longleftrightarrow> MatchString safeIdentifierPattern (pvProviderID p) \<and> MatchString safeIdentifierPattern (pvOwnerIdentity p) \<and>
     pvVerificationStatus p \<in> {''unverified'', ''verified'', ''suspended''} \<and> pvVerificationMethod p = ''http_well_known'' \<and>
     (pvVerificationStatus p = ''unverified'' \<and> pvVerifiedAt p = None \<or>
      pvVerificationStatus p = ''verified'' \<and> pvVerifiedAt p \<noteq> None \<or> pvVerificationStatus p = ''suspended'')"

definition binding_state_timestamps :: "endpoint_binding \<Rightarrow> bool" where
  "binding_state_timestamps b \<longleftrightarrow>
     (let evidence = (ebVerificationEvidenceDigest b \<noteq> None); failure = (ebVerificationFailureCode b \<noteq> None);
          verified = (ebVerifiedAt b \<noteq> None); revoked = (ebRevokedAt b \<noteq> None) in
      (ebVerificationStatus b = ''pending'' \<and> \<not> evidence \<and> \<not> failure \<and> \<not> verified \<and> \<not> revoked) \<or>
      (ebVerificationStatus b = ''verified'' \<and> evidence \<and> \<not> failure \<and> verified \<and> \<not> revoked) \<or>
      (ebVerificationStatus b = ''failed'' \<and> \<not> evidence \<and> failure \<and> \<not> verified \<and> \<not> revoked) \<or>
      (ebVerificationStatus b = ''revoked'' \<and> \<not> evidence \<and> \<not> failure \<and> \<not> verified \<and> revoked))"

definition binding_checks :: "endpoint_binding \<Rightarrow> bool" where
  "binding_checks b \<longleftrightarrow> MatchString safeIdentifierPattern (ebBindingID b) \<and> MatchString safeIdentifierPattern (ebAgentID b) \<and>
     length (ebProviderID b) \<le> 128 \<and>
     (case ebVerificationEvidenceDigest b of None \<Rightarrow> True | Some d \<Rightarrow> length d = 32) \<and>
     ebVerificationStatus b \<in> {''pending'', ''verified'', ''failed'', ''revoked''} \<and>
     ebVerificationMethod b = ''http_well_known'' \<and> binding_state_timestamps b \<and>
     (case ebVerificationFailureCode b of None \<Rightarrow> True | Some c \<Rightarrow> length c \<le> 64)"

definition challenge_checks :: "verification_challenge \<Rightarrow> bool" where
  "challenge_checks c \<longleftrightarrow> MatchString safeIdentifierPattern (vcChallengeID c) \<and> length (vcProofDigest c) = 32"

section \<open>Statements\<close>

text \<open>An inserted row must pass the checks, the unique indexes and the foreign keys, in this order.\<close>

definition insert_identity :: "catalog_db \<Rightarrow> identity_row \<Rightarrow> (db_error, catalog_db) result" where
  "insert_identity db r =
     (if \<not> identity_checks r then Inl (DbError ''23514'' [])
      else if list_ex (\<lambda>x. aiAgentID x = aiAgentID r) (cdIdentities db) then Inr db
      else if list_ex (\<lambda>x. aiPublicAgentID x = aiPublicAgentID r) (cdIdentities db)
      then Inl (DbError ''23505'' ''agent_identities_public_agent_id_idx'')
      else Inr (db\<lparr>cdIdentities := cdIdentities db @ [r]\<rparr>))"

definition insert_version :: "catalog_db \<Rightarrow> version_row \<Rightarrow> (db_error, catalog_db) result" where
  "insert_version db r =
     (if \<not> version_checks r then Inl (DbError ''23514'' [])
      else if list_ex (\<lambda>x. version_key x = version_key r) (cdVersions db)
      then Inl (DbError ''23505'' ''agent_versions_pkey'')
      else if vrSequence r \<noteq> None \<and> list_ex (\<lambda>x. vrSequence x = vrSequence r) (cdVersions db)
      then Inl (DbError ''23505'' ''agent_versions_publication_sequence_idx'')
      else if \<not> list_ex (\<lambda>x. aiAgentID x = vrAgentID r) (cdIdentities db)
      then Inl (DbError ''23503'' ''agent_versions_identity_fk'')
      else Inr (db\<lparr>cdVersions := cdVersions db @ [r]\<rparr>))"

definition insert_capability :: "catalog_db \<Rightarrow> string \<times> string \<times> string \<Rightarrow> (db_error, catalog_db) result" where
  "insert_capability db c =
     (if \<not> MatchString safeIdentifierPattern (snd (snd c)) then Inl (DbError ''23514'' [])
      else if c \<in> set (cdCapabilities db) then Inl (DbError ''23505'' ''agent_version_capabilities_pkey'')
      else if \<not> list_ex (\<lambda>x. version_key x = (fst c, fst (snd c))) (cdVersions db)
      then Inl (DbError ''23503'' ''agent_version_capabilities_version_fk'')
      else Inr (db\<lparr>cdCapabilities := cdCapabilities db @ [c]\<rparr>))"

text \<open>An update checks the new row of every row it changes and then the unique index on the sequence.\<close>

definition update_version :: "catalog_db \<Rightarrow> string \<times> string \<Rightarrow> (version_row \<Rightarrow> version_row) \<Rightarrow> (db_error, catalog_db) result" where
  "update_version db k f =
     (let rows = update_where (\<lambda>r. version_key r = k) f (cdVersions db) in
      if \<not> list_all (\<lambda>r. version_key r = k \<longrightarrow> version_checks (f r)) (cdVersions db) then Inl (DbError ''23514'' [])
      else if \<not> distinct (List.map_filter vrSequence rows)
      then Inl (DbError ''23505'' ''agent_versions_publication_sequence_idx'')
      else Inr (db\<lparr>cdVersions := rows\<rparr>))"

definition advance_clock :: "catalog_db \<Rightarrow> int \<times> catalog_db" where
  "advance_clock db = (cdClock db + 1, db\<lparr>cdClock := cdClock db + 1\<rparr>)"

definition insert_release :: "catalog_db \<Rightarrow> agent_release \<Rightarrow> (db_error, catalog_db) result" where
  "insert_release db r =
     (if \<not> release_checks r then Inl (DbError ''23514'' [])
      else if list_ex (\<lambda>x. arReleaseID x = arReleaseID r) (cdReleases db) then Inl (DbError ''23505'' ''agent_releases_pkey'')
      else if list_ex (\<lambda>x. release_key x = release_key r) (cdReleases db)
      then Inl (DbError ''23505'' ''agent_releases_agent_version_idx'')
      else if \<not> list_ex (\<lambda>p. pvProviderID p = arProviderID r) (cdProviders db)
      then Inl (DbError ''23503'' ''agent_releases_provider_fk'')
      else if \<not> list_ex (\<lambda>x. version_key x = release_key r) (cdVersions db)
      then Inl (DbError ''23503'' ''agent_releases_card_fk'')
      else if \<not> list_ex (\<lambda>b. ebBindingID b = arEndpointBindingID r) (cdBindings db)
      then Inl (DbError ''23503'' ''agent_releases_binding_fk'')
      else Inr (db\<lparr>cdReleases := cdReleases db @ [r]\<rparr>))"

text \<open>The statement returns the updated row.\<close>

definition update_release ::
    "catalog_db \<Rightarrow> string \<Rightarrow> (agent_release \<Rightarrow> agent_release) \<Rightarrow> (db_error, agent_release \<times> catalog_db) result" where
  "update_release db k f =
     (case find (\<lambda>r. arReleaseID r = k) (cdReleases db) of
        None \<Rightarrow> Inl DbNoRows
      | Some r \<Rightarrow>
        if release_bound_mutation r (f r) then Inl (DbError ''55000'' [])
        else if \<not> release_checks (f r) then Inl (DbError ''23514'' [])
        else Inr (f r, db\<lparr>cdReleases := update_where (\<lambda>r. arReleaseID r = k) f (cdReleases db)\<rparr>))"

definition insert_provider :: "catalog_db \<Rightarrow> provider \<Rightarrow> (db_error, catalog_db) result" where
  "insert_provider db p =
     (if \<not> provider_checks p then Inl (DbError ''23514'' [])
      else if list_ex (\<lambda>x. pvProviderID x = pvProviderID p) (cdProviders db) then Inr db
      else Inr (db\<lparr>cdProviders := cdProviders db @ [p]\<rparr>))"

definition insert_binding :: "catalog_db \<Rightarrow> endpoint_binding \<Rightarrow> (db_error, catalog_db) result" where
  "insert_binding db b =
     (if \<not> binding_checks b then Inl (DbError ''23514'' [])
      else if list_ex (\<lambda>x. ebBindingID x = ebBindingID b) (cdBindings db) then Inl (DbError ''23505'' ''endpoint_bindings_pkey'')
      else if \<not> list_ex (\<lambda>p. pvProviderID p = ebProviderID b) (cdProviders db)
      then Inl (DbError ''23503'' ''endpoint_bindings_provider_fk'')
      else if \<not> list_ex (\<lambda>x. version_key x = (ebAgentID b, ebAgentCardVersion b)) (cdVersions db)
      then Inl (DbError ''23503'' ''endpoint_bindings_agent_version_fk'')
      else Inr (db\<lparr>cdBindings := cdBindings db @ [b]\<rparr>))"

definition insert_challenge :: "catalog_db \<Rightarrow> verification_challenge \<Rightarrow> (db_error, catalog_db) result" where
  "insert_challenge db c =
     (if \<not> challenge_checks c then Inl (DbError ''23514'' [])
      else if list_ex (\<lambda>x. vcChallengeID x = vcChallengeID c) (cdChallenges db)
      then Inl (DbError ''23505'' ''verification_challenges_pkey'')
      else if \<not> list_ex (\<lambda>b. ebBindingID b = vcBindingID c) (cdBindings db)
      then Inl (DbError ''23503'' ''verification_challenges_binding_fk'')
      else Inr (db\<lparr>cdChallenges := cdChallenges db @ [c]\<rparr>))"

text \<open>\<^verbatim>\<open>constraintName\<close> reads the name of a violated unique constraint.\<close>

definition constraintName :: "db_error \<Rightarrow> string" where
  "constraintName err = (case err of DbError code name \<Rightarrow> if code = ''23505'' then name else [] | _ \<Rightarrow> [])"

section \<open>Reading rows\<close>

text \<open>\<^verbatim>\<open>selectVersionSQL\<close>: a version with its identity and, if there is one, its release.\<close>

definition version_join :: "catalog_db \<Rightarrow> (version_row \<times> identity_row \<times> agent_release option) list" where
  "version_join db = List.map_filter (\<lambda>v. map_option (\<lambda>i. (v, i, find (\<lambda>r. release_key r = version_key v) (cdReleases db)))
     (find (\<lambda>i. aiAgentID i = vrAgentID v) (cdIdentities db))) (cdVersions db)"

definition scanRelease :: "agent_release \<Rightarrow> (db_error, agent_release) result" where
  "scanRelease r =
     (case arVerificationEvidenceDigest r of
        None \<Rightarrow> if length (arCardDigest r) \<noteq> 32 then Inl DbOther else Inr r
      | Some e \<Rightarrow>
        if length (arCardDigest r) \<noteq> 32 \<or> (length e \<noteq> 0 \<and> length e \<noteq> 32) then Inl DbOther
        else if length e = 32 then Inr r else Inr (r\<lparr>arVerificationEvidenceDigest := None\<rparr>))"

definition scanVersion ::
    "version_row \<times> identity_row \<times> agent_release option \<Rightarrow> (db_error, agent_version \<times> string) result" where
  "scanVersion = (\<lambda>(v, i, r).
     if length (vrCardDigest v) \<noteq> 32 then Inl DbOther
     else rbind (case r of None \<Rightarrow> Inr None | Some x \<Rightarrow> rbind (scanRelease x) (\<lambda>y. Inr (Some y))) (\<lambda>release.
       Inr (\<lparr>avPublicAgentID = aiPublicAgentID i, avCard = vrCard v, avCardJSON = vrCardJSON v, avCardDigest = vrCardDigest v,
          avStatus = vrStatus v, avRegisteredAt = vrRegisteredAt v, avPublishedAt = vrPublishedAt v,
          avPublicationSequence = vrSequence v, avDisabledAt = vrDisabledAt v, avLegacyUnverified = vrLegacyUnverified v,
          avRelease = release\<rparr>, aiOwnerID i)))"

fun scan_rows :: "('r \<Rightarrow> (db_error, 'a) result) \<Rightarrow> 'r list \<Rightarrow> (db_error, 'a list) result" where
  "scan_rows f [] = Inr []" |
  "scan_rows f (r # rs) = rbind (f r) (\<lambda>a. rbind (scan_rows f rs) (\<lambda>as. Inr (a # as)))"

definition query_row :: "('r \<Rightarrow> bool) \<Rightarrow> ('r \<Rightarrow> (db_error, 'a) result) \<Rightarrow> 'r list \<Rightarrow> (db_error, 'a) result" where
  "query_row P f rows = (case find P rows of None \<Rightarrow> Inl DbNoRows | Some r \<Rightarrow> f r)"

definition scanBinding :: "endpoint_binding \<Rightarrow> (db_error, endpoint_binding) result" where
  "scanBinding b =
     (case ebVerificationEvidenceDigest b of
        None \<Rightarrow> Inr b
      | Some e \<Rightarrow> if length e \<noteq> 0 \<and> length e \<noteq> 32 then Inl DbOther
          else if length e = 32 then Inr b else Inr (b\<lparr>ebVerificationEvidenceDigest := None\<rparr>))"

section \<open>Registration and publication\<close>

fun insert_capabilities ::
    "db_env \<Rightarrow> nat \<Rightarrow> string \<Rightarrow> string \<Rightarrow> agent_skill list \<Rightarrow> catalog_db \<Rightarrow> (catalog_error, catalog_db) result" where
  "insert_capabilities env n agentID version [] db = Inr db" |
  "insert_capabilities env n agentID version (s # ss) db =
     (case sql env n (insert_capability db (agentID, version, skID s)) of
        Inl _ \<Rightarrow> Inl [CatErrDependency]
      | Inr db' \<Rightarrow> insert_capabilities env (Suc n) agentID version ss db')"

definition version_row_of :: "agent_version \<Rightarrow> version_row" where
  "version_row_of v =
     \<lparr>vrAgentID = acAgentID (avCard v), vrVersion = acVersion (avCard v), vrSchemaVersion = acSchemaVersion (avCard v),
      vrCardJSON = avCardJSON v, vrCard = avCard v, vrCardName = acName (avCard v), vrCardDescription = acDescription (avCard v),
      vrCardDigest = avCardDigest v, vrStatus = avStatus v, vrRegisteredAt = timestamptz (avRegisteredAt v),
      vrPublishedAt = None, vrSequence = None, vrDisabledAt = None, vrLegacyUnverified = False\<rparr>"

definition register_body :: "db_env \<Rightarrow> catalog_db \<Rightarrow> agent_version \<Rightarrow> (catalog_error, agent_version \<times> catalog_db) result" where
  "register_body env db version =
     (let acard = avCard version; agentID = acAgentID acard in
      case sql env 0 (insert_identity db \<lparr>aiAgentID = agentID, aiOwnerID = aoID (acOwner acard),
             aiCreatedAt = timestamptz (avRegisteredAt version), aiPublicAgentID = avPublicAgentID version, aiProviderID = None\<rparr>) of
        Inl _ \<Rightarrow> Inl [CatErrDependency]
      | Inr db1 \<Rightarrow>
        (case sql env 1 (query_row (\<lambda>i. aiAgentID i = agentID) Inr (cdIdentities db1)) of
           Inl _ \<Rightarrow> Inl [CatErrDependency]
         | Inr identity \<Rightarrow>
           (case sql env 2 (Inr (list_ex (\<lambda>v. version_key v = (agentID, acVersion acard)) (cdVersions db1))) of
              Inl _ \<Rightarrow> Inl [CatErrDependency]
            | Inr exactVersionExists \<Rightarrow>
              if exactVersionExists then Inl [CatErrConflict]
              else if aiOwnerID identity \<noteq> aoID (acOwner acard) then Inl [CatErrForbidden]
              else (case sql env 3 (insert_version db1 (version_row_of version)) of
                 Inl err \<Rightarrow>
                   if constraintName err = ''agent_versions_pkey'' then Inl [CatErrConflict] else Inl [CatErrDependency]
               | Inr db2 \<Rightarrow>
                 rbind (insert_capabilities env 4 agentID (acVersion acard) (acSkills acard) db2) (\<lambda>db3.
                   Inr (version\<lparr>avRegisteredAt := timestamptz (avRegisteredAt version),
                          avPublicAgentID := aiPublicAgentID identity\<rparr>, db3))))))"

definition store_Register ::
    "db_env \<Rightarrow> catalog_db \<Rightarrow> agent_version \<Rightarrow> (catalog_error, agent_version) result \<times> catalog_db" where
  "store_Register env db version = run_tx CatErrDependency env db (register_body env db version)"

definition store_Get :: "db_env \<Rightarrow> catalog_db \<Rightarrow> string \<Rightarrow> string \<Rightarrow> (catalog_error, agent_version) result" where
  "store_Get env db agentID version =
     (case sql env 0 (query_row (\<lambda>(v, _). version_key v = (agentID, version)) scanVersion (version_join db)) of
        Inl err \<Rightarrow> if err = DbNoRows then Inl [CatErrNotFound] else Inl [CatErrDependency]
      | Inr (entry, _) \<Rightarrow> Inr entry)"

definition InstallationCandidates :: "db_env \<Rightarrow> catalog_db \<Rightarrow> string \<Rightarrow> (catalog_error, agent_version list) result" where
  "InstallationCandidates env db agentID =
     (case sql env 0 (scan_rows scanVersion (sort_key (\<lambda>(v, _). vrVersion v)
         (filter (\<lambda>(v, _, r). vrAgentID v = agentID \<and> (vrStatus v = ''published'' \<or> r \<noteq> None)) (version_join db)))) of
        Inl _ \<Rightarrow> Inl [CatErrDependency]
      | Inr entries \<Rightarrow> Inr (map fst entries))"

definition publish_row :: "time \<Rightarrow> int \<Rightarrow> version_row \<Rightarrow> version_row" where
  "publish_row instant sequence r = r\<lparr>vrStatus := ''published'', vrPublishedAt := Some (timestamptz instant), vrSequence := Some sequence\<rparr>"

definition disable_row :: "time \<Rightarrow> version_row \<Rightarrow> version_row" where
  "disable_row instant r = r\<lparr>vrStatus := ''disabled'', vrDisabledAt := Some (timestamptz instant)\<rparr>"

definition transition_body ::
    "db_env \<Rightarrow> catalog_db \<Rightarrow> string \<Rightarrow> string \<Rightarrow> string \<Rightarrow> time \<Rightarrow> bool \<Rightarrow> (catalog_error, agent_version \<times> catalog_db) result" where
  "transition_body env db agentID version callerIdent instant publish =
     (case sql env 0 (query_row (\<lambda>(v, _). version_key v = (agentID, version)) scanVersion (version_join db)) of
        Inl err \<Rightarrow> if err = DbNoRows then Inl [CatErrNotFound] else Inl [CatErrDependency]
      | Inr (entry, ownerID) \<Rightarrow>
        if ownerID \<noteq> callerIdent then Inl [CatErrForbidden]
        else if avRelease entry \<noteq> None then Inl [CatErrConflict]
        else if publish then
          (if avStatus entry \<noteq> ''draft'' then Inl [CatErrConflict]
           else (case sql env 1 (Inr (advance_clock db)) of
              Inl _ \<Rightarrow> Inl [CatErrDependency]
            | Inr (sequence, db1) \<Rightarrow>
              (case sql env 2 (update_version db1 (agentID, version) (publish_row instant sequence)) of
                 Inl _ \<Rightarrow> Inl [CatErrDependency]
               | Inr db2 \<Rightarrow> Inr (entry\<lparr>avStatus := ''published'', avPublishedAt := Some (timestamptz instant),
                     avPublicationSequence := Some sequence\<rparr>, db2))))
        else if avStatus entry \<noteq> ''disabled'' then
          (case sql env 1 (update_version db (agentID, version) (disable_row instant)) of
             Inl _ \<Rightarrow> Inl [CatErrDependency]
           | Inr db1 \<Rightarrow> Inr (entry\<lparr>avStatus := ''disabled'', avDisabledAt := Some (timestamptz instant)\<rparr>, db1))
        else Inr (entry, db))"

definition store_transition ::
    "db_env \<Rightarrow> catalog_db \<Rightarrow> string \<Rightarrow> string \<Rightarrow> string \<Rightarrow> time \<Rightarrow> bool \<Rightarrow> (catalog_error, agent_version) result \<times> catalog_db" where
  "store_transition env db agentID version callerIdent instant publish =
     run_tx CatErrDependency env db (transition_body env db agentID version callerIdent instant publish)"

abbreviation store_Publish where
  "store_Publish env db agentID version callerIdent instant \<equiv> store_transition env db agentID version callerIdent instant True"

abbreviation store_Disable where
  "store_Disable env db agentID version callerIdent instant \<equiv> store_transition env db agentID version callerIdent instant False"

section \<open>Releases\<close>

definition release_row :: "agent_release \<Rightarrow> agent_release" where
  "release_row r = r\<lparr>arCreatedAt := timestamptz (arCreatedAt r), arUpdatedAt := timestamptz (arUpdatedAt r),
     arVerifiedAt := map_option timestamptz (arVerifiedAt r), arPublishedAt := map_option timestamptz (arPublishedAt r),
     arSuspendedAt := map_option timestamptz (arSuspendedAt r), arRevokedAt := map_option timestamptz (arRevokedAt r)\<rparr>"

definition create_release_body :: "db_env \<Rightarrow> catalog_db \<Rightarrow> agent_release \<Rightarrow> (catalog_error, agent_release \<times> catalog_db) result" where
  "create_release_body env db value =
     (case sql env 0 (query_row (\<lambda>r. arReleaseID r = arReleaseID value) scanRelease (cdReleases db)) of
        Inr _ \<Rightarrow> Inl [CatErrReleaseConflict]
      | Inl err \<Rightarrow>
        if err \<noteq> DbNoRows then Inl [CatErrDependency]
        else (case sql env 1 (rbind (insert_release db (release_row value)) (\<lambda>db'.
                rbind (scanRelease (release_row value)) (\<lambda>r. Inr (r, db')))) of
           Inl err \<Rightarrow> if constraintName err \<noteq> [] then Inl [CatErrReleaseConflict] else Inl [CatErrDependency]
         | Inr result \<Rightarrow> Inr result))"

definition store_CreateRelease ::
    "db_env \<Rightarrow> catalog_db \<Rightarrow> agent_release \<Rightarrow> (catalog_error, agent_release) result \<times> catalog_db" where
  "store_CreateRelease env db value = run_tx CatErrDependency env db (create_release_body env db value)"

definition store_GetRelease :: "db_env \<Rightarrow> catalog_db \<Rightarrow> string \<Rightarrow> (catalog_error, agent_release) result" where
  "store_GetRelease env db releaseID =
     (case sql env 0 (query_row (\<lambda>r. arReleaseID r = releaseID) scanRelease (cdReleases db)) of
        Inl err \<Rightarrow> if err = DbNoRows then Inl [CatErrReleaseNotFound] else Inl [CatErrDependency]
      | Inr release \<Rightarrow> Inr release)"

text \<open>The \<^verbatim>\<open>switch\<close> of \<^verbatim>\<open>TransitionRelease\<close>: which transitions exist and what they write to the release.\<close>

definition release_transition ::
    "agent_release \<Rightarrow> string \<Rightarrow> nat list option \<Rightarrow> time \<Rightarrow> (agent_release \<Rightarrow> agent_release) option" where
  "release_transition current target evidence instant =
     (let st = arState current; base = (\<lambda>r. r\<lparr>arState := target, arUpdatedAt := timestamptz instant\<rparr>) in
      if st = ''pending_verification'' \<and> target = ''verified'' then
        (case evidence of
           None \<Rightarrow> None
         | Some e \<Rightarrow> Some (\<lambda>r. (base r)\<lparr>arVerifiedAt := Some (timestamptz instant), arVerificationEvidenceDigest := Some e\<rparr>))
      else if st = ''verified'' \<and> target = ''published''
      then Some (\<lambda>r. (base r)\<lparr>arPublishedAt := Some (timestamptz instant)\<rparr>)
      else if (st = ''verified'' \<or> st = ''published'') \<and> target = ''suspended''
      then Some (\<lambda>r. (base r)\<lparr>arSuspendedAt := Some (timestamptz instant)\<rparr>)
      else if (st = ''verified'' \<or> st = ''published'' \<or> st = ''suspended'') \<and> target = ''revoked''
      then Some (\<lambda>r. (base r)\<lparr>arRevokedAt := Some (timestamptz instant)\<rparr>)
      else None)"

definition transition_release_body ::
    "db_env \<Rightarrow> catalog_db \<Rightarrow> string \<Rightarrow> string \<Rightarrow> nat list option \<Rightarrow> time \<Rightarrow> (catalog_error, agent_release \<times> catalog_db) result" where
  "transition_release_body env db releaseID target evidence instant =
     (case sql env 0 (query_row (\<lambda>r. arReleaseID r = releaseID) scanRelease (cdReleases db)) of
        Inl err \<Rightarrow> if err = DbNoRows then Inl [CatErrReleaseNotFound] else Inl [CatErrDependency]
      | Inr current \<Rightarrow>
        (case release_transition current target evidence instant of
           None \<Rightarrow> Inl [CatErrReleaseConflict]
         | Some f \<Rightarrow>
           rbind (if target = ''published'' then
                    (case sql env 1 (Inr (advance_clock db)) of
                       Inl _ \<Rightarrow> Inl [CatErrDependency]
                     | Inr (sequence, db1) \<Rightarrow>
                       (case sql env 2 (update_version db1 (release_key current) (publish_row instant sequence)) of
                          Inl _ \<Rightarrow> Inl [CatErrDependency] | Inr db2 \<Rightarrow> Inr db2))
                  else if target = ''suspended'' \<or> target = ''revoked'' then
                    (case sql env 1 (update_version db (release_key current) (disable_row instant)) of
                       Inl _ \<Rightarrow> Inl [CatErrDependency] | Inr db1 \<Rightarrow> Inr db1)
                  else Inr db)
             (\<lambda>db'. case sql env 3 (rbind (update_release db' releaseID f) (\<lambda>(r, db''). rbind (scanRelease r) (\<lambda>r'. Inr (r', db'')))) of
                Inl _ \<Rightarrow> Inl [CatErrDependency] | Inr result \<Rightarrow> Inr result)))"

definition store_TransitionRelease ::
    "db_env \<Rightarrow> catalog_db \<Rightarrow> string \<Rightarrow> string \<Rightarrow> nat list option \<Rightarrow> time \<Rightarrow> (catalog_error, agent_release) result \<times> catalog_db" where
  "store_TransitionRelease env db releaseID target evidence instant =
     run_tx CatErrDependency env db (transition_release_body env db releaseID target evidence instant)"

section \<open>Providers, bindings and challenges\<close>

definition provider_row :: "provider \<Rightarrow> provider" where
  "provider_row p = p\<lparr>pvVerifiedAt := map_option timestamptz (pvVerifiedAt p), pvCreatedAt := timestamptz (pvCreatedAt p),
     pvUpdatedAt := timestamptz (pvUpdatedAt p)\<rparr>"

definition binding_row :: "endpoint_binding \<Rightarrow> endpoint_binding" where
  "binding_row b = b\<lparr>ebVerificationEvidenceDigest := None, ebVerificationFailureCode := None,
     ebCreatedAt := timestamptz (ebCreatedAt b), ebUpdatedAt := timestamptz (ebUpdatedAt b),
     ebVerifiedAt := map_option timestamptz (ebVerifiedAt b), ebRevokedAt := map_option timestamptz (ebRevokedAt b)\<rparr>"

definition AgentOwner :: "db_env \<Rightarrow> catalog_db \<Rightarrow> string \<Rightarrow> (catalog_error, string) result" where
  "AgentOwner env db agentID =
     (case sql env 0 (query_row (\<lambda>i. aiAgentID i = agentID) Inr (cdIdentities db)) of
        Inl err \<Rightarrow> if err = DbNoRows then Inl [CatErrNotFound] else Inl [CatErrDependency]
      | Inr i \<Rightarrow> Inr (aiOwnerID i))"

definition create_binding_body ::
    "db_env \<Rightarrow> catalog_db \<Rightarrow> provider \<Rightarrow> endpoint_binding \<Rightarrow> (catalog_error, endpoint_binding \<times> catalog_db) result" where
  "create_binding_body env db provider binding =
     (case sql env 0 (insert_provider db (provider_row provider)) of
        Inl _ \<Rightarrow> Inl [CatErrTrustDependency]
      | Inr db1 \<Rightarrow>
        (case sql env 1 (query_row (\<lambda>p. pvProviderID p = pvProviderID provider) Inr (cdProviders db1)) of
           Inl _ \<Rightarrow> Inl [CatErrTrustDependency]
         | Inr owner \<Rightarrow>
           if pvOwnerIdentity owner \<noteq> pvOwnerIdentity provider then Inl [CatErrForbidden]
           else if pvVerificationStatus owner = ''suspended'' then Inl [CatErrForbidden]
           else (case sql env 2 (query_row (\<lambda>i. aiAgentID i = ebAgentID binding) Inr (cdIdentities db1)) of
              Inl err \<Rightarrow> if err = DbNoRows then Inl [CatErrNotFound] else Inl [CatErrTrustDependency]
            | Inr identity \<Rightarrow>
              if aiProviderID identity \<noteq> None \<and> aiProviderID identity \<noteq> Some (pvProviderID provider)
              then Inl [CatErrTrustConflict]
              else rbind (if aiProviderID identity = None then
                       (case sql env 3 (Inr (db1\<lparr>cdIdentities := update_where (\<lambda>i. aiAgentID i = ebAgentID binding)
                              (\<lambda>i. i\<lparr>aiProviderID := Some (pvProviderID provider)\<rparr>) (cdIdentities db1)\<rparr>)) of
                          Inl _ \<Rightarrow> Inl [CatErrTrustDependency] | Inr db2 \<Rightarrow> Inr db2)
                     else Inr db1)
                (\<lambda>db2. case sql env 4 (rbind (insert_binding db2 (binding_row binding)) (\<lambda>db3.
                          rbind (scanBinding (binding_row binding)) (\<lambda>b. Inr (b, db3)))) of
                   Inl err \<Rightarrow> if constraintName err \<noteq> [] then Inl [CatErrTrustConflict] else Inl [CatErrTrustDependency]
                 | Inr result \<Rightarrow> Inr result))))"

definition store_CreateBinding ::
    "db_env \<Rightarrow> catalog_db \<Rightarrow> provider \<Rightarrow> endpoint_binding \<Rightarrow> (catalog_error, endpoint_binding) result \<times> catalog_db" where
  "store_CreateBinding env db provider binding =
     run_tx CatErrTrustDependency env db (create_binding_body env db provider binding)"

definition store_GetBinding :: "db_env \<Rightarrow> catalog_db \<Rightarrow> string \<Rightarrow> string \<Rightarrow> (catalog_error, endpoint_binding) result" where
  "store_GetBinding env db providerID bindingID =
     (case sql env 0 (query_row (\<lambda>b. ebProviderID b = providerID \<and> ebBindingID b = bindingID) scanBinding (cdBindings db)) of
        Inl err \<Rightarrow> if err = DbNoRows then Inl [CatErrBindingNotFound] else Inl [CatErrTrustDependency]
      | Inr b \<Rightarrow> Inr b)"

definition store_GetProvider :: "db_env \<Rightarrow> catalog_db \<Rightarrow> string \<Rightarrow> (catalog_error, provider) result" where
  "store_GetProvider env db providerID =
     (case sql env 0 (query_row (\<lambda>p. pvProviderID p = providerID) Inr (cdProviders db)) of
        Inl err \<Rightarrow> if err = DbNoRows then Inl [CatErrProviderNotFound] else Inl [CatErrTrustDependency]
      | Inr p \<Rightarrow> Inr p)"

definition challenge_row :: "verification_challenge \<Rightarrow> verification_challenge" where
  "challenge_row c = c\<lparr>vcExpiresAt := timestamptz (vcExpiresAt c), vcUsedAt := map_option timestamptz (vcUsedAt c),
     vcCreatedAt := timestamptz (vcCreatedAt c)\<rparr>"

text \<open>A single statement outside a transaction takes effect or not; a lost answer is reported as a
  failure either way.\<close>

definition store_CreateChallenge ::
    "db_env \<Rightarrow> catalog_db \<Rightarrow> verification_challenge \<Rightarrow> (catalog_error, unit) result \<times> catalog_db" where
  "store_CreateChallenge env db challenge =
     (case insert_challenge db (challenge_row challenge) of
        Inl err \<Rightarrow> (Inl (if deCall env 0 \<and> constraintName err \<noteq> [] then [CatErrTrustConflict] else [CatErrTrustDependency]), db)
      | Inr db' \<Rightarrow>
        if deCall env 0 then (Inr (), db')
        else (Inl [CatErrTrustDependency], if deCommit env = CommitLost then db' else db))"

definition reserve_challenge_body ::
    "db_env \<Rightarrow> catalog_db \<Rightarrow> string \<Rightarrow> string \<Rightarrow> time \<Rightarrow>
     (catalog_error, (verification_challenge \<times> endpoint_binding) \<times> catalog_db) result" where
  "reserve_challenge_body env db bindingID challengeID now =
     (case sql env 0 (query_row (\<lambda>c. vcBindingID c = bindingID \<and> vcChallengeID c = challengeID) Inr (cdChallenges db)) of
        Inl err \<Rightarrow> if err = DbNoRows then Inl [CatErrChallengeNotFound] else Inl [CatErrTrustDependency]
      | Inr challenge \<Rightarrow>
        if length (vcProofDigest challenge) \<noteq> 32 then Inl [CatErrTrustDependency]
        else if vcUsedAt challenge \<noteq> None then Inl [CatErrChallengeReused]
        else if \<not> now < vcExpiresAt challenge then Inl [CatErrChallengeExpired]
        else (case sql env 1 (query_row (\<lambda>b. ebBindingID b = bindingID) scanBinding (cdBindings db)) of
           Inl _ \<Rightarrow> Inl [CatErrTrustDependency]
         | Inr binding \<Rightarrow>
           if ebVerificationStatus binding = ''verified'' \<or> ebVerificationStatus binding = ''revoked''
           then Inl [CatErrTrustConflict]
           else (case sql env 2 (Inr (db\<lparr>cdChallenges := update_where (\<lambda>c. vcBindingID c = bindingID \<and> vcChallengeID c = challengeID)
                       (\<lambda>c. c\<lparr>vcUsedAt := Some (timestamptz now)\<rparr>) (cdChallenges db)\<rparr>)) of
              Inl _ \<Rightarrow> Inl [CatErrTrustDependency]
            | Inr db' \<Rightarrow> Inr ((challenge\<lparr>vcUsedAt := Some now\<rparr>, binding), db'))))"

definition ReserveChallenge ::
    "db_env \<Rightarrow> catalog_db \<Rightarrow> string \<Rightarrow> string \<Rightarrow> time \<Rightarrow>
     (catalog_error, verification_challenge \<times> endpoint_binding) result \<times> catalog_db" where
  "ReserveChallenge env db bindingID challengeID now =
     run_tx CatErrTrustDependency env db (reserve_challenge_body env db bindingID challengeID now)"

definition verification_row ::
    "string \<Rightarrow> string option \<Rightarrow> nat list option \<Rightarrow> time \<Rightarrow> endpoint_binding \<Rightarrow> endpoint_binding" where
  "verification_row status failureCode digest instant b = b\<lparr>ebVerificationStatus := status, ebVerificationEvidenceDigest := digest,
     ebVerificationFailureCode := failureCode, ebVerifiedAt := (if status = ''verified'' then Some (timestamptz instant) else None),
     ebUpdatedAt := timestamptz instant\<rparr>"

definition set_verification_body ::
    "db_env \<Rightarrow> catalog_db \<Rightarrow> string \<Rightarrow> string \<Rightarrow> string option \<Rightarrow> nat list option \<Rightarrow> time \<Rightarrow>
     (catalog_error, endpoint_binding \<times> catalog_db) result" where
  "set_verification_body env db bindingID status failureCode digest instant =
     (let P = (\<lambda>b. ebBindingID b = bindingID \<and> ebVerificationStatus b \<in> {''pending'', ''failed''});
          f = verification_row status failureCode digest instant in
      case sql env 0 (query_row P (\<lambda>b. if binding_checks (f b) then rbind (scanBinding (f b)) (\<lambda>r. Inr (b, r))
                                        else Inl (DbError ''23514'' [])) (cdBindings db)) of
        Inl err \<Rightarrow>
          if err \<noteq> DbNoRows then Inl [CatErrTrustDependency]
          else (case sql env 1 (Inr (list_ex (\<lambda>b. ebBindingID b = bindingID) (cdBindings db))) of
             Inl _ \<Rightarrow> Inl [CatErrTrustDependency]
           | Inr exists \<Rightarrow> if exists then Inl [CatErrTrustConflict] else Inl [CatErrBindingNotFound])
      | Inr (b, result) \<Rightarrow>
        (let db1 = db\<lparr>cdBindings := update_where P f (cdBindings db)\<rparr> in
         if status \<noteq> ''verified'' then Inr (result, db1)
         else (let Q = (\<lambda>p. pvProviderID p = ebProviderID result \<and> pvVerificationStatus p \<noteq> ''suspended'');
                   g = (\<lambda>p. p\<lparr>pvVerificationStatus := ''verified'', pvVerifiedAt := Some (timestamptz instant), pvUpdatedAt := timestamptz instant\<rparr>) in
               case sql env 2 (if list_all (\<lambda>p. Q p \<longrightarrow> provider_checks (g p)) (cdProviders db1)
                               then Inr (length (filter Q (cdProviders db1)), db1\<lparr>cdProviders := update_where Q g (cdProviders db1)\<rparr>)
                               else Inl (DbError ''23514'' [])) of
                 Inl _ \<Rightarrow> Inl [CatErrTrustDependency]
               | Inr (rowsAffected, db2) \<Rightarrow> if rowsAffected \<noteq> 1 then Inl [CatErrForbidden] else Inr (result, db2))))"

definition SetBindingVerification ::
    "db_env \<Rightarrow> catalog_db \<Rightarrow> string \<Rightarrow> string \<Rightarrow> string option \<Rightarrow> nat list option \<Rightarrow> time \<Rightarrow>
     (catalog_error, endpoint_binding) result \<times> catalog_db" where
  "SetBindingVerification env db bindingID status failureCode digest instant =
     run_tx CatErrTrustDependency env db (set_verification_body env db bindingID status failureCode digest instant)"

section \<open>Discovery\<close>

record discovery_filter =
  dfQuery :: "string option"
  dfCapability :: "string option"
  dfOwnerID :: "string option"
  dfLimit :: int

record discovery_position =
  dpPublishedAt :: time
  dpAgentID :: string
  dpVersion :: string

text \<open>\<^verbatim>\<open>lower\<close> is the function of the database; \<^verbatim>\<open>strpos(a, b) > 0\<close> says that the second text occurs in the first.\<close>

definition discovery_matches ::
    "(string \<Rightarrow> string) \<Rightarrow> catalog_db \<Rightarrow> discovery_filter \<Rightarrow> int \<Rightarrow> version_row \<times> identity_row \<times> agent_release option \<Rightarrow> bool" where
  "discovery_matches lower db fl snapshot = (\<lambda>(v, i, _).
     vrStatus v = ''published'' \<and> (case vrSequence v of None \<Rightarrow> False | Some n \<Rightarrow> n \<le> snapshot) \<and>
     (case dfQuery fl of None \<Rightarrow> True
      | Some q \<Rightarrow> sublist (lower q) (lower (vrCardName v)) \<or> sublist (lower q) (lower (vrCardDescription v))) \<and>
     (case dfCapability fl of None \<Rightarrow> True | Some c \<Rightarrow> (vrAgentID v, vrVersion v, c) \<in> set (cdCapabilities db)) \<and>
     (case dfOwnerID fl of None \<Rightarrow> True | Some o' \<Rightarrow> aiOwnerID i = o'))"

text \<open>The ordering \<^verbatim>\<open>published_at DESC, agent_id ASC, version ASC\<close> as an ascending key.\<close>

definition discovery_key :: "version_row \<Rightarrow> int \<times> string \<times> string" where
  "discovery_key v = (- (case vrPublishedAt v of None \<Rightarrow> 0 | Some t \<Rightarrow> t), vrAgentID v, vrVersion v)"

definition discovery_after :: "discovery_position option \<Rightarrow> version_row \<Rightarrow> bool" where
  "discovery_after after v =
     (case after of None \<Rightarrow> True
      | Some p \<Rightarrow> (case vrPublishedAt v of None \<Rightarrow> False | Some t \<Rightarrow>
          t < timestamptz (dpPublishedAt p) \<or> (t = timestamptz (dpPublishedAt p) \<and> (vrAgentID v > dpAgentID p \<or> (vrAgentID v = dpAgentID p \<and> vrVersion v > dpVersion p)))))"

definition discover ::
    "(string \<Rightarrow> string) \<Rightarrow> db_env \<Rightarrow> catalog_db \<Rightarrow> discovery_filter \<Rightarrow> int \<Rightarrow> discovery_position option \<Rightarrow>
     (catalog_error, agent_version list \<times> bool) result" where
  "discover lower env db fl snapshot after =
     (case sql env 0 (scan_rows scanVersion (take (nat (dfLimit fl + 1)) (sort_key (\<lambda>(v, _). discovery_key v)
         (filter (\<lambda>(v, i, r). discovery_matches lower db fl snapshot (v, i, r) \<and> discovery_after after v) (version_join db))))) of
        Inl _ \<Rightarrow> Inl [CatErrDependency]
      | Inr entries \<Rightarrow>
        (let versions = map fst entries; hasMore = (int (length versions) > dfLimit fl)
         in Inr (if hasMore then take (nat (dfLimit fl)) versions else versions, hasMore)))"

definition DiscoverFirstPage ::
    "(string \<Rightarrow> string) \<Rightarrow> db_env \<Rightarrow> catalog_db \<Rightarrow> discovery_filter \<Rightarrow> (catalog_error, int \<times> agent_version list \<times> bool) result" where
  "DiscoverFirstPage lower env db fl =
     fst (run_tx CatErrDependency env db
       (case sql env 1 (Inr (cdClock db)) of
          Inl _ \<Rightarrow> Inl [CatErrDependency]
        | Inr sequence \<Rightarrow> rbind (discover lower env db fl sequence None) (\<lambda>page. Inr ((sequence, page), db))))"

end
