(* ===== verification/Catalog_Service.thy ===== *)
theory Catalog_Service
  imports Catalog_Store Text
begin

text \<open>
  The services of the Catalog: registration, reads, selection of an installable version and
  discovery (\<^verbatim>\<open>catalog/service.go\<close>, \<^verbatim>\<open>cursor.go\<close>) and the lifecycle of Agent Releases (\<^verbatim>\<open>release.go\<close>). A service
  method makes several calls to the store, each a transaction of its own, and other methods may run
  between them: the record \<open>catalog_world\<close> gives, for the n-th call, the tables it finds and how the database
  behaves, the readings of the clock and the random bytes. A method returns its result and the
  tables its last writing call leaves, if it made one.
\<close>

section \<open>The environment of a method\<close>

record catalog_world =
  cwDb :: "nat \<Rightarrow> catalog_db"
  cwEnv :: "nat \<Rightarrow> db_env"
  cwNow :: "nat \<Rightarrow> time"
  cwRandom :: "nat list option"

type_synonym 'a outcome = "(catalog_error, 'a) result \<times> catalog_db option"

definition ValidIdentifier :: "string \<Rightarrow> bool" where
  "ValidIdentifier value = MatchString safeIdentifierPattern value"

definition ValidPublicAgentID :: "string \<Rightarrow> bool" where
  "ValidPublicAgentID value = MatchString publicAgentIDPattern value"

definition validAgentVersionIdentity :: "contract_library \<Rightarrow> string \<Rightarrow> string \<Rightarrow> bool" where
  "validAgentVersionIdentity lib agentID version \<longleftrightarrow> ValidIdentifier agentID \<and> clStrict lib version"

section \<open>Registration and reads\<close>

record catalog_entry =
  ceCard :: agent_card
  cePublicationStatus :: string
  ceRegisteredAt :: time
  cePublishedAt :: "time option"
  cePublicAgentID :: string
  cePublicURL :: string

definition CatalogEntry :: "agent_version \<Rightarrow> catalog_entry" where
  "CatalogEntry version =
     \<lparr>ceCard = avCard version, cePublicationStatus = avStatus version, ceRegisteredAt = avRegisteredAt version,
      cePublishedAt = avPublishedAt version, cePublicAgentID = avPublicAgentID version, cePublicURL = []\<rparr>"

definition catalogEntry :: "string \<Rightarrow> agent_version \<Rightarrow> catalog_entry" where
  "catalogEntry publicOrigin version =
     (if avPublicAgentID version \<noteq> [] \<and> publicOrigin \<noteq> []
      then (CatalogEntry version)\<lparr>cePublicURL := publicOrigin @ ''/a/'' @ avPublicAgentID version\<rparr>
      else CatalogEntry version)"

definition NewPublicAgentID :: "nat list option \<Rightarrow> (catalog_error, string) result" where
  "NewPublicAgentID random =
     (case random of None \<Rightarrow> Inl [CatErrDependency] | Some raw \<Rightarrow> Inr (''agt_'' @ hex_EncodeToString raw))"

text \<open>\<^verbatim>\<open>decoded\<close> is the result of \<^verbatim>\<open>DecodeRegisterAgentRequest\<close> before its validation, \<^verbatim>\<open>marshal\<close> the JSON text of a card.\<close>

definition Register ::
    "contract_library \<Rightarrow> (agent_card \<Rightarrow> string option) \<Rightarrow> string \<Rightarrow> catalog_world \<Rightarrow> string \<Rightarrow> agent_card option \<Rightarrow>
     catalog_entry outcome" where
  "Register lib marshal publicOrigin w caller decoded =
     (case decoded of
        None \<Rightarrow> no_write (Inl [CatErrInvalid])
      | Some acard \<Rightarrow>
        if ValidateAgentCard lib acard \<noteq> None then no_write (Inl [CatErrInvalid])
        else if caller \<noteq> aoID (acOwner acard) then no_write (Inl [CatErrForbidden])
        else case marshal acard of
          None \<Rightarrow> no_write (Inl [CatErrDependency])
        | Some cardJSON \<Rightarrow>
          (case NewPublicAgentID (cwRandom w) of
             Inl err \<Rightarrow> no_write (Inl err)
           | Inr publicAgentID \<Rightarrow>
             if \<not> ValidPublicAgentID publicAgentID then no_write (Inl [CatErrDependency])
             else (case store_Register (cwEnv w 0) (cwDb w 0)
                      \<lparr>avPublicAgentID = publicAgentID, avCard = acard, avCardJSON = cardJSON,
                       avCardDigest = sha256_Sum256 cardJSON, avStatus = ''draft'', avRegisteredAt = cwNow w 0,
                       avPublishedAt = None, avPublicationSequence = None, avDisabledAt = None,
                       avLegacyUnverified = False, avRelease = None\<rparr> of
                (r, db) \<Rightarrow> (map_sum id (catalogEntry publicOrigin) r, Some db))))"

definition service_Get ::
    "contract_library \<Rightarrow> string \<Rightarrow> catalog_world \<Rightarrow> string \<Rightarrow> string \<Rightarrow> string \<Rightarrow> (catalog_error, catalog_entry) result" where
  "service_Get lib publicOrigin w caller agentID version =
     (if \<not> validAgentVersionIdentity lib agentID version then Inl [CatErrInvalid]
      else rbind (store_Get (cwEnv w 0) (cwDb w 0) agentID version) (\<lambda>entry.
        if avStatus entry \<noteq> ''published'' \<and> caller \<noteq> aoID (acOwner (avCard entry)) then Inl [CatErrForbidden]
        else Inr (catalogEntry publicOrigin entry)))"

definition GetVersion ::
    "contract_library \<Rightarrow> db_env \<Rightarrow> catalog_db \<Rightarrow> string \<Rightarrow> string \<Rightarrow> (catalog_error, agent_version) result" where
  "GetVersion lib env db agentID version =
     (if \<not> validAgentVersionIdentity lib agentID version then Inl [CatErrInvalid] else store_Get env db agentID version)"

definition service_transition ::
    "contract_library \<Rightarrow> string \<Rightarrow> catalog_world \<Rightarrow> string \<Rightarrow> string \<Rightarrow> string \<Rightarrow> bool \<Rightarrow> catalog_entry outcome" where
  "service_transition lib publicOrigin w caller agentID version publish =
     (if \<not> validAgentVersionIdentity lib agentID version then no_write (Inl [CatErrInvalid])
      else case store_transition (cwEnv w 0) (cwDb w 0) agentID version caller (cwNow w 0) publish of
        (r, db) \<Rightarrow> (map_sum id (catalogEntry publicOrigin) r, Some db))"

section \<open>Selection of an installable version\<close>

definition installabilityError :: "agent_version \<Rightarrow> catalog_error option" where
  "installabilityError candidate =
     (case avRelease candidate of
        None \<Rightarrow> if avLegacyUnverified candidate \<and> avStatus candidate = ''published'' then None
                else Some [CatErrReleaseUnpublished]
      | Some release \<Rightarrow>
        if arReleaseID release = [] \<or> arAgentID release \<noteq> acAgentID (avCard candidate) \<or>
           arAgentCardVersion release \<noteq> acVersion (avCard candidate) \<or> arCardDigest release \<noteq> avCardDigest candidate
        then Some [CatErrDependency]
        else if arState release = ''published'' then
          (if avStatus candidate \<noteq> ''published'' then Some [CatErrDependency] else None)
        else if arState release = ''suspended'' then Some [CatErrReleaseSuspended]
        else if arState release = ''revoked'' then Some [CatErrReleaseRevoked]
        else Some [CatErrReleaseUnpublished])"

text \<open>\<^verbatim>\<open>strings.Split\<close> on a separator of two bytes.\<close>

fun split_or :: "string \<Rightarrow> string \<Rightarrow> string list" where
  "split_or part [] = [rev part]" |
  "split_or part (a # b # cs) =
     (if a = CHR ''|'' \<and> b = CHR ''|'' then rev part # split_or [] cs else split_or (a # part) (b # cs))" |
  "split_or part [a] = [rev (a # part)]"

text \<open>\<^verbatim>\<open>(?:^|[<>=~^*xX\s])v?\d+\.\d+\.\d+-[0-9A-Za-z-]+\<close>, found anywhere in a text.\<close>

definition prereleaseComparator :: rexp where
  "prereleaseComparator =
     (let anything = RStar (RCls (\<lambda>_. True)); number = rplus (RCls is_digit) in
      RSeq (RAlt ROne (RSeq anything (RCls (\<lambda>c. regex_space c \<or> c \<in> set ''<>=~^*xX''))))
        (rseqs [ropt (rchar CHR ''v''), number, rchar CHR ''.'', number, rchar CHR ''.'', number, rchar CHR ''-'',
           rplus (RCls is_alnum_dash), anything]))"

definition constraintBranchAllowsVersion :: "contract_library \<Rightarrow> string \<Rightarrow> string \<Rightarrow> bool" where
  "constraintBranchAllowsVersion lib constraint version \<longleftrightarrow>
     clPrerelease lib version = [] \<or>
     list_ex (\<lambda>branch. let b = TrimSpace branch in
        clConstraint lib b \<and> clCheck lib b version \<and> MatchString prereleaseComparator b) (split_or [] constraint)"

text \<open>The loop over the candidates with the best one so far.\<close>

fun select_loop ::
    "contract_library \<Rightarrow> string \<Rightarrow> agent_version option \<Rightarrow> agent_version list \<Rightarrow> (catalog_error, agent_version option) result" where
  "select_loop lib constraint selected [] = Inr selected" |
  "select_loop lib constraint selected (candidate # cs) =
     (let v = acVersion (avCard candidate) in
      if \<not> clStrict lib v then Inl [CatErrDependency]
      else if \<not> clCheck lib constraint v \<or> \<not> constraintBranchAllowsVersion lib constraint v
      then select_loop lib constraint selected cs
      else select_loop lib constraint
        (case selected of
           None \<Rightarrow> Some candidate
         | Some best \<Rightarrow>
           if clGreaterThan lib v (acVersion (avCard best)) \<or> (clEqual lib v (acVersion (avCard best)) \<and> v > acVersion (avCard best))
           then Some candidate else Some best) cs)"

definition SelectInstallable ::
    "contract_library \<Rightarrow> db_env \<Rightarrow> catalog_db \<Rightarrow> string \<Rightarrow> string \<Rightarrow> (catalog_error, agent_version) result" where
  "SelectInstallable lib env db agentID constraint =
     (if \<not> ValidIdentifier agentID then Inl [CatErrInvalid]
      else if \<not> clConstraint lib constraint \<or> TrimSpace constraint = [] then Inl [CatErrInvalid]
      else rbind (InstallationCandidates env db agentID) (\<lambda>candidates.
        rbind (select_loop lib constraint None candidates) (\<lambda>selected.
          case selected of
            None \<Rightarrow> Inl [CatErrNotFound]
          | Some version \<Rightarrow> (case installabilityError version of Some err \<Rightarrow> Inl err | None \<Rightarrow> Inr version))))"

section \<open>Discovery\<close>

record search_query =
  sqQuery :: "string option"
  sqCapability :: "string option"
  sqOwnerID :: "string option"
  sqLimit :: "int option"
  sqCursor :: "string option"

definition NormalizeDiscoveryFilter :: "search_query \<Rightarrow> (catalog_error, discovery_filter) result" where
  "NormalizeDiscoveryFilter query =
     (let fl = \<lparr>dfQuery = sqQuery query, dfCapability = sqCapability query, dfOwnerID = sqOwnerID query,
                    dfLimit = (case sqLimit query of None \<Rightarrow> 25 | Some n \<Rightarrow> n)\<rparr> in
      if (case sqLimit query of None \<Rightarrow> False | Some n \<Rightarrow> n < 1 \<or> n > 100) then Inl [CatErrInvalid]
      else if (case dfQuery fl of None \<Rightarrow> False | Some q \<Rightarrow> TrimSpace q = [] \<or> rune_count q > 256) then Inl [CatErrInvalid]
      else if (case dfCapability fl of None \<Rightarrow> False | Some c \<Rightarrow> \<not> ValidIdentifier c) then Inl [CatErrInvalid]
      else if (case dfOwnerID fl of None \<Rightarrow> False | Some o' \<Rightarrow> \<not> ValidIdentifier o') then Inl [CatErrInvalid]
      else Inr fl)"

text \<open>The cursor is the JSON text of this payload in base64; \<^verbatim>\<open>hash\<close> is the digest of the filter's JSON text.\<close>

record cursor_payload =
  cpVersion :: int
  cpFilterHash :: string
  cpSnapshot :: int
  cpPosition :: discovery_position

record cursor_codec =
  ccEncode :: "cursor_payload \<Rightarrow> string"
  ccDecode :: "string \<Rightarrow> cursor_payload option"
  ccHash :: "discovery_filter \<Rightarrow> string"

definition EncodeCursor :: "cursor_codec \<Rightarrow> discovery_filter \<Rightarrow> int \<Rightarrow> discovery_position \<Rightarrow> string" where
  "EncodeCursor codec fl snapshot position =
     ccEncode codec \<lparr>cpVersion = 1, cpFilterHash = ccHash codec fl, cpSnapshot = snapshot, cpPosition = position\<rparr>"

definition DecodeCursor ::
    "contract_library \<Rightarrow> cursor_codec \<Rightarrow> string \<Rightarrow> discovery_filter \<Rightarrow> (catalog_error, int \<times> discovery_position) result" where
  "DecodeCursor lib codec value fl =
     (case ccDecode codec value of
        None \<Rightarrow> Inl [CatErrInvalid]
      | Some p \<Rightarrow>
        (case (hex_DecodeString (cpFilterHash p), hex_DecodeString (ccHash codec fl)) of
           (Some decoded, Some expected) \<Rightarrow>
             if length decoded \<noteq> 32 \<or> decoded \<noteq> expected then Inl [CatErrInvalid]
             else if cpVersion p \<noteq> 1 \<or> cpSnapshot p < 0 \<or> time_IsZero (dpPublishedAt (cpPosition p)) \<or>
               \<not> ValidIdentifier (dpAgentID (cpPosition p)) then Inl [CatErrInvalid]
             else if \<not> clStrict lib (dpVersion (cpPosition p)) then Inl [CatErrInvalid]
             else Inr (cpSnapshot p, cpPosition p)
         | _ \<Rightarrow> Inl [CatErrInvalid]))"

definition buildSearchResult ::
    "cursor_codec \<Rightarrow> string \<Rightarrow> discovery_filter \<Rightarrow> int \<Rightarrow> agent_version list \<times> bool \<Rightarrow>
     (catalog_error, catalog_entry list \<times> string option) result" where
  "buildSearchResult codec publicOrigin fl snapshot = (\<lambda>(versions, hasMore).
     let entries = map (catalogEntry publicOrigin) versions in
     if hasMore \<and> versions \<noteq> [] then
       (case avPublishedAt (last versions) of
          None \<Rightarrow> Inl [CatErrDependency]
        | Some publishedAt \<Rightarrow>
          Inr (entries, Some (EncodeCursor codec fl snapshot
            \<lparr>dpPublishedAt = publishedAt, dpAgentID = acAgentID (avCard (last versions)),
             dpVersion = acVersion (avCard (last versions))\<rparr>)))
     else Inr (entries, None))"

definition Search ::
    "contract_library \<Rightarrow> cursor_codec \<Rightarrow> (string \<Rightarrow> string) \<Rightarrow> string \<Rightarrow> catalog_world \<Rightarrow> search_query \<Rightarrow>
     (catalog_error, catalog_entry list \<times> string option) result" where
  "Search lib codec lower publicOrigin w query =
     rbind (NormalizeDiscoveryFilter query) (\<lambda>fl.
       case sqCursor query of
         None \<Rightarrow> rbind (DiscoverFirstPage lower (cwEnv w 0) (cwDb w 0) fl) (\<lambda>(snapshot, page).
           buildSearchResult codec publicOrigin fl snapshot page)
       | Some cursor \<Rightarrow> rbind (DecodeCursor lib codec cursor fl) (\<lambda>(snapshot, position).
           rbind (discover lower (cwEnv w 0) (cwDb w 0) fl snapshot (Some position)) (\<lambda>page.
             buildSearchResult codec publicOrigin fl snapshot page)))"

section \<open>Releases\<close>

definition newTrustID :: "string \<Rightarrow> nat list option \<Rightarrow> string option" where
  "newTrustID kind random = map_option (\<lambda>raw. kind @ ''-'' @ hex_EncodeToString raw) random"

text \<open>The n-th call to the store.\<close>

abbreviation trust_GetProvider where "trust_GetProvider w n \<equiv> store_GetProvider (cwEnv w n) (cwDb w n)"
abbreviation trust_GetBinding where "trust_GetBinding w n \<equiv> store_GetBinding (cwEnv w n) (cwDb w n)"

definition authorizeRelease :: "catalog_world \<Rightarrow> string \<Rightarrow> string \<Rightarrow> (catalog_error, agent_release) result" where
  "authorizeRelease w caller releaseID =
     (if \<not> ValidIdentifier caller \<or> \<not> ValidIdentifier releaseID then Inl [CatErrReleaseInvalid]
      else rbind (store_GetRelease (cwEnv w 0) (cwDb w 0) releaseID) (\<lambda>release.
        rbind (trust_GetProvider w 1 (arProviderID release)) (\<lambda>provider.
          if pvOwnerIdentity provider \<noteq> caller then Inl [CatErrForbidden] else Inr release)))"

definition authorizeBinding ::
    "catalog_world \<Rightarrow> string \<Rightarrow> string \<Rightarrow> string \<Rightarrow> string \<Rightarrow> string \<Rightarrow>
     (catalog_error, provider \<times> endpoint_binding \<times> agent_version) result" where
  "authorizeBinding w caller providerID agentID version bindingID =
     rbind (trust_GetProvider w 0 providerID) (\<lambda>provider.
       if pvOwnerIdentity provider \<noteq> caller then Inl [CatErrForbidden]
       else if pvVerificationStatus provider = ''suspended'' then Inl [CatErrForbidden]
       else rbind (trust_GetBinding w 1 providerID bindingID) (\<lambda>binding.
         if ebAgentID binding \<noteq> agentID \<or> ebAgentCardVersion binding \<noteq> version then Inl [CatErrReleaseInvalid]
         else rbind (store_Get (cwEnv w 2) (cwDb w 2) agentID version) (\<lambda>versionValue.
           Inr (provider, binding, versionValue))))"

definition prepare_release ::
    "contract_library \<Rightarrow> catalog_world \<Rightarrow> string \<Rightarrow> string \<Rightarrow> string \<Rightarrow> string \<Rightarrow> string \<Rightarrow> (catalog_error, agent_release) result" where
  "prepare_release lib w caller providerID agentID version bindingID =
     (if \<not> ValidIdentifier caller \<or> \<not> ValidIdentifier providerID \<or> \<not> ValidIdentifier agentID \<or>
         \<not> validAgentVersionIdentity lib agentID version \<or> \<not> ValidIdentifier bindingID then Inl [CatErrReleaseInvalid]
      else rbind (authorizeBinding w caller providerID agentID version bindingID) (\<lambda>(provider, binding, versionValue).
        if ebVerificationStatus binding \<noteq> ''pending'' \<and> ebVerificationStatus binding \<noteq> ''verified''
        then Inl [CatErrReleaseConflict]
        else case newTrustID ''release'' (cwRandom w) of
          None \<Rightarrow> Inl [CatErrDependency]
        | Some releaseID \<Rightarrow>
          Inr \<lparr>arReleaseID = releaseID, arProviderID = pvProviderID provider, arAgentID = agentID,
            arAgentCardVersion = version, arCardDigest = avCardDigest versionValue,
            arEndpointBindingID = ebBindingID binding, arEndpointOrigin = ebOrigin binding,
            arEndpointPath = ebPath binding, arVerificationMethod = ebVerificationMethod binding,
            arVerificationEvidenceDigest = ebVerificationEvidenceDigest binding,
            arState = (if ebVerificationStatus binding = ''verified'' then ''verified'' else ''pending_verification''),
            arCreatedAt = cwNow w 0, arUpdatedAt = cwNow w 0,
            arVerifiedAt = (if ebVerificationStatus binding = ''verified'' then ebVerifiedAt binding else None),
            arPublishedAt = None, arSuspendedAt = None, arRevokedAt = None\<rparr>))"

definition CreateRelease ::
    "contract_library \<Rightarrow> catalog_world \<Rightarrow> string \<Rightarrow> string \<Rightarrow> string \<Rightarrow> string \<Rightarrow> string \<Rightarrow> agent_release outcome" where
  "CreateRelease lib w caller providerID agentID version bindingID =
     (case prepare_release lib w caller providerID agentID version bindingID of
        Inl err \<Rightarrow> no_write (Inl err)
      | Inr release \<Rightarrow> with_write (store_CreateRelease (cwEnv w 3) (cwDb w 3) release))"

definition GetRelease :: "catalog_world \<Rightarrow> string \<Rightarrow> string \<Rightarrow> (catalog_error, agent_release) result" where
  "GetRelease w caller releaseID =
     (if \<not> ValidIdentifier caller \<or> \<not> ValidIdentifier releaseID then Inl [CatErrReleaseInvalid]
      else rbind (store_GetRelease (cwEnv w 0) (cwDb w 0) releaseID) (\<lambda>release.
        rbind (trust_GetProvider w 1 (arProviderID release)) (\<lambda>provider.
          if pvOwnerIdentity provider \<noteq> caller \<and> arState release \<noteq> ''published'' then Inl [CatErrForbidden]
          else Inr release)))"

definition requireCurrentVerifiedBinding :: "catalog_world \<Rightarrow> agent_release \<Rightarrow> catalog_error option" where
  "requireCurrentVerifiedBinding w release =
     (case trust_GetProvider w 2 (arProviderID release) of
        Inl err \<Rightarrow> Some err
      | Inr provider \<Rightarrow>
        if pvVerificationStatus provider \<noteq> ''verified'' then Some [CatErrReleaseConflict]
        else (case trust_GetBinding w 3 (arProviderID release) (arEndpointBindingID release) of
           Inl err \<Rightarrow> Some err
         | Inr binding \<Rightarrow>
           if ebVerificationStatus binding \<noteq> ''verified'' \<or> ebAgentID binding \<noteq> arAgentID release \<or>
              ebAgentCardVersion binding \<noteq> arAgentCardVersion release \<or> ebOrigin binding \<noteq> arEndpointOrigin release \<or>
              ebPath binding \<noteq> arEndpointPath release \<or> ebVerificationEvidenceDigest binding = None
           then Some [CatErrReleaseConflict]
           else if arState release = ''pending_verification'' \<and> arVerificationEvidenceDigest release = None then None
           else if arVerificationEvidenceDigest release = None \<or>
              arVerificationEvidenceDigest release \<noteq> ebVerificationEvidenceDigest binding
           then Some [CatErrReleaseConflict]
           else None))"

definition VerifyRelease :: "catalog_world \<Rightarrow> string \<Rightarrow> string \<Rightarrow> agent_release outcome" where
  "VerifyRelease w caller releaseID =
     (case authorizeRelease w caller releaseID of
        Inl err \<Rightarrow> no_write (Inl err)
      | Inr release \<Rightarrow>
        if arState release \<noteq> ''pending_verification'' then no_write (Inl [CatErrReleaseConflict])
        else case requireCurrentVerifiedBinding w release of
          Some err \<Rightarrow> no_write (Inl err)
        | None \<Rightarrow>
          (case trust_GetBinding w 4 (arProviderID release) (arEndpointBindingID release) of
             Inl err \<Rightarrow> no_write (Inl err)
           | Inr binding \<Rightarrow>
             if ebVerificationEvidenceDigest binding = None then no_write (Inl [CatErrReleaseConflict])
             else with_write (store_TransitionRelease (cwEnv w 5) (cwDb w 5) releaseID ''verified''
                    (ebVerificationEvidenceDigest binding) (cwNow w 0))))"

definition PublishRelease :: "catalog_world \<Rightarrow> string \<Rightarrow> string \<Rightarrow> agent_release outcome" where
  "PublishRelease w caller releaseID =
     (case authorizeRelease w caller releaseID of
        Inl err \<Rightarrow> no_write (Inl err)
      | Inr release \<Rightarrow>
        if arState release \<noteq> ''verified'' then no_write (Inl [CatErrReleaseConflict])
        else case requireCurrentVerifiedBinding w release of
          Some err \<Rightarrow> no_write (Inl err)
        | None \<Rightarrow> with_write (store_TransitionRelease (cwEnv w 4) (cwDb w 4) releaseID ''published'' None (cwNow w 0)))"

definition SuspendRelease :: "catalog_world \<Rightarrow> string \<Rightarrow> string \<Rightarrow> agent_release outcome" where
  "SuspendRelease w caller releaseID =
     (case authorizeRelease w caller releaseID of
        Inl err \<Rightarrow> no_write (Inl err)
      | Inr release \<Rightarrow>
        if arState release \<noteq> ''verified'' \<and> arState release \<noteq> ''published'' then no_write (Inl [CatErrReleaseConflict])
        else with_write (store_TransitionRelease (cwEnv w 2) (cwDb w 2) releaseID ''suspended'' None (cwNow w 0)))"

definition RevokeRelease :: "catalog_world \<Rightarrow> string \<Rightarrow> string \<Rightarrow> agent_release outcome" where
  "RevokeRelease w caller releaseID =
     (case authorizeRelease w caller releaseID of
        Inl err \<Rightarrow> no_write (Inl err)
      | Inr release \<Rightarrow>
        if arState release \<noteq> ''verified'' \<and> arState release \<noteq> ''published'' \<and> arState release \<noteq> ''suspended''
        then no_write (Inl [CatErrReleaseConflict])
        else with_write (store_TransitionRelease (cwEnv w 2) (cwDb w 2) releaseID ''revoked'' None (cwNow w 0)))"

end
