(* ===== verification/Json_Text.thy ===== *)
theory Json_Text
  imports Sha256
begin

text \<open>
  JSON as the router handles it below the level of the contracts: the token stream of
  \<^verbatim>\<open>encoding/json\<close>, the scan that refuses duplicate member names (\<^verbatim>\<open>rejectDuplicateMembers\<close> in
  \<^verbatim>\<open>dispatch_handler.go\<close>), and the bytes \<^verbatim>\<open>json.Marshal\<close> produces for strings and raw messages.
\<close>

section \<open>Tokens\<close>

text \<open>What \<^verbatim>\<open>decoder.Token\<close> returns, number and literal tokens together; a decoding error ends the stream.\<close>

datatype json_token = TokObj | TokObjEnd | TokArr | TokArrEnd | TokString string | TokScalar | TokError

record json_frame =
  jfObject :: bool
  jfExpecting :: bool
  jfMembers :: "string list"

definition markValueConsumed :: "json_frame list \<Rightarrow> json_frame list" where
  "markValueConsumed stack =
     (case stack of [] \<Rightarrow> [] | f # fs \<Rightarrow> (if jfObject f then f\<lparr>jfExpecting := True\<rparr> else f) # fs)"

text \<open>The loop of \<^verbatim>\<open>rejectDuplicateMembers\<close>, with the stack grown at its head. The result is whether the
  loop returned without error; a closing delimiter without an opening one is refused by the decoder,
  so the slice expression on an empty stack is not reached.\<close>

fun reject_loop :: "json_frame list \<Rightarrow> json_token list \<Rightarrow> bool" where
  "reject_loop stack [] = True" |
  "reject_loop stack (TokError # ts) = False" |
  "reject_loop stack (TokObj # ts) =
     reject_loop (\<lparr>jfObject = True, jfExpecting = True, jfMembers = []\<rparr> # stack) ts" |
  "reject_loop stack (TokArr # ts) =
     reject_loop (\<lparr>jfObject = False, jfExpecting = False, jfMembers = []\<rparr> # stack) ts" |
  "reject_loop stack (TokObjEnd # ts) = (stack \<noteq> [] \<and> reject_loop (markValueConsumed (tl stack)) ts)" |
  "reject_loop stack (TokArrEnd # ts) = (stack \<noteq> [] \<and> reject_loop (markValueConsumed (tl stack)) ts)" |
  "reject_loop stack (TokString v # ts) =
     (case stack of
        [] \<Rightarrow> reject_loop (markValueConsumed stack) ts
      | f # fs \<Rightarrow>
          if jfObject f \<and> jfExpecting f then
            v \<notin> set (jfMembers f) \<and>
            reject_loop (f\<lparr>jfMembers := jfMembers f @ [v], jfExpecting := False\<rparr> # fs) ts
          else reject_loop (markValueConsumed stack) ts)" |
  "reject_loop stack (TokScalar # ts) = reject_loop (markValueConsumed stack) ts"

definition rejectDuplicateMembers :: "json_token list \<Rightarrow> bool" where
  "rejectDuplicateMembers tokens = reject_loop [] tokens"

section \<open>Documents\<close>

datatype json = JScalar | JString string | JArray "json list" | JObject "(string \<times> json) list"

fun tokens :: "json \<Rightarrow> json_token list"
  and member_tokens :: "(string \<times> json) list \<Rightarrow> json_token list"
  and element_tokens :: "json list \<Rightarrow> json_token list" where
  "tokens JScalar = [TokScalar]" |
  "tokens (JString s) = [TokString s]" |
  "tokens (JArray vs) = TokArr # element_tokens vs @ [TokArrEnd]" |
  "tokens (JObject ms) = TokObj # member_tokens ms @ [TokObjEnd]" |
  "member_tokens [] = []" |
  "member_tokens ((k, v) # ms) = TokString k # tokens v @ member_tokens ms" |
  "element_tokens [] = []" |
  "element_tokens (v # vs) = tokens v @ element_tokens vs"

fun unique_members :: "json \<Rightarrow> bool" where
  "unique_members JScalar = True" |
  "unique_members (JString s) = True" |
  "unique_members (JArray vs) = list_all unique_members vs" |
  "unique_members (JObject ms) = (distinct (map fst ms) \<and> list_all (\<lambda>(k, v). unique_members v) ms)"

text \<open>The frame on top of the stack before a value: outside every object, or an object that has read a
  member name and not its value.\<close>

definition value_position :: "json_frame list \<Rightarrow> bool" where
  "value_position stack \<longleftrightarrow> (case stack of [] \<Rightarrow> True | f # _ \<Rightarrow> jfObject f \<longrightarrow> \<not> jfExpecting f)"

lemma mark_array: "\<not> jfObject f \<Longrightarrow> markValueConsumed (f # fs) = f # fs"
  by (simp add: markValueConsumed_def)

lemma reject_loop_document:
  "value_position stack \<Longrightarrow>
     reject_loop stack (tokens v @ ts) \<longleftrightarrow> unique_members v \<and> reject_loop (markValueConsumed stack) ts"
  "reject_loop (\<lparr>jfObject = True, jfExpecting = True, jfMembers = ks\<rparr> # stack) (member_tokens ms @ TokObjEnd # ts) \<longleftrightarrow>
     distinct (map fst ms) \<and> set ks \<inter> set (map fst ms) = {} \<and> list_all (\<lambda>(k, v). unique_members v) ms \<and>
     reject_loop (markValueConsumed stack) ts"
  "reject_loop (\<lparr>jfObject = False, jfExpecting = False, jfMembers = []\<rparr> # stack) (element_tokens vs @ TokArrEnd # ts) \<longleftrightarrow>
     list_all unique_members vs \<and> reject_loop (markValueConsumed stack) ts"
proof (induction v and ms and vs arbitrary: stack ts and ks stack ts and stack ts
    rule: tokens_member_tokens_element_tokens.induct)
  case (2 s)
  then show ?case by (cases stack) (auto simp: value_position_def)
next
  case (6 k v ms)
  let ?f = "\<lparr>jfObject = True, jfExpecting = False, jfMembers = ks @ [k]\<rparr>"
  have "markValueConsumed (?f # stack) = ?f\<lparr>jfExpecting := True\<rparr> # stack"
    by (simp add: markValueConsumed_def)
  then show ?case using 6 by (auto simp: value_position_def)
next
  case (8 v vs)
  then show ?case by (simp add: value_position_def mark_array)
qed simp_all

text \<open>The scan over the token stream of a document accepts it exactly when no object of the
  document, at whatever depth, carries two members of the same name; a second document after it is
  scanned the same way.\<close>

theorem duplicate_members_exact:
  "rejectDuplicateMembers (tokens v @ tokens w) \<longleftrightarrow> unique_members v \<and> unique_members w"
  using reject_loop_document(1) [of "[]" v "tokens w"] reject_loop_document(1) [of "[]" w "[]"]
  by (simp add: rejectDuplicateMembers_def value_position_def markValueConsumed_def)

section \<open>Encoding\<close>

definition hex_digit :: "nat \<Rightarrow> char" where
  "hex_digit n = (if n < 10 then char_of (48 + n) else char_of (87 + n))"

definition unicode_escape :: "char \<Rightarrow> string" where
  "unicode_escape c = (CHR 0x5C # ''u00'') @ [hex_digit (of_char c div 16), hex_digit (of_char c mod 16)]"

text \<open>The ASCII characters; the identifiers and messages the router encodes contain no others.\<close>

definition json_char :: "char \<Rightarrow> string" where
  "json_char c =
     (if c = CHR 0x22 \<or> c = CHR 0x5C then [CHR 0x5C, c]
      else if c = CHR 0x08 then [CHR 0x5C, CHR ''b''] else if c = CHR 0x0C then [CHR 0x5C, CHR ''f'']
      else if c = CHR 0x0A then [CHR 0x5C, CHR ''n''] else if c = CHR 0x0D then [CHR 0x5C, CHR ''r'']
      else if c = CHR 0x09 then [CHR 0x5C, CHR ''t'']
      else if of_char c < (32 :: nat) \<or> c = CHR ''<'' \<or> c = CHR ''>'' \<or> c = CHR ''&'' then unicode_escape c
      else [c])"

definition json_string :: "string \<Rightarrow> string" where
  "json_string s = CHR 0x22 # concat (map json_char s) @ [CHR 0x22]"

text \<open>\<^verbatim>\<open>json.Marshal\<close> of a raw message compacts it: white space outside strings is dropped and the HTML
  characters and line separators are escaped.\<close>

definition json_space :: "char \<Rightarrow> bool" where
  "json_space c \<longleftrightarrow> c = CHR '' '' \<or> c = CHR 0x09 \<or> c = CHR 0x0A \<or> c = CHR 0x0D"

fun compact_json :: "bool \<Rightarrow> string \<Rightarrow> string" where
  "compact_json quoted [] = []" |
  "compact_json quoted (c # cs) =
     (if c = CHR ''<'' \<or> c = CHR ''>'' \<or> c = CHR ''&'' then unicode_escape c @ compact_json quoted cs
      else if quoted then
        (if c = CHR 0x5C then
           (case cs of [] \<Rightarrow> [c] | d # ds \<Rightarrow> c # d # compact_json True ds)
         else if c = CHR 0x22 then c # compact_json False cs
         else if c = CHR 0xE2 \<and> take 2 cs = [CHR 0x80, CHR 0xA8] then (CHR 0x5C # ''u2028'') @ compact_json True (drop 2 cs)
         else if c = CHR 0xE2 \<and> take 2 cs = [CHR 0x80, CHR 0xA9] then (CHR 0x5C # ''u2029'') @ compact_json True (drop 2 cs)
         else c # compact_json True cs)
      else if c = CHR 0x22 then c # compact_json True cs
      else if json_space c then compact_json False cs
      else c # compact_json False cs)"

end
