(* ===== verification/Workspace_Service.thy ===== *)
theory Workspace_Service
  imports Workspace_Store Catalog_Service Json_Text
begin

text \<open>
  The service of Workspaces (\<^verbatim>\<open>workspace/service.go\<close>, \<^verbatim>\<open>model.go\<close>, \<^verbatim>\<open>policy.go\<close>) and its list cursor (\<^verbatim>\<open>cursor.go\<close>). A method
  makes several calls to the store, between which other methods may run: \<open>workspace_world\<close> gives, for the n-th
  call, the tables it finds and how the database behaves, the reading of the clock and the generated
  identifier. The Catalog is reached through the interface \<^verbatim>\<open>CatalogReader\<close>. \<^verbatim>\<open>ValidIdentifier\<close> has the same
  regular expression in the packages \<^verbatim>\<open>workspace\<close> and \<^verbatim>\<open>catalog\<close>.
\<close>

section \<open>The environment of a method\<close>

record workspace_world =
  wwDb :: "nat \<Rightarrow> workspace_db"
  wwEnv :: "nat \<Rightarrow> db_env"
  wwNow :: time
  wwNewID :: "string option"

record catalog_reader =
  crSelectInstallable :: "string \<Rightarrow> string \<Rightarrow> (catalog_error, agent_version) result"
  crGetVersion :: "string \<Rightarrow> string \<Rightarrow> (catalog_error, agent_version) result"

type_synonym 'a workspace_outcome = "(workspace_error, 'a) result \<times> workspace_db option"

record install_request =
  irAgentID :: string
  irVersionConstraint :: string
  irAcceptedPermissions :: "string list option"

record authorized_invocation =
  aiAgentCardVersion :: string
  aiAgentReleaseID :: string
  aiAgentCardDigest :: string

text \<open>The request for an installed version is a resolution request without the version.\<close>

record installed_version_request =
  ivInvocationID :: string
  ivRootTaskID :: string
  ivTraceID :: string
  ivWorkspaceID :: string
  ivAgentID :: string
  ivCapability :: string

section \<open>Rules\<close>

definition Authorize :: "string \<Rightarrow> string \<Rightarrow> workspace_error option" where
  "Authorize ownerID caller = (if ownerID = [] \<or> caller = [] \<or> ownerID \<noteq> caller then Some [WsErrForbidden] else None)"

definition currentInstallationStatus :: "string \<Rightarrow> bool" where
  "currentInstallationStatus s \<longleftrightarrow> s = ''enabled'' \<or> s = ''disabled''"

definition releaseID :: "agent_version \<Rightarrow> string" where
  "releaseID version = (case avRelease version of None \<Rightarrow> [] | Some r \<Rightarrow> arReleaseID r)"

text \<open>A nil Release of a version whose Installation pins one cannot reach this function: the
  eligibility check before it refuses that version.\<close>

definition releaseProvenance :: "agent_version \<Rightarrow> string \<Rightarrow> (string \<times> string) option" where
  "releaseProvenance version installedReleaseID =
     (if installedReleaseID = [] then Some ([], [])
      else map_option (\<lambda>r. (arReleaseID r, hex_EncodeToString (arCardDigest r))) (avRelease version))"

definition validateReleaseEligibility :: "agent_version \<Rightarrow> string \<Rightarrow> workspace_error option" where
  "validateReleaseEligibility version installedReleaseID =
     (if installedReleaseID = [] then
        (if avStatus version \<noteq> ''published'' then Some [WsErrAgentDisabled]
         else if \<not> avLegacyUnverified version then Some [WsErrReleaseUnpublished] else None)
      else case avRelease version of
        None \<Rightarrow> Some [WsErrDependency]
      | Some release \<Rightarrow>
        if arReleaseID release = [] \<or> installedReleaseID \<noteq> arReleaseID release \<or>
           arAgentID release \<noteq> acAgentID (avCard version) \<or> arAgentCardVersion release \<noteq> acVersion (avCard version) \<or>
           arCardDigest release \<noteq> avCardDigest version
        then Some [WsErrDependency]
        else if arState release = ''published'' then
          (if avStatus version \<noteq> ''published'' then Some [WsErrDependency] else None)
        else if arState release = ''suspended'' then Some [WsErrReleaseSuspended]
        else if arState release = ''revoked'' then Some [WsErrReleaseRevoked]
        else Some [WsErrReleaseUnpublished])"

definition validConstraint :: "contract_library \<Rightarrow> string \<Rightarrow> bool" where
  "validConstraint lib constraint \<longleftrightarrow> TrimSpace constraint \<noteq> [] \<and> clConstraint lib constraint"

text \<open>The loop with the set of the permissions seen.\<close>

fun permission_loop :: "string list \<Rightarrow> string list \<Rightarrow> bool" where
  "permission_loop seen [] = True" |
  "permission_loop seen (p # ps) = (ValidIdentifier p \<and> p \<notin> set seen \<and> permission_loop (p # seen) ps)"

definition validPermissionInput :: "string list option \<Rightarrow> bool" where
  "validPermissionInput ps = (case ps of None \<Rightarrow> False | Some xs \<Rightarrow> permission_loop [] xs)"

definition validatePermissionSubset :: "agent_card \<Rightarrow> string list option \<Rightarrow> (workspace_error, string list) result" where
  "validatePermissionSubset acard accepted =
     (let declared = map pdID (elems (acPermissions acard)) in
      if list_all (\<lambda>p. p \<in> set declared) (elems accepted) then Inr (sort (elems accepted)) else Inl [WsErrInvalid])"

definition containsAll :: "string list \<Rightarrow> string list \<Rightarrow> bool" where
  "containsAll accepted required \<longleftrightarrow> list_all (\<lambda>p. p \<in> set accepted) required"

definition mapCatalogError :: "catalog_error \<Rightarrow> workspace_error" where
  "mapCatalogError err =
     (if errors_Is err CatErrInvalid then [WsErrInvalid]
      else if errors_Is err CatErrNotFound then [WsErrNotFound]
      else if errors_Is err CatErrReleaseSuspended then [WsErrReleaseSuspended]
      else if errors_Is err CatErrReleaseRevoked then [WsErrReleaseRevoked]
      else if errors_Is err CatErrReleaseUnpublished then [WsErrReleaseUnpublished]
      else if errors_Is err CatErrReleaseUnavailable then [WsErrReleaseUnpublished]
      else if errors_Is err CatErrConflict then [WsErrConflict]
      else if errors_Is err CatErrForbidden then [WsErrForbidden]
      else [WsErrDependency])"

section \<open>Workspaces\<close>

definition CreateWorkspace :: "workspace_world \<Rightarrow> string \<Rightarrow> string \<Rightarrow> workspace workspace_outcome" where
  "CreateWorkspace w caller workspaceID =
     (if \<not> ValidIdentifier workspaceID \<or> caller = [] \<or> \<not> ValidIdentifier caller then no_write (Inl [WsErrInvalid])
      else let value' = \<lparr>wkWorkspaceID = workspaceID, wkOwnerID = caller, wkCreatedAt = wwNow w, wkUpdatedAt = wwNow w\<rparr> in
        if ValidateWorkspace value' \<noteq> None then no_write (Inl [WsErrInvalid])
        else with_write (store_CreateWorkspace (wwEnv w 0) (wwDb w 0) value'))"

text \<open>The read and the check every method of an owner begins with.\<close>

definition owned :: "workspace_world \<Rightarrow> string \<Rightarrow> string \<Rightarrow> (workspace_error, workspace) result" where
  "owned w caller workspaceID =
     rbind (store_GetWorkspace (wwEnv w 0) (wwDb w 0) workspaceID) (\<lambda>workspace.
       case Authorize (wkOwnerID workspace) caller of Some err \<Rightarrow> Inl err | None \<Rightarrow> Inr workspace)"

definition GetWorkspace :: "workspace_world \<Rightarrow> string \<Rightarrow> string \<Rightarrow> (workspace_error, workspace) result" where
  "GetWorkspace w caller workspaceID =
     (if \<not> ValidIdentifier workspaceID \<or> \<not> ValidIdentifier caller then Inl [WsErrInvalid] else owned w caller workspaceID)"

section \<open>Installations\<close>

definition new_installation ::
    "workspace_world \<Rightarrow> string \<Rightarrow> install_request \<Rightarrow> agent_version \<Rightarrow> string \<Rightarrow> string list \<Rightarrow> installation" where
  "new_installation w workspaceID request selected installationID permissions =
     \<lparr>inInstallationID = installationID, inWorkspaceID = workspaceID, inAgentID = irAgentID request,
      inVersionConstraint = irVersionConstraint request, inInstalledVersion = acVersion (avCard selected),
      inInstalledReleaseID = releaseID selected, inAcceptedPermissions = Some permissions,
      inStatus = ''enabled'', inInstalledAt = wwNow w, inUpdatedAt = wwNow w, inUninstalledAt = None\<rparr>"

text \<open>The part of \<^verbatim>\<open>Install\<close> after the selected version: the pin, its validation and the write.\<close>

definition install_selected ::
    "contract_library \<Rightarrow> workspace_world \<Rightarrow> string \<Rightarrow> string \<Rightarrow> install_request \<Rightarrow> agent_version \<Rightarrow> installation workspace_outcome" where
  "install_selected lib w caller workspaceID request selected =
     (case validateReleaseEligibility selected (releaseID selected) of
        Some err \<Rightarrow> no_write (Inl err)
      | None \<Rightarrow>
        (case validatePermissionSubset (avCard selected) (irAcceptedPermissions request) of
           Inl err \<Rightarrow> no_write (Inl err)
         | Inr permissions \<Rightarrow>
           (case wwNewID w of
              None \<Rightarrow> no_write (Inl [WsErrDependency])
            | Some installationID \<Rightarrow>
              if \<not> ValidIdentifier installationID then no_write (Inl [WsErrDependency])
              else let i = new_installation w workspaceID request selected installationID permissions in
                if ValidateInstallation lib i \<noteq> None then no_write (Inl [WsErrInvalid])
                else with_write (CreateInstallation (wwEnv w 2) (wwDb w 2) caller i))))"

definition Install ::
    "contract_library \<Rightarrow> catalog_reader \<Rightarrow> workspace_world \<Rightarrow> string \<Rightarrow> string \<Rightarrow> install_request \<Rightarrow> installation workspace_outcome" where
  "Install lib reader w caller workspaceID request =
     (if \<not> ValidIdentifier workspaceID \<or> \<not> ValidIdentifier caller \<or> \<not> ValidIdentifier (irAgentID request) \<or>
         \<not> validConstraint lib (irVersionConstraint request) \<or> \<not> validPermissionInput (irAcceptedPermissions request)
      then no_write (Inl [WsErrInvalid])
      else case owned w caller workspaceID of
        Inl err \<Rightarrow> no_write (Inl err)
      | Inr _ \<Rightarrow>
        (case HasCurrentInstallation (wwEnv w 1) (wwDb w 1) workspaceID (irAgentID request) of
           Inl err \<Rightarrow> no_write (Inl err)
         | Inr True \<Rightarrow> no_write (Inl [WsErrConflict])
         | Inr False \<Rightarrow>
           (case crSelectInstallable reader (irAgentID request) (irVersionConstraint request) of
              Inl err \<Rightarrow> no_write (Inl (mapCatalogError err))
            | Inr selected \<Rightarrow> install_selected lib w caller workspaceID request selected)))"

definition GetInstallation ::
    "workspace_world \<Rightarrow> string \<Rightarrow> string \<Rightarrow> string \<Rightarrow> (workspace_error, installation) result" where
  "GetInstallation w caller workspaceID installationID =
     (if \<not> ValidIdentifier workspaceID \<or> \<not> ValidIdentifier installationID \<or> \<not> ValidIdentifier caller then Inl [WsErrInvalid]
      else rbind (owned w caller workspaceID) (\<lambda>_.
        store_GetInstallation (wwEnv w 1) (wwDb w 1) workspaceID installationID))"

definition UpdateInstallation ::
    "workspace_world \<Rightarrow> string \<Rightarrow> string \<Rightarrow> string \<Rightarrow> string \<Rightarrow> installation workspace_outcome" where
  "UpdateInstallation w caller workspaceID installationID status =
     (if \<not> ValidIdentifier workspaceID \<or> \<not> ValidIdentifier installationID \<or> \<not> ValidIdentifier caller \<or>
         \<not> currentInstallationStatus status
      then no_write (Inl [WsErrInvalid])
      else case owned w caller workspaceID of
        Inl err \<Rightarrow> no_write (Inl err)
      | Inr _ \<Rightarrow> with_write (ChangeInstallationStatus (wwEnv w 1) (wwDb w 1) workspaceID installationID status (wwNow w)))"

definition Uninstall :: "workspace_world \<Rightarrow> string \<Rightarrow> string \<Rightarrow> string \<Rightarrow> installation workspace_outcome" where
  "Uninstall w caller workspaceID installationID =
     (if \<not> ValidIdentifier workspaceID \<or> \<not> ValidIdentifier installationID \<or> \<not> ValidIdentifier caller
      then no_write (Inl [WsErrInvalid])
      else case owned w caller workspaceID of
        Inl err \<Rightarrow> no_write (Inl err)
      | Inr _ \<Rightarrow> with_write (UninstallInstallation (wwEnv w 1) (wwDb w 1) workspaceID installationID (wwNow w)))"

section \<open>The list of Installations\<close>

record installation_cursor =
  icVersion :: int
  icWorkspaceID :: string
  icLimit :: int
  icInstalledAt :: time
  icInstallationID :: string

text \<open>The encodings of the standard library: the base64 text of a payload's JSON, if its time can be written,
  and, for a text in strict base64, the tokens of its bytes and the payload they decode to without
  unknown members or trailing data.\<close>

record cursor_text =
  ctTokens :: "json_token list"
  ctPayload :: "installation_cursor option"

record installation_codec =
  icEncode :: "installation_cursor \<Rightarrow> string option"
  icDecode :: "string \<Rightarrow> cursor_text option"

definition EncodeInstallationCursor ::
    "installation_codec \<Rightarrow> string \<Rightarrow> int \<Rightarrow> installation_position \<Rightarrow> (workspace_error, string) result" where
  "EncodeInstallationCursor codec workspaceID limit position =
     (if \<not> ValidIdentifier workspaceID \<or> limit < 1 \<or> limit > 100 \<or> \<not> ValidIdentifier (ipInstallationID position) \<or>
         time_IsZero (ipInstalledAt position)
      then Inl [WsErrInvalid]
      else case icEncode codec \<lparr>icVersion = 1, icWorkspaceID = workspaceID, icLimit = limit,
                 icInstalledAt = ipInstalledAt position, icInstallationID = ipInstallationID position\<rparr> of
        None \<Rightarrow> Inl []
      | Some s \<Rightarrow> Inr s)"

text \<open>Decoding one value into a raw message: the tokens after it. The first argument is the number of open
  delimiters.\<close>

fun skip_value :: "nat \<Rightarrow> json_token list \<Rightarrow> json_token list option" where
  "skip_value depth [] = None" |
  "skip_value depth (TokError # ts) = None" |
  "skip_value depth (TokObj # ts) = skip_value (Suc depth) ts" |
  "skip_value depth (TokArr # ts) = skip_value (Suc depth) ts" |
  "skip_value depth (TokObjEnd # ts) = (if depth = 0 then None else if depth = 1 then Some ts else skip_value (depth - 1) ts)" |
  "skip_value depth (TokArrEnd # ts) = (if depth = 0 then None else if depth = 1 then Some ts else skip_value (depth - 1) ts)" |
  "skip_value depth (TokString v # ts) = (if depth = 0 then Some ts else skip_value depth ts)" |
  "skip_value depth (TokScalar # ts) = (if depth = 0 then Some ts else skip_value depth ts)"

lemma skip_value_shorter: "skip_value depth ts = Some rest \<Longrightarrow> length rest < length ts"
  by (induction depth ts rule: skip_value.induct) (auto split: if_splits)

text \<open>The loop over the members of the outer object; what remains after the closing delimiter must be
  the end of the text.\<close>

function cursor_members :: "string list \<Rightarrow> json_token list \<Rightarrow> bool" where
  "cursor_members seen [] = False" |
  "cursor_members seen (t # ts) =
     (if t = TokObjEnd then ts = []
      else case t of
        TokString name \<Rightarrow>
          if name \<in> set seen then False
          else (case skip_value 0 ts of None \<Rightarrow> False | Some rest \<Rightarrow> cursor_members (name # seen) rest)
      | _ \<Rightarrow> False)"
  by pat_completeness auto
termination
  by (relation "measure (\<lambda>(seen, ts). length ts)") (auto dest: skip_value_shorter)

definition rejectDuplicateInstallationCursorMembers :: "json_token list \<Rightarrow> bool" where
  "rejectDuplicateInstallationCursorMembers ts = (case ts of TokObj # rest \<Rightarrow> cursor_members [] rest | _ \<Rightarrow> False)"

definition DecodeInstallationCursor ::
    "installation_codec \<Rightarrow> string \<Rightarrow> string \<Rightarrow> int \<Rightarrow> (workspace_error, installation_position) result" where
  "DecodeInstallationCursor codec cursor workspaceID limit =
     (if cursor = [] \<or> \<not> ValidIdentifier workspaceID \<or> limit < 1 \<or> limit > 100 then Inl [WsErrInvalid]
      else case icDecode codec cursor of
        None \<Rightarrow> Inl [WsErrInvalid]
      | Some data \<Rightarrow>
        if \<not> rejectDuplicateInstallationCursorMembers (ctTokens data) then Inl [WsErrInvalid]
        else case ctPayload data of
          None \<Rightarrow> Inl [WsErrInvalid]
        | Some payload \<Rightarrow>
          if icVersion payload \<noteq> 1 \<or> icWorkspaceID payload \<noteq> workspaceID \<or> icLimit payload \<noteq> limit \<or>
             \<not> ValidIdentifier (icInstallationID payload) \<or> time_IsZero (icInstalledAt payload)
          then Inl [WsErrInvalid]
          else Inr \<lparr>ipInstalledAt = icInstalledAt payload, ipInstallationID = icInstallationID payload\<rparr>)"

definition ListInstallations ::
    "installation_codec \<Rightarrow> workspace_world \<Rightarrow> string \<Rightarrow> string \<Rightarrow> int \<Rightarrow> string option \<Rightarrow>
     (workspace_error, installation list \<times> string option) result" where
  "ListInstallations codec w caller workspaceID limit cursor =
     (if \<not> ValidIdentifier workspaceID \<or> \<not> ValidIdentifier caller \<or> limit < 1 \<or> limit > 100 then Inl [WsErrInvalid]
      else rbind (case cursor of
            None \<Rightarrow> Inr None
          | Some c \<Rightarrow> rbind (DecodeInstallationCursor codec c workspaceID limit) (\<lambda>p. Inr (Some p))) (\<lambda>after.
        rbind (owned w caller workspaceID) (\<lambda>_.
        rbind (store_ListInstallations (wwEnv w 1) (wwDb w 1) workspaceID limit after) (\<lambda>(items, hasMore).
          if hasMore \<and> items \<noteq> [] then
            (case EncodeInstallationCursor codec workspaceID limit
                \<lparr>ipInstalledAt = inInstalledAt (last items), ipInstallationID = inInstallationID (last items)\<rparr> of
               Inl _ \<Rightarrow> Inl [WsErrDependency]
             | Inr c \<Rightarrow> Inr (items, Some c))
          else Inr (items, None)))))"

section \<open>Resolution\<close>

definition Resolve ::
    "contract_library \<Rightarrow> catalog_reader \<Rightarrow> workspace_world \<Rightarrow> resolve_request \<Rightarrow> (workspace_error, resolve_response) result" where
  "Resolve lib reader w request =
     (if ValidateResolveAgentRequestV1 lib request \<noteq> None then Inl [WsErrInvalid]
      else rbind (store_GetWorkspace (wwEnv w 0) (wwDb w 0) (rqWorkspaceID request)) (\<lambda>_.
        case GetCurrentInstallation (wwEnv w 1) (wwDb w 1) (rqWorkspaceID request) (rqAgentID request) of
          Inl err \<Rightarrow> if errors_Is err WsErrNotFound then Inl [WsErrAgentNotInstalled] else Inl err
        | Inr i \<Rightarrow>
          if inInstalledVersion i \<noteq> rqVersion request then Inl [WsErrAgentNotInstalled]
          else if inStatus i \<noteq> ''enabled'' then Inl [WsErrInstallationDisabled]
          else (case crGetVersion reader (rqAgentID request) (rqVersion request) of
            Inl err \<Rightarrow> if errors_Is err CatErrNotFound then Inl [WsErrDependency] else Inl (mapCatalogError err)
          | Inr version \<Rightarrow>
            (case validateReleaseEligibility version (inInstalledReleaseID i) of
               Some err \<Rightarrow> Inl err
             | None \<Rightarrow>
               (case find (\<lambda>s. skID s = rqCapability request) (acSkills (avCard version)) of
                  None \<Rightarrow> Inl [WsErrCapabilityNotAllowed]
                | Some skill \<Rightarrow>
                  if \<not> containsAll (elems (inAcceptedPermissions i)) (elems (skRequiredPermissions skill))
                  then Inl [WsErrCapabilityNotAllowed]
                  else (case releaseProvenance version (inInstalledReleaseID i) of
                    None \<Rightarrow> Inl []
                  | Some (release, cardDigest) \<Rightarrow>
                    let response = \<lparr>rsCard = avCard version, rsInstallation =
                          \<lparr>riInstallationID = inInstallationID i, riWorkspaceID = inWorkspaceID i, riAgentID = inAgentID i,
                           riInstalledVersion = inInstalledVersion i, riInstalledReleaseID = release, riAgentCardDigest = cardDigest,
                           riAcceptedPermissions = inAcceptedPermissions i, riStatus = inStatus i\<rparr>\<rparr> in
                    if ValidateResolveAgentResponseForRequest lib request response \<noteq> None then Inl [WsErrDependency]
                    else Inr response))))))"

definition resolveAuthorizedInvocation ::
    "catalog_reader \<Rightarrow> workspace_world \<Rightarrow> string \<Rightarrow> string \<Rightarrow> string \<Rightarrow> (workspace_error, authorized_invocation) result" where
  "resolveAuthorizedInvocation reader w workspaceID agentID capability =
     (case GetCurrentInstallation (wwEnv w 1) (wwDb w 1) workspaceID agentID of
        Inl err \<Rightarrow> if errors_Is err WsErrNotFound then Inl [WsErrAgentNotInstalled] else Inl err
      | Inr i \<Rightarrow>
        if inStatus i \<noteq> ''enabled'' then Inl [WsErrInstallationDisabled]
        else (case crGetVersion reader agentID (inInstalledVersion i) of
          Inl err \<Rightarrow> if errors_Is err CatErrNotFound then Inl [WsErrDependency] else Inl (mapCatalogError err)
        | Inr version \<Rightarrow>
          (case validateReleaseEligibility version (inInstalledReleaseID i) of
             Some err \<Rightarrow> Inl err
           | None \<Rightarrow>
             (case find (\<lambda>s. skID s = capability) (acSkills (avCard version)) of
                None \<Rightarrow> Inl [WsErrCapabilityNotAllowed]
              | Some skill \<Rightarrow>
                if \<not> containsAll (elems (inAcceptedPermissions i)) (elems (skRequiredPermissions skill))
                then Inl [WsErrCapabilityNotAllowed]
                else (case releaseProvenance version (inInstalledReleaseID i) of
                  None \<Rightarrow> Inl []
                | Some (release, cardDigest) \<Rightarrow>
                  Inr \<lparr>aiAgentCardVersion = inInstalledVersion i, aiAgentReleaseID = release, aiAgentCardDigest = cardDigest\<rparr>)))))"

definition AuthorizeInvocation ::
    "catalog_reader \<Rightarrow> workspace_world \<Rightarrow> string \<Rightarrow> string \<Rightarrow> string \<Rightarrow> string \<Rightarrow> (workspace_error, authorized_invocation) result" where
  "AuthorizeInvocation reader w caller workspaceID agentID capability =
     (if \<not> ValidIdentifier workspaceID \<or> \<not> ValidIdentifier caller \<or> \<not> ValidIdentifier agentID \<or> \<not> ValidIdentifier capability
      then Inl [WsErrInvalid]
      else rbind (owned w caller workspaceID) (\<lambda>_. resolveAuthorizedInvocation reader w workspaceID agentID capability))"

definition ResolveInstalledVersion ::
    "catalog_reader \<Rightarrow> workspace_world \<Rightarrow> installed_version_request \<Rightarrow> (workspace_error, authorized_invocation) result" where
  "ResolveInstalledVersion reader w request =
     (if \<not> ValidIdentifier (ivInvocationID request) \<or> \<not> ValidIdentifier (ivRootTaskID request) \<or>
         \<not> ValidIdentifier (ivWorkspaceID request) \<or> \<not> ValidIdentifier (ivAgentID request) \<or> \<not> ValidIdentifier (ivCapability request)
      then Inl [WsErrInvalid]
      else if isl (ParseTraceID (ivTraceID request)) then Inl [WsErrInvalid]
      else rbind (store_GetWorkspace (wwEnv w 0) (wwDb w 0) (ivWorkspaceID request)) (\<lambda>_.
        resolveAuthorizedInvocation reader w (ivWorkspaceID request) (ivAgentID request) (ivCapability request)))"

end
