(* ===== verification/Ledger_Interface.thy ===== *)
theory Ledger_Interface
  imports Lifecycle
begin

text \<open>
  The contract between the dispatch handler and the Invocation Ledger, the Go interface
  \<^verbatim>\<open>InvocationLedgerAppender\<close> (\<^verbatim>\<open>dispatch_handler.go\<close>) with the laws its provider keeps: an append either adds the
  event to the history of its invocation or leaves it, an error means it was left unless the outcome of the commit was lost, histories are well-formed lifecycles, and a
  working ledger accepts what continues one. The ledger store discharges the laws.
\<close>

section \<open>Events as they are stored\<close>

definition event_time :: "invocation_event \<Rightarrow> time" where
  "event_time e = (case tt_instant (evOccurredAt e) of None \<Rightarrow> 0 | Some t \<Rightarrow> t)"

definition stored :: "invocation_event \<Rightarrow> invocation_event" where
  "stored e = e\<lparr>evOccurredAt := format_time (event_time e)\<rparr>"

text \<open>A nested invocation carries the correlation of its parent and is called by its parent's agent.\<close>

definition child_of :: "invocation_event \<Rightarrow> invocation_event \<Rightarrow> bool" where
  "child_of p c \<longleftrightarrow> evParentInvocationID c = evInvocationID p \<and> evRootTaskID c = evRootTaskID p \<and>
     evTraceID c = evTraceID p \<and> evWorkspaceID c = evWorkspaceID p \<and>
     evCaller c = \<lparr>callerType = ''agent'', callerID = evTargetAgentID p\<rparr>"

text \<open>When a history may be opened below the history of its parent.\<close>

definition may_open :: "invocation_event list \<Rightarrow> invocation_event \<Rightarrow> bool" where
  "may_open parent e \<longleftrightarrow> evParentInvocationID e = [] \<or>
     parent \<noteq> [] \<and> child_of (hd parent) e \<and> evStatus (last parent) = ''running'' \<and>
     event_time (last parent) \<le> event_time e"

text \<open>When an event continues a history.\<close>

definition continues :: "(string \<Rightarrow> bool) \<Rightarrow> invocation_event list \<Rightarrow> invocation_event \<Rightarrow> bool" where
  "continues strict h e \<longleftrightarrow> well_formed_lifecycle strict (h @ [e]) \<and> sorted (map event_time (h @ [e])) \<and>
     evOccurredAt e = format_time (event_time e) \<and> event_time e = time_Truncate (event_time e) Microsecond"

section \<open>The interface\<close>

locale invocation_ledger =
  fixes strict :: "string \<Rightarrow> bool"
    and append :: "'env \<Rightarrow> 'l \<Rightarrow> invocation_event \<Rightarrow> 'e option \<times> 'l"
    and inv :: "'l \<Rightarrow> bool"
    and history :: "'l \<Rightarrow> string \<Rightarrow> invocation_event list"
    and ready :: "'env \<Rightarrow> bool"
    and honest :: "'env \<Rightarrow> bool"
    and admits :: "'l \<Rightarrow> invocation_event \<Rightarrow> bool"
  assumes append_inv: "inv l \<Longrightarrow> append env l e = (r, l') \<Longrightarrow> inv l'"
    and append_result: "inv l \<Longrightarrow> append env l e = (r, l') \<Longrightarrow>
      history l' (evInvocationID e) = history l (evInvocationID e) @ [stored e] \<or>
      r \<noteq> None \<and> history l' (evInvocationID e) = history l (evInvocationID e)"
    and append_refused: "inv l \<Longrightarrow> append env l e = (Some err, l') \<Longrightarrow> honest env \<Longrightarrow> l' = l"
    and append_other: "inv l \<Longrightarrow> append env l e = (r, l') \<Longrightarrow> i \<noteq> evInvocationID e \<Longrightarrow> history l' i = history l i"
    and history_lifecycle: "inv l \<Longrightarrow> well_formed_lifecycle strict (history l i)"
    and append_accepts: "inv l \<Longrightarrow> ready env \<Longrightarrow> admits l e \<Longrightarrow> continues strict (history l (evInvocationID e)) e \<Longrightarrow>
      history l (evInvocationID e) \<noteq> [] \<or> may_open (history l (evParentInvocationID e)) e \<Longrightarrow>
      fst (append env l e) = None"
    and admits_append: "inv l \<Longrightarrow> admits l e \<Longrightarrow> admits l e' \<Longrightarrow> evEventID e \<noteq> evEventID e' \<Longrightarrow>
      append env l e' = (r, l') \<Longrightarrow> admits l' e"
begin

lemma append_None:
  "inv l \<Longrightarrow> append env l e = (None, l') \<Longrightarrow>
    history l' (evInvocationID e) = history l (evInvocationID e) @ [stored e]"
  using append_result by blast

text \<open>A history never shrinks or changes, and a terminal event ends it.\<close>

lemma append_prefix: "inv l \<Longrightarrow> append env l e = (r, l') \<Longrightarrow> prefix (history l i) (history l' i)"
  using append_result append_other by (cases "i = evInvocationID e") (fastforce simp: prefix_def)+

lemma terminal_stays:
  assumes "inv l" "append env l e = (r, l')" "history l i \<noteq> []" "terminal_type (evType (last (history l i)))"
  shows "history l' i = history l i"
proof (rule ccontr)
  assume changed: "history l' i \<noteq> history l i"
  then have "i = evInvocationID e" using append_other [OF assms(1,2)] by blast
  with changed append_result [OF assms(1,2)] have h: "history l' i = history l i @ [stored e]" by auto
  have "well_formed_lifecycle strict (history l i @ [stored e])"
    using history_lifecycle [OF append_inv [OF assms(1,2)], of i] h by simp
  then show False
    using assms(3,4) well_formed_terminal [of strict "butlast (history l i)" "last (history l i)" "[stored e]"]
      append_butlast_last_id [OF assms(3)] by (metis append.assoc append_Cons append_Nil list.discI)
qed

end

end
