(* ===== verification/Dispatch.thy ===== *)
theory Dispatch
  imports Ledger_Interface Json_Text "HOL-Library.Char_ord"
begin

text \<open>
  The dispatch handler of the router (\<^verbatim>\<open>apps/a2a-router/internal/api/dispatch_handler.go\<close>): request
  validation, resolution, the recorded non-streaming and streaming invocations and the errors they
  report. The Go interfaces of the handler (authenticator, resolver, transport, ledger appender) are
  arguments. What the clock, the context, the ledger environment and the connection do is read from a
  \<^verbatim>\<open>world\<close>: the \<^verbatim>\<open>n\<close>-th observation of a run gets the \<^verbatim>\<open>n\<close>-th answer, so a theorem about every world covers
  every interleaving of deadlines, cancellations and failures.
\<close>

section \<open>Data\<close>

text \<open>An error as the handler can inspect it with \<^verbatim>\<open>errors.Is\<close> and \<^verbatim>\<open>errors.As\<close>.\<close>

record go_error =
  geDeadline :: bool
  geCanceled :: bool
  geInterrupted :: bool
  geCoded :: "string option"

definition plain_error :: go_error where
  "plain_error = \<lparr>geDeadline = False, geCanceled = False, geInterrupted = False, geCoded = None\<rparr>"

definition coded_error :: "string \<Rightarrow> go_error" where
  "coded_error code = plain_error\<lparr>geCoded := Some code\<rparr>"

datatype ctx_error = CtxDeadlineExceeded | CtxCanceled

definition ctx_go_error :: "ctx_error \<Rightarrow> go_error" where
  "ctx_go_error e = (case e of CtxDeadlineExceeded \<Rightarrow> plain_error\<lparr>geDeadline := True\<rparr>
                     | CtxCanceled \<Rightarrow> plain_error\<lparr>geCanceled := True\<rparr>)"

record dispatch_request =
  dqInvocationID :: string
  dqRootTaskID :: string
  dqParentInvocationID :: string
  dqTraceID :: string
  dqCaller :: caller
  dqWorkspaceID :: string
  dqTargetAgentID :: string
  dqAgentCardVersion :: string
  dqAgentReleaseID :: string
  dqAgentCardDigest :: string
  dqCapability :: string
  dqInput :: raw_message
  dqStream :: bool

text \<open>The members of the resolution response the handler reads.\<close>

record resolved_agent =
  raInstalledReleaseID :: string
  raAgentCardDigest :: string
  raTimeoutMS :: int

record upstream_event =
  upPayload :: raw_message
  upTerminalType :: string
  upTerminalStatus :: string
  upErrorCode :: string

record transport =
  tpStreaming :: bool
  tpValidateNonStreamingTarget :: "dispatch_request \<Rightarrow> resolved_agent \<Rightarrow> go_error option"
  tpValidateNonStreamingInput :: "dispatch_request \<Rightarrow> resolved_agent \<Rightarrow> go_error option"
  tpSendNonStreaming :: "dispatch_request \<Rightarrow> resolved_agent \<Rightarrow> (go_error, raw_message) result"
  tpValidateStreamingTarget :: "dispatch_request \<Rightarrow> resolved_agent \<Rightarrow> go_error option"
  tpValidateStreamingInput :: "dispatch_request \<Rightarrow> resolved_agent \<Rightarrow> go_error option"
  tpSendStreaming :: "dispatch_request \<Rightarrow> resolved_agent \<Rightarrow> (go_error, upstream_event) result list"

record invocation_result =
  rsSchemaVersion :: string
  rsInvocationID :: string
  rsRootTaskID :: string
  rsTraceID :: string
  rsStatus :: string
  rsResult :: raw_message

text \<open>What reaches the client: one JSON or plain text response, or the frames of an event stream; a
  write that failed may have left part of a frame.\<close>

datatype reply =
    ReplyPreError int pre_correlation_error
  | ReplyCorrelatedError int platform_error
  | ReplyResult int invocation_result
  | ReplyRaw int string string
  | ReplyServerError
  | ReplyFrame stream_event string
  | ReplyPartial

datatype write_outcome = WriteOk | WriteErr go_error | FlushErr go_error

record 'env world =
  wNow :: "nat \<Rightarrow> time"
  wCtxErr :: "time \<Rightarrow> nat \<Rightarrow> ctx_error option"
  wLedger :: "nat \<Rightarrow> 'env"
  wWrite :: "nat \<Rightarrow> write_outcome"
  wRandom :: "nat \<Rightarrow> nat list option"
  wFlusher :: bool

record 'l dispatch_state =
  dsLedger :: 'l
  dsTick :: nat
  dsReplies :: "reply list"
  dsTraceHeader :: string
  dsCommitted :: bool
  dsCanceled :: bool

section \<open>Observations\<close>

definition tick :: "'l dispatch_state \<Rightarrow> 'l dispatch_state" where
  "tick s = s\<lparr>dsTick := Suc (dsTick s)\<rparr>"

definition time_Now :: "'env world \<Rightarrow> 'l dispatch_state \<Rightarrow> time \<times> 'l dispatch_state" where
  "time_Now w s = (wNow w (dsTick s), tick s)"

definition ctx_Err :: "'env world \<Rightarrow> time \<Rightarrow> 'l dispatch_state \<Rightarrow> ctx_error option \<times> 'l dispatch_state" where
  "ctx_Err w ctx s = (wCtxErr w ctx (dsTick s), tick s)"

definition ledger_append ::
    "('env \<Rightarrow> 'l \<Rightarrow> invocation_event \<Rightarrow> 'e option \<times> 'l) \<Rightarrow> 'env world \<Rightarrow> invocation_event \<Rightarrow>
     'l dispatch_state \<Rightarrow> bool \<times> 'l dispatch_state" where
  "ledger_append app w event s =
     (case app (wLedger w (dsTick s)) (dsLedger s) event of
        (r, l) \<Rightarrow> (r = None, (tick s)\<lparr>dsLedger := l\<rparr>))"

definition reply :: "reply \<Rightarrow> 'l dispatch_state \<Rightarrow> 'l dispatch_state" where
  "reply r s = s\<lparr>dsReplies := dsReplies s @ [r]\<rparr>"

definition cancel :: "'l dispatch_state \<Rightarrow> 'l dispatch_state" where
  "cancel s = s\<lparr>dsCanceled := True\<rparr>"

text \<open>\<^verbatim>\<open>time.Duration.Milliseconds\<close> divides towards zero.\<close>

definition Milliseconds :: "int \<Rightarrow> int" where
  "Milliseconds d = (if d < 0 then - ((- d) div 1000000) else d div 1000000)"

definition int64 :: "int \<Rightarrow> int" where
  "int64 n = sint (word_of_int n :: 64 word)"

definition time_Since :: "'env world \<Rightarrow> time \<Rightarrow> 'l dispatch_state \<Rightarrow> int \<times> 'l dispatch_state" where
  "time_Since w startedAt s = (case time_Now w s of (t, s1) \<Rightarrow> (t - startedAt, s1))"

section \<open>Request validation\<close>

fun valid_identifier_loop :: "nat \<Rightarrow> string \<Rightarrow> bool" where
  "valid_identifier_loop index [] = True" |
  "valid_identifier_loop index (c # cs) =
     (if (CHR ''A'' \<le> c \<and> c \<le> CHR ''Z'') \<or> (CHR ''a'' \<le> c \<and> c \<le> CHR ''z'') \<or> (CHR ''0'' \<le> c \<and> c \<le> CHR ''9'') \<or>
         c = CHR ''.'' \<or> c = CHR ''_'' \<or> c = CHR '':'' \<or> c = CHR ''-''
      then if index > 0 \<or> (c \<noteq> CHR ''.'' \<and> c \<noteq> CHR ''_'' \<and> c \<noteq> CHR '':'' \<and> c \<noteq> CHR ''-'')
        then valid_identifier_loop (Suc index) cs else False
      else False)"

definition validIdentifier :: "string \<Rightarrow> bool" where
  "validIdentifier value \<longleftrightarrow>
     \<not> (length value < 1 \<or> length value > 128) \<and> valid_identifier_loop 0 value"

text \<open>\<^verbatim>\<open>json.Unmarshal\<close> into a map succeeds with a non-nil map exactly on a JSON object.\<close>

definition json_object :: "raw_message \<Rightarrow> bool" where
  "json_object input = (case input of
     RawJSON s \<Rightarrow> (case dropWhile json_space s of c # _ \<Rightarrow> c = CHR ''{'' | [] \<Rightarrow> False) | _ \<Rightarrow> False)"

definition validateDispatch :: "(string \<Rightarrow> bool) \<Rightarrow> dispatch_request \<Rightarrow> bool" where
  "validateDispatch strict value =
     (if dqParentInvocationID value \<noteq> [] then False
      else if \<not> list_all validIdentifier [dqInvocationID value, dqRootTaskID value, dqWorkspaceID value,
        dqTargetAgentID value, dqCapability value, callerID (dqCaller value)] then False
      else if \<not> strict (dqAgentCardVersion value) then False
      else if ValidateInvocationReleaseProvenance (dqAgentReleaseID value) (dqAgentCardDigest value) \<noteq> None then False
      else if isl (ParseTraceID (dqTraceID value)) then False
      else if callerType (dqCaller value) \<noteq> ''user'' then False
      else json_object (dqInput value))"

definition validateChildDispatch :: "(string \<Rightarrow> bool) \<Rightarrow> dispatch_request \<Rightarrow> bool" where
  "validateChildDispatch strict value =
     (if \<not> list_all validIdentifier [dqInvocationID value, dqRootTaskID value, dqWorkspaceID value,
        dqTargetAgentID value, dqCapability value, callerID (dqCaller value)] then False
      else if \<not> strict (dqAgentCardVersion value) then False
      else if ValidateInvocationReleaseProvenance (dqAgentReleaseID value) (dqAgentCardDigest value) \<noteq> None then False
      else if isl (ParseTraceID (dqTraceID value)) then False
      else if callerType (dqCaller value) \<noteq> ''agent'' then False
      else if \<not> validIdentifier (dqParentInvocationID value) then False
      else json_object (dqInput value))"

definition validateResolvedReleaseProvenance :: "dispatch_request \<Rightarrow> resolved_agent \<Rightarrow> bool" where
  "validateResolvedReleaseProvenance request resolved =
     (if ValidateInvocationReleaseProvenance (raInstalledReleaseID resolved) (raAgentCardDigest resolved) \<noteq> None
      then False
      else dqAgentReleaseID request = raInstalledReleaseID resolved \<and>
           dqAgentCardDigest request = raAgentCardDigest resolved)"

text \<open>The deadline of a context derived from another by a timeout, and the deadline an Agent Card may
  shorten it to; the product is an \<^verbatim>\<open>int64\<close>.\<close>

definition context_WithTimeout :: "time option \<Rightarrow> time \<Rightarrow> int \<Rightarrow> time" where
  "context_WithTimeout parent now d = (case parent of None \<Rightarrow> now + d | Some p \<Rightarrow> min p (now + d))"

definition resolvedDeadlineContext :: "time \<Rightarrow> int \<Rightarrow> time \<Rightarrow> time" where
  "resolvedDeadlineContext parent timeoutMS invocationStartedAt =
     (let cardDeadline = int64 (timeoutMS * 1000000); cardDeadlineAt = invocationStartedAt + cardDeadline
      in if cardDeadline \<le> 0 then parent
         else if \<not> cardDeadlineAt < parent then parent
         else cardDeadlineAt)"

section \<open>Error codes\<close>

definition errorStatus :: "string \<Rightarrow> int" where
  "errorStatus code =
     (if code = ''VALIDATION_ERROR'' then 400
      else if code \<in> {''CONFLICT'', ''CANCELED''} then 409
      else if code = ''UNAUTHENTICATED'' then 401
      else if code \<in> {''FORBIDDEN'', ''CAPABILITY_NOT_ALLOWED'', ''INSTALLATION_DISABLED'', ''AGENT_DISABLED'',
        ''AGENT_RELEASE_UNPUBLISHED'', ''AGENT_RELEASE_SUSPENDED'', ''AGENT_RELEASE_REVOKED''} then 403
      else if code \<in> {''AGENT_NOT_INSTALLED'', ''NOT_FOUND''} then 404
      else if code = ''NOT_ACCEPTABLE'' then 406
      else if code \<in> {''AGENT_AUTH_UNSUPPORTED'', ''AGENT_RESPONSE_TOO_LARGE'', ''AGENT_EXECUTION_FAILED'',
        ''A2A_PROTOCOL_ERROR''} then 502
      else if code = ''PAYLOAD_TOO_LARGE'' then 413
      else if code = ''TIMEOUT'' then 504
      else if code = ''INTERNAL_ERROR'' then 500
      else 503)"

definition dispatchErrorCode :: "go_error \<Rightarrow> string" where
  "dispatchErrorCode err =
     (if geDeadline err then ''TIMEOUT''
      else case geCoded err of Some code \<Rightarrow> code | None \<Rightarrow> ''DEPENDENCY_ERROR'')"

definition streamErrorCode :: "'env world \<Rightarrow> time \<Rightarrow> go_error \<Rightarrow> 'l dispatch_state \<Rightarrow> string \<times> 'l dispatch_state" where
  "streamErrorCode w ctx err s =
     (if geInterrupted err then (''A2A_PROTOCOL_ERROR'', s)
      else case ctx_Err w ctx s of (e1, s1) \<Rightarrow>
        if e1 = Some CtxDeadlineExceeded \<or> geDeadline err then (''TIMEOUT'', s1)
        else case ctx_Err w ctx s1 of (e2, s2) \<Rightarrow>
          if e2 = Some CtxCanceled \<or> geCanceled err then (''CANCELED'', s2)
          else (dispatchErrorCode err, s2))"

definition streamWriteErrorCode :: "'env world \<Rightarrow> time \<Rightarrow> go_error \<Rightarrow> 'l dispatch_state \<Rightarrow> string \<times> 'l dispatch_state" where
  "streamWriteErrorCode w ctx err s =
     (case ctx_Err w ctx s of
        (Some e, s1) \<Rightarrow> streamErrorCode w ctx (ctx_go_error e) s1
      | (None, s1) \<Rightarrow>
          if dispatchErrorCode err = ''AGENT_RESPONSE_TOO_LARGE'' then (''AGENT_RESPONSE_TOO_LARGE'', s1)
          else (''DEPENDENCY_ERROR'', s1))"

definition streamFailureType :: "string \<Rightarrow> string \<times> string" where
  "streamFailureType code =
     (if code = ''TIMEOUT'' then (''timed_out'', ''timed_out'')
      else if code = ''CANCELED'' then (''canceled'', ''canceled'')
      else (''failed'', ''failed''))"

definition streamTerminalType :: "string \<Rightarrow> string \<Rightarrow> string \<times> string" where
  "streamTerminalType eventType status =
     (if eventType = ''completed'' then (''completed'', ''succeeded'')
      else if eventType = ''canceled'' then (''canceled'', ''canceled'')
      else if eventType = ''timed_out'' then (''timed_out'', ''timed_out'')
      else if status = ''canceled'' then (''canceled'', status)
      else (''failed'', ''failed''))"

definition contextTerminal ::
    "'env world \<Rightarrow> time \<Rightarrow> 'l dispatch_state \<Rightarrow> (string \<times> string \<times> string) option \<times> 'l dispatch_state" where
  "contextTerminal w ctx s =
     (case ctx_Err w ctx s of (e1, s1) \<Rightarrow>
        if e1 = Some CtxDeadlineExceeded then (Some (''TIMEOUT'', ''timed_out'', ''timed_out''), s1)
        else case ctx_Err w ctx s1 of (e2, s2) \<Rightarrow>
          if e2 = Some CtxCanceled then (Some (''CANCELED'', ''canceled'', ''canceled''), s2)
          else (None, s2))"

section \<open>Lifecycle events\<close>

definition lifecycleEventID :: "string \<Rightarrow> int \<Rightarrow> string \<Rightarrow> string" where
  "lifecycleEventID invocationID sequence eventType =
     ''evt-'' @ hex_EncodeToString (take 8 (sha256_Sum256
        (invocationID @ '':'' @ int_text sequence @ '':'' @ eventType))) @ ''-'' @ int_text sequence"

definition lifecycleEvent :: "dispatch_request \<Rightarrow> int \<Rightarrow> string \<Rightarrow> string \<Rightarrow> time \<Rightarrow> invocation_event" where
  "lifecycleEvent request sequence eventType status occurredAt =
     \<lparr>evSchemaVersion = ''0.3'', evEventID = lifecycleEventID (dqInvocationID request) sequence eventType,
      evSequence = sequence, evOccurredAt = format_time occurredAt, evType = eventType, evStatus = status,
      evInvocationID = dqInvocationID request, evRootTaskID = dqRootTaskID request,
      evParentInvocationID = dqParentInvocationID request, evTraceID = dqTraceID request,
      evCaller = dqCaller request, evWorkspaceID = dqWorkspaceID request,
      evTargetAgentID = dqTargetAgentID request, evAgentCardVersion = dqAgentCardVersion request,
      evAgentReleaseID = dqAgentReleaseID request, evAgentCardDigest = dqAgentCardDigest request,
      evCapability = dqCapability request, evChunkIndex = None, evChunkBytes = None, evLatencyMS = None,
      evError = None\<rparr>"

definition terminalLifecycleEvent ::
    "dispatch_request \<Rightarrow> int \<Rightarrow> string \<Rightarrow> string \<Rightarrow> time \<Rightarrow> int \<Rightarrow> string \<Rightarrow> (contract_error, invocation_event) result" where
  "terminalLifecycleEvent request sequence eventType status occurredAt latencyMS code =
     rbind (NewCorrelatedPlatformErrorV4 code (dqTraceID request) (dqInvocationID request) (dqRootTaskID request))
       (\<lambda>platformError. Inr ((lifecycleEvent request sequence eventType status occurredAt)
          \<lparr>evLatencyMS := Some latencyMS, evError := Some platformError\<rparr>))"

definition terminalOccurredAt :: "'env world \<Rightarrow> time \<Rightarrow> int \<Rightarrow> 'l dispatch_state \<Rightarrow> time \<times> 'l dispatch_state" where
  "terminalOccurredAt w startedAt sequence s =
     (case time_Now w s of (now, s1) \<Rightarrow>
        let occurredAt = time_Truncate now Microsecond; minimum = startedAt + sequence * Microsecond
        in (if occurredAt < minimum then minimum else occurredAt, s1))"

section \<open>Responses\<close>

definition writePreError :: "string \<Rightarrow> string \<Rightarrow> 'l dispatch_state \<Rightarrow> 'l dispatch_state" where
  "writePreError traceID code s =
     (case NewPreCorrelationPlatformErrorV4 code traceID of
        Inl _ \<Rightarrow> reply ReplyServerError s
      | Inr payload \<Rightarrow> reply (ReplyPreError (errorStatus code) payload) (s\<lparr>dsTraceHeader := traceID\<rparr>))"

text \<open>\<^verbatim>\<open>newTraceID\<close> reads sixteen random bytes.\<close>

definition newTraceID :: "'env world \<Rightarrow> 'l dispatch_state \<Rightarrow> string option \<times> 'l dispatch_state" where
  "newTraceID w s =
     (case wRandom w (dsTick s) of
        None \<Rightarrow> (None, tick s)
      | Some bytes \<Rightarrow> (Some (''trc_'' @ hex_EncodeToString bytes @ ''_1''), tick s))"

definition writeGeneratedPreError :: "'env world \<Rightarrow> string \<Rightarrow> 'l dispatch_state \<Rightarrow> 'l dispatch_state" where
  "writeGeneratedPreError w code s =
     (case newTraceID w s of
        (None, s1) \<Rightarrow> reply ReplyServerError s1
      | (Some traceID, s1) \<Rightarrow> writePreError traceID code s1)"

definition writeCorrelatedError :: "dispatch_request \<Rightarrow> string \<Rightarrow> 'l dispatch_state \<Rightarrow> 'l dispatch_state" where
  "writeCorrelatedError request code s =
     (case NewCorrelatedPlatformErrorV4 code (dqTraceID request) (dqInvocationID request) (dqRootTaskID request) of
        Inl _ \<Rightarrow> reply ReplyServerError s
      | Inr payload \<Rightarrow>
          reply (ReplyCorrelatedError (errorStatus code) payload) (s\<lparr>dsTraceHeader := dqTraceID request\<rparr>))"

definition writeInvocationResult :: "dispatch_request \<Rightarrow> raw_message \<Rightarrow> 'l dispatch_state \<Rightarrow> 'l dispatch_state" where
  "writeInvocationResult request result s =
     reply (ReplyResult 200 \<lparr>rsSchemaVersion = ''1'', rsInvocationID = dqInvocationID request,
        rsRootTaskID = dqRootTaskID request, rsTraceID = dqTraceID request, rsStatus = ''succeeded'',
        rsResult = result\<rparr>) (s\<lparr>dsTraceHeader := dqTraceID request\<rparr>)"

definition writeRawJSON :: "int \<Rightarrow> string \<Rightarrow> string \<Rightarrow> 'l dispatch_state \<Rightarrow> 'l dispatch_state" where
  "writeRawJSON status traceID body s = reply (ReplyRaw status traceID body) (s\<lparr>dsTraceHeader := traceID\<rparr>)"

section \<open>Recorded invocations without streaming\<close>

text \<open>The events before the agent is called; the third one is absent when the target was refused.\<close>

definition initialEvents :: "dispatch_request \<Rightarrow> time \<Rightarrow> bool \<Rightarrow> invocation_event list" where
  "initialEvents request startedAt started =
     [lifecycleEvent request 0 ''created'' ''pending'' startedAt,
      lifecycleEvent request 1 ''routing'' ''routing'' (startedAt + Microsecond)] @
     (if started then [lifecycleEvent request 2 ''started'' ''running'' (startedAt + 2 * Microsecond)] else [])"

text \<open>The loop of \<^verbatim>\<open>appendInitialLedgerEventsMode\<close>; the result is whether every event was recorded.\<close>

fun appendInitialLedgerEventsMode ::
    "('env \<Rightarrow> 'l \<Rightarrow> invocation_event \<Rightarrow> 'e option \<times> 'l) \<Rightarrow> 'env world \<Rightarrow> time \<Rightarrow> dispatch_request \<Rightarrow> time \<Rightarrow> bool \<Rightarrow>
     invocation_event list \<Rightarrow> 'l dispatch_state \<Rightarrow> bool \<times> 'l dispatch_state" where
  "appendInitialLedgerEventsMode app w ctx request startedAt childMode [] s = (True, s)" |
  "appendInitialLedgerEventsMode app w ctx request startedAt childMode (event # events) s =
     (case ledger_append app w event s of
        (True, s1) \<Rightarrow> appendInitialLedgerEventsMode app w ctx request startedAt childMode events s1
      | (False, s1) \<Rightarrow>
        (let fail = (\<lambda>s. (False, if childMode \<and> evSequence event = 0
               then writePreError (dqTraceID request) ''DEPENDENCY_ERROR'' s
               else writeCorrelatedError request ''DEPENDENCY_ERROR'' s))
         in if evSequence event > 0 then
           (case contextTerminal w ctx s1 of
              (None, s2) \<Rightarrow> fail s2
            | (Some (code, eventType, status), s2) \<Rightarrow>
              (case terminalOccurredAt w startedAt (evSequence event) s2 of (occurredAt, s3) \<Rightarrow>
               case time_Since w startedAt s3 of (elapsed, s4) \<Rightarrow>
               case terminalLifecycleEvent request (evSequence event) eventType status occurredAt
                      (Milliseconds elapsed) code of
                 Inl _ \<Rightarrow> fail s4
               | Inr terminal \<Rightarrow>
                 (case ledger_append app w terminal s4 of
                    (True, s5) \<Rightarrow> (False, writeCorrelatedError request code s5)
                  | (False, s5) \<Rightarrow> fail s5)))
         else fail s1))"

text \<open>The terminal fact and the answer after it: without the fact the client only learns that a
  dependency failed.\<close>

definition record_failure ::
    "('env \<Rightarrow> 'l \<Rightarrow> invocation_event \<Rightarrow> 'e option \<times> 'l) \<Rightarrow> 'env world \<Rightarrow> dispatch_request \<Rightarrow>
     (contract_error, invocation_event) result \<Rightarrow> string \<Rightarrow> 'l dispatch_state \<Rightarrow> 'l dispatch_state" where
  "record_failure app w request built code s =
     (case built of
        Inl _ \<Rightarrow> writeCorrelatedError request ''DEPENDENCY_ERROR'' s
      | Inr event \<Rightarrow>
        (case ledger_append app w event s of
           (True, s1) \<Rightarrow> writeCorrelatedError request code s1
         | (False, s1) \<Rightarrow> writeCorrelatedError request ''DEPENDENCY_ERROR'' s1))"

definition dispatchNonStreamingWithLedger ::
    "('env \<Rightarrow> 'l \<Rightarrow> invocation_event \<Rightarrow> 'e option \<times> 'l) \<Rightarrow> 'env world \<Rightarrow> transport \<Rightarrow> time \<Rightarrow> dispatch_request \<Rightarrow>
     resolved_agent \<Rightarrow> go_error option \<Rightarrow> 'l dispatch_state \<Rightarrow> 'l dispatch_state" where
  "dispatchNonStreamingWithLedger app w transport ctx request resolved targetErr s =
     (case time_Now w s of (now, s1) \<Rightarrow>
      let startedAt = time_Truncate now Microsecond;
          childMode = (dqParentInvocationID request \<noteq> [])
      in case appendInitialLedgerEventsMode app w ctx request startedAt childMode
           (initialEvents request startedAt (targetErr = None)) s1 of
        (False, s2) \<Rightarrow> s2
      | (True, s2) \<Rightarrow>
        (case targetErr of
           Some err \<Rightarrow>
             (let code = dispatchErrorCode err in
              case terminalOccurredAt w startedAt 2 s2 of (occurredAt, s3) \<Rightarrow>
                record_failure app w request
                  (terminalLifecycleEvent request 2 ''failed'' ''failed'' occurredAt 0 code) code s3)
         | None \<Rightarrow>
             (let sent = tpSendNonStreaming transport request resolved in
              case (case sent of Inl e \<Rightarrow> (Some e, s2)
                    | Inr _ \<Rightarrow> (case ctx_Err w ctx s2 of (ce, s3) \<Rightarrow> (map_option ctx_go_error ce, s3))) of
                (err, s3) \<Rightarrow>
              case time_Since w startedAt s3 of (elapsed, s4) \<Rightarrow>
              case terminalOccurredAt w startedAt 3 s4 of (terminalAt, s5) \<Rightarrow>
              case err of
                Some e \<Rightarrow>
                  (let code = dispatchErrorCode e; (eventType, status) = streamFailureType code in
                   record_failure app w request
                     (terminalLifecycleEvent request 3 eventType status terminalAt (Milliseconds elapsed) code) code s5)
              | None \<Rightarrow>
                  (case ledger_append app w ((lifecycleEvent request 3 ''succeeded'' ''succeeded'' terminalAt)
                          \<lparr>evLatencyMS := Some (Milliseconds elapsed)\<rparr>) s5 of
                     (True, s6) \<Rightarrow> writeInvocationResult request (case sent of Inr r \<Rightarrow> r | Inl _ \<Rightarrow> RawEmpty) s6
                   | (False, s6) \<Rightarrow> writeCorrelatedError request ''DEPENDENCY_ERROR'' s6))))"

section \<open>The event stream writer\<close>

text \<open>\<^verbatim>\<open>json.Marshal\<close> of a stream event, members in the order of the struct, absent ones omitted.\<close>

definition json_member :: "string \<Rightarrow> string \<Rightarrow> string" where
  "json_member name text = json_string name @ '':'' @ text"

definition join_members :: "string list \<Rightarrow> string" where
  "join_members ms = ''{'' @ concat (case ms of [] \<Rightarrow> [] | m # rest \<Rightarrow> m # map (\<lambda>r. '','' @ r) rest) @ ''}''"

definition error_json :: "platform_error \<Rightarrow> string" where
  "error_json e = join_members
     [json_member ''code'' (json_string (errCode e)), json_member ''message'' (json_string (errMessage e)),
      json_member ''traceId'' (json_string (errTraceID e)),
      json_member ''invocationId'' (json_string (errInvocationID e)),
      json_member ''rootTaskId'' (json_string (errRootTaskID e))]"

definition marshal_stream_event :: "stream_event \<Rightarrow> string option" where
  "marshal_stream_event e =
     (if \<not> encodable (seChunk e) then None else
      Some (join_members (
        [json_member ''schemaVersion'' (json_string (seSchemaVersion e)),
         json_member ''sequence'' (int_text (seSequence e)), json_member ''type'' (json_string (seType e)),
         json_member ''status'' (json_string (seStatus e)),
         json_member ''invocationId'' (json_string (seInvocationID e)),
         json_member ''rootTaskId'' (json_string (seRootTaskID e)),
         json_member ''traceId'' (json_string (seTraceID e))] @
        (case seChunkIndex e of None \<Rightarrow> [] | Some i \<Rightarrow> [json_member ''chunkIndex'' (int_text i)]) @
        (case seChunk e of RawJSON s \<Rightarrow> [json_member ''chunk'' (compact_json False s)] | _ \<Rightarrow> []) @
        (case seError e of None \<Rightarrow> [] | Some err \<Rightarrow> [json_member ''error'' (error_json err)]))))"

definition newResultStreamWriter :: "bool \<Rightarrow> int \<Rightarrow> bool" where
  "newResultStreamWriter flusher limit \<longleftrightarrow> flusher \<and> \<not> (limit < 1 \<or> limit > 2147483647)"

text \<open>\<^verbatim>\<open>resultStreamWriter.Write\<close>: the error, if any, and the state; the first frame commits the response.\<close>

definition stream_Write ::
    "'env world \<Rightarrow> int \<Rightarrow> stream_event \<Rightarrow> 'l dispatch_state \<Rightarrow> go_error option \<times> 'l dispatch_state" where
  "stream_Write w limit event s =
     (case marshal_stream_event event of
        None \<Rightarrow> (Some (coded_error ''A2A_PROTOCOL_ERROR''), s)
      | Some payload \<Rightarrow>
        if CHR 0x0A \<in> set payload \<or> CHR 0x0D \<in> set payload
        then (Some (coded_error ''A2A_PROTOCOL_ERROR''), s)
        else let frame = ''data: '' @ payload @ [CHR 0x0A, CHR 0x0A] in
          if int (length frame) > limit then (Some (coded_error ''AGENT_RESPONSE_TOO_LARGE''), s)
          else let s1 = (tick s)\<lparr>dsCommitted := True\<rparr> in
            (case wWrite w (dsTick s) of
               WriteErr e \<Rightarrow> (Some e, reply ReplyPartial s1)
             | FlushErr e \<Rightarrow> (Some e, reply (ReplyFrame event frame) s1)
             | WriteOk \<Rightarrow> (None, reply (ReplyFrame event frame) s1)))"

section \<open>Recorded streaming invocations\<close>

definition appendStreamingTerminal ::
    "('env \<Rightarrow> 'l \<Rightarrow> invocation_event \<Rightarrow> 'e option \<times> 'l) \<Rightarrow> 'env world \<Rightarrow> dispatch_request \<Rightarrow> int \<Rightarrow> time \<Rightarrow> int \<Rightarrow>
     string \<Rightarrow> string \<Rightarrow> string \<Rightarrow> 'l dispatch_state \<Rightarrow> bool \<times> 'l dispatch_state" where
  "appendStreamingTerminal app w request sequence startedAt latency code eventType status s =
     (case terminalOccurredAt w startedAt sequence s of (occurredAt, s1) \<Rightarrow>
      case terminalLifecycleEvent request sequence eventType status occurredAt latency code of
        Inl _ \<Rightarrow> (False, s1)
      | Inr event \<Rightarrow> ledger_append app w event s1)"

definition stream_event_of :: "dispatch_request \<Rightarrow> int \<Rightarrow> string \<Rightarrow> string \<Rightarrow> stream_event" where
  "stream_event_of request sequence eventType status =
     \<lparr>seSchemaVersion = ''2'', seSequence = sequence, seType = eventType, seStatus = status,
      seInvocationID = dqInvocationID request, seRootTaskID = dqRootTaskID request,
      seTraceID = dqTraceID request, seChunkIndex = None, seChunk = RawEmpty, seError = None\<rparr>"

definition streamFailureEvent ::
    "dispatch_request \<Rightarrow> int \<Rightarrow> string \<Rightarrow> string \<Rightarrow> string \<Rightarrow> (contract_error, stream_event) result" where
  "streamFailureEvent request sequence eventType status code =
     rbind (NewCorrelatedPlatformErrorV4 code (dqTraceID request) (dqInvocationID request) (dqRootTaskID request))
       (\<lambda>platformError. Inr ((stream_event_of request sequence eventType status)\<lparr>seError := Some platformError\<rparr>))"

text \<open>The terminal frame: it is written only when the sequence validator accepts it. The validator is not
  used after \<^verbatim>\<open>Finish\<close>, whose result the code ignores.\<close>

definition emit_terminal ::
    "'env world \<Rightarrow> int \<Rightarrow> stream_validator \<Rightarrow> stream_event \<Rightarrow> 'l dispatch_state \<Rightarrow> 'l dispatch_state" where
  "emit_terminal w limit v event s =
     (case stream_Accept v event of
        Inl _ \<Rightarrow> cancel s
      | Inr _ \<Rightarrow> (case stream_Write w limit event s of (None, s1) \<Rightarrow> s1 | (Some _, s1) \<Rightarrow> cancel s1))"

definition finishStreamingFailureWithoutLedger ::
    "'env world \<Rightarrow> int \<Rightarrow> stream_validator \<Rightarrow> dispatch_request \<Rightarrow> int \<Rightarrow> string \<Rightarrow> 'l dispatch_state \<Rightarrow> 'l dispatch_state" where
  "finishStreamingFailureWithoutLedger w limit v request streamSequence code s =
     (case streamFailureType code of (typeValue, status) \<Rightarrow>
      case streamFailureEvent request streamSequence typeValue status code of
        Inl _ \<Rightarrow> cancel s
      | Inr event \<Rightarrow> emit_terminal w limit v event s)"

definition finishStreamingFailure ::
    "('env \<Rightarrow> 'l \<Rightarrow> invocation_event \<Rightarrow> 'e option \<times> 'l) \<Rightarrow> 'env world \<Rightarrow> int \<Rightarrow> stream_validator \<Rightarrow> dispatch_request \<Rightarrow>
     time \<Rightarrow> int \<Rightarrow> int \<Rightarrow> string \<Rightarrow> 'l dispatch_state \<Rightarrow> 'l dispatch_state" where
  "finishStreamingFailure app w limit v request startedAt streamSequence ledgerSequence code s =
     (case streamFailureType code of (typeValue, status) \<Rightarrow>
      case streamFailureEvent request streamSequence typeValue status code of
        Inl _ \<Rightarrow> cancel s
      | Inr event \<Rightarrow>
        (case time_Since w startedAt s of (elapsed, s1) \<Rightarrow>
         case appendStreamingTerminal app w request ledgerSequence startedAt (Milliseconds elapsed) code
                typeValue status s1 of
           (False, s2) \<Rightarrow> finishStreamingFailureWithoutLedger w limit v request streamSequence ''DEPENDENCY_ERROR'' s2
         | (True, s2) \<Rightarrow> emit_terminal w limit v event s2))"

text \<open>The part of the loop body after a terminal upstream event.\<close>

definition stream_terminal ::
    "('env \<Rightarrow> 'l \<Rightarrow> invocation_event \<Rightarrow> 'e option \<times> 'l) \<Rightarrow> 'env world \<Rightarrow> int \<Rightarrow> time \<Rightarrow> dispatch_request \<Rightarrow> time \<Rightarrow>
     upstream_event \<Rightarrow> stream_validator \<Rightarrow> int \<Rightarrow> int \<Rightarrow> 'l dispatch_state \<Rightarrow> 'l dispatch_state" where
  "stream_terminal app w limit ctx request startedAt event v sequence ledgerSequence s =
     (case ctx_Err w ctx s of
        (Some e, s1) \<Rightarrow>
          (case streamErrorCode w ctx (ctx_go_error e) s1 of (code, s2) \<Rightarrow>
             finishStreamingFailure app w limit v request startedAt sequence ledgerSequence code s2)
      | (None, s1) \<Rightarrow>
        (case streamTerminalType (upTerminalType event) (upTerminalStatus event) of (terminalType, terminalStatus) \<Rightarrow>
         let dependency = (\<lambda>s. finishStreamingFailureWithoutLedger w limit v request sequence ''DEPENDENCY_ERROR'' s);
             deliver = (\<lambda>terminal s. case stream_Accept v terminal of
                 Inl _ \<Rightarrow> finishStreamingFailureWithoutLedger w limit v request sequence ''A2A_PROTOCOL_ERROR'' s
               | Inr _ \<Rightarrow> (case stream_Write w limit terminal s of
                   (Some _, s') \<Rightarrow> cancel s' | (None, s') \<Rightarrow> s'))
         in if terminalType = ''completed'' then
           (case terminalOccurredAt w startedAt ledgerSequence s1 of (occurredAt, s2) \<Rightarrow>
            case time_Since w startedAt s2 of (elapsed, s3) \<Rightarrow>
            case ledger_append app w ((lifecycleEvent request ledgerSequence ''succeeded'' ''succeeded'' occurredAt)
                   \<lparr>evLatencyMS := Some (Milliseconds elapsed)\<rparr>) s3 of
              (False, s4) \<Rightarrow> dependency s4
            | (True, s4) \<Rightarrow> deliver (stream_event_of request sequence terminalType terminalStatus) s4)
         else if upErrorCode event = [] then
           finishStreamingFailure app w limit v request startedAt sequence ledgerSequence ''A2A_PROTOCOL_ERROR'' s1
         else (case streamFailureEvent request sequence terminalType terminalStatus (upErrorCode event) of
             Inl _ \<Rightarrow> finishStreamingFailureWithoutLedger w limit v request sequence ''INTERNAL_ERROR'' s1
           | Inr terminal \<Rightarrow>
             (case time_Since w startedAt s1 of (elapsed, s2) \<Rightarrow>
              case appendStreamingTerminal app w request ledgerSequence startedAt (Milliseconds elapsed)
                     (upErrorCode event) terminalType terminalStatus s2 of
                (False, s3) \<Rightarrow> dependency s3
              | (True, s3) \<Rightarrow> deliver terminal s3))))"

fun raw_length :: "raw_message \<Rightarrow> int" where
  "raw_length RawEmpty = 0" |
  "raw_length (RawJSON s) = int (length s)" |
  "raw_length (RawInvalid s) = int (length s)"

definition chunk_event :: "dispatch_request \<Rightarrow> int \<Rightarrow> int \<Rightarrow> raw_message \<Rightarrow> stream_event" where
  "chunk_event request sequence chunkIndex payload =
     (stream_event_of request sequence ''chunk'' ''running'')\<lparr>seChunkIndex := Some chunkIndex, seChunk := payload\<rparr>"

definition ledger_chunk :: "dispatch_request \<Rightarrow> time \<Rightarrow> int \<Rightarrow> int \<Rightarrow> raw_message \<Rightarrow> invocation_event" where
  "ledger_chunk request startedAt ledgerSequence chunkIndex payload =
     (lifecycleEvent request ledgerSequence ''stream'' ''running'' (startedAt + ledgerSequence * Microsecond))
       \<lparr>evChunkIndex := Some chunkIndex, evChunkBytes := Some (raw_length payload)\<rparr>"

text \<open>The loop over the upstream events and what follows it when the stream ends without a terminal event.\<close>

fun stream_loop ::
    "('env \<Rightarrow> 'l \<Rightarrow> invocation_event \<Rightarrow> 'e option \<times> 'l) \<Rightarrow> 'env world \<Rightarrow> int \<Rightarrow> time \<Rightarrow> dispatch_request \<Rightarrow> time \<Rightarrow>
     (go_error, upstream_event) result list \<Rightarrow> stream_validator \<Rightarrow> int \<Rightarrow> int \<Rightarrow> int \<Rightarrow> 'l dispatch_state \<Rightarrow>
     'l dispatch_state" where
  "stream_loop app w limit ctx request startedAt [] v sequence chunkIndex ledgerSequence s =
     (case ctx_Err w ctx s of
        (None, s1) \<Rightarrow>
          finishStreamingFailure app w limit v request startedAt sequence ledgerSequence ''A2A_PROTOCOL_ERROR'' s1
      | (Some e, s1) \<Rightarrow>
          (case streamErrorCode w ctx (ctx_go_error e) s1 of (code, s2) \<Rightarrow>
             finishStreamingFailure app w limit v request startedAt sequence ledgerSequence code s2))" |
  "stream_loop app w limit ctx request startedAt (Inl eventErr # items) v sequence chunkIndex ledgerSequence s =
     (case streamErrorCode w ctx eventErr s of (code, s1) \<Rightarrow>
        finishStreamingFailure app w limit v request startedAt sequence ledgerSequence code s1)" |
  "stream_loop app w limit ctx request startedAt (Inr event # items) v sequence chunkIndex ledgerSequence s =
     (case upPayload event of
        RawJSON json \<Rightarrow>
          (let chunk = chunk_event request sequence chunkIndex (upPayload event);
               failure = finishStreamingFailure app w limit v request startedAt
           in if ValidateInvocationResultStreamEventV2 chunk \<noteq> None
              then failure sequence ledgerSequence ''A2A_PROTOCOL_ERROR'' s
              else case ledger_append app w (ledger_chunk request startedAt ledgerSequence chunkIndex (upPayload event)) s of
                (False, s1) \<Rightarrow>
                  (case contextTerminal w ctx s1 of
                     (Some (code, _, _), s2) \<Rightarrow> failure sequence ledgerSequence code s2
                   | (None, s2) \<Rightarrow>
                       finishStreamingFailureWithoutLedger w limit v request sequence ''DEPENDENCY_ERROR'' s2)
              | (True, s1) \<Rightarrow>
                (case stream_Accept v chunk of
                   Inl _ \<Rightarrow> failure sequence (ledgerSequence + 1) ''A2A_PROTOCOL_ERROR'' s1
                 | Inr v' \<Rightarrow>
                   (case stream_Write w limit chunk s1 of
                      (Some err, s2) \<Rightarrow>
                        (case streamWriteErrorCode w ctx err s2 of (code, s3) \<Rightarrow>
                           finishStreamingFailure app w limit v' request startedAt (sequence + 1)
                             (ledgerSequence + 1) code s3)
                    | (None, s2) \<Rightarrow>
                        if upTerminalType event = [] then
                          stream_loop app w limit ctx request startedAt items v' (sequence + 1) (chunkIndex + 1)
                            (ledgerSequence + 1) s2
                        else stream_terminal app w limit ctx request startedAt event v' (sequence + 1)
                            (ledgerSequence + 1) s2)))
      | _ \<Rightarrow> finishStreamingFailure app w limit v request startedAt sequence ledgerSequence ''A2A_PROTOCOL_ERROR'' s)"

definition dispatchStreamingWithLedger ::
    "('env \<Rightarrow> 'l \<Rightarrow> invocation_event \<Rightarrow> 'e option \<times> 'l) \<Rightarrow> 'env world \<Rightarrow> transport \<Rightarrow> int \<Rightarrow> time \<Rightarrow> dispatch_request \<Rightarrow>
     resolved_agent \<Rightarrow> 'l dispatch_state \<Rightarrow> 'l dispatch_state" where
  "dispatchStreamingWithLedger app w transport limit ctx request resolved s =
     (case time_Now w s of (now, s1) \<Rightarrow>
      let startedAt = time_Truncate now Microsecond;
          childMode = (dqParentInvocationID request \<noteq> []);
          accepted = stream_event_of request 0 ''accepted'' ''pending''
      in case appendInitialLedgerEventsMode app w ctx request startedAt childMode
           (initialEvents request startedAt True) s1 of
        (False, s2) \<Rightarrow> s2
      | (True, s2) \<Rightarrow>
        (case NewRuntimeResultStreamSequenceValidator (Some ()) (dqInvocationID request) (dqRootTaskID request)
                (dqTraceID request) of
           Inl _ \<Rightarrow> writeCorrelatedError request ''INTERNAL_ERROR'' s2
         | Inr v \<Rightarrow>
           if \<not> newResultStreamWriter (wFlusher w) limit then
             (case appendStreamingTerminal app w request 3 startedAt 0 ''DEPENDENCY_ERROR'' ''failed'' ''failed'' s2 of
                (_, s3) \<Rightarrow> writeCorrelatedError request ''DEPENDENCY_ERROR'' s3)
           else let s3 = s2\<lparr>dsTraceHeader := dqTraceID request\<rparr> in
             (case stream_Accept v accepted of
                Inl _ \<Rightarrow> writeCorrelatedError request ''INTERNAL_ERROR'' s3
              | Inr v' \<Rightarrow>
                (case stream_Write w limit accepted s3 of
                   (Some err, s4) \<Rightarrow>
                     (case streamWriteErrorCode w ctx err s4 of (code, s5) \<Rightarrow>
                      if \<not> dsCommitted s5 then
                        (case appendStreamingTerminal app w request 3 startedAt 0 code ''failed'' ''failed'' s5 of
                           (False, s6) \<Rightarrow> writeCorrelatedError request ''DEPENDENCY_ERROR'' s6
                         | (True, s6) \<Rightarrow> writeCorrelatedError request code s6)
                      else finishStreamingFailure app w limit v' request startedAt 1 3 code s5)
                 | (None, s4) \<Rightarrow>
                     stream_loop app w limit ctx request startedAt (tpSendStreaming transport request resolved)
                       v' 1 0 3 s4))))"

section \<open>The handler\<close>

record http_request =
  hqAuthorization :: "string list"
  hqContentType :: string
  hqAccept :: string
  hqContentLength :: int
  hqBody :: "string option"
  hqDeadline :: "time option"

datatype resolve_error =
    ResolutionFailure (rfStatus: int) (rfTraceID: string) (rfBody: string) (rfCode: string)
  | ResolveError go_error

datatype auth_error = AuthForbidden | AuthUnauthenticated

record ('env, 'l, 'e) dispatch_handler =
  dhAuthenticate :: "http_request \<Rightarrow> (auth_error, string) result"
  dhResolve :: "dispatch_request \<Rightarrow> (resolve_error, resolved_agent) result"
  dhTransport :: "transport option"
  dhStreaming :: "transport option"
  dhLedger :: "('env \<Rightarrow> 'l \<Rightarrow> invocation_event \<Rightarrow> 'e option \<times> 'l) option"
  dhRequestLimit :: int
  dhDeadline :: int
  dhSseEventLimit :: int

definition NewDispatchHandler ::
    "(http_request \<Rightarrow> (auth_error, string) result) option \<Rightarrow> (dispatch_request \<Rightarrow> (resolve_error, resolved_agent) result) option \<Rightarrow>
     int \<Rightarrow> int \<Rightarrow> ('env, 'l, 'e) dispatch_handler option" where
  "NewDispatchHandler authenticator resolver requestLimit deadline =
     (case (authenticator, resolver) of
        (Some authenticate, Some resolve) \<Rightarrow>
          if requestLimit < 1 \<or> requestLimit > 2147483647 \<or> deadline < 1 * Millisecond \<or> deadline > 600000 * Millisecond
          then None
          else Some \<lparr>dhAuthenticate = authenticate, dhResolve = resolve, dhTransport = None, dhStreaming = None,
            dhLedger = None, dhRequestLimit = requestLimit, dhDeadline = deadline, dhSseEventLimit = 0\<rparr>
      | _ \<Rightarrow> None)"

definition NewDispatchHandlerWithTransport where
  "NewDispatchHandlerWithTransport authenticator resolver transport requestLimit deadline =
     (case NewDispatchHandler authenticator resolver requestLimit deadline of
        None \<Rightarrow> None
      | Some handler \<Rightarrow>
        (case transport of
           None \<Rightarrow> None
         | Some tp \<Rightarrow> Some (handler\<lparr>dhTransport := Some tp,
             dhStreaming := (if tpStreaming tp then Some tp else None)\<rparr>)))"

definition NewDispatchHandlerWithTransportAndLedger where
  "NewDispatchHandlerWithTransportAndLedger authenticator resolver transport ledger requestLimit deadline =
     (case NewDispatchHandlerWithTransport authenticator resolver transport requestLimit deadline of
        None \<Rightarrow> None
      | Some handler \<Rightarrow> (case ledger of None \<Rightarrow> None | Some l \<Rightarrow> Some (handler\<lparr>dhLedger := Some l\<rparr>)))"

definition NewDispatchHandlerWithTransportAndLedgerAndStreaming where
  "NewDispatchHandlerWithTransportAndLedgerAndStreaming authenticator resolver transport ledger
       sseEventLimitBytes requestLimit deadline =
     (case NewDispatchHandlerWithTransportAndLedger authenticator resolver transport ledger requestLimit deadline of
        None \<Rightarrow> None
      | Some handler \<Rightarrow>
        (case transport of
           None \<Rightarrow> None
         | Some tp \<Rightarrow>
           if \<not> tpStreaming tp then None
           else if sseEventLimitBytes < 1 \<or> sseEventLimitBytes > 2147483647 then None
           else Some (handler\<lparr>dhStreaming := Some tp, dhSseEventLimit := sseEventLimitBytes\<rparr>)))"

text \<open>Reading a request. \<^verbatim>\<open>scan\<close> is the token stream of the decoder on the bytes, \<^verbatim>\<open>decode\<close> the value decoded
  with unknown fields disallowed and what a second decode finds.\<close>

datatype trailing = TrailingEOF | TrailingError | TrailingValue

definition requireEOF :: "trailing \<Rightarrow> bool" where
  "requireEOF t = (case t of TrailingEOF \<Rightarrow> True | TrailingError \<Rightarrow> False | TrailingValue \<Rightarrow> False)"

datatype read_error = PayloadTooLarge | ReadInvalid

definition readRequest ::
    "(string \<Rightarrow> json_token list) \<Rightarrow> (string \<Rightarrow> ('a \<times> trailing) option) \<Rightarrow> int \<Rightarrow> http_request \<Rightarrow> (read_error, 'a) result" where
  "readRequest scan decode requestLimit request =
     (if hqContentLength request > requestLimit then Inl PayloadTooLarge
      else case map_option (take (nat (requestLimit + 1))) (hqBody request) of
        None \<Rightarrow> Inl ReadInvalid
      | Some data \<Rightarrow>
        if int (length data) > requestLimit then Inl PayloadTooLarge
        else if \<not> rejectDuplicateMembers (scan data) then Inl ReadInvalid
        else case decode data of
          None \<Rightarrow> Inl ReadInvalid
        | Some (value, trail) \<Rightarrow> if requireEOF trail then Inr value else Inl ReadInvalid)"

definition authErrorCode :: "auth_error \<Rightarrow> string" where
  "authErrorCode err = (case err of AuthForbidden \<Rightarrow> ''FORBIDDEN'' | AuthUnauthenticated \<Rightarrow> ''UNAUTHENTICATED'')"

definition mapControlPlaneCodeToAgentBoundary :: "string \<Rightarrow> string" where
  "mapControlPlaneCodeToAgentBoundary code =
     (if code \<in> {''NOT_FOUND'', ''AGENT_NOT_INSTALLED''} then ''NOT_FOUND''
      else if code \<in> {''FORBIDDEN'', ''INSTALLATION_DISABLED'', ''AGENT_DISABLED'', ''CAPABILITY_NOT_ALLOWED''} then ''FORBIDDEN''
      else if code \<in> {''AGENT_RELEASE_UNPUBLISHED'', ''AGENT_RELEASE_SUSPENDED'', ''AGENT_RELEASE_REVOKED''} then code
      else if code = ''TIMEOUT'' then ''TIMEOUT''
      else if code = ''CANCELED'' then ''CANCELED''
      else ''DEPENDENCY_ERROR'')"

text \<open>The common tail of \<^verbatim>\<open>dispatch\<close> and \<^verbatim>\<open>DispatchChild\<close> after a consistent resolution.\<close>

definition dispatch_resolved ::
    "('env, 'l, 'e) dispatch_handler \<Rightarrow> 'env world \<Rightarrow> time \<Rightarrow> time \<Rightarrow> dispatch_request \<Rightarrow> resolved_agent \<Rightarrow>
     'l dispatch_state \<Rightarrow> 'l dispatch_state" where
  "dispatch_resolved handler w ctx invocationStartedAt request resolved s =
     (case dhTransport handler of
        None \<Rightarrow> writeCorrelatedError request ''ROUTE_NOT_FOUND'' s
      | Some tp \<Rightarrow>
        if dqStream request then
          (case (dhStreaming handler, dhLedger handler) of
             (Some streaming, Some app) \<Rightarrow>
               if \<not> tpStreaming tp then writeCorrelatedError request ''ROUTE_NOT_FOUND'' s
               else (case tpValidateStreamingTarget tp request resolved of
                 Some targetErr \<Rightarrow>
                   dispatchNonStreamingWithLedger app w tp ctx request resolved (Some targetErr) s
               | None \<Rightarrow>
                 (case tpValidateStreamingInput tp request resolved of
                    Some err \<Rightarrow> writePreError (dqTraceID request) (dispatchErrorCode err) s
                  | None \<Rightarrow>
                    dispatchStreamingWithLedger app w streaming (dhSseEventLimit handler)
                      (resolvedDeadlineContext ctx (raTimeoutMS resolved) invocationStartedAt) request resolved s))
           | _ \<Rightarrow> writeCorrelatedError request ''ROUTE_NOT_FOUND'' s)
        else
          (case tpValidateNonStreamingTarget tp request resolved of
             Some targetErr \<Rightarrow>
               (case dhLedger handler of
                  Some app \<Rightarrow> dispatchNonStreamingWithLedger app w tp ctx request resolved (Some targetErr) s
                | None \<Rightarrow> writeCorrelatedError request (dispatchErrorCode targetErr) s)
           | None \<Rightarrow>
             (case tpValidateNonStreamingInput tp request resolved of
                Some err \<Rightarrow> writePreError (dqTraceID request) (dispatchErrorCode err) s
              | None \<Rightarrow>
                (case dhLedger handler of
                   Some app \<Rightarrow>
                     dispatchNonStreamingWithLedger app w tp
                       (resolvedDeadlineContext ctx (raTimeoutMS resolved) invocationStartedAt) request resolved None s
                 | None \<Rightarrow>
                   (case tpSendNonStreaming tp request resolved of
                      Inl err \<Rightarrow> writeCorrelatedError request (dispatchErrorCode err) s
                    | Inr result \<Rightarrow> writeInvocationResult request result s)))))"

definition DispatchChild ::
    "(string \<Rightarrow> bool) \<Rightarrow> ('env, 'l, 'e) dispatch_handler \<Rightarrow> 'env world \<Rightarrow> time option \<Rightarrow> dispatch_request \<Rightarrow> string \<Rightarrow>
     'l dispatch_state \<Rightarrow> 'l dispatch_state" where
  "DispatchChild strict handler w parentDeadline request accept s =
     (if isl (NegotiateInvocationResultMode (dqStream request) accept)
      then writePreError (dqTraceID request) ''NOT_ACCEPTABLE'' s
      else if \<not> validateChildDispatch strict request
      then writePreError (dqTraceID request) ''VALIDATION_ERROR'' s
      else case time_Now w s of (invocationStartedAt, s1) \<Rightarrow>
        case time_Now w s1 of (now, s2) \<Rightarrow>
        let ctx = context_WithTimeout parentDeadline now (dhDeadline handler) in
        case dhResolve handler request of
          Inl (ResolutionFailure st tr body code) \<Rightarrow>
            writePreError (dqTraceID request) (mapControlPlaneCodeToAgentBoundary code) s2
        | Inl (ResolveError err) \<Rightarrow>
            writePreError (dqTraceID request)
              (if geDeadline err then ''TIMEOUT'' else if geCanceled err then ''CANCELED'' else ''DEPENDENCY_ERROR'') s2
        | Inr resolved \<Rightarrow>
            if \<not> validateResolvedReleaseProvenance request resolved
            then writePreError (dqTraceID request) ''DEPENDENCY_ERROR'' s2
            else dispatch_resolved handler w ctx invocationStartedAt request resolved s2)"

definition dispatch ::
    "(string \<Rightarrow> bool) \<Rightarrow> (string \<Rightarrow> json_token list) \<Rightarrow> (string \<Rightarrow> (dispatch_request \<times> trailing) option) \<Rightarrow>
     ('env, 'l, 'e) dispatch_handler \<Rightarrow> 'env world \<Rightarrow> http_request \<Rightarrow> 'l dispatch_state \<Rightarrow> 'l dispatch_state" where
  "dispatch strict scan decode handler w httpRequest s =
     (case dhAuthenticate handler httpRequest of
        Inl err \<Rightarrow> writeGeneratedPreError w (authErrorCode err) s
      | Inr _ \<Rightarrow>
        if hqContentType httpRequest \<noteq> ''application/json'' then writeGeneratedPreError w ''VALIDATION_ERROR'' s
        else case readRequest scan decode (dhRequestLimit handler) httpRequest of
          Inl err \<Rightarrow> writeGeneratedPreError w
            (if err = PayloadTooLarge then ''PAYLOAD_TOO_LARGE'' else ''VALIDATION_ERROR'') s
        | Inr request \<Rightarrow>
          if isl (NegotiateInvocationResultMode (dqStream request) (hqAccept httpRequest))
          then writePreError (dqTraceID request) ''NOT_ACCEPTABLE'' s
          else if \<not> validateDispatch strict request
          then writePreError (dqTraceID request) ''VALIDATION_ERROR'' s
          else case time_Now w s of (invocationStartedAt, s1) \<Rightarrow>
            case time_Now w s1 of (now, s2) \<Rightarrow>
            let ctx = context_WithTimeout (hqDeadline httpRequest) now (dhDeadline handler) in
            case dhResolve handler request of
              Inl (ResolutionFailure st tr body code) \<Rightarrow> writeRawJSON st tr body s2
            | Inl (ResolveError err) \<Rightarrow>
                writeCorrelatedError request (if geDeadline err then ''TIMEOUT'' else ''DEPENDENCY_ERROR'') s2
            | Inr resolved \<Rightarrow>
                if \<not> validateResolvedReleaseProvenance request resolved
                then writeCorrelatedError request ''DEPENDENCY_ERROR'' s2
                else dispatch_resolved handler w ctx invocationStartedAt request resolved s2)"

end
