(* ===== verification/Resolution.thy ===== *)
theory Resolution
  imports Workspace_Service Dispatch
begin

text \<open>
  The internal resolution API: the handlers of the control plane (\<^verbatim>\<open>resolveAgent\<close> and
  \<^verbatim>\<open>resolveInstalledVersion\<close> in \<^verbatim>\<open>gateway/workspace_handler.go\<close>), the error contract of version 3 they answer
  with (\<^verbatim>\<open>contracts/result_contracts.go\<close>), and the client of the router (\<^verbatim>\<open>resolution/client.go\<close>). The encoder
  and the decoder of \<^verbatim>\<open>encoding/json\<close> are the functions of \<open>json_codec\<close>; the connection is a function from
  requests to responses.
\<close>

section \<open>Platform errors of version 3\<close>

definition platformErrorV2Messages :: "(string \<times> string) list" where
  "platformErrorV2Messages =
   [(''VALIDATION_ERROR'', ''The request is invalid.''),
    (''UNAUTHENTICATED'', ''Authentication is required.''),
    (''FORBIDDEN'', ''The requested operation is not allowed.''),
    (''NOT_FOUND'', ''The requested resource was not found.''),
    (''CONFLICT'', ''The requested operation conflicts with current state.''),
    (''NOT_ACCEPTABLE'', ''The requested result mode is not acceptable.''),
    (''AGENT_NOT_INSTALLED'', ''The Agent is not installed in this Workspace.''),
    (''AGENT_DISABLED'', ''The Agent version is disabled.''),
    (''CAPABILITY_NOT_ALLOWED'', ''The requested capability is not allowed.''),
    (''ROUTE_NOT_FOUND'', ''No route is available for the Agent.''),
    (''A2A_PROTOCOL_ERROR'', ''The Agent returned an invalid A2A response.''),
    (''AGENT_UNAVAILABLE'', ''The Agent is unavailable.''),
    (''AGENT_EXECUTION_FAILED'', ''The Agent failed to complete the invocation.''),
    (''DEPENDENCY_ERROR'', ''A required platform dependency failed.''),
    (''TIMEOUT'', ''The invocation timed out.''),
    (''CANCELED'', ''The invocation was canceled.''),
    (''INTERNAL_ERROR'', ''The platform could not complete the request.'')]"

definition platformErrorV3Messages :: "(string \<times> string) list" where
  "platformErrorV3Messages = platformErrorV2Messages @
   [(''INSTALLATION_DISABLED'', ''The Agent installation is disabled.''),
    (''AGENT_RELEASE_UNPUBLISHED'', ''The Agent release is not published.''),
    (''AGENT_RELEASE_SUSPENDED'', ''The Agent release is suspended.''),
    (''AGENT_RELEASE_REVOKED'', ''The Agent release is revoked.'')]"

record error_v3 =
  e3Code :: string
  e3Message :: string
  e3TraceID :: string
  e3InvocationID :: string
  e3RootTaskID :: string

definition NewPlatformErrorV3 :: "string \<Rightarrow> string \<Rightarrow> error_v3 option" where
  "NewPlatformErrorV3 code traceID =
     (if isl (ParseTraceID traceID) then None
      else map_option (\<lambda>message. \<lparr>e3Code = code, e3Message = message, e3TraceID = traceID,
        e3InvocationID = [], e3RootTaskID = []\<rparr>) (map_of platformErrorV3Messages code))"

definition NewCorrelatedPlatformErrorV3 :: "string \<Rightarrow> string \<Rightarrow> string \<Rightarrow> string \<Rightarrow> error_v3 option" where
  "NewCorrelatedPlatformErrorV3 code traceID invocationID rootTaskID =
     (case NewPlatformErrorV3 code traceID of
        None \<Rightarrow> None
      | Some e \<Rightarrow>
        if validateSafeContractIdentifier ''invocation id'' invocationID \<noteq> None then None
        else if validateSafeContractIdentifier ''root task id'' rootTaskID \<noteq> None then None
        else Some (e\<lparr>e3InvocationID := invocationID, e3RootTaskID := rootTaskID\<rparr>))"

text \<open>The schema: the enumerations with one message for each code, and the identifiers, where the two
  members that may be omitted are present together or not at all.\<close>

definition ValidatePlatformErrorV3 :: "error_v3 \<Rightarrow> bool" where
  "ValidatePlatformErrorV3 e \<longleftrightarrow>
     map_of platformErrorV3Messages (e3Code e) = Some (e3Message e) \<and>
     MatchString safeIdentifierPattern (e3TraceID e) \<and>
     (e3InvocationID e \<noteq> [] \<longrightarrow> MatchString safeIdentifierPattern (e3InvocationID e)) \<and>
     (e3RootTaskID e \<noteq> [] \<longrightarrow> MatchString safeIdentifierPattern (e3RootTaskID e)) \<and>
     (e3InvocationID e = [] \<longleftrightarrow> e3RootTaskID e = [])"

definition ValidateResolveAgentErrorCorrelationV3 :: "contract_library \<Rightarrow> resolve_request \<Rightarrow> error_v3 \<Rightarrow> bool" where
  "ValidateResolveAgentErrorCorrelationV3 lib request e \<longleftrightarrow>
     ValidateResolveAgentRequestV1 lib request = None \<and> ValidatePlatformErrorV3 e \<and>
     e3InvocationID e = rqInvocationID request \<and> e3RootTaskID e = rqRootTaskID request \<and> e3TraceID e = rqTraceID request"

section \<open>The handlers of the control plane\<close>

record wire_request =
  xqAuthorization :: "string list"
  xqBody :: "string option"

record wire_response =
  xrStatus :: int
  xrContentType :: string
  xrTrace :: string
  xrBody :: "(go_error, string) result"

text \<open>What is encoded and decoded. A decoder returns the value it decoded with unknown fields disallowed
  and what a second decode finds; \<^verbatim>\<open>jcDecodeError\<close> is \<^verbatim>\<open>unmarshalStrictResultContractObject\<close>.\<close>

record json_codec =
  jcTokens :: "string \<Rightarrow> json_token list"
  jcEncodeRequest :: "resolve_request \<Rightarrow> string option"
  jcDecodeRequest :: "string \<Rightarrow> (resolve_request \<times> trailing) option"
  jcEncodeResponse :: "resolve_response \<Rightarrow> string"
  jcDecodeResponse :: "string \<Rightarrow> (resolve_response \<times> trailing) option"
  jcEncodeVersionRequest :: "installed_version_request \<Rightarrow> string option"
  jcDecodeVersionRequest :: "string \<Rightarrow> (installed_version_request \<times> trailing) option"
  jcEncodeVersion :: "authorized_invocation \<Rightarrow> string"
  jcDecodeVersion :: "string \<Rightarrow> (authorized_invocation \<times> trailing) option"
  jcEncodeError :: "error_v3 \<Rightarrow> string"
  jcDecodeError :: "string \<Rightarrow> error_v3 option"

definition workspaceErrorCode :: "workspace_error \<Rightarrow> string" where
  "workspaceErrorCode err =
     (if errors_Is err WsErrInvalid then ''VALIDATION_ERROR''
      else if errors_Is err WsErrForbidden then ''FORBIDDEN''
      else if errors_Is err WsErrNotFound then ''NOT_FOUND''
      else if errors_Is err WsErrConflict then ''CONFLICT''
      else if errors_Is err WsErrAgentNotInstalled then ''AGENT_NOT_INSTALLED''
      else if errors_Is err WsErrInstallationDisabled then ''INSTALLATION_DISABLED''
      else if errors_Is err WsErrAgentDisabled then ''AGENT_DISABLED''
      else if errors_Is err WsErrReleaseUnpublished then ''AGENT_RELEASE_UNPUBLISHED''
      else if errors_Is err WsErrReleaseSuspended then ''AGENT_RELEASE_SUSPENDED''
      else if errors_Is err WsErrReleaseRevoked then ''AGENT_RELEASE_REVOKED''
      else if errors_Is err WsErrCapabilityNotAllowed then ''CAPABILITY_NOT_ALLOWED''
      else if errors_Is err WsErrDependency then ''DEPENDENCY_ERROR''
      else ''INTERNAL_ERROR'')"

definition workspaceErrorStatus :: "string \<Rightarrow> int option" where
  "workspaceErrorStatus code =
     (if code = ''VALIDATION_ERROR'' then Some 400
      else if code = ''UNAUTHENTICATED'' then Some 401
      else if code \<in> {''FORBIDDEN'', ''AGENT_DISABLED'', ''INSTALLATION_DISABLED'', ''AGENT_RELEASE_UNPUBLISHED'',
        ''AGENT_RELEASE_SUSPENDED'', ''AGENT_RELEASE_REVOKED'', ''CAPABILITY_NOT_ALLOWED''} then Some 403
      else if code \<in> {''NOT_FOUND'', ''AGENT_NOT_INSTALLED''} then Some 404
      else if code = ''CONFLICT'' then Some 409
      else if code = ''DEPENDENCY_ERROR'' then Some 503
      else if code = ''INTERNAL_ERROR'' then Some 500
      else None)"

text \<open>A handler that returns without writing leaves the empty response with the headers set so far.\<close>

definition nothing_written :: "string \<Rightarrow> wire_response" where
  "nothing_written header = \<lparr>xrStatus = 200, xrContentType = [], xrTrace = header, xrBody = Inr []\<rparr>"

definition write_error :: "json_codec \<Rightarrow> string \<Rightarrow> string \<Rightarrow> string \<Rightarrow> error_v3 option \<Rightarrow> wire_response" where
  "write_error codec header traceID code payload =
     (case (workspaceErrorStatus code, payload) of
        (Some status, Some e) \<Rightarrow>
          \<lparr>xrStatus = status, xrContentType = ''application/json'', xrTrace = traceID, xrBody = Inr (jcEncodeError codec e)\<rparr>
      | _ \<Rightarrow> nothing_written header)"

definition writeWorkspaceError ::
    "json_codec \<Rightarrow> string \<Rightarrow> string \<Rightarrow> string \<Rightarrow> resolve_request option \<Rightarrow> wire_response" where
  "writeWorkspaceError codec header traceID code correlation =
     write_error codec header traceID code
       (case correlation of
          Some q \<Rightarrow> NewCorrelatedPlatformErrorV3 code (rqTraceID q) (rqInvocationID q) (rqRootTaskID q)
        | None \<Rightarrow> NewPlatformErrorV3 code traceID)"

definition writeInstalledVersionError ::
    "json_codec \<Rightarrow> string \<Rightarrow> installed_version_request \<Rightarrow> string \<Rightarrow> wire_response" where
  "writeInstalledVersionError codec header q code =
     write_error codec header (ivTraceID q) code
       (NewCorrelatedPlatformErrorV3 code (ivTraceID q) (ivInvocationID q) (ivRootTaskID q))"

definition handler_writeJSON :: "string \<Rightarrow> int \<Rightarrow> string \<Rightarrow> wire_response" where
  "handler_writeJSON traceID status body =
     \<lparr>xrStatus = status, xrContentType = ''application/json'', xrTrace = traceID, xrBody = Inr body\<rparr>"

text \<open>\<^verbatim>\<open>http.MaxBytesReader\<close> fails on a longer body.\<close>

definition readStrictJSONWithLimit ::
    "json_codec \<Rightarrow> (string \<Rightarrow> ('a \<times> trailing) option) \<Rightarrow> int \<Rightarrow> wire_request \<Rightarrow> 'a option" where
  "readStrictJSONWithLimit codec decode limit request =
     (case xqBody request of
        None \<Rightarrow> None
      | Some data \<Rightarrow>
        if int (length data) > limit then None
        else if \<not> rejectDuplicateMembers (jcTokens codec data) then None
        else (case decode data of
           None \<Rightarrow> None
         | Some (value, trail) \<Rightarrow> if trail = TrailingEOF then Some value else None))"

definition readStrictJSON ::
    "json_codec \<Rightarrow> (string \<Rightarrow> ('a \<times> trailing) option) \<Rightarrow> wire_request \<Rightarrow> 'a option" where
  "readStrictJSON codec decode request = readStrictJSONWithLimit codec decode 1048576 request"

definition validCorrelation :: "resolve_request \<Rightarrow> bool" where
  "validCorrelation q \<longleftrightarrow> ValidIdentifier (rqInvocationID q) \<and> ValidIdentifier (rqRootTaskID q) \<and>
     \<not> isl (ParseTraceID (rqTraceID q))"

definition validInstalledVersionCorrelation :: "installed_version_request \<Rightarrow> bool" where
  "validInstalledVersionCorrelation q \<longleftrightarrow> ValidIdentifier (ivInvocationID q) \<and> ValidIdentifier (ivRootTaskID q) \<and>
     ValidIdentifier (ivWorkspaceID q) \<and> ValidIdentifier (ivAgentID q) \<and> ValidIdentifier (ivCapability q) \<and>
     \<not> isl (ParseTraceID (ivTraceID q))"

text \<open>\<^verbatim>\<open>authenticate\<close> gives the caller of the internal API, \<^verbatim>\<open>generated\<close> is the trace identifier of the request.\<close>

definition resolveAgent ::
    "contract_library \<Rightarrow> json_codec \<Rightarrow> (string list \<Rightarrow> string option) \<Rightarrow> catalog_reader \<Rightarrow> workspace_world \<Rightarrow> string \<Rightarrow>
     wire_request \<Rightarrow> wire_response" where
  "resolveAgent lib codec authenticate reader w generated request =
     (case authenticate (xqAuthorization request) of
        None \<Rightarrow> writeWorkspaceError codec generated generated ''UNAUTHENTICATED'' None
      | Some caller \<Rightarrow>
        if caller = [] then writeWorkspaceError codec generated generated ''UNAUTHENTICATED'' None
        else (case readStrictJSON codec (jcDecodeRequest codec) request of
           None \<Rightarrow> writeWorkspaceError codec generated generated ''VALIDATION_ERROR'' None
         | Some q \<Rightarrow>
           if \<not> validCorrelation q then writeWorkspaceError codec generated generated ''VALIDATION_ERROR'' None
           else if ValidateResolveAgentRequestV1 lib q \<noteq> None
           then writeWorkspaceError codec generated (rqTraceID q) ''VALIDATION_ERROR'' (Some q)
           else (case Resolve lib reader w q of
              Inl err \<Rightarrow> writeWorkspaceError codec generated (rqTraceID q) (workspaceErrorCode err) (Some q)
            | Inr value \<Rightarrow> handler_writeJSON (rqTraceID q) 200 (jcEncodeResponse codec value))))"

definition resolveInstalledVersion ::
    "json_codec \<Rightarrow> (string list \<Rightarrow> string option) \<Rightarrow> catalog_reader \<Rightarrow> workspace_world \<Rightarrow> int \<Rightarrow> string \<Rightarrow>
     wire_request \<Rightarrow> wire_response" where
  "resolveInstalledVersion codec authenticate reader w limit generated request =
     (case authenticate (xqAuthorization request) of
        None \<Rightarrow> writeWorkspaceError codec generated generated ''UNAUTHENTICATED'' None
      | Some caller \<Rightarrow>
        if caller = [] then writeWorkspaceError codec generated generated ''UNAUTHENTICATED'' None
        else (case readStrictJSONWithLimit codec (jcDecodeVersionRequest codec) limit request of
           None \<Rightarrow> writeWorkspaceError codec generated generated ''VALIDATION_ERROR'' None
         | Some q \<Rightarrow>
           if \<not> validInstalledVersionCorrelation q
           then writeWorkspaceError codec generated generated ''VALIDATION_ERROR'' None
           else (case ResolveInstalledVersion reader w q of
              Inl err \<Rightarrow> writeInstalledVersionError codec generated q (workspaceErrorCode err)
            | Inr resolved \<Rightarrow> handler_writeJSON (ivTraceID q) 200 (jcEncodeVersion codec resolved))))"

section \<open>The client of the router\<close>

record resolution_client =
  rcToken :: string
  rcResponseLimit :: int
  rcVersionURL :: string

definition readBounded :: "wire_response \<Rightarrow> int \<Rightarrow> (go_error, string) result" where
  "readBounded response limit =
     (case xrBody response of
        Inl err \<Rightarrow> Inl err
      | Inr body \<Rightarrow>
        (let data = take (nat (limit + 1)) body in if int (length data) > limit then Inl plain_error else Inr data))"

definition bearer :: "resolution_client \<Rightarrow> string \<Rightarrow> wire_request" where
  "bearer client body = \<lparr>xqAuthorization = [''Bearer '' @ rcToken client], xqBody = Some body\<rparr>"

text \<open>The common part of the two calls: send, check the media type, read. \<^verbatim>\<open>http\<close> is the connection; it fails
  with an error or carries the request to the control plane.\<close>

definition exchange ::
    "resolution_client \<Rightarrow> (wire_request \<Rightarrow> (go_error, wire_response) result) \<Rightarrow> string option \<Rightarrow>
     (resolve_error, wire_response \<times> string) result" where
  "exchange client http body =
     (case body of
        None \<Rightarrow> Inl (ResolveError plain_error)
      | Some b \<Rightarrow>
        (case http (bearer client b) of
           Inl err \<Rightarrow> Inl (ResolveError err)
         | Inr response \<Rightarrow>
           if xrContentType response \<noteq> ''application/json'' then Inl (ResolveError plain_error)
           else (case readBounded response (rcResponseLimit client) of
              Inl err \<Rightarrow> Inl (ResolveError err)
            | Inr data \<Rightarrow> Inr (response, data))))"

definition client_Resolve ::
    "contract_library \<Rightarrow> json_codec \<Rightarrow> resolution_client \<Rightarrow> (wire_request \<Rightarrow> (go_error, wire_response) result) \<Rightarrow>
     resolve_request \<Rightarrow> (resolve_error, resolve_response) result" where
  "client_Resolve lib codec client http q =
     rbind (exchange client http (jcEncodeRequest codec q)) (\<lambda>(response, data).
       if xrStatus response \<noteq> 200 then
         (case jcDecodeError codec data of
            None \<Rightarrow> Inl (ResolveError plain_error)
          | Some e \<Rightarrow>
            if \<not> ValidatePlatformErrorV3 e then Inl (ResolveError plain_error)
            else if \<not> ValidateResolveAgentErrorCorrelationV3 lib q e then Inl (ResolveError plain_error)
            else if isl (ParseTraceID (xrTrace response)) \<or> xrTrace response \<noteq> e3TraceID e then Inl (ResolveError plain_error)
            else Inl (ResolutionFailure (xrStatus response) (xrTrace response) data (e3Code e)))
       else (case jcDecodeResponse codec data of
          None \<Rightarrow> Inl (ResolveError plain_error)
        | Some (resolved, trail) \<Rightarrow>
          if \<not> requireEOF trail then Inl (ResolveError plain_error)
          else if ValidateResolveAgentResponseForRequest lib q resolved \<noteq> None then Inl (ResolveError plain_error)
          else Inr resolved))"

definition validateInstalledVersionFailure :: "int \<Rightarrow> installed_version_request \<Rightarrow> error_v3 \<Rightarrow> bool" where
  "validateInstalledVersionFailure statusCode q e =
     (if (e3InvocationID e \<noteq> []) \<noteq> (e3RootTaskID e \<noteq> []) then False
      else let correlated = e3InvocationID e \<noteq> []; code = e3Code e in
        case (if statusCode = 400 then Some (code = ''VALIDATION_ERROR'', False, False)
              else if statusCode = 401 then Some (code = ''UNAUTHENTICATED'', False, True)
              else if statusCode = 403 then Some (code \<in> {''INSTALLATION_DISABLED'', ''AGENT_DISABLED'',
                ''AGENT_RELEASE_UNPUBLISHED'', ''AGENT_RELEASE_SUSPENDED'', ''AGENT_RELEASE_REVOKED'',
                ''CAPABILITY_NOT_ALLOWED''}, True, False)
              else if statusCode = 404 then Some (code \<in> {''NOT_FOUND'', ''AGENT_NOT_INSTALLED''}, True, False)
              else if statusCode = 503 then Some (code = ''DEPENDENCY_ERROR'', True, False)
              else None) of
          None \<Rightarrow> False
        | Some (allowedCode, requiresCorrelated, requiresPreCorrelation) \<Rightarrow>
          if \<not> allowedCode then False
          else if requiresCorrelated \<and> \<not> correlated then False
          else if requiresPreCorrelation \<and> correlated then False
          else \<not> (correlated \<and> (e3InvocationID e \<noteq> ivInvocationID q \<or> e3RootTaskID e \<noteq> ivRootTaskID q \<or>
                   e3TraceID e \<noteq> ivTraceID q)))"

definition client_ResolveInstalledVersion ::
    "contract_library \<Rightarrow> json_codec \<Rightarrow> resolution_client \<Rightarrow> (wire_request \<Rightarrow> (go_error, wire_response) result) \<Rightarrow>
     installed_version_request \<Rightarrow> (resolve_error, authorized_invocation) result" where
  "client_ResolveInstalledVersion lib codec client http q =
     (if rcVersionURL client = [] then Inl (ResolveError plain_error)
      else rbind (exchange client http (jcEncodeVersionRequest codec q)) (\<lambda>(response, data).
       if xrStatus response \<noteq> 200 then
         (case jcDecodeError codec data of
            None \<Rightarrow> Inl (ResolveError plain_error)
          | Some e \<Rightarrow>
            if \<not> ValidatePlatformErrorV3 e then Inl (ResolveError plain_error)
            else if isl (ParseTraceID (xrTrace response)) \<or> xrTrace response \<noteq> e3TraceID e then Inl (ResolveError plain_error)
            else if \<not> validateInstalledVersionFailure (xrStatus response) q e then Inl (ResolveError plain_error)
            else Inl (ResolutionFailure (xrStatus response) (xrTrace response) data (e3Code e)))
       else (case jcDecodeVersion codec data of
          None \<Rightarrow> Inl (ResolveError plain_error)
        | Some (resolved, trail) \<Rightarrow>
          if \<not> requireEOF trail then Inl (ResolveError plain_error)
          else if isl (ParseTraceID (xrTrace response)) then Inl (ResolveError plain_error)
          else if xrTrace response \<noteq> ivTraceID q then Inl (ResolveError plain_error)
          else if \<not> clStrict lib (aiAgentCardVersion resolved) then Inl (ResolveError plain_error)
          else if ValidateInvocationReleaseProvenance (aiAgentReleaseID resolved) (aiAgentCardDigest resolved) \<noteq> None
          then Inl (ResolveError plain_error)
          else Inr resolved)))"

end
