(* ===== verification/Dispatch_Events.thy ===== *)
theory Dispatch_Events
  imports Dispatch
begin

text \<open>
  The lifecycle events the dispatch handler builds for a validated request: their identifiers are safe
  and differ from one sequence number to the next, they satisfy the event contract, and each continues
  the history of the ones before it.
\<close>

section \<open>Identifiers\<close>

lemma char_le_iff: "(c :: char) \<le> d \<longleftrightarrow> of_char c \<le> (of_char d :: nat)"
  by (simp add: less_eq_char_def)

lemma valid_identifier_loop_Suc: "valid_identifier_loop (Suc n) cs = list_all is_idchar cs"
  by (induction cs arbitrary: n) (auto simp: is_idchar_def is_alnum_def is_digit_def char_in_def char_le_iff)

lemma validIdentifier_iff: "validIdentifier s \<longleftrightarrow> safe_identifier s"
proof (cases s)
  case (Cons c cs)
  have "valid_identifier_loop 0 (c # cs) \<longleftrightarrow> is_alnum c \<and> list_all is_idchar cs"
    using valid_identifier_loop_Suc [of 0 cs]
    by (auto simp: is_alnum_def is_digit_def char_in_def char_le_iff)
  with Cons show ?thesis by (auto simp: validIdentifier_def)
qed (simp add: validIdentifier_def)

lemma length_hex_EncodeToString [simp]: "length (hex_EncodeToString bs) = 2 * length bs"
  by (induction bs) (simp_all add: hex_EncodeToString_def)

lemma hex_char_idchar: "n < 16 \<Longrightarrow> is_idchar (hex_char n)"
proof -
  have "list_all (\<lambda>n. is_idchar (hex_char n)) [0..<16]" by code_simp
  then show "n < 16 \<Longrightarrow> is_idchar (hex_char n)" by (simp only: list_all_iff set_upt atLeastLessThan_iff) simp
qed

lemma hex_EncodeToString_idchars: "\<forall>b\<in>set bs. b < 256 \<Longrightarrow> list_all is_idchar (hex_EncodeToString bs)"
  by (induction bs) (auto simp: hex_EncodeToString_def intro!: hex_char_idchar)

lemma nat_text_idchars: "list_all is_idchar (nat_text n)"
  using nat_text_digits [of _ n] by (auto simp: list_all_iff is_idchar_def is_alnum_def is_digit_def char_in_def)

lemma length_nat_text: "0 < k \<Longrightarrow> n < 10 ^ k \<Longrightarrow> length (nat_text n) \<le> k"
proof (induction k arbitrary: n)
  case (Suc k)
  show ?case
  proof (cases "n < 10")
    case True
    then show ?thesis by (subst nat_text.simps) simp
  next
    case False
    then have "0 < k" using Suc.prems(2) by (cases k) simp_all
    moreover have "n div 10 < 10 ^ k" using Suc.prems(2) by (simp add: less_mult_imp_div_less)
    ultimately show ?thesis using Suc.IH [of "n div 10"] False by (subst nat_text.simps) simp
  qed
qed simp

lemma lifecycleEventID_inject:
  assumes "lifecycleEventID i n ty = lifecycleEventID i m ty'" "0 \<le> n" "0 \<le> m"
  shows "n = m"
proof -
  have "drop 21 (lifecycleEventID i n ty) = int_text n" "drop 21 (lifecycleEventID i m ty') = int_text m"
    by (simp_all add: lifecycleEventID_def)
  with assms have "int_text n = int_text m" by simp
  with assms(2,3) show ?thesis by (simp add: int_text_def)
qed

lemma lifecycleEventID_safe:
  assumes "0 \<le> n" "n < 10 ^ 19"
  shows "safe_identifier (lifecycleEventID i n ty)"
proof -
  have t: "int_text n = nat_text (nat n)" using assms by (simp add: int_text_def)
  have "nat n < 10 ^ 19" using assms by (simp add: nat_less_iff)
  then have "length (nat_text (nat n)) \<le> 19" using length_nat_text [of 19] by simp
  moreover have "list_all is_idchar (hex_EncodeToString (take 8 (sha256_Sum256 x)))" for x
    using sha256_byte by (auto intro!: hex_EncodeToString_idchars dest: in_set_takeD)
  moreover have "is_alnum CHR ''e''" "list_all is_idchar ''vt-''" "is_idchar CHR ''-''" by code_simp+
  ultimately show ?thesis using nat_text_idchars [of "nat n"]
    by (simp add: lifecycleEventID_def t)
qed

section \<open>Events of a request\<close>

definition request_event ::
    "dispatch_request \<Rightarrow> int \<Rightarrow> string \<Rightarrow> string \<Rightarrow> time \<Rightarrow> int option \<Rightarrow> int option \<Rightarrow> int option \<Rightarrow> platform_error option \<Rightarrow>
     invocation_event" where
  "request_event q n ty st t ci cb lat er =
     (lifecycleEvent q n ty st t)\<lparr>evChunkIndex := ci, evChunkBytes := cb, evLatencyMS := lat, evError := er\<rparr>"

lemma request_event_simps [simp]:
  "evInvocationID (request_event q n ty st t ci cb lat er) = dqInvocationID q"
  "evParentInvocationID (request_event q n ty st t ci cb lat er) = dqParentInvocationID q"
  "evType (request_event q n ty st t ci cb lat er) = ty" "evStatus (request_event q n ty st t ci cb lat er) = st"
  "evSequence (request_event q n ty st t ci cb lat er) = n" "evError (request_event q n ty st t ci cb lat er) = er"
  "evChunkIndex (request_event q n ty st t ci cb lat er) = ci" "evChunkBytes (request_event q n ty st t ci cb lat er) = cb"
  "evLatencyMS (request_event q n ty st t ci cb lat er) = lat"
  "evOccurredAt (request_event q n ty st t ci cb lat er) = format_time t"
  "evEventID (request_event q n ty st t ci cb lat er) = lifecycleEventID (dqInvocationID q) n ty"
  "event_time (request_event q n ty st t ci cb lat er) = t"
  "stored (request_event q n ty st t ci cb lat er) = request_event q n ty st t ci cb lat er"
  by (simp_all add: request_event_def lifecycleEvent_def event_time_def stored_def format_time_def)

lemma request_event_context [simp]:
  "sameRuntimeInvocationContext (request_event q n ty st t ci cb lat er)
     (request_event q n' ty' st' t' ci' cb' lat' er')"
  by (simp add: sameRuntimeInvocationContext_def request_event_def lifecycleEvent_def)

lemma built_request_events:
  "lifecycleEvent q n ty st t = request_event q n ty st t None None None None"
  "(lifecycleEvent q n ty st t)\<lparr>evLatencyMS := Some l\<rparr> = request_event q n ty st t None None (Some l) None"
  "(lifecycleEvent q n ty st t)\<lparr>evLatencyMS := Some l, evError := Some p\<rparr> = request_event q n ty st t None None (Some l) (Some p)"
  "(lifecycleEvent q n ty st t)\<lparr>evChunkIndex := Some c, evChunkBytes := Some b\<rparr> = request_event q n ty st t (Some c) (Some b) None None"
  by (simp_all add: request_event_def lifecycleEvent_def)

text \<open>What the two request validators establish about the values that go into the events.\<close>

definition valid_request :: "(string \<Rightarrow> bool) \<Rightarrow> dispatch_request \<Rightarrow> bool" where
  "valid_request strict q \<longleftrightarrow>
     list_all safe_identifier [dqInvocationID q, dqRootTaskID q, dqTraceID q, dqWorkspaceID q, dqTargetAgentID q,
       dqCapability q, callerID (dqCaller q)] \<and>
     callerType (dqCaller q) \<in> {''user'', ''agent''} \<and>
     (dqParentInvocationID q = [] \<or> safe_identifier (dqParentInvocationID q)) \<and>
     semver_schema strict (dqAgentCardVersion q) \<and>
     ValidateInvocationReleaseProvenance (dqAgentReleaseID q) (dqAgentCardDigest q) = None"

lemma validated_requests:
  assumes "\<forall>v. strict v \<longrightarrow> MatchString semverPattern v"
  shows "validateDispatch strict q \<Longrightarrow> valid_request strict q"
    and "validateChildDispatch strict q \<Longrightarrow> valid_request strict q"
  using assms
  by (auto simp: validateDispatch_def validateChildDispatch_def valid_request_def validIdentifier_iff
      semver_schema_def ParseTraceID_def split: if_splits)

text \<open>The contract's rules for the members of an event by its type.\<close>

definition event_shape :: "string \<Rightarrow> string \<Rightarrow> int option \<Rightarrow> int option \<Rightarrow> int option \<Rightarrow> platform_error option \<Rightarrow> bool" where
  "event_shape ty st ci cb lat er \<longleftrightarrow> nonnegative ci \<and> nonnegative cb \<and> nonnegative lat \<and>
     ((ty, st) \<in> {(''created'', ''pending''), (''routing'', ''routing''), (''started'', ''running'')} \<and>
        ci = None \<and> cb = None \<and> lat = None \<and> er = None \<or>
      (ty, st) = (''stream'', ''running'') \<and> ci \<noteq> None \<and> cb \<noteq> None \<and> lat = None \<and> er = None \<or>
      (ty, st) = (''succeeded'', ''succeeded'') \<and> ci = None \<and> cb = None \<and> lat \<noteq> None \<and> er = None \<or>
      ci = None \<and> cb = None \<and> lat \<noteq> None \<and> (\<exists>p. er = Some p \<and> streamFailureType (errCode p) = (ty, st)))"

lemma request_event_valid:
  assumes q: "valid_request strict q" and n: "0 \<le> n" "n < 10 ^ 19" and shape: "event_shape ty st ci cb lat er"
    and er: "\<forall>p. er = Some p \<longrightarrow> (\<exists>c. NewCorrelatedPlatformErrorV4 c (dqTraceID q) (dqInvocationID q) (dqRootTaskID q) = Inr p)"
  shows "ValidateInvocationEventV03 strict (request_event q n ty st t ci cb lat er) = None"
proof -
  let ?e = "request_event q n ty st t ci cb lat er"
  have prov: "dqAgentReleaseID q = [] \<and> dqAgentCardDigest q = [] \<or>
      safe_identifier (dqAgentReleaseID q) \<and> isLowerHexDigest (dqAgentCardDigest q)"
    using q by (simp add: valid_request_def provenance_None)
  have err: "correlated_schema p \<and> errInvocationID p = dqInvocationID q \<and> errRootTaskID p = dqRootTaskID q \<and>
      errTraceID p = dqTraceID q" if "er = Some p" for p
    using er that unfolding correlated_schema_iff
    by (auto simp: NewCorrelatedPlatformErrorV4_def NewPreCorrelationPlatformErrorV4_def split: option.splits)
  have enums: "ty \<in> set event_type_enum" "st \<in> set event_status_enum"
    using shape by (auto simp: event_shape_def event_type_enum_def event_status_enum_def streamFailureType_def split: if_splits)
  have members: "event_members_schema strict ?e"
    using q n prov err enums shape lifecycleEventID_safe [OF n]
    by (auto simp: event_members_schema_def request_event_def lifecycleEvent_def valid_request_def caller_schema_def
        format_time_def event_shape_def isLowerHexDigest_def split: option.splits)
  have rules: "event_type_rules ?e"
    using prov shape
    by (auto simp: event_type_rules_def request_event_def lifecycleEvent_def event_shape_def streamFailureType_def
        isLowerHexDigest_def split: if_splits)
  show ?thesis
    using members rules q err
    by (auto simp: ValidateInvocationEventV03_def event_schema_def valid_request_def request_event_def lifecycleEvent_def
        validateRuntimeNestedErrorCorrelation_def split: option.splits)
qed

section \<open>Histories of a request\<close>

definition request_context :: "dispatch_request \<Rightarrow> invocation_event" where
  "request_context q = request_event q 0 [] [] 0 None None None None"

lemma request_context_event [simp]: "sameRuntimeInvocationContext (request_context q) (request_event q n ty st t ci cb lat er)"
  by (simp add: request_context_def)

definition request_history :: "dispatch_request \<Rightarrow> invocation_event list \<Rightarrow> bool" where
  "request_history q h \<longleftrightarrow> list_all (sameRuntimeInvocationContext (request_context q)) h \<and> sorted (map event_time h)"

definition next_type :: "invocation_event list \<Rightarrow> string \<Rightarrow> bool" where
  "next_type h ty \<longleftrightarrow> lifecycle_next (if h = [] then Fresh else phase_of_type (evType (last h))) ty \<noteq> None"

lemma continues_request:
  assumes wf: "well_formed_lifecycle strict h" and hist: "request_history q h"
    and e: "e = request_event q (int (length h)) ty st t ci cb lat er"
    and valid: "ValidateInvocationEventV03 strict e = None"
    and nxt: "next_type h ty" and idx: "ty = ''stream'' \<longrightarrow> ci = Some (int (length (stream_events h)))"
    and time: "h = [] \<or> event_time (last h) \<le> t" "t mod 1000 = 0"
  shows "continues strict h e" "request_history q (h @ [e])"
proof -
  have ctx: "sameRuntimeInvocationContext (hd h) e" if "h \<noteq> []"
    using hist that e request_context_event
    by (metis (no_types, lifting) hd_in_set list_all_iff request_history_def sameRuntimeInvocationContext_sym
        sameRuntimeInvocationContext_trans)
  have phase: "lifecycle_phase Fresh (map evType h) = Some (if h = [] then Fresh else phase_of_type (evType (last h)))"
    using well_formed_last(3) [OF wf] by simp
  have "well_formed_lifecycle strict (h @ [e])"
    using wf valid ctx phase nxt idx e by (simp add: well_formed_snoc next_type_def)
  moreover have sorted: "sorted (map event_time (h @ [e]))"
    using hist time(1) e sorted_snoc_last [of "map event_time h" t]
    by (cases "h = []") (simp_all add: request_history_def last_map)
  moreover have "time_Truncate t 1000 = t" by (rule time_Truncate_id [OF time(2)])
  ultimately show "continues strict h e" using e by (simp add: continues_def)
  show "request_history q (h @ [e])" using hist sorted e by (simp add: request_history_def)
qed

lemma event_shape_intros [simp]:
  "event_shape ''created'' ''pending'' None None None None" "event_shape ''routing'' ''routing'' None None None None"
  "event_shape ''started'' ''running'' None None None None"
  "0 \<le> l \<Longrightarrow> event_shape ''succeeded'' ''succeeded'' None None (Some l) None"
  "0 \<le> c \<Longrightarrow> 0 \<le> b \<Longrightarrow> event_shape ''stream'' ''running'' (Some c) (Some b) None None"
  "0 \<le> l \<Longrightarrow> streamFailureType (errCode p) = (ty, st) \<Longrightarrow> event_shape ty st None None (Some l) (Some p)"
  by (simp_all add: event_shape_def nonnegative_def)

lemma next_type_intros [simp]:
  "next_type [] ''created''"
  "next_type (h @ [request_event q n ''created'' st t ci cb lat er]) ''routing''"
  "next_type (h @ [request_event q n ''routing'' st t ci cb lat er]) ''started''"
  by (simp_all add: next_type_def phase_of_type_def)

text \<open>Once an invocation is routed it may fail, be canceled or time out; only a running one succeeds.\<close>

lemma next_type_failure:
  assumes "h \<noteq> []" "evType (last h) \<in> {''routing'', ''started'', ''stream''}"
    "ty \<in> {''failed'', ''canceled'', ''timed_out''}"
  shows "next_type h ty"
  using assms by (auto simp: next_type_def phase_of_type_def terminal_type_def)

lemma next_type_running:
  assumes "h \<noteq> []" "evType (last h) \<in> {''started'', ''stream''}" "ty = ''succeeded'' \<or> ty = ''stream''"
  shows "next_type h ty"
  using assms by (auto simp: next_type_def phase_of_type_def terminal_type_def)

end
