(* ===== verification/Ledger_Correct.thy ===== *)
theory Ledger_Correct
  imports Ledger Ledger_Interface "HOL-Library.Multiset"
begin

text \<open>
  Correctness of the invocation ledger.  First the trace ordering, then the abstract ledger (one
  event history per invocation) that the tables refine: every append, whatever calls to the database
  fail, leaves tables that represent well-formed histories, and reads return exactly them.
\<close>

subsection \<open>Trace ordering\<close>

lemma parents_first_snoc:
  "parents_first (xs @ [v]) \<longleftrightarrow> parents_first xs \<and>
     (irParentInvocationID v \<noteq> [] \<longrightarrow> irParentInvocationID v \<in> irInvocationID ` set xs)"
  unfolding parents_first_def
  by (auto simp: nth_append less_Suc_eq)

lemma order_pass_sound:
  assumes "order_pass vs ordered emitted next progress = (ordered', emitted', next', progress')"
    and "set emitted = irInvocationID ` set ordered" "parents_first ordered"
  shows "set emitted' = irInvocationID ` set ordered' \<and> parents_first ordered' \<and>
     mset ordered' + mset next' = mset ordered + mset next + mset vs"
  using assms
proof (induction vs ordered emitted "next" progress rule: order_pass.induct)
  case (2 v vs ordered emitted "next" progress)
  consider "irParentInvocationID v = []"
    | "irParentInvocationID v \<noteq> []" "irParentInvocationID v \<in> set emitted"
    | "irParentInvocationID v \<noteq> []" "irParentInvocationID v \<notin> set emitted" by blast
  then show ?case
    by cases (use 2 in \<open>simp_all add: parents_first_snoc\<close>)
qed simp

lemma order_pass_progress: "order_pass vs ordered emitted next True = (ordered', emitted', next', p) \<Longrightarrow> p"
  by (induction vs arbitrary: ordered emitted "next") (auto split: if_splits)

lemma order_pass_stuck:
  "order_pass vs ordered emitted next False = (ordered', emitted', next', False) \<Longrightarrow>
    \<forall>v\<in>set vs. irParentInvocationID v \<noteq> [] \<and> irParentInvocationID v \<notin> set emitted"
proof (induction vs arbitrary: "next")
  case (Cons v vs)
  from Cons.prems order_pass_progress
  have v: "irParentInvocationID v \<noteq> []" "irParentInvocationID v \<notin> set emitted"
    by (fastforce split: if_splits)+
  with Cons.prems Cons.IH [of "next @ [v]"] show ?case by simp
qed simp

lemma first_remaining:
  assumes "\<exists>y\<in>set ys. P y"
  shows "\<exists>i<length ys. P (ys ! i) \<and> (\<forall>y\<in>set (take i ys). \<not> P y)"
proof -
  obtain as y bs where "ys = as @ y # bs" "P y" "\<forall>a\<in>set as. \<not> P a"
    using split_list_first_prop [OF assms] by blast
  then show ?thesis by (intro exI [of _ "length as"]) simp
qed

lemma stuck_unorderable:
  assumes "remaining \<noteq> []" "set emitted = irInvocationID ` set ordered"
    and stuck: "\<forall>v\<in>set remaining. irParentInvocationID v \<noteq> [] \<and> irParentInvocationID v \<notin> set emitted"
    and ys: "set ys = set ordered \<union> set remaining"
  shows "\<not> parents_first ys"
proof
  assume pf: "parents_first ys"
  obtain i where i: "i < length ys" "ys ! i \<in> set remaining" "\<forall>y\<in>set (take i ys). y \<notin> set remaining"
    using first_remaining [of ys "\<lambda>y. y \<in> set remaining"] ys assms(1) by (cases remaining) auto
  with pf stuck have "irParentInvocationID (ys ! i) \<in> irInvocationID ` set (take i ys)"
    by (auto simp: parents_first_def)
  moreover have "set (take i ys) \<subseteq> set ordered" using i(3) ys set_take_subset [of i ys] by blast
  ultimately show False using i(2) stuck assms(2) by blast
qed

text \<open>What a correct ordering of a multiset of records returns.\<close>

definition ordering_spec ::
    "invocation_record multiset \<Rightarrow> (contract_error, invocation_record list) result \<Rightarrow> bool" where
  "ordering_spec m r \<longleftrightarrow>
     (case r of
        Inr ys \<Rightarrow> mset ys = m \<and> parents_first ys
      | Inl _ \<Rightarrow> (\<nexists>ys. mset ys = m \<and> parents_first ys))"

lemma order_loop_correct:
  assumes "set emitted = irInvocationID ` set ordered" "parents_first ordered"
  shows "ordering_spec (mset ordered + mset remaining) (order_loop remaining ordered emitted)"
  using assms
proof (induction remaining ordered emitted rule: order_loop.induct)
  case (1 remaining ordered emitted)
  obtain ordered' emitted' n progress
    where pass: "order_pass remaining ordered emitted [] False = (ordered', emitted', n, progress)"
    by (cases "order_pass remaining ordered emitted [] False") auto
  note sound = order_pass_sound [OF pass "1.prems"]
  consider "remaining = []" | "remaining \<noteq> []" "progress" | "remaining \<noteq> []" "\<not> progress" by blast
  then show ?case
  proof cases
    case 1
    with "1.prems" show ?thesis by (subst order_loop.simps) (simp add: ordering_spec_def)
  next
    case 2
    with pass have "order_loop remaining ordered emitted = order_loop n ordered' emitted'"
      by (subst order_loop.simps) simp
    moreover have "mset ordered + mset remaining = mset ordered' + mset n" using sound by simp
    ultimately show ?thesis using "1.IH" [OF 2(1) pass [symmetric] refl refl] 2 sound by simp
  next
    case 3
    with pass have "\<exists>e. order_loop remaining ordered emitted = Inl e"
      by (subst order_loop.simps) simp
    moreover have "\<not> parents_first ys" if "mset ys = mset ordered + mset remaining" for ys
      using stuck_unorderable [OF 3(1) "1.prems"(1), of ys] order_pass_stuck [of remaining ordered emitted]
        pass 3 mset_eq_setD [of ys "ordered @ remaining"] that by simp
    ultimately show ?thesis by (auto simp: ordering_spec_def)
  qed
qed

lemma orderTraceProjections_correct: "ordering_spec (mset xs) (orderTraceProjections xs)"
  using order_loop_correct [of "[]" "[]" xs] by (simp add: orderTraceProjections_def parents_first_def)

subsection \<open>The abstract ledger\<close>

text \<open>A history is the list of the events of one invocation; the abstract ledger is the list of
  the histories in the order their invocations were created.\<close>

type_synonym history = "invocation_event list"

definition hist_id :: "history \<Rightarrow> string" where
  "hist_id h = evInvocationID (hd h)"

definition valid_history :: "(string \<Rightarrow> bool) \<Rightarrow> history \<Rightarrow> bool" where
  "valid_history strict h \<longleftrightarrow> h \<noteq> [] \<and> well_formed_lifecycle strict h \<and>
     list_all (\<lambda>e. stored e = e) h \<and> sorted (map event_time h)"

definition lineage :: "invocation_event list \<Rightarrow> bool" where
  "lineage fs \<longleftrightarrow> (\<forall>i < length fs. evParentInvocationID (fs ! i) \<noteq> [] \<longrightarrow>
     (\<exists>p\<in>set (take i fs). child_of p (fs ! i)))"

definition wf_ledger :: "(string \<Rightarrow> bool) \<Rightarrow> history list \<Rightarrow> bool" where
  "wf_ledger strict hs \<longleftrightarrow> list_all (valid_history strict) hs \<and> distinct (map hist_id hs) \<and>
     lineage (map hd hs)"

text \<open>What an append may do to the abstract ledger: open a new history, whose parent, if it has one,
  is running and not ahead of it in time, or extend the history of its invocation.\<close>

inductive ledger_step :: "(string \<Rightarrow> bool) \<Rightarrow> history list \<Rightarrow> invocation_event \<Rightarrow> history list \<Rightarrow> bool"
  for strict where
  open_root: "valid_history strict [e] \<Longrightarrow> evInvocationID e \<notin> set (map hist_id hs) \<Longrightarrow>
    evParentInvocationID e = [] \<Longrightarrow> ledger_step strict hs e (hs @ [[e]])" |
  open_child: "valid_history strict [e] \<Longrightarrow> evInvocationID e \<notin> set (map hist_id hs) \<Longrightarrow>
    p \<in> set hs \<Longrightarrow> child_of (hd p) e \<Longrightarrow> evStatus (last p) = ''running'' \<Longrightarrow>
    event_time (last p) \<le> event_time e \<Longrightarrow> ledger_step strict hs e (hs @ [[e]])" |
  extend: "hs = xs @ h # ys \<Longrightarrow> h \<noteq> [] \<Longrightarrow> hist_id h = evInvocationID e \<Longrightarrow> valid_history strict (h @ [e]) \<Longrightarrow>
    ledger_step strict hs e (xs @ (h @ [e]) # ys)"

inductive_cases ledger_stepE: "ledger_step strict hs e hs'"

subsection \<open>The tables represent an abstract ledger\<close>

definition digest_column :: "invocation_event \<Rightarrow> nat list option" where
  "digest_column e = (case digestBytes (evAgentCardDigest e) of Inl _ \<Rightarrow> None | Inr d \<Rightarrow> d)"

definition row_of :: "invocation_event \<Rightarrow> event_row" where
  "row_of e = event_row_of e (digest_column e) (event_time e)"

definition proj_of :: "history \<Rightarrow> projection_row" where
  "proj_of h = updated_projection (last h) (event_time (last h))
     (projection_row_of (hd h) (digest_column (hd h)) (event_time (hd h)))"

definition record_of :: "history \<Rightarrow> invocation_record" where
  "record_of h =
     \<lparr>irInvocationID = evInvocationID (hd h), irRootTaskID = evRootTaskID (hd h),
      irParentInvocationID = evParentInvocationID (hd h), irTraceID = evTraceID (hd h),
      irCaller = evCaller (hd h), irWorkspaceID = evWorkspaceID (hd h),
      irTargetAgentID = evTargetAgentID (hd h), irAgentCardVersion = evAgentCardVersion (hd h),
      irAgentReleaseID = evAgentReleaseID (hd h), irAgentCardDigest = evAgentCardDigest (hd h),
      irCapability = evCapability (hd h), irStatus = evStatus (last h), irLatencyMS = evLatencyMS (last h),
      irErrorCode = eventErrorCode (last h), irCreatedAt = event_time (hd h),
      irUpdatedAt = event_time (last h)\<rparr>"

definition represents :: "(string \<Rightarrow> bool) \<Rightarrow> history list \<Rightarrow> ledger_db \<Rightarrow> bool" where
  "represents strict hs db \<longleftrightarrow> wf_ledger strict hs \<and>
     dbInvocations db = map proj_of hs \<and>
     (\<forall>h\<in>set hs. filter (\<lambda>r. erInvocationID r = hist_id h) (dbEvents db) = map row_of h) \<and>
     (\<forall>r\<in>set (dbEvents db). erInvocationID r \<in> hist_id ` set hs) \<and>
     distinct (map erEventID (dbEvents db))"

subsection \<open>Rows read back as the events they store\<close>

lemma from_null_nullableText [simp]: "from_null (nullableText s) = s"
  by (simp add: from_null_def nullableText_def)

lemma valid_event_provenance:
  assumes "ValidateInvocationEventV03 strict e = None"
  shows "evAgentReleaseID e = [] \<and> evAgentCardDigest e = [] \<or>
    safe_identifier (evAgentReleaseID e) \<and> isLowerHexDigest (evAgentCardDigest e)"
  using assms by (simp add: ValidateInvocationEventV03_def provenance_None)

lemma digestBytes_valid:
  assumes "ValidateInvocationEventV03 strict e = None"
  shows "digestBytes (evAgentCardDigest e) = Inr (digest_column e)"
    and "digest_column e = None \<longleftrightarrow> evAgentReleaseID e = []"
    and "null_or (\<lambda>bs. length bs = 32) (digest_column e)"
    and "assignReleaseProvenance (nullableText (evAgentReleaseID e)) (digest_column e) =
      Inr (evAgentReleaseID e, evAgentCardDigest e)"
  using valid_event_provenance [OF assms] lower_hex_digest_decodes [of "evAgentCardDigest e"]
  by (auto simp: digestBytes_def digest_column_def assignReleaseProvenance_def nullableText_def null_or_def
      simp del: isLowerHexDigest_iff)

lemma valid_event_error:
  assumes "ValidateInvocationEventV03 strict e = None" "evError e = Some err"
  shows "NewCorrelatedPlatformErrorV4 (errCode err) (evTraceID e) (evInvocationID e) (evRootTaskID e) = Inr err"
proof -
  have "correlated_schema err"
    using valid_event_schema [OF assms(1)] assms(2) by (simp add: event_members_schema_def)
  moreover have "errInvocationID err = evInvocationID e" "errRootTaskID err = evRootTaskID e"
    "errTraceID err = evTraceID e"
    using assms by (auto simp: ValidateInvocationEventV03_def validateRuntimeNestedErrorCorrelation_def
        split: if_splits)
  ultimately show ?thesis using correlated_schema_iff by metis
qed

lemma stored_iff: "stored e = e \<longleftrightarrow> evOccurredAt e = format_time (event_time e)"
  by (cases e) (auto simp: stored_def)

lemma scanEvent_row_of:
  assumes "ValidateInvocationEventV03 strict e = None" "stored e = e"
  shows "scanEvent (row_of e) = Inr e"
proof -
  have "scan_error (row_of e) = Inr (evError e)"
    using valid_event_error [OF assms(1)]
    by (cases "evError e") (auto simp: scan_error_def row_of_def event_row_of_def error_column_def)
  moreover have "evOccurredAt e = format_time (event_time e)" using assms(2) by (simp add: stored_iff)
  moreover have "evSchemaVersion e = ''0.3''"
    using valid_event_schema [OF assms(1)] by (simp add: event_members_schema_def)
  ultimately show ?thesis
    using digestBytes_valid(4) [OF assms(1)]
    by (simp add: scanEvent_def row_of_def event_row_of_def)
qed

lemma valid_historyD:
  assumes "valid_history strict h"
  shows "h \<noteq> []" "well_formed_lifecycle strict h" "\<forall>e\<in>set h. stored e = e"
    "\<forall>e\<in>set h. ValidateInvocationEventV03 strict e = None" "sorted (map event_time h)"
    "\<forall>e\<in>set h. sameRuntimeInvocationContext (hd h) e" "\<forall>e\<in>set h. evInvocationID e = hist_id h"
    "evType (hd h) = ''created''" "evStatus (hd h) = ''pending''"
proof -
  show wf: "h \<noteq> []" "well_formed_lifecycle strict h" "\<forall>e\<in>set h. stored e = e"
    "sorted (map event_time h)"
    using assms by (simp_all add: valid_history_def list_all_iff)
  then show valid: "\<forall>e\<in>set h. ValidateInvocationEventV03 strict e = None"
    and ctx: "\<forall>e\<in>set h. sameRuntimeInvocationContext (hd h) e"
    by (simp_all add: well_formed_lifecycle_def list_all_iff)
  then show "\<forall>e\<in>set h. evInvocationID e = hist_id h"
    by (simp add: sameRuntimeInvocationContext_def hist_id_def)
  show created: "evType (hd h) = ''created''"
    using wf(1,2) by (cases h) (auto simp: well_formed_lifecycle_def split: if_splits)
  then show "evStatus (hd h) = ''pending''"
    using valid valid_event_status [of strict "hd h"] wf(1) by (simp add: status_of_type_def)
qed

lemma scanProjection_proj_of:
  assumes "valid_history strict h"
  shows "scanProjection (proj_of h) = Inr (record_of h)"
proof -
  have "ValidateInvocationEventV03 strict (hd h) = None"
    using valid_historyD(1,4) [OF assms] by simp
  from digestBytes_valid(4) [OF this] show ?thesis
    by (cases "evError (last h)")
      (simp_all add: scanProjection_def proj_of_def updated_projection_def projection_row_of_def
        record_of_def error_column_def eventErrorCode_def from_null_def [of None] from_null_def [of "Some _"])
qed

lemma scan_all_map: "\<forall>e\<in>set es. f (g e) = Inr e \<Longrightarrow> scan_all f (map g es) = Inr es"
  by (induction es) auto

lemma history_sequences:
  assumes "valid_history strict h"
  shows "map erSequence (map row_of h) = map int [0..<length h]"
proof -
  have "map erSequence (map row_of h) = map evSequence h"
    by (simp add: row_of_def event_row_of_def)
  with valid_historyD(2) [OF assms] show ?thesis by (simp add: well_formed_lifecycle_def)
qed

lemma sort_key_sorted: "sorted (map f xs) \<Longrightarrow> sort_key f xs = xs"
  by (simp add: sort_key_id_if_sorted)

lemma representsD:
  assumes "represents strict hs db"
  shows "wf_ledger strict hs" "dbInvocations db = map proj_of hs"
    "\<And>h. h \<in> set hs \<Longrightarrow> filter (\<lambda>r. erInvocationID r = hist_id h) (dbEvents db) = map row_of h"
    "\<And>r. r \<in> set (dbEvents db) \<Longrightarrow> erInvocationID r \<in> hist_id ` set hs"
    "distinct (map erEventID (dbEvents db))"
    "\<And>h. h \<in> set hs \<Longrightarrow> valid_history strict h" "distinct (map hist_id hs)" "lineage (map hd hs)"
  using assms by (auto simp: represents_def wf_ledger_def list_all_iff)

lemma select_events_history:
  assumes "represents strict hs db" "h \<in> set hs"
  shows "select_events db (hist_id h) = map row_of h"
proof -
  have "sorted (map erSequence (map row_of h))"
    unfolding history_sequences [OF representsD(6) [OF assms]] by (simp add: sorted_iff_nth_mono)
  with representsD(3) [OF assms] show ?thesis by (simp add: select_events_def sort_key_sorted)
qed

lemma readEvents_history:
  assumes "represents strict hs db" "h \<in> set hs" "leRead env"
  shows "readEvents env db (hist_id h) = Inr h"
  using select_events_history [OF assms(1,2)] assms(3)
    valid_historyD(3,4) [OF representsD(6) [OF assms(1,2)]]
  by (simp add: readEvents_def) (blast intro: scan_all_map scanEvent_row_of)

lemma prInvocationID_proj_of [simp]: "prInvocationID (proj_of h) = hist_id h"
  by (simp add: proj_of_def updated_projection_def projection_row_of_def hist_id_def)

lemma prWorkspaceID_proj_of [simp]: "prWorkspaceID (proj_of h) = evWorkspaceID (hd h)"
  by (simp add: proj_of_def updated_projection_def projection_row_of_def)

lemma prTraceID_proj_of [simp]: "prTraceID (proj_of h) = evTraceID (hd h)"
  by (simp add: proj_of_def updated_projection_def projection_row_of_def)

lemma find_proj:
  assumes "distinct (map hist_id hs)"
  shows "find (\<lambda>row. Q row \<and> prInvocationID row = i) (map proj_of hs) =
    (case find (\<lambda>h. hist_id h = i) hs of None \<Rightarrow> None
     | Some h \<Rightarrow> if Q (proj_of h) then Some (proj_of h) else None)"
  using assms
proof (induction hs)
  case (Cons h hs)
  have "find (\<lambda>h. hist_id h = i) hs = None" if "hist_id h = i"
    using Cons.prems that by (auto simp: find_None_all image_iff)
  with Cons show ?case by auto
qed simp

lemma lockProjection_history:
  assumes rep: "represents strict hs db"
  shows "lockProjection env db i =
    (if \<not> leLock env then Inl PgOther
     else case find (\<lambda>h. hist_id h = i) hs of None \<Rightarrow> Inl PgErrNoRows | Some h \<Rightarrow> Inr (record_of h))"
proof -
  have "find (\<lambda>row. prInvocationID row = i) (dbInvocations db) =
      map_option proj_of (find (\<lambda>h. hist_id h = i) hs)"
    using find_proj [OF representsD(7) [OF rep], of "\<lambda>_. True" i] representsD(2) [OF rep]
    by (auto split: option.splits)
  moreover have "find (\<lambda>h. hist_id h = i) hs = Some h \<Longrightarrow> scanProjection (proj_of h) = Inr (record_of h)" for h
    using representsD(6) [OF rep] scanProjection_proj_of find_Some_in_set by metis
  ultimately show ?thesis
    by (auto simp: lockProjection_def select_projection_def split: option.splits)
qed

subsection \<open>Appending refines the abstract step\<close>

lemma stored_simps [simp]:
  "evInvocationID (stored e) = evInvocationID e" "evSequence (stored e) = evSequence e"
  "evType (stored e) = evType e" "evStatus (stored e) = evStatus e" "evEventID (stored e) = evEventID e"
  "evParentInvocationID (stored e) = evParentInvocationID e" "event_time (stored e) = event_time e"
  "evRootTaskID (stored e) = evRootTaskID e" "evTraceID (stored e) = evTraceID e"
  "evWorkspaceID (stored e) = evWorkspaceID e" "evCaller (stored e) = evCaller e"
  "evLatencyMS (stored e) = evLatencyMS e" "evError (stored e) = evError e"
  "evChunkIndex (stored e) = evChunkIndex e" "evAgentCardVersion (stored e) = evAgentCardVersion e"
  "evTargetAgentID (stored e) = evTargetAgentID e" "evAgentReleaseID (stored e) = evAgentReleaseID e"
  "evAgentCardDigest (stored e) = evAgentCardDigest e" "evCapability (stored e) = evCapability e"
  "evChunkBytes (stored e) = evChunkBytes e" "evSchemaVersion (stored e) = evSchemaVersion e"
  "stored (stored e) = stored e"
  by (simp_all add: stored_def event_time_def format_time_def)

lemma row_of_stored [simp]: "row_of (stored e) = row_of e"
  by (simp add: row_of_def event_row_of_def digest_column_def error_column_def stored_def event_time_def
      format_time_def)

lemma projection_row_of_stored [simp]: "projection_row_of (stored e) d t = projection_row_of e d t"
  by (simp add: projection_row_of_def stored_def)

lemma digest_column_stored [simp]: "digest_column (stored e) = digest_column e"
  by (simp add: digest_column_def stored_def)

lemma sameRuntimeInvocationContext_stored [simp]:
  "sameRuntimeInvocationContext a (stored e) = sameRuntimeInvocationContext a e"
  by (simp add: sameRuntimeInvocationContext_def stored_def)

lemma Validate_stored:
  "ValidateInvocationEventV03 strict e = None \<Longrightarrow> ValidateInvocationEventV03 strict (stored e) = None"
proof -
  assume valid: "ValidateInvocationEventV03 strict e = None"
  have "event_members_schema strict (stored e)"
    using valid_event_schema [OF valid]
    unfolding event_members_schema_def by (auto simp: stored_def format_time_def)
  moreover have "event_type_rules (stored e)"
    using valid_event_schema [OF valid] unfolding event_type_rules_def stored_def by simp
  ultimately show ?thesis
    using valid by (simp add: ValidateInvocationEventV03_def event_schema_def)
qed

lemma well_formed_stored:
  "well_formed_lifecycle strict (h @ [e]) \<Longrightarrow> well_formed_lifecycle strict (h @ [stored e])"
  using Validate_stored [of strict e] by (auto simp: well_formed_snoc)

lemma validateCandidate_Inr:
  assumes "validateCandidate strict e = Inr t"
  shows "ValidateInvocationEventV03 strict e = None" "event_time e = t" "t mod 1000 = 0"
    "evSequence e = 0 \<Longrightarrow> well_formed_lifecycle strict [stored e]"
proof -
  show "ValidateInvocationEventV03 strict e = None" "event_time e = t" "t mod 1000 = 0"
    using assms time_Truncate_mod [of 1000 t]
    by (auto simp: validateCandidate_def event_time_def simp del: time_Truncate_mod
        split: if_splits option.splits)
  assume "evSequence e = 0"
  with assms obtain v where "sequence_Accept strict initial_sequence_validator e = Inr v"
    by (cases "sequence_Accept strict initial_sequence_validator e")
      (auto simp: validateCandidate_def split: if_splits option.splits)
  then have "sequence_accept_all strict initial_sequence_validator [e] = Inr v" by simp
  then have "well_formed_lifecycle strict ([] @ [e])" by (simp only: sequence_accept_all_iff append_Nil)
  then show "well_formed_lifecycle strict [stored e]" using well_formed_stored by fastforce
qed

lemma insertEvent_Inr:
  assumes "insertEvent env db e (event_time e) = Inr db'" "ValidateInvocationEventV03 strict e = None"
  shows "db' = db\<lparr>dbEvents := dbEvents db @ [row_of e]\<rparr> \<and>
    evEventID e \<notin> set (map erEventID (dbEvents db))"
  using assms digestBytes_valid(1) [OF assms(2)]
  by (auto simp: insertEvent_def insert_event_row_def row_of_def event_row_of_def split: if_splits)

lemma insertProjection_Inr:
  assumes "insertProjection env db e t = Inr db'" "ValidateInvocationEventV03 strict e = None"
  shows "db' = db\<lparr>dbInvocations := dbInvocations db @ [projection_row_of e (digest_column e) t]\<rparr> \<and>
    evInvocationID e \<notin> set (map prInvocationID (dbInvocations db))"
  using assms digestBytes_valid(1) [OF assms(2)]
  by (auto simp: insertProjection_def insert_invocation_row_def projection_row_of_def split: if_splits)

lemma updateProjection_Inr:
  assumes "updateProjection env db e t = Inr db'"
  shows "db' = db\<lparr>dbInvocations := map (\<lambda>row. if prInvocationID row = evInvocationID e
      then updated_projection e t row else row) (dbInvocations db)\<rparr>"
  using assms by (auto simp: updateProjection_def Let_def split: if_splits)

lemma updated_projection_stored [simp]: "updated_projection (stored e) t row = updated_projection e t row"
  by (simp add: updated_projection_def error_column_def)

lemma proj_of_snoc:
  "h \<noteq> [] \<Longrightarrow> proj_of (h @ [e]) = updated_projection e (event_time e) (proj_of h)"
  by (simp add: proj_of_def updated_projection_def)

lemma lineage_snoc:
  "lineage (fs @ [e]) \<longleftrightarrow> lineage fs \<and>
     (evParentInvocationID e \<noteq> [] \<longrightarrow> (\<exists>p\<in>set fs. child_of p e))"
  by (auto simp: lineage_def nth_append less_Suc_eq)

lemma hist_id_row: "valid_history strict h \<Longrightarrow> r \<in> set (map row_of h) \<Longrightarrow> erInvocationID r = hist_id h"
  using valid_historyD(7) by (fastforce simp: row_of_def event_row_of_def)

lemma erEventID_row_of [simp]: "erEventID (row_of e) = evEventID e"
  "erInvocationID (row_of e) = evInvocationID e"
  by (simp_all add: row_of_def event_row_of_def)

lemma represents_extend:
  assumes rep: "represents strict hs db" and hs: "hs = xs @ h # ys" and id: "hist_id h = evInvocationID e"
    and valid: "valid_history strict (h @ [e])" and fresh: "evEventID e \<notin> set (map erEventID (dbEvents db))"
  shows "represents strict (xs @ (h @ [e]) # ys)
    \<lparr>dbInvocations = map (\<lambda>row. if prInvocationID row = evInvocationID e
        then updated_projection e (event_time e) row else row) (dbInvocations db),
     dbEvents = dbEvents db @ [row_of e]\<rparr>"
proof -
  note D = representsD [OF rep]
  have h: "h \<noteq> []" using valid_historyD(1) [OF D(6)] hs by auto
  have other: "hist_id g \<noteq> hist_id h" if "g \<in> set (xs @ ys)" for g
    using that D(7) hs by (auto simp: image_iff)
  have inv: "map (\<lambda>row. if prInvocationID row = evInvocationID e
        then updated_projection e (event_time e) row else row) (map proj_of hs) = map proj_of (xs @ (h @ [e]) # ys)"
    using other h id by (auto simp: hs proj_of_snoc)
  have hid: "hist_id (h @ [e]) = hist_id h" using h by (simp add: hist_id_def)
  have events: "filter (\<lambda>r. erInvocationID r = hist_id g) (dbEvents db @ [row_of e]) = map row_of g"
    if "g \<in> set (xs @ (h @ [e]) # ys)" for g
  proof (cases "g = h @ [e]")
    case True
    then show ?thesis using D(3) [of h] hs id hid by simp
  next
    case False
    then show ?thesis using that D(3) [of g] other [of g] id hs by auto
  qed
  have "map hd (xs @ (h @ [e]) # ys) = map hd hs" using h hs by simp
  then have wf: "wf_ledger strict (xs @ (h @ [e]) # ys)"
    using D(6,7,8) valid hid by (auto simp: wf_ledger_def hs list_all_iff)
  show ?thesis
    using wf inv events D(2,4,5) fresh hid id
    by (auto simp: represents_def hs)
qed

lemma represents_open:
  assumes rep: "represents strict hs db" and valid: "valid_history strict [e]"
    and fresh_id: "evInvocationID e \<notin> set (map hist_id hs)"
    and parent: "evParentInvocationID e \<noteq> [] \<longrightarrow> (\<exists>p\<in>set hs. child_of (hd p) e)"
    and fresh: "evEventID e \<notin> set (map erEventID (dbEvents db))"
  shows "represents strict (hs @ [[e]])
    \<lparr>dbInvocations = dbInvocations db @ [projection_row_of e (digest_column e) (event_time e)],
     dbEvents = dbEvents db @ [row_of e]\<rparr>"
proof -
  note D = representsD [OF rep]
  have "event_type_rules e" "evType e = ''created''"
    using valid_historyD(4,8) [OF valid] valid_event_schema by auto
  then have proj: "proj_of [e] = projection_row_of e (digest_column e) (event_time e)"
    by (simp add: proj_of_def updated_projection_def projection_row_of_def error_column_def event_type_rules_def)
  have none: "filter (\<lambda>r. erInvocationID r = evInvocationID e) (dbEvents db) = []"
    using D(4) fresh_id by (auto simp: filter_empty_conv image_iff) (metis)
  have hid: "hist_id [e] = evInvocationID e" by (simp add: hist_id_def)
  have "wf_ledger strict (hs @ [[e]])"
    using D(6,7,8) valid fresh_id parent hid by (auto simp: wf_ledger_def list_all_iff lineage_snoc)
  moreover have "filter (\<lambda>r. erInvocationID r = hist_id g) (dbEvents db @ [row_of e]) = map row_of g"
    if "g \<in> set (hs @ [[e]])" for g
  proof (cases "g \<in> set hs")
    case True
    then have "evInvocationID e \<noteq> hist_id g" using fresh_id by auto
    then show ?thesis using D(3) [OF True] by simp
  next
    case False
    then have "g = [e]" using that by simp
    then show ?thesis using none hid by simp
  qed
  ultimately show ?thesis
    using D(2,4,5) fresh proj hid by (auto simp: represents_def)
qed

lemma ValidateNested_None:
  assumes "ValidateNestedInvocationCorrelation (record_of p) e = None"
  shows "child_of (hd p) e \<and> evStatus (last p) = ''running''"
  using assms
  by (cases "evCaller e") (auto simp: ValidateNestedInvocationCorrelation_def record_of_def child_of_def
      split: if_splits)

lemma append_first_Inr:
  assumes rep: "represents strict hs db" and valid: "ValidateInvocationEventV03 strict e = None"
    and run: "append_first env db e t = Inr db1"
  shows "db1 = db\<lparr>dbInvocations := dbInvocations db @ [projection_row_of e (digest_column e) t]\<rparr>"
    "evInvocationID e \<notin> set (map hist_id hs)"
    "evParentInvocationID e \<noteq> [] \<longrightarrow> (\<exists>p\<in>set hs. child_of (hd p) e \<and> evStatus (last p) = ''running''
       \<and> event_time (last p) \<le> t)"
proof -
  have ins: "insertProjection env db e t = Inr db1"
    using run by (auto simp: append_first_def split: sum.splits)
  show "db1 = db\<lparr>dbInvocations := dbInvocations db @ [projection_row_of e (digest_column e) t]\<rparr>"
    "evInvocationID e \<notin> set (map hist_id hs)"
    using insertProjection_Inr [OF ins valid] representsD(2) [OF rep] by (auto simp: comp_def)
  show "evParentInvocationID e \<noteq> [] \<longrightarrow> (\<exists>p\<in>set hs. child_of (hd p) e \<and> evStatus (last p) = ''running''
       \<and> event_time (last p) \<le> t)"
  proof
    assume "evParentInvocationID e \<noteq> []"
    with run obtain parent where lock: "lockProjection env db (evParentInvocationID e) = Inr parent"
      "ValidateNestedInvocationCorrelation parent e = None" "irUpdatedAt parent \<le> t"
      by (auto simp: append_first_def split: sum.splits if_splits)
    with lockProjection_history [OF rep, of env "evParentInvocationID e"]
    obtain p where p: "find (\<lambda>h. hist_id h = evParentInvocationID e) hs = Some p" "parent = record_of p"
      by (auto split: if_splits option.splits)
    then show "\<exists>p\<in>set hs. child_of (hd p) e \<and> evStatus (last p) = ''running'' \<and> event_time (last p) \<le> t"
      using lock ValidateNested_None [of p e] find_Some_in_set [OF p(1)]
      by (intro bexI [of _ p]) (auto simp: record_of_def)
  qed
qed

lemma append_next_None:
  assumes rep: "represents strict hs db" and run: "append_next strict env db e t = None"
  shows "\<exists>h\<in>set hs. hist_id h = evInvocationID e \<and> event_time (last h) \<le> t \<and>
    well_formed_lifecycle strict (h @ [e])"
proof -
  obtain proj where lock: "lockProjection env db (evInvocationID e) = Inr proj" "irUpdatedAt proj \<le> t"
    using run by (auto simp: append_next_def split: sum.splits if_splits)
  with lockProjection_history [OF rep, of env "evInvocationID e"]
  obtain h where h: "find (\<lambda>h. hist_id h = evInvocationID e) hs = Some h" "proj = record_of h"
    by (auto split: if_splits option.splits)
  then have mem: "h \<in> set hs" "hist_id h = evInvocationID e" using find_Some_in_set by force+
  have "leRead env" using run lock by (auto simp: append_next_def readEvents_def split: if_splits)
  from readEvents_history [OF rep mem(1) this] mem(2)
  have read: "readEvents env db (evInvocationID e) = Inr h" by simp
  have hist: "sequence_accept_all strict initial_sequence_validator h = Inr (validator_of h)"
    using valid_historyD(2) [OF representsD(6) [OF rep mem(1)]] by (simp add: sequence_accept_all_iff)
  obtain v where "sequence_Accept strict (validator_of h) e = Inr v"
    using run lock read hist by (auto simp: append_next_def split: sum.splits if_splits)
  then have "well_formed_lifecycle strict (h @ [e])"
    using sequence_Accept_validator_of valid_historyD(2) [OF representsD(6) [OF rep mem(1)]] by blast
  then show ?thesis using mem lock(2) h(2) by (intro bexI [of _ h]) (auto simp: record_of_def)
qed

lemma valid_history_snoc:
  assumes "valid_history strict h" "well_formed_lifecycle strict (h @ [e])" "event_time (last h) \<le> event_time e"
  shows "valid_history strict (h @ [stored e])"
proof -
  have "sorted (map event_time h @ [event_time e])"
    using sorted_snoc_last [OF valid_historyD(5) [OF assms(1)]] assms(3) by (simp add: last_map)
  then show ?thesis
    using assms well_formed_stored valid_historyD(3) [OF assms(1)] by (simp add: valid_history_def list_all_iff)
qed

lemma append_body_first:
  "evSequence e = 0 \<Longrightarrow> append_body strict env db e t = Inr db' \<longleftrightarrow>
     (\<exists>db1. append_first env db e t = Inr db1 \<and> insertEvent env db1 e t = Inr db')"
  by (auto simp: append_body_def)

lemma append_body_next:
  "0 < evSequence e \<Longrightarrow> append_body strict env db e t = Inr db' \<longleftrightarrow>
     append_next strict env db e t = None \<and>
     (\<exists>db2. insertEvent env db e t = Inr db2 \<and> updateProjection env db2 e t = Inr db')"
  by (auto simp: append_body_def)

lemma append_body_refines:
  assumes rep: "represents strict hs db" and cand: "validateCandidate strict e = Inr t"
    and run: "append_body strict env db e t = Inr db'"
  shows "\<exists>hs'. ledger_step strict hs (stored e) hs' \<and> represents strict hs' db'"
proof -
  note c = validateCandidate_Inr [OF cand]
  have seq: "0 \<le> evSequence e" using valid_event_schema [OF c(1)] by (simp add: event_members_schema_def)
  show ?thesis
  proof (cases "evSequence e = 0")
    case True
    then obtain db1 where db1: "append_first env db e t = Inr db1" "insertEvent env db1 e (event_time e) = Inr db'"
      using run c(2) by (auto simp: append_body_first)
    note first = append_first_Inr [OF rep c(1) db1(1)]
    have db': "db' = \<lparr>dbInvocations = dbInvocations db @ [projection_row_of e (digest_column e) t],
        dbEvents = dbEvents db @ [row_of e]\<rparr>" "evEventID e \<notin> set (map erEventID (dbEvents db))"
      using insertEvent_Inr [OF db1(2) c(1)] first(1) by simp_all
    have valid: "valid_history strict [stored e]" using c(4) True by (simp add: valid_history_def)
    have child: "child_of q (stored e) = child_of q e" for q by (simp add: child_of_def)
    have "represents strict (hs @ [[stored e]]) db'"
      using represents_open [OF rep valid] first(2,3) db' c(2) child by auto
    moreover have "ledger_step strict hs (stored e) (hs @ [[stored e]])"
      using first(2,3) valid c(2) child
      by (cases "evParentInvocationID e = []") (auto intro: open_root open_child)
    ultimately show ?thesis by blast
  next
    case False
    then obtain db2 where nxt: "append_next strict env db e t = None"
      "insertEvent env db e (event_time e) = Inr db2" "updateProjection env db2 e t = Inr db'"
      using run c(2) seq by (auto simp: append_body_next)
    obtain h where h: "h \<in> set hs" "hist_id h = evInvocationID e" "event_time (last h) \<le> t"
      "well_formed_lifecycle strict (h @ [e])"
      using append_next_None [OF rep nxt(1)] by blast
    obtain xs ys where hs: "hs = xs @ h # ys" using split_list [OF h(1)] by blast
    have valid: "valid_history strict (h @ [stored e])"
      using valid_history_snoc representsD(6) [OF rep h(1)] h c(2) by blast
    have "represents strict (xs @ (h @ [stored e]) # ys) db'"
      using represents_extend [OF rep hs _ valid] insertEvent_Inr [OF nxt(2) c(1)]
        updateProjection_Inr [OF nxt(3)] h(2) c(2) by (cases db) (simp cong: if_cong)
    moreover have "ledger_step strict hs (stored e) (xs @ (h @ [stored e]) # ys)"
      using extend [OF hs] valid_historyD(1) [OF representsD(6) [OF rep h(1)]] h(2) valid by simp
    ultimately show ?thesis by blast
  qed
qed

subsection \<open>Committed histories pass every check of the readers\<close>

lemma valid_event_members:
  assumes "ValidateInvocationEventV03 strict e = None"
  shows "safe_identifier (evEventID e)" "safe_identifier (evInvocationID e)" "safe_identifier (evRootTaskID e)"
    "safe_identifier (evTraceID e)" "safe_identifier (evWorkspaceID e)" "safe_identifier (evTargetAgentID e)"
    "safe_identifier (evCapability e)" "evParentInvocationID e = [] \<or> safe_identifier (evParentInvocationID e)"
    "callerType (evCaller e) \<in> {''user'', ''agent'', ''service''}" "safe_identifier (callerID (evCaller e))"
    "strict (evAgentCardVersion e)" "evStatus e \<in> set event_status_enum" "nonnegative (evChunkIndex e)"
    "nonnegative (evChunkBytes e)" "nonnegative (evLatencyMS e)" "0 \<le> evSequence e" "event_type_rules e"
  using valid_event_schema [OF assms]
  unfolding event_members_schema_def caller_schema_def semver_schema_def safe_identifier_pattern by blast+

lemma valid_error_code:
  assumes "ValidateInvocationEventV03 strict e = None" "evError e = Some err"
  shows "map_of platformErrorV4Messages (errCode err) \<noteq> None"
  using valid_event_error [OF assms]
  by (auto simp: NewCorrelatedPlatformErrorV4_def NewPreCorrelationPlatformErrorV4_def split: option.splits)

lemma record_of_valid:
  assumes valid: "valid_history strict h" and pos: "0 < event_time (hd h)"
  shows "validateInvocationRecordV1 strict (record_of h) = None"
proof -
  note H = valid_historyD [OF valid]
  have hd: "ValidateInvocationEventV03 strict (hd h) = None" and last: "ValidateInvocationEventV03 strict (last h) = None"
    using H(1,4) by auto
  have "event_time (hd h) \<le> event_time (last h)"
    using sorted_le_last [OF H(5), of "event_time (hd h)"] H(1) by (simp add: last_map)
  with pos have times: "irCreatedAt (record_of h) \<noteq> 0" "irUpdatedAt (record_of h) \<noteq> 0"
    by (auto simp: record_of_def)
  have code: "irErrorCode (record_of h) = [] \<or> (\<exists>m. map_of platformErrorV4Messages (irErrorCode (record_of h)) = Some m)"
    using valid_error_code [OF last] by (auto simp: record_of_def eventErrorCode_def split: option.splits)
  have "irStatus (record_of h) \<in> {''pending'', ''routing'', ''running'', ''succeeded'', ''failed'', ''canceled'', ''timed_out''}"
    using valid_event_members(12) [OF last] by (simp add: record_of_def event_status_enum_def)
  moreover have "ValidateInvocationReleaseProvenance (evAgentReleaseID (hd h)) (evAgentCardDigest (hd h)) = None"
    using valid_event_provenance [OF hd] by (simp add: provenance_None)
  ultimately show ?thesis
    unfolding validateInvocationRecordV1_def first_error_None
    using times code valid_event_members [OF hd] valid_event_members(15) [OF last]
    by (simp add: record_of_def validateSafeContractIdentifier_def ParseTraceID_def time_IsZero_def) blast
qed

lemma event_matches_record_of:
  "valid_history strict h \<Longrightarrow> list_all (event_matches_record (record_of h)) h"
  using valid_historyD(6)
  by (fastforce simp: list_all_iff event_matches_record_def record_of_def sameRuntimeInvocationContext_def)

lemma detail_of_history:
  assumes "valid_history strict h" "0 < event_time (hd h)"
  shows "ValidateInvocationDetailResponseV1 strict (evWorkspaceID (hd h))
    \<lparr>idInvocation = record_of h, idEvents = h\<rparr> = None"
  using record_of_valid [OF assms] event_matches_record_of [OF assms(1)] valid_historyD(1,2) [OF assms(1)]
  by (auto simp: ValidateInvocationDetailResponseV1_def detail_events_check_None sequence_accept_all_iff)
    (simp_all add: record_of_def)

lemma projection_state_same:
  assumes "valid_history strict h"
  shows "\<not> projection_state_differs (record_of h) h"
proof -
  have "stored (hd h) = hd h" "stored (last h) = last h"
    using valid_historyD(1,3) [OF assms] by auto
  then have "tt_instant (evOccurredAt (hd h)) = Some (event_time (hd h))"
    "tt_instant (evOccurredAt (last h)) = Some (event_time (last h))"
    by (metis format_time_def stored_iff time_text.select_convs(2))+
  then show ?thesis by (simp add: projection_state_differs_def record_of_def sameOptionalInt64_def)
qed

subsection \<open>What the database accepts\<close>

text \<open>The limits of the tables that the contracts do not imply: the error codes the constraints list
  and the width of the version column.\<close>

definition storable :: "invocation_event \<Rightarrow> bool" where
  "storable e \<longleftrightarrow> length (evAgentCardVersion e) \<le> 128 \<and> null_or (\<lambda>c. c \<in> set ledger_error_codes) (error_column e)"

lemma ledger_error_codes_width: "c \<in> set ledger_error_codes \<Longrightarrow> length c \<le> 64"
proof -
  have "list_all (\<lambda>c. length c \<le> 64) ledger_error_codes" by code_simp
  then show "c \<in> set ledger_error_codes \<Longrightarrow> length c \<le> 64" by (simp only: list_all_iff)
qed

lemma enum_widths:
  "t \<in> set event_type_enum \<Longrightarrow> length t \<le> 16" "s \<in> set event_status_enum \<Longrightarrow> length s \<le> 16"
proof -
  have "list_all (\<lambda>t. length t \<le> 16) event_type_enum" "list_all (\<lambda>t. length t \<le> 16) event_status_enum"
    by code_simp+
  then show "t \<in> set event_type_enum \<Longrightarrow> length t \<le> 16" "s \<in> set event_status_enum \<Longrightarrow> length s \<le> 16"
    by (simp_all only: list_all_iff)
qed

lemma null_or_nullableText [simp]: "null_or P (nullableText s) \<longleftrightarrow> (s = [] \<or> P s)"
  by (simp add: null_or_def nullableText_def)

lemma nullableText_None [simp]: "nullableText s = None \<longleftrightarrow> s = []"
  by (simp add: nullableText_def)

lemma nonnegative_null_or: "nonnegative n = null_or (\<lambda>k. 0 \<le> k) n"
  by (simp add: nonnegative_def null_or_def)

lemma caller_type_width: "c \<in> {''user'', ''agent'', ''service''} \<Longrightarrow> length c \<le> 16"
  by auto

lemma from_null_error_width: "null_or (\<lambda>c. c \<in> set ledger_error_codes) x \<Longrightarrow> length (from_null x) \<le> 64"
  using ledger_error_codes_width by (cases x) (auto simp: null_or_def from_null_def)

definition row_shape :: "event_row \<Rightarrow> bool" where
  "row_shape r \<longleftrightarrow>
     (erType r = ''created'' \<and> erStatus r = ''pending'' \<or>
      erType r = ''routing'' \<and> erStatus r = ''routing'' \<or>
      erType r \<in> {''started'', ''stream''} \<and> erStatus r = ''running'' \<or>
      erType r = erStatus r \<and> erType r \<in> {''succeeded'', ''failed'', ''canceled'', ''timed_out''}) \<and>
     (erType r \<in> {''created'', ''routing'', ''started''} \<and> erChunkIndex r = None \<and> erChunkBytes r = None \<and>
        erLatencyMS r = None \<and> erErrorCode r = None \<or>
      erType r = ''stream'' \<and> erChunkIndex r \<noteq> None \<and> erChunkBytes r \<noteq> None \<and> erLatencyMS r = None \<and>
        erErrorCode r = None \<or>
      erType r = ''succeeded'' \<and> erChunkIndex r = None \<and> erChunkBytes r = None \<and> erLatencyMS r \<noteq> None \<and>
        erErrorCode r = None \<or>
      erType r \<in> {''failed'', ''canceled'', ''timed_out''} \<and> erChunkIndex r = None \<and> erChunkBytes r = None \<and>
        erLatencyMS r \<noteq> None \<and> erErrorCode r \<noteq> None) \<and>
     (erType r = ''canceled'' \<and> erErrorCode r = Some ''CANCELED'' \<or>
      erType r = ''timed_out'' \<and> erErrorCode r = Some ''TIMEOUT'' \<or>
      erType r \<notin> {''canceled'', ''timed_out''})"

lemma valid_row_shape:
  assumes valid: "ValidateInvocationEventV03 strict e = None"
  shows "row_shape (row_of e)"
proof -
  have rules: "event_type_rules e" by (rule valid_event_members(17) [OF valid])
  from valid show ?thesis
    by (cases rule: valid_event_typeE) (use rules in \<open>auto simp: event_type_rules_def row_shape_def row_of_def event_row_of_def error_column_def\<close>)
qed

lemma event_row_accepted:
  assumes valid: "ValidateInvocationEventV03 strict e = None" and store: "storable e"
  shows "event_widths (row_of e)" "event_checks (row_of e)"
proof -
  note M = valid_event_members [OF valid]
  have rid: "evAgentReleaseID e = [] \<or> safe_identifier (evAgentReleaseID e)"
    using valid_event_provenance [OF valid] by blast
  have len: "safe_identifier s \<Longrightarrow> length s \<le> 128" for s by (rule safe_identifier_length)
  show "event_widths (row_of e)"
    using M rid store len enum_widths valid_event_type [OF valid] caller_type_width [OF M(9)]
      from_null_error_width [of "error_column e"]
    by (auto simp: event_widths_def row_of_def event_row_of_def storable_def)
  have "row_shape (row_of e)" by (rule valid_row_shape [OF valid])
  moreover have "null_or (\<lambda>c. c \<in> set ledger_error_codes) (erErrorCode (row_of e))"
    using store by (simp add: storable_def row_of_def event_row_of_def)
  moreover have "erCallerType (row_of e) \<in> {''user'', ''service'', ''agent''}"
    using M(9) by (auto simp: row_of_def event_row_of_def)
  ultimately show "event_checks (row_of e)"
    unfolding event_checks_def row_shape_def
    using M rid digestBytes_valid(2,3) [OF valid]
    by (simp add: row_of_def event_row_of_def nonnegative_null_or)
qed

lemma projection_row_accepted:
  assumes valid: "valid_history strict h" and store: "storable (hd h)" "storable (last h)"
  shows "projection_widths (proj_of h)" "projection_checks (proj_of h)"
proof -
  note H = valid_historyD [OF valid]
  have hd: "ValidateInvocationEventV03 strict (hd h) = None" and last: "ValidateInvocationEventV03 strict (last h) = None"
    using H(1,4) by auto
  note M = valid_event_members [OF hd] and N = valid_event_members [OF last]
  have rid: "evAgentReleaseID (hd h) = [] \<or> safe_identifier (evAgentReleaseID (hd h))"
    using valid_event_provenance [OF hd] by blast
  have len: "safe_identifier s \<Longrightarrow> length s \<le> 128" for s by (rule safe_identifier_length)
  have times: "event_time (hd h) \<le> event_time (last h)"
    using sorted_le_last [OF H(5), of "event_time (hd h)"] H(1) by (simp add: last_map)
  show "projection_widths (proj_of h)"
    using M N rid store len enum_widths caller_type_width [OF M(9)] from_null_error_width [of "error_column (last h)"]
    by (auto simp: projection_widths_def proj_of_def updated_projection_def projection_row_of_def storable_def)
  have "prStatus (proj_of h) \<in> {''pending'', ''routing'', ''running''} \<and> prLatencyMS (proj_of h) = None \<and> prErrorCode (proj_of h) = None \<or>
      prStatus (proj_of h) = ''succeeded'' \<and> prLatencyMS (proj_of h) \<noteq> None \<and> prErrorCode (proj_of h) = None \<or>
      prStatus (proj_of h) \<in> {''failed'', ''canceled'', ''timed_out''} \<and> prLatencyMS (proj_of h) \<noteq> None \<and> prErrorCode (proj_of h) \<noteq> None"
    using last
    by (cases rule: valid_event_typeE)
      (use N(17) in \<open>auto simp: event_type_rules_def error_column_def proj_of_def updated_projection_def\<close>)
  moreover have "prCallerType (proj_of h) \<in> {''user'', ''service'', ''agent''}"
    using M(9) by (auto simp: proj_of_def updated_projection_def projection_row_of_def)
  moreover have "prStatus (proj_of h) \<in> {''pending'', ''routing'', ''running'', ''succeeded'', ''failed'', ''canceled'', ''timed_out''}"
    using N(12) by (auto simp: event_status_enum_def proj_of_def updated_projection_def)
  ultimately show "projection_checks (proj_of h)"
    unfolding projection_checks_def
    using M(2-8,10) N(15) rid store(2) times digestBytes_valid(2,3) [OF hd]
    by (simp add: proj_of_def updated_projection_def projection_row_of_def storable_def nonnegative_null_or)
qed

lemma no_event_at_end:
  assumes rep: "represents strict hs db" and h: "h \<in> set hs" and r: "r \<in> set (dbEvents db)"
    and id: "erInvocationID r = hist_id h"
  shows "erSequence r < int (length h)"
proof -
  have "r \<in> set (filter (\<lambda>r. erInvocationID r = hist_id h) (dbEvents db))" using r id by simp
  then have "r \<in> set (map row_of h)" unfolding representsD(3) [OF rep h] .
  then have "erSequence r \<in> set (map erSequence (map row_of h))" by force
  then show ?thesis unfolding history_sequences [OF representsD(6) [OF rep h]] by auto
qed

lemma insertEvent_accepted:
  assumes "leInsertEvent env" "ValidateInvocationEventV03 strict e = None" "storable e"
    "evEventID e \<notin> set (map erEventID (dbEvents db))"
    "(evInvocationID e, evSequence e) \<notin> set (map (\<lambda>r. (erInvocationID r, erSequence r)) (dbEvents db))"
    "evInvocationID e \<in> set (map prInvocationID (dbInvocations db))"
  shows "insertEvent env db e (event_time e) = Inr (db\<lparr>dbEvents := dbEvents db @ [row_of e]\<rparr>)"
proof -
  have "erEventID (row_of e) = evEventID e" "erInvocationID (row_of e) = evInvocationID e"
    "erSequence (row_of e) = evSequence e" by (simp_all add: row_of_def event_row_of_def)
  then have "insert_event_row db (row_of e) = Inr (db\<lparr>dbEvents := dbEvents db @ [row_of e]\<rparr>)"
    using event_row_accepted [OF assms(2,3)] assms(4-6) by (auto simp: insert_event_row_def)
  then show ?thesis
    using assms(1) digestBytes_valid(1) [OF assms(2)] by (simp add: insertEvent_def row_of_def)
qed

lemma find_hist:
  assumes "distinct (map hist_id hs)" "h \<in> set hs"
  shows "find (\<lambda>g. hist_id g = hist_id h) hs = Some h"
  using find_unique [OF assms] .

lemma storable_same_version:
  assumes "valid_history strict (h @ [e])" "h \<noteq> []" "storable e"
  shows "storable (hd h)"
proof -
  have "evAgentCardVersion (hd h) = evAgentCardVersion e"
    using valid_historyD(6) [OF assms(1)] assms(2) by (simp add: sameRuntimeInvocationContext_def)
  moreover have "error_column (hd h) = None"
  proof -
    have "evType (hd h) = ''created''" "ValidateInvocationEventV03 strict (hd h) = None"
      using valid_historyD(4,8) [OF assms(1)] assms(2) by auto
    then show ?thesis using valid_event_members(17) by (auto simp: event_type_rules_def error_column_def)
  qed
  ultimately show ?thesis using assms(3) by (simp add: storable_def null_or_def)
qed

lemma append_body_extends:
  assumes rep: "represents strict hs db" and h: "h \<in> set hs" "hist_id h = evInvocationID e"
    and valid: "valid_history strict (h @ [stored e])" and cand: "validateCandidate strict e = Inr t"
    and store: "storable e" and fresh: "evEventID e \<notin> set (map erEventID (dbEvents db))"
    and pos: "0 < event_time (hd h)"
  shows "\<exists>db'. append_body strict healthy db e t = Inr db'"
proof -
  note c = validateCandidate_Inr [OF cand] and D = representsD [OF rep]
  have vh: "valid_history strict h" by (rule D(6) [OF h(1)])
  note H = valid_historyD [OF vh]
  have wf: "well_formed_lifecycle strict (h @ [e])"
    using valid_historyD(2) [OF valid] c(1) by (simp add: well_formed_snoc)
  have seq: "evSequence e = int (length h)" using wf by (simp add: well_formed_snoc)
  have time: "event_time (last h) \<le> t"
    using valid_historyD(5) [OF valid] H(1) c(2) by (simp add: sorted_append)
  have lock: "lockProjection healthy db (evInvocationID e) = Inr (record_of h)"
    using lockProjection_history [OF rep, of healthy "evInvocationID e"] find_hist [OF D(7) h(1)] h(2)
    by (simp add: healthy_def)
  have read: "readEvents healthy db (evInvocationID e) = Inr h"
    using readEvents_history [OF rep h(1), of healthy] h(2) by (simp add: healthy_def)
  have "sequence_Accept strict (validator_of h) e = Inr (validator_of (h @ [e]))"
    using sequence_Accept_validator_of [OF H(2)] wf by simp
  moreover have "sequence_accept_all strict initial_sequence_validator h = Inr (validator_of h)"
    using H(2) by (simp add: sequence_accept_all_iff)
  moreover have "irWorkspaceID (record_of h) = evWorkspaceID (hd h)" "\<not> t < irUpdatedAt (record_of h)"
    using time by (simp_all add: record_of_def)
  ultimately have "append_next strict healthy db e t = None"
    using lock read detail_of_history [OF vh pos] projection_state_same [OF vh] by (simp add: append_next_def)
  moreover have ins: "insertEvent healthy db e t = Inr (db\<lparr>dbEvents := dbEvents db @ [row_of e]\<rparr>)"
  proof -
    have "(evInvocationID e, evSequence e) \<notin> set (map (\<lambda>r. (erInvocationID r, erSequence r)) (dbEvents db))"
    proof
      assume "(evInvocationID e, evSequence e) \<in> set (map (\<lambda>r. (erInvocationID r, erSequence r)) (dbEvents db))"
      then obtain r where r: "r \<in> set (dbEvents db)" "erInvocationID r = evInvocationID e" "erSequence r = evSequence e"
        by auto
      from no_event_at_end [OF rep h(1) r(1)] r h(2) seq show False by simp
    qed
    moreover have "evInvocationID e \<in> set (map prInvocationID (dbInvocations db))"
      using D(2) h by (auto simp: image_iff) metis
    ultimately show ?thesis
      using insertEvent_accepted [of healthy strict e db] c(1,2) store fresh by (simp add: healthy_def)
  qed
  moreover have "\<exists>db'. updateProjection healthy (db\<lparr>dbEvents := dbEvents db @ [row_of e]\<rparr>) e t = Inr db'"
  proof -
    have acc: "projection_widths (proj_of (h @ [stored e]))" "projection_checks (proj_of (h @ [stored e]))"
      using projection_row_accepted [OF valid] storable_same_version [OF valid H(1)] store H(1)
      by (auto simp: storable_def error_column_def)
    have proj: "proj_of (h @ [stored e]) = updated_projection e t (proj_of h)"
      using proj_of_snoc [OF H(1), of "stored e"] c(2) by simp
    have "filter (\<lambda>row. prInvocationID row = evInvocationID e) (map proj_of hs) = [proj_of h]"
      using D(7) h by (induction hs) (auto simp: filter_empty_conv image_iff)
    then show ?thesis
      using acc proj D(2) by (simp add: updateProjection_def healthy_def)
  qed
  ultimately show ?thesis using seq H(1) by (auto simp: append_body_next)
qed

lemma append_body_opens:
  assumes rep: "represents strict hs db" and cand: "validateCandidate strict e = Inr t"
    and valid: "valid_history strict [stored e]" and fresh_id: "evInvocationID e \<notin> set (map hist_id hs)"
    and parent: "evParentInvocationID e = [] \<or> (\<exists>p\<in>set hs. child_of (hd p) e \<and>
      evStatus (last p) = ''running'' \<and> event_time (last p) \<le> t)"
    and store: "storable e" and fresh: "evEventID e \<notin> set (map erEventID (dbEvents db))"
  shows "\<exists>db'. append_body strict healthy db e t = Inr db'"
proof -
  note c = validateCandidate_Inr [OF cand] and D = representsD [OF rep]
  have seq: "evSequence e = 0" "evType e = ''created''" "evStatus e = ''pending''"
    using valid_historyD(2,8,9) [OF valid] by (simp_all add: well_formed_lifecycle_def)
  have ids: "map prInvocationID (dbInvocations db) = map hist_id hs" using D(2) by (simp add: comp_def)
  have row: "proj_of [stored e] = projection_row_of e (digest_column e) t"
  proof -
    have "event_type_rules e" by (rule valid_event_members(17) [OF c(1)])
    then show ?thesis
      using seq c(2) by (simp add: proj_of_def updated_projection_def projection_row_of_def error_column_def event_type_rules_def)
  qed
  have acc: "projection_widths (projection_row_of e (digest_column e) t)"
    "projection_checks (projection_row_of e (digest_column e) t)"
    using projection_row_accepted [OF valid] store row by (auto simp: storable_def error_column_def)
  have fk: "null_or (\<lambda>p. p \<in> set (map hist_id hs) \<or> p = evInvocationID e) (nullableText (evParentInvocationID e))"
    using parent by (auto simp: child_of_def hist_id_def)
  have ins: "insertProjection healthy db e t =
      Inr (db\<lparr>dbInvocations := dbInvocations db @ [projection_row_of e (digest_column e) t]\<rparr>)" (is "_ = Inr ?db1")
    using acc fresh_id fk ids digestBytes_valid(1) [OF c(1)]
    by (simp add: insertProjection_def insert_invocation_row_def healthy_def projection_row_of_def)
  have guard: "evParentInvocationID e \<noteq> [] \<Longrightarrow> \<exists>p\<in>set hs. lockProjection healthy db (evParentInvocationID e) = Inr (record_of p)
      \<and> ValidateNestedInvocationCorrelation (record_of p) e = None \<and> \<not> t < irUpdatedAt (record_of p)"
  proof -
    assume "evParentInvocationID e \<noteq> []"
    with parent obtain p where p: "p \<in> set hs" "child_of (hd p) e" "evStatus (last p) = ''running''"
      "event_time (last p) \<le> t" by blast
    then have pid: "evParentInvocationID e = hist_id p" by (simp add: child_of_def hist_id_def)
    have "lockProjection healthy db (evParentInvocationID e) = Inr (record_of p)"
      using lockProjection_history [OF rep, of healthy "evParentInvocationID e"] find_hist [OF D(7) p(1)] pid
      by (simp add: healthy_def)
    moreover have "evInvocationID e \<noteq> hist_id p" using fresh_id p(1) by auto
    ultimately show ?thesis
      using p seq by (intro bexI [OF _ p(1)])
        (simp add: ValidateNestedInvocationCorrelation_def record_of_def child_of_def hist_id_def)
  qed
  have "append_first healthy db e t = Inr ?db1"
    using ins guard by (cases "evParentInvocationID e = []") (auto simp: append_first_def)
  moreover have "insertEvent healthy ?db1 e t = Inr (?db1\<lparr>dbEvents := dbEvents ?db1 @ [row_of e]\<rparr>)"
  proof -
    have "(evInvocationID e, evSequence e) \<notin> set (map (\<lambda>r. (erInvocationID r, erSequence r)) (dbEvents db))"
      using D(4) fresh_id by (auto simp: image_iff) metis
    then show ?thesis
      using insertEvent_accepted [of healthy strict e ?db1] c(1,2) store fresh
      by (simp add: healthy_def projection_row_of_def)
  qed
  ultimately show ?thesis using seq by (auto simp: append_body_first)
qed

lemma Append_accepts:
  assumes rep: "represents strict hs db" and cand: "validateCandidate strict e = Inr t"
    and step: "ledger_step strict hs (stored e) hs'" and store: "storable e"
    and fresh: "evEventID e \<notin> set (map erEventID (dbEvents db))"
    and pos: "\<forall>h\<in>set hs. 0 < event_time (hd h)"
  shows "fst (Append strict healthy db e) = None"
proof -
  have t: "event_time e = t" by (rule validateCandidate_Inr(2) [OF cand])
  have "\<exists>db'. append_body strict healthy db e t = Inr db'"
    using step
  proof cases
    case open_root
    then show ?thesis using append_body_opens [OF rep cand _ _ _ store fresh] by auto
  next
    case (open_child p)
    then show ?thesis using append_body_opens [OF rep cand _ _ _ store fresh] t by (auto simp: child_of_def)
  next
    case (extend xs h ys)
    then show ?thesis
      using append_body_extends [OF rep, of h e t] cand store fresh pos by auto
  qed
  then show ?thesis using cand by (auto simp: Append_def healthy_def)
qed

subsection \<open>Appends and reads on represented ledgers\<close>

lemma Append_refines:
  assumes rep: "represents strict hs db" and run: "Append strict env db e = (r, db')"
  shows "db' = db \<and> r \<noteq> None \<or>
    (\<exists>hs'. ledger_step strict hs (stored e) hs' \<and> represents strict hs' db' \<and> (r = None \<or> leCommit env = CommitLost))"
proof (cases "validateCandidate strict e")
  case (Inl err)
  then show ?thesis using run by (auto simp: Append_def)
next
  case (Inr t)
  show ?thesis
  proof (cases "append_body strict env db e t")
    case (Inl err)
    then show ?thesis using run Inr by (auto simp: Append_def split: if_splits)
  next
    case body: (Inr db1)
    obtain hs' where "ledger_step strict hs (stored e) hs'" "represents strict hs' db1"
      using append_body_refines [OF rep Inr body] by blast
    then show ?thesis using run Inr body by (auto simp: Append_def split: if_splits commit_outcome.splits)
  qed
qed

lemma read_detail_found:
  assumes rep: "represents strict hs db" and h: "h \<in> set hs" and pos: "0 < event_time (hd h)"
    and row: "find P (dbInvocations db) = Some (proj_of h)"
    and ws: "workspaceOf (record_of h) = evWorkspaceID (hd h)"
  shows "read_detail what strict healthy db P (hist_id h) workspaceOf = Inr \<lparr>idInvocation = record_of h, idEvents = h\<rparr>"
proof -
  note v = representsD(6) [OF rep h]
  have "select_projection healthy db P = Inr (record_of h)"
    using row scanProjection_proj_of [OF v] by (simp add: select_projection_def healthy_def)
  moreover have "readEvents healthy db (hist_id h) = Inr h"
    using readEvents_history [OF rep h, of healthy] by (simp add: healthy_def)
  moreover have "leBegin healthy" "leCommit healthy = CommitOk" by (simp_all add: healthy_def)
  ultimately show ?thesis
    using detail_of_history [OF v pos] ws by (simp add: read_detail_def Let_def)
qed

lemma GetInvocation_found:
  assumes rep: "represents strict hs db" and h: "h \<in> set hs" and pos: "0 < event_time (hd h)"
  shows "GetInvocation strict healthy db (evWorkspaceID (hd h)) (hist_id h) =
    Inr \<lparr>idInvocation = record_of h, idEvents = h\<rparr>"
proof -
  note D = representsD [OF rep]
  have "find (\<lambda>row. prWorkspaceID row = evWorkspaceID (hd h) \<and> prInvocationID row = hist_id h) (dbInvocations db) =
      Some (proj_of h)"
    using find_proj [OF D(7), of "\<lambda>row. prWorkspaceID row = evWorkspaceID (hd h)" "hist_id h"]
      find_hist [OF D(7) h] D(2) by simp
  then show ?thesis
    unfolding GetInvocation_def by (rule read_detail_found [OF rep h pos]) simp
qed

lemma GetInvocation_hidden:
  assumes rep: "represents strict hs db" and none: "\<forall>h\<in>set hs. hist_id h = i \<longrightarrow> evWorkspaceID (hd h) \<noteq> w"
  shows "GetInvocation strict healthy db w i = Inl LedgerErrNotFound"
proof -
  note D = representsD [OF rep]
  have "find (\<lambda>row. prWorkspaceID row = w \<and> prInvocationID row = i) (dbInvocations db) = None"
    using none by (auto simp: D(2) find_None_all)
  then show ?thesis
    by (simp add: GetInvocation_def read_detail_def select_projection_def healthy_def rollback_def Let_def)
qed

subsection \<open>Traces\<close>

lemma scan_all_projr: "\<forall>r\<in>set rs. \<exists>x. f r = Inr x \<Longrightarrow> scan_all f rs = Inr (map (\<lambda>r. projr (f r)) rs)"
  by (induction rs) auto

lemma scan_projections:
  assumes "\<forall>h\<in>set gs. valid_history strict h" "mset rows = mset (map proj_of gs)"
  shows "\<exists>xs. scan_all scanProjection rows = Inr xs \<and> mset xs = mset (map record_of gs)"
proof -
  have scan: "scanProjection (proj_of h) = Inr (record_of h)" if "h \<in> set gs" for h
    using that assms(1) scanProjection_proj_of by blast
  have "\<forall>r\<in>set rows. \<exists>x. scanProjection r = Inr x"
    using mset_eq_setD [OF assms(2)] scan by auto
  then have "scan_all scanProjection rows = Inr (map (\<lambda>r. projr (scanProjection r)) rows)"
    by (rule scan_all_projr)
  moreover have "mset (map (\<lambda>r. projr (scanProjection r)) rows) = mset (map (\<lambda>h. projr (scanProjection (proj_of h))) gs)"
    using assms(2) by (metis (mono_tags, lifting) list.map_comp comp_apply map_eq_conv mset_map)
  moreover have "map (\<lambda>h. projr (scanProjection (proj_of h))) gs = map record_of gs"
    using scan by simp
  ultimately show ?thesis by metis
qed

lemma lineage_parents_first:
  assumes "lineage (map hd hs)" "list_all (\<lambda>h. h \<noteq> []) hs"
  shows "parents_first (map record_of (filter (\<lambda>h. evWorkspaceID (hd h) = w \<and> evTraceID (hd h) = t) hs))"
  using assms
proof (induction hs rule: rev_induct)
  case (snoc h hs)
  let ?P = "\<lambda>h. evWorkspaceID (hd h) = w \<and> evTraceID (hd h) = t"
  have IH: "parents_first (map record_of (filter ?P hs))" and
    parent: "evParentInvocationID (hd h) \<noteq> [] \<longrightarrow> (\<exists>p\<in>set (map hd hs). child_of p (hd h))"
    using snoc by (simp_all add: lineage_snoc)
  show ?case
  proof (cases "?P h")
    case True
    have "irParentInvocationID (record_of h) \<in> irInvocationID ` set (map record_of (filter ?P hs))"
      if np: "evParentInvocationID (hd h) \<noteq> []"
    proof -
      obtain p where "p \<in> set hs" "child_of (hd p) (hd h)" using parent np by auto
      then show ?thesis using True by (force simp: record_of_def child_of_def)
    qed
    then show ?thesis using IH True by (simp add: parents_first_snoc) (simp add: record_of_def)
  next
    case False
    then have "filter ?P (hs @ [h]) = filter ?P hs" by auto
    then show ?thesis using IH by simp
  qed
qed (simp add: parents_first_def)

lemma record_of_lineage:
  assumes v: "valid_history strict h" "0 < event_time (hd h)"
    and "evWorkspaceID (hd h) = w" "evTraceID (hd h) = t"
  shows "record_in_lineage strict w t root (record_of h) \<longleftrightarrow> evRootTaskID (hd h) = root"
  using record_of_valid [OF v] assms(3,4) by (auto simp: record_in_lineage_def) (auto simp: record_of_def)

text \<open>What a read of a trace returns, by the histories of the trace.\<close>

definition one_root :: "history list \<Rightarrow> bool" where
  "one_root gs \<longleftrightarrow> list_all (\<lambda>h. evRootTaskID (hd h) = evRootTaskID (hd (hd gs))) gs"

lemma one_root_any:
  "g \<in> set gs \<Longrightarrow> one_root gs \<longleftrightarrow> (\<forall>h\<in>set gs. evRootTaskID (hd h) = evRootTaskID (hd g))"
  by (cases gs) (auto simp: one_root_def list_all_iff)

lemma GetTrace_represented:
  assumes rep: "represents strict hs db"
    and gs: "gs = filter (\<lambda>h. evWorkspaceID (hd h) = w \<and> evTraceID (hd h) = t) hs"
    and pos: "\<forall>h\<in>set gs. 0 < event_time (hd h)"
  shows "if gs = [] then GetTrace strict healthy db w t = Inl LedgerErrNotFound
    else if one_root gs then \<exists>ys. GetTrace strict healthy db w t = Inr \<lparr>trTraceID = t, trInvocations = ys\<rparr> \<and>
      mset ys = mset (map record_of gs) \<and> parents_first ys
    else GetTrace strict healthy db w t = Inl (LedgerErrDependency ''validate stored Trace'')"
proof -
  note D = representsD [OF rep]
  have valid: "\<forall>h\<in>set gs. valid_history strict h" using D(6) gs by simp
  let ?rows = "sort_key (\<lambda>row. (prCreatedAt row, prInvocationID row))
      (filter (\<lambda>row. prWorkspaceID row = w \<and> prTraceID row = t) (dbInvocations db))"
  have "mset ?rows = mset (map proj_of gs)"
    by (simp add: D(2) gs filter_map comp_def)
  from scan_projections [OF valid this] obtain xs
    where xs: "scan_all scanProjection ?rows = Inr xs" "mset xs = mset (map record_of gs)" by blast
  have "parents_first (map record_of gs)"
    unfolding gs by (rule lineage_parents_first [OF D(8)]) (use D(6) valid_historyD(1) in \<open>force simp: list_all_iff\<close>)
  then obtain ys where ys: "orderTraceProjections xs = Inr ys" "mset ys = mset xs" "parents_first ys"
    using orderTraceProjections_correct [of xs] xs(2) by (auto simp: ordering_spec_def split: sum.splits)
  have set_ys: "set ys = record_of ` set gs"
    using mset_eq_setD [of ys "map record_of gs"] ys(2) xs(2) by simp
  have "mset (map irInvocationID ys) = mset (map hist_id gs)"
    using ys(2) xs(2) by (simp add: multiset.map_comp comp_def record_of_def hist_id_def [abs_def])
  moreover have "distinct (map hist_id gs)" using D(7) gs by (simp add: distinct_map_filter)
  ultimately have dist: "distinct (map irInvocationID ys)" by (metis mset_eq_imp_distinct_iff)
  have same: "xs = [] \<longleftrightarrow> gs = []" using arg_cong [OF xs(2), of size] by auto
  have read: "GetTrace strict healthy db w t = (if gs = [] then Inl LedgerErrNotFound
      else if ValidateTraceResponseV1 strict w t \<lparr>trTraceID = t, trInvocations = ys\<rparr> \<noteq> None
        then Inl (LedgerErrDependency ''validate stored Trace'') else Inr \<lparr>trTraceID = t, trInvocations = ys\<rparr>)"
    using xs(1) ys(1) same by (simp add: GetTrace_def healthy_def)
  show ?thesis
  proof (cases "gs = []")
    case False
    then obtain g where g: "g \<in> set gs" "hd ys = record_of g" "ys \<noteq> []"
      using set_ys by (metis hd_in_set imageE image_is_empty set_empty)
    have "list_all (record_in_lineage strict w t (irRootTaskID (hd ys))) ys \<longleftrightarrow> one_root gs"
      using set_ys valid pos record_of_lineage [of strict _ w t] gs g(2) one_root_any [OF g(1)]
      by (auto simp: list_all_iff) (simp add: record_of_def)+
    then have "ValidateTraceResponseV1 strict w t \<lparr>trTraceID = t, trInvocations = ys\<rparr> = None \<longleftrightarrow> one_root gs"
      using trace_response_exact [of strict w t "\<lparr>trTraceID = t, trInvocations = ys\<rparr>"] ys(3) dist g(3) by simp
    then show ?thesis using read False xs(2) ys(2,3) by auto
  qed (simp add: read)
qed

subsection \<open>Append only\<close>

lemma insertEvent_appends: "insertEvent env db e t = Inr db' \<Longrightarrow> \<exists>row. db' = db\<lparr>dbEvents := dbEvents db @ [row]\<rparr>"
  by (auto simp: insertEvent_def insert_event_row_def split: if_splits)

lemma insertProjection_appends:
  "insertProjection env db e t = Inr db' \<Longrightarrow> \<exists>row. db' = db\<lparr>dbInvocations := dbInvocations db @ [row]\<rparr>"
  by (auto simp: insertProjection_def insert_invocation_row_def split: if_splits)

lemma append_body_prefix:
  assumes "append_body strict env db e t = Inr db'"
  shows "prefix (dbEvents db) (dbEvents db') \<and>
    prefix (map prInvocationID (dbInvocations db)) (map prInvocationID (dbInvocations db'))"
proof -
  obtain db1 where db1: "(if evSequence e = 0 then append_first env db e t
      else guarded (append_next strict env db e t) (Inr db)) = Inr db1"
    using assms by (auto simp: append_body_def)
  have first: "prefix (dbEvents db) (dbEvents db1) \<and>
      prefix (map prInvocationID (dbInvocations db)) (map prInvocationID (dbInvocations db1))"
    using db1 insertProjection_appends [of env db e t db1]
    by (auto simp: append_first_def split: if_splits sum.splits)
  obtain db2 where db2: "insertEvent env db1 e t = Inr db2"
    "db' = db2 \<or> updateProjection env db2 e t = Inr db'"
    using assms db1 by (auto simp: append_body_def split: if_splits)
  obtain row where row: "db2 = db1\<lparr>dbEvents := dbEvents db1 @ [row]\<rparr>"
    using insertEvent_appends [OF db2(1)] by blast
  have "dbEvents db' = dbEvents db2 \<and> map prInvocationID (dbInvocations db') = map prInvocationID (dbInvocations db2)"
    using db2(2) updateProjection_Inr [of env db2 e t db'] by (auto simp: updated_projection_def comp_def)
  then show ?thesis using first row by (auto simp: prefix_def)
qed


lemma Append_unstorable:
  assumes "\<not> storable e"
  shows "\<exists>err. Append strict env db e = (Some err, db)"
proof -
  have "append_body strict env db e t \<noteq> Inr db'" for t db'
  proof
    assume "append_body strict env db e t = Inr db'"
    then obtain db1 db2 where "insertEvent env db1 e t = Inr db2" by (auto simp: append_body_def)
    then show False
      using assms by (auto simp: insertEvent_def insert_event_row_def event_checks_def event_row_of_def event_widths_def storable_def
          split: if_splits)
  qed
  then show ?thesis by (auto simp: Append_def split: sum.splits)
qed

subsection \<open>Sample ledger\<close>

abbreviation sample_created :: invocation_event where
  "sample_created \<equiv> sample_event 0 ''created'' ''pending''"

definition sample_ledger :: ledger_db where
  "sample_ledger = snd (Append sample_strict healthy empty_ledger sample_created)"

lemma represents_empty: "represents strict [] empty_ledger"
  by (simp add: represents_def wf_ledger_def lineage_def empty_ledger_def)

lemma sample_append: "fst (Append sample_strict healthy empty_ledger sample_created) = None"
  by code_simp

lemma sample_stored: "stored (sample_event n ty st) = sample_event n ty st"
  by (simp add: stored_iff sample_event_def event_time_def format_time_def)

lemma sample_represents: "represents sample_strict [[sample_created]] sample_ledger"
proof -
  obtain r where run: "Append sample_strict healthy empty_ledger sample_created = (r, sample_ledger)" and "r = None"
    using sample_append by (cases "Append sample_strict healthy empty_ledger sample_created") (simp add: sample_ledger_def)
  then obtain hs' where "ledger_step sample_strict [] (stored sample_created) hs'" "represents sample_strict hs' sample_ledger"
    using Append_refines [OF represents_empty run] by blast
  then show ?thesis by (auto elim: ledger_stepE simp: sample_stored)
qed

subsection \<open>Properties\<close>

text \<open>C5: Appending refines the abstract ledger.  If the tables represent a list of event histories,
  then after an append, whichever calls to the database failed, either the tables are unchanged and
  an error was returned, or they represent the histories after one legal step for that event (a new
  history, whose parent is running in the same Workspace and Trace, or the extension of the
  invocation's history); an error is returned with a changed ledger only when the outcome of the
  commit was lost.\<close>

theorem append_refines_histories:
  assumes "represents strict hs db" and "Append strict env db e = (r, db')"
  shows "db' = db \<and> r \<noteq> None \<or>
    (\<exists>hs'. ledger_step strict hs (stored e) hs' \<and> represents strict hs' db' \<and> (r = None \<or> leCommit env = CommitLost))"
  by (rule Append_refines [OF assms])

theorem append_refines_histories_witness:
  "\<exists>hs'. ledger_step sample_strict [] (stored sample_created) hs' \<and>
    represents sample_strict hs' (snd (Append sample_strict healthy empty_ledger sample_created))"
  using append_refines_histories [OF represents_empty prod.collapse [symmetric],
      of sample_strict healthy sample_created] sample_append by blast

inductive ledger_reachable :: "(string \<Rightarrow> bool) \<Rightarrow> ledger_db \<Rightarrow> bool" for strict where
  initial_ledger: "ledger_reachable strict empty_ledger" |
  after_append: "ledger_reachable strict db \<Longrightarrow> ledger_reachable strict (snd (Append strict env db e))"

lemma ledger_reachable_represents: "ledger_reachable strict db \<Longrightarrow> \<exists>hs. represents strict hs db"
proof (induction rule: ledger_reachable.induct)
  case initial_ledger
  then show ?case using represents_empty by blast
next
  case (after_append db env e)
  then obtain hs where rep: "represents strict hs db" by blast
  from Append_refines [OF rep prod.collapse [symmetric], of env e] rep show ?case by auto
qed

text \<open>C12: Whatever is appended in whatever order and with whatever failures, every ledger reached from
  the empty one represents well-formed histories: each invocation has one projection, its events
  form an accepted lifecycle with times in order, the projection equals what the events determine,
  and every child follows a parent it is correlated with.\<close>

theorem reachable_ledger_well_formed:
  assumes "ledger_reachable strict db"
  shows "\<exists>hs. wf_ledger strict hs \<and> represents strict hs db"
  using ledger_reachable_represents [OF assms] representsD(1) by blast

theorem reachable_ledger_well_formed_witness:
  "ledger_reachable sample_strict sample_ledger \<and> (\<exists>hs. wf_ledger sample_strict hs \<and> represents sample_strict hs sample_ledger)"
proof -
  have "ledger_reachable sample_strict sample_ledger"
    unfolding sample_ledger_def by (intro after_append initial_ledger)
  with reachable_ledger_well_formed [OF this] show ?thesis by blast
qed

text \<open>C16: A working database accepts every event that continues the lifecycle: if the event passes the
  candidate checks and is a legal step for the represented histories, its event identifier is new, its
  version fits the column, its error code is one the tables list and every recorded invocation began after the zero
  time, then the append succeeds.\<close>

theorem append_accepts_legal_steps:
  assumes "represents strict hs db" "validateCandidate strict e = Inr t"
    and "ledger_step strict hs (stored e) hs'" "storable e"
    and "evEventID e \<notin> set (map erEventID (dbEvents db))" "\<forall>h\<in>set hs. 0 < event_time (hd h)"
  shows "fst (Append strict healthy db e) = None"
  by (rule Append_accepts [OF assms])

theorem append_accepts_legal_steps_witness:
  "fst (Append sample_strict healthy empty_ledger sample_created) = None"
proof (rule append_accepts_legal_steps [where hs = "[]" and t = 1000 and hs' = "[[sample_created]]"])
  show "represents sample_strict [] empty_ledger" by (rule represents_empty)
  show "validateCandidate sample_strict sample_created = Inr 1000" by code_simp
  have "valid_history sample_strict [sample_created]" by code_simp
  from open_root [OF this, of "[]"] show "ledger_step sample_strict [] (stored sample_created) [[sample_created]]"
    by (simp add: sample_stored) (simp add: sample_event_def)
  show "storable sample_created" by code_simp
qed (simp_all add: empty_ledger_def)

text \<open>C17: A terminated invocation is final: once its last event is terminal, every append for it is
  refused and leaves the ledger unchanged.\<close>

theorem terminal_history_is_final:
  assumes "represents strict hs db" "h \<in> set hs" "terminal_type (evType (last h))" "evInvocationID e = hist_id h"
  shows "fst (Append strict env db e) \<noteq> None \<and> snd (Append strict env db e) = db"
proof -
  have no_step: "\<not> ledger_step strict hs (stored e) hs'" for hs'
  proof
    assume "ledger_step strict hs (stored e) hs'"
    then show False
    proof cases
      case (extend xs g ys)
      have "g = h"
        using distinct_map_inj_key [OF representsD(7) [OF assms(1)]] extend(2,4) assms(2,4) by simp
      then have "well_formed_lifecycle strict (h @ [stored e])" "h \<noteq> []"
        using valid_historyD(2) [OF extend(5)] extend(3) by simp_all
      then show False
        using well_formed_last(3) [of strict h] assms(3)
        by (auto simp: well_formed_snoc phase_of_type_def terminal_type_def)
    qed (use assms in auto)
  qed
  obtain r db' where run: "Append strict env db e = (r, db')" by fastforce
  with Append_refines [OF assms(1) run] no_step show ?thesis by auto
qed

definition sample_error :: "string \<Rightarrow> platform_error" where
  "sample_error code = \<lparr>errCode = code, errMessage = from_null (map_of platformErrorV4Messages code),
     errTraceID = ''tr1'', errInvocationID = ''i1'', errRootTaskID = ''t1''\<rparr>"

definition sample_canceled :: invocation_event where
  "sample_canceled = (sample_event 1 ''canceled'' ''canceled'')\<lparr>evEventID := ''evt2'', evLatencyMS := Some 3,
     evError := Some (sample_error ''CANCELED'')\<rparr>"

definition sample_final_ledger :: ledger_db where
  "sample_final_ledger = snd (Append sample_strict healthy sample_ledger sample_canceled)"

lemma sample_final_represents: "represents sample_strict [[sample_created, sample_canceled]] sample_final_ledger"
proof -
  have ok: "fst (Append sample_strict healthy sample_ledger sample_canceled) = None" by code_simp
  obtain hs' where step: "ledger_step sample_strict [[sample_created]] (stored sample_canceled) hs'"
    "represents sample_strict hs' sample_final_ledger"
    using Append_refines [OF sample_represents prod.collapse [symmetric], of healthy sample_canceled] ok
    by (auto simp: sample_final_ledger_def)
  have s: "stored sample_canceled = sample_canceled"
    by (simp add: stored_iff sample_canceled_def sample_event_def event_time_def format_time_def)
  have i: "\<not> valid_history sample_strict [sample_canceled]"
    using valid_historyD(8) [of sample_strict "[sample_canceled]"]
    by (auto simp: sample_canceled_def sample_event_def)
  from step(1) have "hs' = [[sample_created, sample_canceled]]"
    by cases (use s i in \<open>auto simp: Cons_eq_append_conv\<close>)
  with step(2) show ?thesis by simp
qed

theorem terminal_history_is_final_witness:
  "fst (Append sample_strict healthy sample_final_ledger sample_canceled) \<noteq> None \<and>
   snd (Append sample_strict healthy sample_final_ledger sample_canceled) = sample_final_ledger"
  by (rule terminal_history_is_final [OF sample_final_represents, of "[sample_created, sample_canceled]"])
    (simp_all add: sample_canceled_def sample_event_def terminal_type_def hist_id_def)

text \<open>The ledger is append only: whatever happens during an append, the stored events are a prefix
  of the events afterwards, and so are the identities of the stored invocations.\<close>

theorem append_only_events:
  "prefix (dbEvents db) (dbEvents (snd (Append strict env db e))) \<and>
   prefix (map prInvocationID (dbInvocations db)) (map prInvocationID (dbInvocations (snd (Append strict env db e))))"
  using append_body_prefix [of strict env db e]
  by (auto simp: Append_def split: sum.splits commit_outcome.splits)

text \<open>C25: From a working database, a reader of the right Workspace gets exactly the projection and the complete history of an
  invocation that began after the zero time; a reader of any other Workspace gets not found.\<close>

theorem reads_return_history:
  assumes "represents strict hs db" "h \<in> set hs" "0 < event_time (hd h)"
  shows "GetInvocation strict healthy db w (hist_id h) =
    (if w = evWorkspaceID (hd h) then Inr \<lparr>idInvocation = record_of h, idEvents = h\<rparr> else Inl LedgerErrNotFound)"
proof (cases "w = evWorkspaceID (hd h)")
  case True
  with GetInvocation_found [OF assms] show ?thesis by simp
next
  case False
  have "\<forall>g\<in>set hs. hist_id g = hist_id h \<longrightarrow> evWorkspaceID (hd g) \<noteq> w"
    using distinct_map_inj_key [OF representsD(7) [OF assms(1)]] assms(2) False by blast
  with GetInvocation_hidden [OF assms(1)] False show ?thesis by simp
qed

theorem reads_return_history_witness:
  "GetInvocation sample_strict healthy sample_ledger ''w1'' ''i1'' =
     Inr \<lparr>idInvocation = record_of [sample_created], idEvents = [sample_created]\<rparr>"
  using reads_return_history [OF sample_represents, of "[sample_created]" "''w1''"]
  by (simp add: hist_id_def event_time_def sample_event_def format_time_def)

text \<open>C26: Reading a Trace from a working database, whose invocations of the Workspace and Trace began after the zero time, has
  one of three outcomes. Without such an invocation it answers not found. If they all belong to one root task, it succeeds and returns
  each of them exactly once, with parents before their children. If they belong to several root tasks, the stored Trace is
  reported as a dependency failure.\<close>

theorem trace_reads_complete:
  assumes "represents strict hs db"
    and "gs = filter (\<lambda>h. evWorkspaceID (hd h) = w \<and> evTraceID (hd h) = t) hs"
    and "\<forall>h\<in>set gs. 0 < event_time (hd h)"
  shows "if gs = [] then GetTrace strict healthy db w t = Inl LedgerErrNotFound
    else if one_root gs then \<exists>ys. GetTrace strict healthy db w t = Inr \<lparr>trTraceID = t, trInvocations = ys\<rparr> \<and>
      mset ys = mset (map record_of gs) \<and> parents_first ys
    else GetTrace strict healthy db w t = Inl (LedgerErrDependency ''validate stored Trace'')"
  by (rule GetTrace_represented [OF assms])

theorem trace_reads_complete_witness:
  "\<exists>ys. GetTrace sample_strict healthy sample_ledger ''w1'' ''tr1'' = Inr \<lparr>trTraceID = ''tr1'', trInvocations = ys\<rparr> \<and>
    mset ys = mset (map record_of [[sample_created]]) \<and> parents_first ys"
  using trace_reads_complete [OF sample_represents refl, of "''w1''" "''tr1''"]
  by (simp add: sample_event_def event_time_def format_time_def one_root_def)

text \<open>Ordering the projections of a trace returns a rearrangement of them in which every parent
  precedes its children, and it fails only when no such rearrangement exists.\<close>

theorem trace_ordering_correct:
  "case orderTraceProjections xs of
     Inr ys \<Rightarrow> mset ys = mset xs \<and> parents_first ys
   | Inl _ \<Rightarrow> (\<nexists>ys. mset ys = mset xs \<and> parents_first ys)"
  using orderTraceProjections_correct [of xs] by (simp add: ordering_spec_def)




end
