(* ===== verification/Ledger_Provider.thy ===== *)
theory Ledger_Provider
  imports Ledger_Correct
begin

text \<open>
  The PostgreSQL ledger provides the interface the dispatch handler relies on: the laws of
  \<^verbatim>\<open>invocation_ledger\<close> hold of \<^const>\<open>Append\<close> on every ledger that represents well-formed histories.
\<close>

definition ledger_inv :: "(string \<Rightarrow> bool) \<Rightarrow> ledger_db \<Rightarrow> bool" where
  "ledger_inv strict db \<longleftrightarrow> (\<exists>hs. represents strict hs db)"

definition ledger_history :: "ledger_db \<Rightarrow> string \<Rightarrow> invocation_event list" where
  "ledger_history db i = (case readEvents healthy db i of Inl _ \<Rightarrow> [] | Inr es \<Rightarrow> es)"

text \<open>What the tables demand of an event beyond the lifecycle.\<close>

definition ledger_admits :: "ledger_db \<Rightarrow> invocation_event \<Rightarrow> bool" where
  "ledger_admits db e \<longleftrightarrow> storable e \<and> 0 < event_time e \<and>
     evEventID e \<notin> set (map erEventID (dbEvents db)) \<and> list_all (\<lambda>r. 0 < erOccurredAt r) (dbEvents db)"

subsection \<open>Histories of a represented ledger\<close>

lemma erOccurredAt_row_of [simp]: "erOccurredAt (row_of e) = event_time e"
  by (simp add: row_of_def event_row_of_def)

lemma ledger_history_represented:
  assumes "represents strict hs db"
  shows "ledger_history db i = (case find (\<lambda>h. hist_id h = i) hs of None \<Rightarrow> [] | Some h \<Rightarrow> h)"
proof (cases "find (\<lambda>h. hist_id h = i) hs")
  case None
  then have "filter (\<lambda>r. erInvocationID r = i) (dbEvents db) = []"
    using representsD(4) [OF assms] by (fastforce simp: filter_empty_conv find_None_all)
  with None show ?thesis by (simp add: ledger_history_def readEvents_def select_events_def healthy_def)
next
  case (Some h)
  then have "h \<in> set hs" "hist_id h = i" by (auto dest: find_Some_in_set)
  with readEvents_history [OF assms] Some show ?thesis
    by (auto simp: ledger_history_def healthy_def)
qed

lemma ledger_history_cases:
  assumes "represents strict hs db"
  obtains "ledger_history db i = []" "i \<notin> set (map hist_id hs)"
  | "ledger_history db i \<in> set hs" "hist_id (ledger_history db i) = i" "ledger_history db i \<noteq> []"
  using ledger_history_represented [OF assms, of i] representsD(6) [OF assms] valid_historyD(1)
  by (cases "find (\<lambda>h. hist_id h = i) hs") (force simp: find_None_all dest: find_Some_in_set)+

lemma ledger_history_eq:
  assumes "represents strict hs db" "h \<in> set hs"
  shows "ledger_history db (hist_id h) = h"
proof -
  have "find (\<lambda>g. hist_id g = hist_id h) hs = Some h"
    by (rule find_hist [OF representsD(7) [OF assms(1)] assms(2)])
  then show ?thesis using ledger_history_represented [OF assms(1)] by simp
qed

lemma represented_rows:
  assumes "represents strict hs db"
  shows "set (dbEvents db) = row_of ` (\<Union>h\<in>set hs. set h)"
proof -
  have "r \<in> row_of ` (\<Union>h\<in>set hs. set h)" if r: "r \<in> set (dbEvents db)" for r
  proof -
    obtain h where h: "h \<in> set hs" "erInvocationID r = hist_id h"
      using representsD(4) [OF assms r] by auto
    then have "r \<in> set (map row_of h)" using representsD(3) [OF assms h(1), symmetric] r by simp
    then show ?thesis using h(1) by auto
  qed
  moreover have "row_of e \<in> set (dbEvents db)" if "h \<in> set hs" "e \<in> set h" for h e
  proof -
    have "row_of e \<in> set (filter (\<lambda>r. erInvocationID r = hist_id h) (dbEvents db))"
      unfolding representsD(3) [OF assms that(1)] using that(2) by simp
    then show ?thesis by simp
  qed
  ultimately show ?thesis by auto
qed

lemma ledger_step_history:
  assumes rep: "represents strict hs db" and step: "ledger_step strict hs e hs'" and rep': "represents strict hs' db'"
  shows "ledger_history db' (evInvocationID e) = ledger_history db (evInvocationID e) @ [e]"
    and "i \<noteq> evInvocationID e \<Longrightarrow> ledger_history db' i = ledger_history db i"
    and "(\<Union>h\<in>set hs'. set h) = insert e (\<Union>h\<in>set hs. set h)"
proof -
  note H = ledger_history_represented [OF rep] ledger_history_represented [OF rep'] find_append
  have opened: "ledger_history db' (evInvocationID e) = ledger_history db (evInvocationID e) @ [e] \<and>
      (i \<noteq> evInvocationID e \<longrightarrow> ledger_history db' i = ledger_history db i) \<and>
      (\<Union>h\<in>set hs'. set h) = insert e (\<Union>h\<in>set hs. set h)"
    if "hs' = hs @ [[e]]" "evInvocationID e \<notin> set (map hist_id hs)" for i
  proof -
    have "find (\<lambda>h. hist_id h = evInvocationID e) hs = None"
      using that(2) by (auto simp: find_None_all image_iff)
    with that(1) show ?thesis by (simp add: H hist_id_def [of "[e]"] split: option.splits)
  qed
  have "ledger_history db' (evInvocationID e) = ledger_history db (evInvocationID e) @ [e] \<and>
      (i \<noteq> evInvocationID e \<longrightarrow> ledger_history db' i = ledger_history db i) \<and>
      (\<Union>h\<in>set hs'. set h) = insert e (\<Union>h\<in>set hs. set h)" for i
    using step
  proof cases
    case (extend xs h ys)
    have "find (\<lambda>h. hist_id h = evInvocationID e) xs = None"
      using representsD(7) [OF rep] extend by (auto simp: find_None_all image_iff)
    moreover have "hist_id (h @ [e]) = hist_id h" using extend by (simp add: hist_id_def)
    ultimately show ?thesis using extend(1,2,4) by (simp add: H split: option.splits)
  qed (use opened in auto)
  then show "ledger_history db' (evInvocationID e) = ledger_history db (evInvocationID e) @ [e]"
    "i \<noteq> evInvocationID e \<Longrightarrow> ledger_history db' i = ledger_history db i"
    "(\<Union>h\<in>set hs'. set h) = insert e (\<Union>h\<in>set hs. set h)" by blast+
qed

subsection \<open>The laws\<close>

lemma Append_cases:
  assumes "represents strict hs db" "Append strict env db e = (r, db')"
  obtains "db' = db" "r \<noteq> None"
  | hs' where "ledger_step strict hs (stored e) hs'" "represents strict hs' db'"
  using Append_refines [OF assms] by blast

lemma ledger_valid_history:
  assumes "represents strict hs db"
  shows "ledger_history db i = [] \<or> valid_history strict (ledger_history db i)"
  using ledger_history_cases [OF assms, of i] representsD(6) [OF assms] by blast

lemma continues_step:
  assumes rep: "represents strict hs db" and cont: "continues strict (ledger_history db (evInvocationID e)) e"
    and parent: "ledger_history db (evInvocationID e) \<noteq> [] \<or> may_open (ledger_history db (evParentInvocationID e)) e"
  shows "\<exists>hs'. ledger_step strict hs e hs'"
proof -
  have st: "stored e = e" using cont by (simp add: continues_def stored_iff)
  show ?thesis
  proof (cases rule: ledger_history_cases [OF rep, of "evInvocationID e"])
    case 1
    then have v: "valid_history strict [e]" using cont st by (simp add: continues_def valid_history_def)
    have fresh: "evInvocationID e \<notin> set (map hist_id hs)" by fact
    show ?thesis
    proof (cases "evParentInvocationID e = []")
      case True
      with open_root [OF v fresh] show ?thesis by blast
    next
      case False
      with parent 1(1) have "may_open (ledger_history db (evParentInvocationID e)) e" by simp
      with False have p: "ledger_history db (evParentInvocationID e) \<noteq> []"
        "child_of (hd (ledger_history db (evParentInvocationID e))) e"
        "evStatus (last (ledger_history db (evParentInvocationID e))) = ''running''"
        "event_time (last (ledger_history db (evParentInvocationID e))) \<le> event_time e"
        by (simp_all add: may_open_def)
      then have "ledger_history db (evParentInvocationID e) \<in> set hs"
        by (cases rule: ledger_history_cases [OF rep, of "evParentInvocationID e"]) simp_all
      from open_child [OF v fresh this p(2-4)] show ?thesis by blast
    qed
  next
    case 2
    let ?h = "ledger_history db (evInvocationID e)"
    obtain xs ys where hs: "hs = xs @ ?h # ys" using 2(1) by (meson split_list)
    have "valid_history strict (?h @ [e])"
      using cont st valid_historyD(3) [OF representsD(6) [OF rep 2(1)]]
      by (simp add: continues_def valid_history_def list_all_iff)
    from extend [OF hs 2(3,2) this] show ?thesis by blast
  qed
qed

lemma continues_candidate:
  assumes "continues strict h e" "h = [] \<or> valid_history strict h"
  shows "\<exists>t. validateCandidate strict e = Inr t"
proof -
  have wf: "well_formed_lifecycle strict (h @ [e])" and v: "ValidateInvocationEventV03 strict e = None"
    using assms(1) by (simp_all add: continues_def well_formed_lifecycle_def)
  have "h = []" if "evSequence e = 0"
    using wf that by (auto simp: well_formed_lifecycle_def map_eq_append_conv)
  then have "\<not> isl (sequence_Accept strict initial_sequence_validator e)" if "evSequence e = 0"
    using that wf sequence_accept_all_iff [of strict "[e]"]
    by (cases "sequence_Accept strict initial_sequence_validator e") auto
  then show ?thesis
    using assms(1) v by (auto simp: continues_def validateCandidate_def format_time_def)
qed

interpretation router_ledger: invocation_ledger strict "Append strict" "ledger_inv strict" ledger_history
    "\<lambda>env. env = healthy" "\<lambda>env. leCommit env \<noteq> CommitLost" ledger_admits for strict
proof
  fix l env e r l' i
  assume inv: "ledger_inv strict l"
  then obtain hs where rep: "represents strict hs l" by (auto simp: ledger_inv_def)
  show "well_formed_lifecycle strict (ledger_history l i)"
    using ledger_valid_history [OF rep, of i] valid_historyD(2) by (auto simp: well_formed_lifecycle_def)
  assume run: "Append strict env l e = (r, l')"
  show "ledger_inv strict l'"
    using inv by (cases rule: Append_cases [OF rep run]) (auto simp: ledger_inv_def)
  show "ledger_history l' (evInvocationID e) = ledger_history l (evInvocationID e) @ [stored e] \<or>
      r \<noteq> None \<and> ledger_history l' (evInvocationID e) = ledger_history l (evInvocationID e)"
    using ledger_step_history(1) [OF rep, of "stored e"] by (cases rule: Append_cases [OF rep run]) auto
  show "ledger_history l' i = ledger_history l i" if "i \<noteq> evInvocationID e"
    using ledger_step_history(2) [OF rep, of "stored e" _ _ i] that by (cases rule: Append_cases [OF rep run]) auto
  fix e2
  assume adm: "ledger_admits l e2" "ledger_admits l e" "evEventID e2 \<noteq> evEventID e"
  show "ledger_admits l' e2"
  proof (cases rule: Append_cases [OF rep run])
    case 1
    with adm show ?thesis by simp
  next
    case (2 hs')
    from represented_rows [OF 2(2)] ledger_step_history(3) [OF rep 2] represented_rows [OF rep]
    have "set (dbEvents l') = insert (row_of (stored e)) (set (dbEvents l))" by auto
    with adm show ?thesis by (auto simp: ledger_admits_def list_all_iff)
  qed
next
  fix l env e err l'
  assume "ledger_inv strict l" and run: "Append strict env l e = (Some err, l')" "leCommit env \<noteq> CommitLost"
  then obtain hs where rep: "represents strict hs l" by (auto simp: ledger_inv_def)
  show "l' = l" using Append_refines [OF rep run(1)] run(2) by auto
next
  fix l env e
  assume inv: "ledger_inv strict l" and env: "env = healthy" and adm: "ledger_admits l e"
    and cont: "continues strict (ledger_history l (evInvocationID e)) e"
    and parent: "ledger_history l (evInvocationID e) \<noteq> [] \<or> may_open (ledger_history l (evParentInvocationID e)) e"
  from inv obtain hs where rep: "represents strict hs l" by (auto simp: ledger_inv_def)
  obtain t where t: "validateCandidate strict e = Inr t"
    using continues_candidate [OF cont ledger_valid_history [OF rep]] by blast
  have st: "stored e = e" using cont by (simp add: continues_def stored_iff)
  obtain hs' where step: "ledger_step strict hs (stored e) hs'"
    using continues_step [OF rep cont parent] st by auto
  have pos: "\<forall>h\<in>set hs. 0 < event_time (hd h)"
  proof
    fix h assume h: "h \<in> set hs"
    then have "row_of (hd h) \<in> set (dbEvents l)"
      using represented_rows [OF rep] hd_in_set [OF valid_historyD(1) [OF representsD(6) [OF rep h]]] h
      by blast
    then show "0 < event_time (hd h)" using adm by (auto simp: ledger_admits_def list_all_iff)
  qed
  show "fst (Append strict env l e) = None"
    unfolding env by (rule Append_accepts [OF rep t step _ _ pos]) (use adm in \<open>simp_all add: ledger_admits_def\<close>)
qed

end
