(* ===== verification/Dispatch_Correct.thy ===== *)
theory Dispatch_Correct
  imports Dispatch_Events Ledger_Provider
begin

text \<open>
  Correctness of the dispatch handler: what a client is told agrees with what the ledger records, the
  lifecycle of an invocation is recorded completely when nothing fails, and the frames of an event
  stream are those the stream contract allows. The lemmas are proved once against the ledger
  interface; the properties are their instances for the PostgreSQL ledger.
\<close>

section \<open>State\<close>

lemma tick_simps [simp]:
  "dsLedger (tick s) = dsLedger s" "dsReplies (tick s) = dsReplies s" "dsCommitted (tick s) = dsCommitted s"
  "dsTick (tick s) = Suc (dsTick s)"
  by (simp_all add: tick_def)

lemma reply_simps [simp]:
  "dsLedger (reply r s) = dsLedger s" "dsReplies (reply r s) = dsReplies s @ [r]"
  "dsCommitted (reply r s) = dsCommitted s" "dsTick (reply r s) = dsTick s"
  by (simp_all add: reply_def)

lemma cancel_simps [simp]:
  "dsLedger (cancel s) = dsLedger s" "dsReplies (cancel s) = dsReplies s" "dsCommitted (cancel s) = dsCommitted s"
  by (simp_all add: cancel_def)

lemma lifecycleEvent_simps [simp]:
  "evInvocationID (lifecycleEvent q n ty st t) = dqInvocationID q"
  "evType (lifecycleEvent q n ty st t) = ty" "evStatus (lifecycleEvent q n ty st t) = st"
  "evSequence (lifecycleEvent q n ty st t) = n" "evError (lifecycleEvent q n ty st t) = None"
  "evOccurredAt (lifecycleEvent q n ty st t) = format_time t"
  "evChunkIndex (lifecycleEvent q n ty st t) = None" "evChunkBytes (lifecycleEvent q n ty st t) = None"
  "evLatencyMS (lifecycleEvent q n ty st t) = None"
  "evParentInvocationID (lifecycleEvent q n ty st t) = dqParentInvocationID q"
  "evEventID (lifecycleEvent q n ty st t) = lifecycleEventID (dqInvocationID q) n ty"
  by (simp_all add: lifecycleEvent_def)

text \<open>The observations only advance the tick.\<close>

definition observes :: "'l dispatch_state \<Rightarrow> 'l dispatch_state \<Rightarrow> bool" where
  "observes s s' \<longleftrightarrow> dsLedger s' = dsLedger s \<and> dsReplies s' = dsReplies s \<and> dsCommitted s' = dsCommitted s"

lemma observes_refl [simp]: "observes s s"
  by (simp add: observes_def)

lemma observes_tick [simp]: "observes s (tick s)"
  by (simp add: observes_def)

lemma observes_trans: "observes a b \<Longrightarrow> observes b c \<Longrightarrow> observes a c"
  by (simp add: observes_def)

lemma time_Now_observes: "time_Now w s = (t, s') \<Longrightarrow> observes s s'"
  by (auto simp: time_Now_def)

lemma time_Since_observes: "time_Since w a s = (t, s') \<Longrightarrow> observes s s'"
  by (auto simp: time_Since_def time_Now_def)

lemma terminalOccurredAt_observes: "terminalOccurredAt w a n s = (t, s') \<Longrightarrow> observes s s'"
  by (auto simp: terminalOccurredAt_def time_Now_def Let_def split: if_splits)

lemma ctx_Err_observes: "ctx_Err w ctx s = (e, s') \<Longrightarrow> observes s s'"
  by (auto simp: ctx_Err_def)

lemma contextTerminal_observes: "contextTerminal w ctx s = (r, s') \<Longrightarrow> observes s s'"
  by (auto simp: contextTerminal_def ctx_Err_def observes_def split: if_splits)

lemma streamErrorCode_observes: "streamErrorCode w ctx err s = (r, s') \<Longrightarrow> observes s s'"
  by (auto simp: streamErrorCode_def ctx_Err_def observes_def split: if_splits)

lemma streamWriteErrorCode_observes: "streamWriteErrorCode w ctx err s = (r, s') \<Longrightarrow> observes s s'"
  by (auto simp: streamWriteErrorCode_def ctx_Err_def observes_def dest!: streamErrorCode_observes
      split: if_splits option.splits)

lemmas observations =
  time_Now_observes time_Since_observes terminalOccurredAt_observes ctx_Err_observes contextTerminal_observes
  streamErrorCode_observes streamWriteErrorCode_observes

section \<open>Agreement of replies with the recorded history\<close>

text \<open>A result is answered only for an invocation whose history ends with success; an error other than
  a dependency failure only for one whose history ends with exactly that error.\<close>

definition reply_agrees :: "invocation_event list \<Rightarrow> reply \<Rightarrow> bool" where
  "reply_agrees h r =
     (case r of
        ReplyResult _ _ \<Rightarrow> h \<noteq> [] \<and> evType (last h) = ''succeeded''
      | ReplyCorrelatedError _ e \<Rightarrow> errCode e = ''DEPENDENCY_ERROR'' \<or>
          h \<noteq> [] \<and> terminal_type (evType (last h)) \<and> evError (last h) = Some e
      | ReplyPreError _ e \<Rightarrow> preCode e = ''DEPENDENCY_ERROR''
      | ReplyServerError \<Rightarrow> True
      | _ \<Rightarrow> False)"

lemma NewCorrelated_code:
  "NewCorrelatedPlatformErrorV4 code t i r = Inr e \<Longrightarrow> errCode e = code"
  by (auto simp: NewCorrelatedPlatformErrorV4_def NewPreCorrelationPlatformErrorV4_def split: option.splits)

lemma writeCorrelatedError_dependency:
  "\<exists>r. dsReplies (writeCorrelatedError q ''DEPENDENCY_ERROR'' s) = dsReplies s @ [r] \<and> reply_agrees h r"
  by (auto simp: writeCorrelatedError_def reply_agrees_def dest: NewCorrelated_code split: sum.splits)

lemma writePreError_dependency:
  "\<exists>r. dsReplies (writePreError t ''DEPENDENCY_ERROR'' s) = dsReplies s @ [r] \<and> reply_agrees h r"
  by (auto simp: writePreError_def reply_agrees_def NewPreCorrelationPlatformErrorV4_def split: sum.splits option.splits)

lemma write_ledger [simp]:
  "dsLedger (writeCorrelatedError q c s) = dsLedger s" "dsLedger (writePreError t c s) = dsLedger s"
  "dsLedger (writeInvocationResult q r s) = dsLedger s" "dsLedger (writeRawJSON n t b s) = dsLedger s"
  by (simp_all add: writeCorrelatedError_def writePreError_def writeInvocationResult_def writeRawJSON_def
      split: sum.splits)

lemma writeGeneratedPreError_ledger [simp]: "dsLedger (writeGeneratedPreError w c s) = dsLedger s"
  by (simp add: writeGeneratedPreError_def newTraceID_def split: option.splits)

lemma terminalLifecycleEvent_Inr:
  assumes "terminalLifecycleEvent q n ty st t lat code = Inr e"
  shows "evInvocationID e = dqInvocationID q" "evType e = ty" "evStatus e = st" "evSequence e = n"
    "\<exists>p. evError e = Some p \<and>
      NewCorrelatedPlatformErrorV4 code (dqTraceID q) (dqInvocationID q) (dqRootTaskID q) = Inr p"
    "\<exists>p. e = (lifecycleEvent q n ty st t)\<lparr>evLatencyMS := Some lat, evError := Some p\<rparr>"
  using assms by (auto simp: terminalLifecycleEvent_def)

lemma stored_type [simp]: "evType (stored e) = evType e" "evError (stored e) = evError e"
  by simp_all

context invocation_ledger
begin

text \<open>A step of the handler for one invocation leaves every other history alone.\<close>

definition advances :: "string \<Rightarrow> 'l dispatch_state \<Rightarrow> 'l dispatch_state \<Rightarrow> bool" where
  "advances i s s' \<longleftrightarrow> inv (dsLedger s') \<and> (\<forall>j. j \<noteq> i \<longrightarrow> history (dsLedger s') j = history (dsLedger s) j) \<and>
     prefix (history (dsLedger s) i) (history (dsLedger s') i)"

lemma advances_trans: "advances i a b \<Longrightarrow> advances i b c \<Longrightarrow> advances i a c"
  by (auto simp: advances_def)

lemma advances_same: "inv (dsLedger s) \<Longrightarrow> dsLedger s' = dsLedger s \<Longrightarrow> advances i s s'"
  by (simp add: advances_def)

lemma ledger_append_run:
  assumes "inv (dsLedger s)" "ledger_append append w e s = (ok, s')"
  shows "advances (evInvocationID e) s s'" "dsReplies s' = dsReplies s" "dsCommitted s' = dsCommitted s"
    "ok \<Longrightarrow> history (dsLedger s') (evInvocationID e) = history (dsLedger s) (evInvocationID e) @ [stored e]"
proof -
  obtain r l where run: "append (wLedger w (dsTick s)) (dsLedger s) e = (r, l)" by fastforce
  then have s': "s' = (tick s)\<lparr>dsLedger := l\<rparr>" "ok \<longleftrightarrow> r = None"
    using assms(2) by (auto simp: ledger_append_def)
  show "advances (evInvocationID e) s s'"
    using append_inv [OF assms(1) run] append_other [OF assms(1) run] append_prefix [OF assms(1) run] s'
    by (simp add: advances_def)
  show "dsReplies s' = dsReplies s" "dsCommitted s' = dsCommitted s" using s' by simp_all
  show "history (dsLedger s') (evInvocationID e) = history (dsLedger s) (evInvocationID e) @ [stored e]" if ok
    using append_result [OF assms(1) run] s' that by auto
qed

end

context invocation_ledger
begin

lemma advances_observed: "advances i a b \<Longrightarrow> observes b c \<Longrightarrow> advances i a c"
  by (simp add: advances_def observes_def)

lemma observed_advances: "inv (dsLedger a) \<Longrightarrow> observes a b \<Longrightarrow> advances i a b"
  by (simp add: advances_def observes_def)

lemma advances_inv: "advances i a b \<Longrightarrow> inv (dsLedger b)"
  by (simp add: advances_def)

lemma advances_written:
  "advances i a b \<Longrightarrow> dsLedger c = dsLedger b \<Longrightarrow> advances i a c"
  by (simp add: advances_def)

text \<open>What every path of the non-streaming handler leaves: the history of the invocation advanced and one
  reply that agrees with it.\<close>

definition answered :: "string \<Rightarrow> 'l dispatch_state \<Rightarrow> 'l dispatch_state \<Rightarrow> bool" where
  "answered i s s' \<longleftrightarrow> advances i s s' \<and>
     (\<exists>r. dsReplies s' = dsReplies s @ [r] \<and> reply_agrees (history (dsLedger s') i) r)"

lemma answered_dependency:
  assumes "advances i s s1" "dsReplies s1 = dsReplies s"
  shows "answered i s (writeCorrelatedError q ''DEPENDENCY_ERROR'' s1)"
    and "answered i s (writePreError t ''DEPENDENCY_ERROR'' s1)"
  using advances_written [OF assms(1)] writeCorrelatedError_dependency [of q s1] writePreError_dependency [of t s1] assms(2)
  by (auto simp: answered_def)

lemma answered_error:
  assumes "advances i s s1" "dsReplies s1 = dsReplies s"
    and "history (dsLedger s1) i = h @ [e]" "terminal_type (evType e)" "evError e = Some p"
    and "NewCorrelatedPlatformErrorV4 code (dqTraceID q) (dqInvocationID q) (dqRootTaskID q) = Inr p"
  shows "answered i s (writeCorrelatedError q code s1)"
  using advances_written [OF assms(1)] assms by (simp add: answered_def writeCorrelatedError_def reply_agrees_def)

lemma record_failure_answered:
  assumes s1: "advances (dqInvocationID q) s s1" "dsReplies s1 = dsReplies s"
    and built: "built = terminalLifecycleEvent q n ty st t lat code" and ty: "terminal_type ty"
  shows "answered (dqInvocationID q) s (record_failure append w q built code s1)"
proof (cases built)
  case (Inl err)
  then show ?thesis using answered_dependency(1) [OF s1] by (simp add: record_failure_def)
next
  case (Inr e)
  note e = terminalLifecycleEvent_Inr [OF Inr [unfolded built]]
  obtain ok s2 where app: "ledger_append append w e s1 = (ok, s2)" by fastforce
  note run = ledger_append_run [OF advances_inv [OF s1(1)] app]
  have s2: "advances (dqInvocationID q) s s2" "dsReplies s2 = dsReplies s"
    using advances_trans [OF s1(1)] run(1,2) s1(2) e(1) by simp_all
  show ?thesis
  proof (cases ok)
    case True
    obtain p where p: "evError e = Some p"
      "NewCorrelatedPlatformErrorV4 code (dqTraceID q) (dqInvocationID q) (dqRootTaskID q) = Inr p"
      using e(5) by blast
    from answered_error [OF s2, of _ "stored e" p code q] run(4) [OF True] e(1,2) ty p True app Inr
    show ?thesis by (simp add: record_failure_def)
  next
    case False
    then show ?thesis using answered_dependency(1) [OF s2] app Inr by (simp add: record_failure_def)
  qed
qed

lemma contextTerminal_Some:
  "contextTerminal w ctx s = (Some (code, ty, st), s') \<Longrightarrow> terminal_type ty"
  by (auto simp: contextTerminal_def terminal_type_def split: prod.splits if_splits)

lemma appendInitial_run:
  assumes "appendInitialLedgerEventsMode append w ctx q a child es s = (ok, s')"
    and "inv (dsLedger s)" "list_all (\<lambda>e. evInvocationID e = dqInvocationID q) es"
  shows "if ok then advances (dqInvocationID q) s s' \<and> dsReplies s' = dsReplies s \<and>
        dsCommitted s' = dsCommitted s \<and>
        history (dsLedger s') (dqInvocationID q) = history (dsLedger s) (dqInvocationID q) @ map stored es
      else answered (dqInvocationID q) s s'"
  using assms
proof (induction es arbitrary: s)
  case Nil
  then show ?case by (simp add: advances_same)
next
  case (Cons e es)
  let ?i = "dqInvocationID q"
  obtain ok1 s1 where app: "ledger_append append w e s = (ok1, s1)" by fastforce
  note run = ledger_append_run [OF Cons.prems(2) app]
  have id: "evInvocationID e = ?i" using Cons.prems(3) by simp
  have adv: "advances ?i s s1" using run(1) id by simp
  show ?case
  proof (cases ok1)
    case True
    then have "appendInitialLedgerEventsMode append w ctx q a child es s1 = (ok, s')"
      using Cons.prems(1) app by simp
    from Cons.IH [OF this advances_inv [OF adv]] Cons.prems(3) run(2-4) True adv id show ?thesis
      by (auto simp: answered_def split: if_splits intro: advances_trans)
  next
    case False
    have fail: "answered ?i s (if child \<and> evSequence e = 0 then writePreError (dqTraceID q) ''DEPENDENCY_ERROR'' s2
        else writeCorrelatedError q ''DEPENDENCY_ERROR'' s2)"
      if "advances ?i s s2" "dsReplies s2 = dsReplies s" for s2
      using answered_dependency [OF that] by simp
    have obs: "advances ?i s c \<and> dsReplies c = dsReplies s" if "observes s1 c" for c
      using that adv run(2) advances_observed [OF adv] by (simp add: observes_def)
    show ?thesis
    proof (cases "evSequence e > 0")
      case False
      then show ?thesis using Cons.prems(1) app \<open>\<not> ok1\<close> fail [OF adv run(2)] by (auto simp: Let_def split: if_splits)
    next
      case True
      obtain r s2 where ct: "contextTerminal w ctx s1 = (r, s2)" by fastforce
      note o2 = contextTerminal_observes [OF ct]
      show ?thesis
      proof (cases r)
        case None
        then show ?thesis using Cons.prems(1) app \<open>\<not> ok1\<close> True ct fail [of s2] obs [OF o2]
          by (auto simp: Let_def split: if_splits)
      next
        case (Some x)
        obtain code ty st where x: "r = Some (code, ty, st)" using Some by (metis prod_cases3)
        obtain t s3 where t: "terminalOccurredAt w a (evSequence e) s2 = (t, s3)" by fastforce
        obtain d s4 where d: "time_Since w a s3 = (d, s4)" by fastforce
        have o4: "observes s1 s4"
          using observes_trans [OF o2 observes_trans [OF terminalOccurredAt_observes [OF t] time_Since_observes [OF d]]] .
        let ?built = "terminalLifecycleEvent q (evSequence e) ty st t (Milliseconds d) code"
        have "s' = (record_failure append w q ?built code s4) \<and> \<not> ok"
          using Cons.prems(1) app \<open>\<not> ok1\<close> True ct x t d
          by (auto simp: record_failure_def Let_def split: sum.splits prod.splits bool.splits if_splits)
        with record_failure_answered [OF _ _ refl contextTerminal_Some [OF ct [unfolded x]], of q s s4] obs [OF o4]
        show ?thesis by simp
      qed
    qed
  qed
qed

lemma nonstreaming_answered:
  assumes inv: "inv (dsLedger s)"
  shows "answered (dqInvocationID q) s (dispatchNonStreamingWithLedger append w tp ctx q res terr s)"
proof -
  let ?i = "dqInvocationID q"
  obtain now s1 where now: "time_Now w s = (now, s1)" by fastforce
  define a where "a = time_Truncate now Microsecond"
  let ?es = "initialEvents q a (terr = None)"
  obtain ok s2 where init: "appendInitialLedgerEventsMode append w ctx q a (dqParentInvocationID q \<noteq> []) ?es s1 = (ok, s2)"
    by fastforce
  have o1: "observes s s1" by (rule time_Now_observes [OF now])
  have s1: "advances ?i s s1" "dsReplies s1 = dsReplies s" "inv (dsLedger s1)"
    using observed_advances [OF inv o1] o1 inv by (simp_all add: observes_def)
  have all: "list_all (\<lambda>e. evInvocationID e = ?i) ?es" by (simp add: initialEvents_def)
  note run = appendInitial_run [OF init s1(3) all]
  note unfold = dispatchNonStreamingWithLedger_def now a_def [symmetric] Let_def
  show ?thesis
  proof (cases ok)
    case False
    then have "answered ?i s1 s2" using run by simp
    with s1(1,2) have "answered ?i s s2" by (auto simp: answered_def intro: advances_trans)
    with False init show ?thesis by (simp add: unfold)
  next
    case True
    then have s2: "advances ?i s s2" "dsReplies s2 = dsReplies s" "inv (dsLedger s2)"
      using run s1 advances_trans [OF s1(1)] by (auto simp: advances_def)
    have obs: "advances ?i s c \<and> dsReplies c = dsReplies s" if "observes s2 c" for c
      using that s2 advances_observed by (simp add: observes_def)
    show ?thesis
    proof (cases terr)
      case (Some err)
      obtain t s3 where t: "terminalOccurredAt w a 2 s2 = (t, s3)" by fastforce
      have s3: "advances ?i s s3" "dsReplies s3 = dsReplies s"
        using obs [OF terminalOccurredAt_observes [OF t]] by simp_all
      from record_failure_answered [where ty = "''failed''" and n = 2 and st = "''failed''" and t = t and lat = 0
          and code = "dispatchErrorCode err" and w = w, OF s3 refl]
      show ?thesis using init True Some t by (simp add: unfold terminal_type_def)
    next
      case None
      define sent where "sent = tpSendNonStreaming tp q res"
      obtain err s3 where s3: "(case sent of Inl e \<Rightarrow> (Some e, s2)
          | Inr _ \<Rightarrow> (case ctx_Err w ctx s2 of (ce, s3) \<Rightarrow> (map_option ctx_go_error ce, s3))) = (err, s3)" by fastforce
      obtain d s4 where d: "time_Since w a s3 = (d, s4)" by fastforce
      obtain t s5 where t: "terminalOccurredAt w a 3 s4 = (t, s5)" by fastforce
      have "observes s2 s3" using s3 by (auto dest: ctx_Err_observes split: sum.splits prod.splits)
      then have "observes s2 s5"
        using time_Since_observes [OF d] terminalOccurredAt_observes [OF t] observes_trans by blast
      with obs have s5: "advances ?i s s5" "dsReplies s5 = dsReplies s" by blast+
      show ?thesis
      proof (cases err)
        case (Some e)
        obtain ty st where ty: "streamFailureType (dispatchErrorCode e) = (ty, st)" by fastforce
        then have "terminal_type ty" by (auto simp: streamFailureType_def terminal_type_def split: if_splits)
        from record_failure_answered [where n = 3 and st = st and t = t and lat = "Milliseconds d"
            and code = "dispatchErrorCode e" and w = w, OF s5 refl this]
        show ?thesis using init True None Some s3 d t ty by (simp add: unfold sent_def [symmetric])
      next
        case e: None
        let ?e = "(lifecycleEvent q 3 ''succeeded'' ''succeeded'' t)\<lparr>evLatencyMS := Some (Milliseconds d)\<rparr>"
        obtain ok6 s6 where app: "ledger_append append w ?e s5 = (ok6, s6)" by fastforce
        note r6 = ledger_append_run [OF advances_inv [OF s5(1)] app]
        have s6: "advances ?i s s6" "dsReplies s6 = dsReplies s"
          using advances_trans [OF s5(1)] r6(1,2) s5(2) by simp_all
        show ?thesis
        proof (cases ok6)
          case ok: True
          then show ?thesis using init True None e s3 d t app s6 r6(4) advances_written [OF s6(1)]
            by (simp add: unfold sent_def [symmetric] answered_def writeInvocationResult_def reply_agrees_def)
        next
          case False
          then show ?thesis using init True None e s3 d t app answered_dependency(1) [OF s6]
            by (simp add: unfold sent_def [symmetric])
        qed
      qed
    qed
  qed
qed

end

section \<open>Complete recording\<close>

lemma terminalOccurredAt_value:
  assumes "terminalOccurredAt w a n s = (t, s')" "a mod 1000 = 0"
  shows "a + n * 1000 \<le> t" "t mod 1000 = 0" "s' = tick s"
  using assms by (auto simp: terminalOccurredAt_def time_Now_def Let_def split: if_splits)

lemma Milliseconds_nonneg: "0 \<le> d \<Longrightarrow> 0 \<le> Milliseconds d"
  by (simp add: Milliseconds_def)

lemma NewCorrelated_known:
  assumes "valid_request strict q" "map_of platformErrorV4Messages code \<noteq> None"
  shows "\<exists>p. NewCorrelatedPlatformErrorV4 code (dqTraceID q) (dqInvocationID q) (dqRootTaskID q) = Inr p"
  using assms by (auto simp: valid_request_def NewCorrelatedPlatformErrorV4_def NewPreCorrelationPlatformErrorV4_def
      ParseTraceID_def validateSafeContractIdentifier_def)

context invocation_ledger
begin

text \<open>The ledger has room for every further event of the request whose error code is a listed one.\<close>

definition ample :: "dispatch_request \<Rightarrow> (string \<Rightarrow> bool) \<Rightarrow> nat \<Rightarrow> 'l \<Rightarrow> bool" where
  "ample q codes k l \<longleftrightarrow> (\<forall>n ty st t ci cb lat er. int k \<le> n \<longrightarrow> 0 < t \<longrightarrow>
     (\<forall>p. er = Some p \<longrightarrow> codes (errCode p)) \<longrightarrow> admits l (request_event q n ty st t ci cb lat er))"

definition recording :: "dispatch_request \<Rightarrow> (string \<Rightarrow> bool) \<Rightarrow> invocation_event list \<Rightarrow> 'l dispatch_state \<Rightarrow> bool" where
  "recording q codes h s \<longleftrightarrow> inv (dsLedger s) \<and> history (dsLedger s) (dqInvocationID q) = h \<and>
     request_history q h \<and> ample q codes (length h) (dsLedger s)"

lemma recording_observed: "recording q codes h s \<Longrightarrow> observes s s' \<Longrightarrow> recording q codes h s'"
  by (simp add: recording_def observes_def)

lemma record_event:
  assumes rec: "recording q codes h s" and ready: "ready (wLedger w (dsTick s))"
    and q: "valid_request strict q" and shape: "event_shape ty st ci cb lat er" and len: "length h < 10 ^ 19"
    and er: "\<forall>p. er = Some p \<longrightarrow> codes (errCode p) \<and>
      NewCorrelatedPlatformErrorV4 (errCode p) (dqTraceID q) (dqInvocationID q) (dqRootTaskID q) = Inr p"
    and nxt: "next_type h ty" and idx: "ty = ''stream'' \<longrightarrow> ci = Some (int (length (stream_events h)))"
    and time: "h = [] \<or> event_time (last h) \<le> t" "t mod 1000 = 0" "0 < t"
    and parent: "h \<noteq> [] \<or> may_open (history (dsLedger s) (dqParentInvocationID q))
      (request_event q (int (length h)) ty st t ci cb lat er)"
  shows "\<exists>s'. ledger_append append w (request_event q (int (length h)) ty st t ci cb lat er) s = (True, s') \<and>
    recording q codes (h @ [request_event q (int (length h)) ty st t ci cb lat er]) s' \<and>
    dsReplies s' = dsReplies s \<and> dsCommitted s' = dsCommitted s \<and> dsTick s' = Suc (dsTick s)"
proof -
  let ?e = "request_event q (int (length h)) ty st t ci cb lat er"
  have inv: "inv (dsLedger s)" and h: "history (dsLedger s) (dqInvocationID q) = h"
    and hist: "request_history q h" and amp: "ample q codes (length h) (dsLedger s)"
    using rec by (simp_all add: recording_def)
  have "int (length h) < 10 ^ 19" using len by (metis of_nat_less_iff of_nat_numeral of_nat_power)
  then have valid: "ValidateInvocationEventV03 strict ?e = None"
    using request_event_valid [OF q _ _ shape, of "int (length h)" t] er by (simp, blast)
  note cont = continues_request [OF history_lifecycle [OF inv, of "dqInvocationID q", unfolded h] hist refl valid nxt idx time(1,2)]
  have adm: "admits (dsLedger s) ?e" using amp time(3) er by (simp add: ample_def)
  have "fst (append (wLedger w (dsTick s)) (dsLedger s) ?e) = None"
    using append_accepts [OF inv ready adm] cont(1) h parent by simp
  then obtain l where step: "append (wLedger w (dsTick s)) (dsLedger s) ?e = (None, l)"
    by (cases "append (wLedger w (dsTick s)) (dsLedger s) ?e") simp
  define s' where "s' = (tick s)\<lparr>dsLedger := l\<rparr>"
  have app: "ledger_append append w ?e s = (True, s')" "dsTick s' = Suc (dsTick s)" "dsLedger s' = l"
    by (simp_all add: ledger_append_def step s'_def)
  note run = ledger_append_run [OF inv app(1)]
  have "ample q codes (Suc (length h)) (dsLedger s')"
    unfolding ample_def
  proof (intro allI impI)
    fix n ty' st' t' ci' cb' lat' er'
    let ?e' = "request_event q n ty' st' t' ci' cb' lat' er'"
    assume n: "int (Suc (length h)) \<le> n" and "0 < (t' :: int)" "\<forall>p. er' = Some p \<longrightarrow> codes (errCode p)"
    then have "admits (dsLedger s) ?e'" using amp by (simp add: ample_def)
    moreover have "evEventID ?e' \<noteq> evEventID ?e"
      using lifecycleEventID_inject [of "dqInvocationID q" n ty' "int (length h)" ty] n by auto
    ultimately show "admits (dsLedger s') ?e'" using admits_append [OF inv _ adm _ step] app(3) by simp
  qed
  moreover have "history (dsLedger s') (dqInvocationID q) = h @ [?e]"
    using run(4) [OF TrueI] unfolding request_event_simps h .
  ultimately have "recording q codes (h @ [?e]) s'"
    using advances_inv [OF run(1)] cont(2) unfolding recording_def by simp
  then show ?thesis using app(1,2) run(2,3) by blast
qed

lemma initial_recorded:
  assumes rec: "recording q codes [] s" and ready: "\<forall>n. ready (wLedger w n)" and q: "valid_request strict q"
    and a: "0 < a" "a mod 1000 = 0"
    and parent: "may_open (history (dsLedger s) (dqParentInvocationID q)) (lifecycleEvent q 0 ''created'' ''pending'' a)"
  shows "\<exists>s'. appendInitialLedgerEventsMode append w ctx q a child (initialEvents q a started) s = (True, s') \<and>
    recording q codes (initialEvents q a started) s' \<and> dsReplies s' = dsReplies s \<and> dsCommitted s' = dsCommitted s \<and>
    dsTick s' = dsTick s + length (initialEvents q a started)"
proof -
  let ?e0 = "request_event q 0 ''created'' ''pending'' a None None None None"
  let ?e1 = "request_event q 1 ''routing'' ''routing'' (a + 1000) None None None None"
  let ?e2 = "request_event q 2 ''started'' ''running'' (a + 2000) None None None None"
  have a': "(a + 1000) mod 1000 = 0" "(a + 2000) mod 1000 = 0" using a(2) mod_add_eq [of a 1000 2000] by simp_all
  note ev = record_event [where codes = codes, OF _ spec [OF ready] q]
  have "\<exists>s'. ledger_append append w ?e0 s = (True, s') \<and> recording q codes [?e0] s' \<and> dsReplies s' = dsReplies s \<and>
      dsCommitted s' = dsCommitted s \<and> dsTick s' = Suc (dsTick s)"
    using ev [where h = "[]" and t = a and ty = "''created''" and st = "''pending''" and ci = None and cb = None
        and lat = None and er = None, OF rec] a parent
    by (simp add: built_request_events)
  then obtain s1 where s1: "ledger_append append w ?e0 s = (True, s1)" "recording q codes [?e0] s1"
    "dsReplies s1 = dsReplies s" "dsCommitted s1 = dsCommitted s" "dsTick s1 = Suc (dsTick s)" by blast
  have "\<exists>s'. ledger_append append w ?e1 s1 = (True, s') \<and> recording q codes [?e0, ?e1] s' \<and> dsReplies s' = dsReplies s1 \<and>
      dsCommitted s' = dsCommitted s1 \<and> dsTick s' = Suc (dsTick s1)"
    using ev [where h = "[?e0]" and t = "a + 1000" and ty = "''routing''" and st = "''routing''" and ci = None
        and cb = None and lat = None and er = None, OF s1(2)] a a' next_type_intros(2) [of "[]"]
    by simp
  then obtain s2 where s2: "ledger_append append w ?e1 s1 = (True, s2)" "recording q codes [?e0, ?e1] s2"
    "dsReplies s2 = dsReplies s1" "dsCommitted s2 = dsCommitted s1" "dsTick s2 = Suc (dsTick s1)" by blast
  have "\<exists>s'. ledger_append append w ?e2 s2 = (True, s') \<and> recording q codes [?e0, ?e1, ?e2] s' \<and> dsReplies s' = dsReplies s2 \<and>
      dsCommitted s' = dsCommitted s2 \<and> dsTick s' = Suc (dsTick s2)"
    using ev [where h = "[?e0, ?e1]" and t = "a + 2000" and ty = "''started''" and st = "''running''" and ci = None
        and cb = None and lat = None and er = None, OF s2(2)] a a' next_type_intros(3) [of "[?e0]"]
    by simp
  then obtain s3 where s3: "ledger_append append w ?e2 s2 = (True, s3)" "recording q codes [?e0, ?e1, ?e2] s3"
    "dsReplies s3 = dsReplies s2" "dsCommitted s3 = dsCommitted s2" "dsTick s3 = Suc (dsTick s2)" by blast
  show ?thesis
    using s1 s2 s3 by (cases started) (simp_all add: initialEvents_def built_request_events)
qed

end

text \<open>What the handler takes as the outcome of a call: the result, unless the context ended meanwhile.\<close>

definition send_outcome ::
    "'env world \<Rightarrow> transport \<Rightarrow> time \<Rightarrow> dispatch_request \<Rightarrow> resolved_agent \<Rightarrow> nat \<Rightarrow> (go_error, raw_message) result" where
  "send_outcome w tp ctx q res n =
     (case tpSendNonStreaming tp q res of
        Inl e \<Rightarrow> Inl e
      | Inr r \<Rightarrow> (case wCtxErr w ctx n of Some e \<Rightarrow> Inl (ctx_go_error e) | None \<Rightarrow> Inr r))"

definition success_reply :: "dispatch_request \<Rightarrow> raw_message \<Rightarrow> reply" where
  "success_reply q r = ReplyResult 200 \<lparr>rsSchemaVersion = ''1'', rsInvocationID = dqInvocationID q,
     rsRootTaskID = dqRootTaskID q, rsTraceID = dqTraceID q, rsStatus = ''succeeded'', rsResult = r\<rparr>"

context invocation_ledger
begin

text \<open>A history that ends with the given failure, and the reply that reports it.\<close>

definition failed_with :: "dispatch_request \<Rightarrow> invocation_event list \<Rightarrow> string \<Rightarrow> 'l dispatch_state \<Rightarrow> 'l dispatch_state \<Rightarrow> bool" where
  "failed_with q h code s s' \<longleftrightarrow> (\<exists>e p. history (dsLedger s') (dqInvocationID q) = h @ [e] \<and>
     evType e = fst (streamFailureType code) \<and> evError e = Some p \<and> errCode p = code \<and>
     dsReplies s' = dsReplies s @ [ReplyCorrelatedError (errorStatus code) p])"

lemma record_failure_complete:
  assumes rec: "recording q codes h s" and ready: "\<forall>n. ready (wLedger w n)" and q: "valid_request strict q"
    and code: "codes code" "map_of platformErrorV4Messages code \<noteq> None" "streamFailureType code = (ty, st)"
    and h: "h \<noteq> []" "evType (last h) \<in> {''routing'', ''started'', ''stream''}" "length h < 10 ^ 19"
    and time: "event_time (last h) \<le> t" "t mod 1000 = 0" "0 < t" "0 \<le> lat"
  shows "failed_with q h code s (record_failure append w q (terminalLifecycleEvent q (int (length h)) ty st t lat code) code s)"
proof -
  obtain p where p: "NewCorrelatedPlatformErrorV4 code (dqTraceID q) (dqInvocationID q) (dqRootTaskID q) = Inr p"
    using NewCorrelated_known [OF q code(2)] by blast
  note pc = NewCorrelated_code [OF p]
  let ?e = "request_event q (int (length h)) ty st t None None (Some lat) (Some p)"
  have built: "terminalLifecycleEvent q (int (length h)) ty st t lat code = Inr ?e"
    using p by (simp add: terminalLifecycleEvent_def built_request_events(3))
  have ty: "ty \<in> {''failed'', ''canceled'', ''timed_out''}"
    using code(3) by (auto simp: streamFailureType_def split: if_splits)
  then have "ty \<noteq> ''stream''" by auto
  then obtain s' where s': "ledger_append append w ?e s = (True, s')" "recording q codes (h @ [?e]) s'"
      "dsReplies s' = dsReplies s"
    using record_event [where w = w and ci = None and cb = None and lat = "Some lat" and er = "Some p" and t = t and st = st,
        OF rec spec [OF ready] q _ h(3) _ next_type_failure [OF h(1,2) ty]] code pc p h time by auto
  then have "history (dsLedger s') (dqInvocationID q) = h @ [?e]" by (simp add: recording_def)
  then show ?thesis
    using s' p pc code(3) by (simp add: failed_with_def record_failure_def built writeCorrelatedError_def)
qed

lemma nonstreaming_complete:
  assumes rec: "recording q codes [] s" and ready: "\<forall>n. ready (wLedger w n)" and q: "valid_request strict q"
    and codes: "\<forall>c. codes c \<longrightarrow> map_of platformErrorV4Messages c \<noteq> None"
    and clock: "mono (wNow w)" "1000 \<le> wNow w (dsTick s)"
    and a: "a = time_Truncate (wNow w (dsTick s)) Microsecond"
    and parent: "may_open (history (dsLedger s) (dqParentInvocationID q)) (lifecycleEvent q 0 ''created'' ''pending'' a)"
  shows "send_outcome w tp ctx q res (dsTick s + 4) = Inr r \<Longrightarrow>
      s' = dispatchNonStreamingWithLedger append w tp ctx q res None s \<Longrightarrow>
      dsReplies s' = dsReplies s @ [success_reply q r] \<and>
      (\<exists>e. history (dsLedger s') (dqInvocationID q) = initialEvents q a True @ [e] \<and> evType e = ''succeeded'')"
    and "send_outcome w tp ctx q res (dsTick s + 4) = Inl err \<Longrightarrow>
      \<exists>s1 ty st t lat. dispatchNonStreamingWithLedger append w tp ctx q res None s =
        record_failure append w q (terminalLifecycleEvent q 3 ty st t lat (dispatchErrorCode err)) (dispatchErrorCode err) s1 \<and>
        recording q codes (initialEvents q a True) s1 \<and> dsReplies s1 = dsReplies s"
    and "send_outcome w tp ctx q res (dsTick s + 4) = Inl err \<Longrightarrow> codes (dispatchErrorCode err) \<Longrightarrow>
      failed_with q (initialEvents q a True) (dispatchErrorCode err) s
        (dispatchNonStreamingWithLedger append w tp ctx q res None s)"
    and "codes (dispatchErrorCode terr) \<Longrightarrow> dispatchErrorCode terr \<notin> {''TIMEOUT'', ''CANCELED''} \<Longrightarrow>
      failed_with q (initialEvents q a False) (dispatchErrorCode terr) s
        (dispatchNonStreamingWithLedger append w tp ctx q res (Some terr) s)"
proof -
  have now: "time_Now w s = (wNow w (dsTick s), tick s)" by (simp add: time_Now_def)
  have a1: "0 < a" "a mod 1000 = 0" "a \<le> wNow w (dsTick s)"
    using a clock(2) time_Truncate_less [of 1000 "wNow w (dsTick s)"] time_Truncate_le [of 1000] by auto
  have rec1: "recording q codes [] (tick s)" by (rule recording_observed [OF rec]) simp
  note init = initial_recorded [OF rec1 ready q a1(1,2), of ctx "dqParentInvocationID q \<noteq> []"]
  note unfold = dispatchNonStreamingWithLedger_def now a [symmetric] Let_def
  have last: "event_time (last (initialEvents q a True)) = a + 2000" "evType (last (initialEvents q a True)) = ''started''"
    "event_time (last (initialEvents q a False)) = a + 1000" "evType (last (initialEvents q a False)) = ''routing''"
    "length (initialEvents q a True) = 3" "length (initialEvents q a False) = 2"
    "initialEvents q a True \<noteq> []" "initialEvents q a False \<noteq> []" "stream_events (initialEvents q a True) = []"
    by (simp_all add: initialEvents_def built_request_events)
  obtain s2 where s2: "appendInitialLedgerEventsMode append w ctx q a (dqParentInvocationID q \<noteq> []) (initialEvents q a True) (tick s) = (True, s2)"
    "recording q codes (initialEvents q a True) s2" "dsReplies s2 = dsReplies s" "dsTick s2 = dsTick s + 4"
    using init [of True] parent last by auto
  have later: "0 \<le> Milliseconds (wNow w n - a)" if "dsTick s \<le> n" for n
    using monoD [OF clock(1) that] a1(3) by (simp add: Milliseconds_nonneg)
  show "dsReplies s' = dsReplies s @ [success_reply q r] \<and>
      (\<exists>e. history (dsLedger s') (dqInvocationID q) = initialEvents q a True @ [e] \<and> evType e = ''succeeded'')"
    if out: "send_outcome w tp ctx q res (dsTick s + 4) = Inr r"
      and run: "s' = dispatchNonStreamingWithLedger append w tp ctx q res None s"
  proof -
    have sent: "tpSendNonStreaming tp q res = Inr r" "wCtxErr w ctx (dsTick s2) = None"
      using out s2(4) by (auto simp: send_outcome_def split: sum.splits option.splits)
    let ?s4 = "tick (tick s2)"
    obtain t s5 where t: "terminalOccurredAt w a 3 ?s4 = (t, s5)" by fastforce
    note tv = terminalOccurredAt_value [OF t a1(2)]
    have rec5: "recording q codes (initialEvents q a True) s5"
      by (rule recording_observed [OF s2(2)]) (simp add: tv(3) observes_def)
    define lat where "lat = Milliseconds (wNow w (Suc (dsTick s2)) - a)"
    have lat: "0 \<le> lat" unfolding lat_def using later s2(4) by simp
    let ?e = "request_event q 3 ''succeeded'' ''succeeded'' t None None (Some lat) None"
    have "\<exists>s6. ledger_append append w ?e s5 = (True, s6) \<and> recording q codes (initialEvents q a True @ [?e]) s6 \<and>
        dsReplies s6 = dsReplies s5 \<and> dsCommitted s6 = dsCommitted s5 \<and> dsTick s6 = Suc (dsTick s5)"
      using record_event [where w = w and ty = "''succeeded''" and st = "''succeeded''" and ci = None and cb = None
          and lat = "Some lat" and er = None and t = t, OF rec5 spec [OF ready] q]
        next_type_running [of "initialEvents q a True" "''succeeded''"] last lat tv a1 by simp
    then obtain s6 where s6: "ledger_append append w ?e s5 = (True, s6)"
        "recording q codes (initialEvents q a True @ [?e]) s6" "dsReplies s6 = dsReplies s5" by blast
    have "s' = writeInvocationResult q r s6"
      using run s2(1) sent t s6(1)
      by (simp add: unfold ctx_Err_def time_Since_def time_Now_def lat_def built_request_events(2))
    then show ?thesis
      using s6(2,3) s2(3) tv(3) by (simp add: recording_def writeInvocationResult_def success_reply_def)
  qed
  have failure: "\<exists>s1 ty st t lat. dispatchNonStreamingWithLedger append w tp ctx q res None s =
        record_failure append w q (terminalLifecycleEvent q 3 ty st t lat (dispatchErrorCode err)) (dispatchErrorCode err) s1 \<and>
        recording q codes (initialEvents q a True) s1 \<and> dsReplies s1 = dsReplies s \<and>
        streamFailureType (dispatchErrorCode err) = (ty, st) \<and> a + 3 * 1000 \<le> t \<and> t mod 1000 = 0 \<and> 0 \<le> lat"
    if out: "send_outcome w tp ctx q res (dsTick s + 4) = Inl err"
  proof -
    define s3 where "s3 = (case tpSendNonStreaming tp q res of Inl _ \<Rightarrow> s2 | Inr _ \<Rightarrow> tick s2)"
    have s3: "(case tpSendNonStreaming tp q res of Inl e \<Rightarrow> (Some e, s2)
        | Inr _ \<Rightarrow> (case ctx_Err w ctx s2 of (ce, s3) \<Rightarrow> (map_option ctx_go_error ce, s3))) = (Some err, s3)"
      using out s2(4) by (auto simp: send_outcome_def s3_def ctx_Err_def split: sum.splits option.splits)
    obtain t s5 where t: "terminalOccurredAt w a 3 (tick s3) = (t, s5)" by fastforce
    note tv = terminalOccurredAt_value [OF t a1(2)]
    have o5: "observes s2 s5" by (simp add: tv(3) observes_def s3_def split: sum.splits)
    obtain ty st where ty: "streamFailureType (dispatchErrorCode err) = (ty, st)" by fastforce
    have lat: "0 \<le> Milliseconds (wNow w (dsTick s3) - a)"
      by (rule later) (simp add: s3_def s2(4) split: sum.splits)
    have "dispatchNonStreamingWithLedger append w tp ctx q res None s = record_failure append w q
        (terminalLifecycleEvent q 3 ty st t (Milliseconds (wNow w (dsTick s3) - a)) (dispatchErrorCode err)) (dispatchErrorCode err) s5"
      using s2(1) s3 t ty by (simp add: unfold time_Since_def time_Now_def)
    moreover have "recording q codes (initialEvents q a True) s5" by (rule recording_observed [OF s2(2) o5])
    moreover have "dsReplies s5 = dsReplies s" using o5 s2(3) by (simp add: observes_def)
    ultimately show ?thesis
      by (intro exI [of _ s5] exI [of _ ty] exI [of _ st] exI [of _ t] exI [of _ "Milliseconds (wNow w (dsTick s3) - a)"])
        (use ty tv(1,2) lat in simp)
  qed
  show "\<exists>s1 ty st t lat. dispatchNonStreamingWithLedger append w tp ctx q res None s =
        record_failure append w q (terminalLifecycleEvent q 3 ty st t lat (dispatchErrorCode err)) (dispatchErrorCode err) s1 \<and>
        recording q codes (initialEvents q a True) s1 \<and> dsReplies s1 = dsReplies s"
    if out: "send_outcome w tp ctx q res (dsTick s + 4) = Inl err"
    using failure [OF out] by blast
  show "failed_with q (initialEvents q a True) (dispatchErrorCode err) s
        (dispatchNonStreamingWithLedger append w tp ctx q res None s)"
    if out: "send_outcome w tp ctx q res (dsTick s + 4) = Inl err" and c: "codes (dispatchErrorCode err)"
  proof -
    obtain s5 ty st t lat where f: "dispatchNonStreamingWithLedger append w tp ctx q res None s =
        record_failure append w q (terminalLifecycleEvent q 3 ty st t lat (dispatchErrorCode err)) (dispatchErrorCode err) s5"
        "recording q codes (initialEvents q a True) s5" "dsReplies s5 = dsReplies s"
        "streamFailureType (dispatchErrorCode err) = (ty, st)" "a + 3 * 1000 \<le> t" "t mod 1000 = 0" "0 \<le> lat"
      using failure [OF out] by (elim exE conjE) (rule that)
    have "failed_with q (initialEvents q a True) (dispatchErrorCode err) s5 (record_failure append w q
        (terminalLifecycleEvent q 3 ty st t lat (dispatchErrorCode err)) (dispatchErrorCode err) s5)"
      using record_failure_complete [OF f(2) ready q c _ f(4), of t lat] codes c last f(5-7) a1 by simp
    then show ?thesis using f(1,3) by (simp add: failed_with_def)
  qed
  show "failed_with q (initialEvents q a False) (dispatchErrorCode terr) s
        (dispatchNonStreamingWithLedger append w tp ctx q res (Some terr) s)"
    if c: "codes (dispatchErrorCode terr)" "dispatchErrorCode terr \<notin> {''TIMEOUT'', ''CANCELED''}"
  proof -
    obtain s2 where s2: "appendInitialLedgerEventsMode append w ctx q a (dqParentInvocationID q \<noteq> []) (initialEvents q a False) (tick s) = (True, s2)"
      "recording q codes (initialEvents q a False) s2" "dsReplies s2 = dsReplies s"
      using init [of False] parent by auto
    obtain t s3 where t: "terminalOccurredAt w a 2 s2 = (t, s3)" by fastforce
    note tv = terminalOccurredAt_value [OF t a1(2)]
    have o3: "observes s2 s3" by (simp add: tv(3))
    have ty: "streamFailureType (dispatchErrorCode terr) = (''failed'', ''failed'')"
      using c(2) by (simp add: streamFailureType_def)
    have "failed_with q (initialEvents q a False) (dispatchErrorCode terr) s3 (record_failure append w q
        (terminalLifecycleEvent q 2 ''failed'' ''failed'' t 0 (dispatchErrorCode terr)) (dispatchErrorCode terr) s3)"
      using record_failure_complete [OF recording_observed [OF s2(2) o3] ready q c(1) _ ty, of t 0] codes c(1) last tv a1
      by simp
    moreover have "dispatchNonStreamingWithLedger append w tp ctx q res (Some terr) s = record_failure append w q
        (terminalLifecycleEvent q 2 ''failed'' ''failed'' t 0 (dispatchErrorCode terr)) (dispatchErrorCode terr) s3"
      using s2(1) t by (simp add: unfold)
    ultimately show ?thesis using o3 s2(3) by (simp add: failed_with_def observes_def)
  qed
qed

end

end
