(* ===== verification/Dispatch_Stream.thy ===== *)
theory Dispatch_Stream
  imports Dispatch_Correct
begin

text \<open>
  Streaming invocations: the frames a client receives are part of a stream the contract's sequence
  validator accepts, and a terminal frame agrees with the recorded history.
\<close>

section \<open>Frames\<close>

definition frames :: "reply list \<Rightarrow> stream_event list" where
  "frames rs = concat (map (\<lambda>r. case r of ReplyFrame e _ \<Rightarrow> [e] | _ \<Rightarrow> []) rs)"

lemma frames_simps [simp]:
  "frames [] = []" "frames (rs @ rs') = frames rs @ frames rs'" "frames [ReplyFrame e t] = [e]"
  "frames [ReplyPartial] = []"
  by (simp_all add: frames_def)

definition sse_reply :: "reply \<Rightarrow> bool" where
  "sse_reply r = (case r of ReplyFrame _ _ \<Rightarrow> True | ReplyPartial \<Rightarrow> True | _ \<Rightarrow> False)"

text \<open>A terminal frame reports success only for a recorded success and otherwise the recorded failure. What can be
  reported without such a record is a failed ledger or an unknown upstream error code, and then the history is not
  finished; a failed ledger is also reported after a commit whose outcome was lost.\<close>

definition unfinished :: "invocation_event list \<Rightarrow> bool" where
  "unfinished h \<longleftrightarrow> h \<noteq> [] \<and> \<not> terminal_type (evType (last h))"

definition frame_agrees :: "bool \<Rightarrow> invocation_event list \<Rightarrow> stream_event \<Rightarrow> bool" where
  "frame_agrees lost h f \<longleftrightarrow>
     (if \<not> isResultStreamTerminal (seType f) then True
      else if seType f = ''completed'' then h \<noteq> [] \<and> evType (last h) = ''succeeded''
      else h \<noteq> [] \<and> evType (last h) = seType f \<and> evError (last h) = seError f \<or>
        seType f = ''failed'' \<and>
          (error_code_of (seError f) \<in> {''DEPENDENCY_ERROR'', ''INTERNAL_ERROR''} \<and> unfinished h \<or>
           error_code_of (seError f) = ''DEPENDENCY_ERROR'' \<and> lost))"

abbreviation base_validator :: "dispatch_request \<Rightarrow> stream_validator" where
  "base_validator q \<equiv> stream_validator_of (dqInvocationID q) (dqRootTaskID q) (dqTraceID q) []"

lemma stream_Write_run:
  assumes "stream_Write w limit e s = (err, s')"
  shows "dsLedger s' = dsLedger s"
    and "\<exists>add. dsReplies s' = dsReplies s @ add \<and> list_all sse_reply add \<and> subseq (frames add) [e] \<and>
      (err = None \<longrightarrow> frames add = [e])"
  using assms by (auto simp: stream_Write_def sse_reply_def Let_def split: option.splits if_splits write_outcome.splits)

lemma streamFailureEvent_Inr:
  assumes "streamFailureEvent q n ty st code = Inr e"
  shows "seType e = ty" "seStatus e = st" "\<exists>p. seError e = Some p \<and> errCode p = code \<and>
    NewCorrelatedPlatformErrorV4 code (dqTraceID q) (dqInvocationID q) (dqRootTaskID q) = Inr p"
  using assms by (auto simp: streamFailureEvent_def stream_event_of_def dest: NewCorrelated_code)

lemma failure_types: "streamFailureType code = (ty, st) \<Longrightarrow> ty \<in> {''failed'', ''canceled'', ''timed_out''} \<and> st = ty"
  by (auto simp: streamFailureType_def split: if_splits)

lemma set_subseq: "subseq xs ys \<Longrightarrow> set xs \<subseteq> set ys"
  by (auto dest: list_emb_set)

lemma open_stream_frames:
  assumes "open_stream (map seType es)" "subseq fs es"
  shows "list_all (frame_agrees lost h) fs"
proof -
  have "list_all (\<lambda>e. \<not> isResultStreamTerminal (seType e)) es"
    using assms(1) by (cases es) (auto simp: open_stream_def list_all_iff)
  then have "list_all (frame_agrees lost h) es" by (auto simp: list_all_iff frame_agrees_def)
  with assms(2) show ?thesis by (auto simp: list_all_iff dest: set_subseq)
qed

lemma failure_rules:
  assumes "event_type_rules e" "evType e = ''failed'' \<or> evType e = ''canceled'' \<or> evType e = ''timed_out''"
  shows "\<exists>p. evError e = Some p \<and> streamFailureType (errCode p) = (evType e, evStatus e)"
  using assms(2)
proof (elim disjE)
  assume "evType e = ''failed''"
  with assms(1) show ?thesis by (cases "evError e") (simp_all add: event_type_rules_def streamFailureType_def)
next
  assume "evType e = ''canceled''"
  with assms(1) show ?thesis by (cases "evError e") (simp_all add: event_type_rules_def streamFailureType_def)
next
  assume "evType e = ''timed_out''"
  with assms(1) show ?thesis by (cases "evError e") (simp_all add: event_type_rules_def streamFailureType_def)
qed

text \<open>When a frame built for a request is contract valid, by the kind of its error.\<close>

lemma stream_event_valid:
  assumes "safe_identifier (dqInvocationID q)" "safe_identifier (dqRootTaskID q)" "safe_identifier (dqTraceID q)"
  shows "ValidateInvocationResultStreamEventV2
      ((stream_event_of q (int n) ''completed'' ''succeeded'')\<lparr>seError := None\<rparr>) = None"
    and "correlated_schema p \<Longrightarrow>
      validateRuntimeNestedErrorCorrelation (dqInvocationID q) (dqRootTaskID q) (dqTraceID q) (Some p) = None \<Longrightarrow>
      streamFailureType (errCode p) = (ty, st) \<Longrightarrow>
      ValidateInvocationResultStreamEventV2 ((stream_event_of q (int n) ty st)\<lparr>seError := Some p\<rparr>) = None"
proof -
  note defs = ValidateInvocationResultStreamEventV2_def stream_event_schema_def stream_event_of_def encodable_def
    nonnegative_def stream_shape_def raw_present_def error_code_of_def
  show "ValidateInvocationResultStreamEventV2
      ((stream_event_of q (int n) ''completed'' ''succeeded'')\<lparr>seError := None\<rparr>) = None"
    using assms by (simp add: defs validateRuntimeNestedErrorCorrelation_def)
  assume p: "correlated_schema p"
    "validateRuntimeNestedErrorCorrelation (dqInvocationID q) (dqRootTaskID q) (dqTraceID q) (Some p) = None"
    and t: "streamFailureType (errCode p) = (ty, st)"
  consider "ty = ''timed_out''" "st = ''timed_out''" "errCode p = ''TIMEOUT''"
    | "ty = ''canceled''" "st = ''canceled''" "errCode p = ''CANCELED''"
    | "ty = ''failed''" "st = ''failed''" "errCode p \<noteq> ''CANCELED''" "errCode p \<noteq> ''TIMEOUT''"
    using t by (auto simp: streamFailureType_def split: if_splits)
  then show "ValidateInvocationResultStreamEventV2 ((stream_event_of q (int n) ty st)\<lparr>seError := Some p\<rparr>) = None"
    using assms p by cases (simp_all add: defs)
qed

context invocation_ledger
begin

text \<open>A run that has passed a prefix of an open stream, and one that has ended.\<close>

definition streaming :: "dispatch_request \<Rightarrow> 'l dispatch_state \<Rightarrow> stream_event list \<Rightarrow> stream_validator \<Rightarrow> 'l dispatch_state \<Rightarrow> bool" where
  "streaming q s0 es v s \<longleftrightarrow> advances (dqInvocationID q) s0 s \<and>
     stream_accept_all (base_validator q) es = Inr v \<and> es \<noteq> [] \<and> open_stream (map seType es) \<and>
     (\<exists>new. dsReplies s = dsReplies s0 @ new \<and> list_all sse_reply new \<and> subseq (frames new) es)"

definition lossy :: "'env world \<Rightarrow> bool" where
  "lossy w \<longleftrightarrow> (\<exists>n. \<not> honest (wLedger w n))"

text \<open>The history of the invocation has no terminal event yet.\<close>

definition pending :: "dispatch_request \<Rightarrow> 'l dispatch_state \<Rightarrow> bool" where
  "pending q s \<longleftrightarrow> unfinished (history (dsLedger s) (dqInvocationID q))"

definition streamed :: "'env world \<Rightarrow> dispatch_request \<Rightarrow> 'l dispatch_state \<Rightarrow> 'l dispatch_state \<Rightarrow> bool" where
  "streamed w q s0 s \<longleftrightarrow> advances (dqInvocationID q) s0 s \<and>
     (\<exists>new es v. dsReplies s = dsReplies s0 @ new \<and> list_all sse_reply new \<and> subseq (frames new) es \<and>
       stream_accept_all (base_validator q) es = Inr v \<and>
       list_all (frame_agrees (lossy w) (history (dsLedger s) (dqInvocationID q))) (frames new))"

lemma streaming_same:
  "streaming q s0 es v s \<Longrightarrow> dsLedger s' = dsLedger s \<Longrightarrow> dsReplies s' = dsReplies s \<Longrightarrow> streaming q s0 es v s'"
  by (simp add: streaming_def advances_def)

lemma streaming_observed: "streaming q s0 es v s \<Longrightarrow> observes s s' \<Longrightarrow> streaming q s0 es v s'"
  by (rule streaming_same) (simp_all add: observes_def)

lemma streaming_append:
  assumes "streaming q s0 es v s" "ledger_append append w e s = (ok, s')" "evInvocationID e = dqInvocationID q"
  shows "streaming q s0 es v s'"
proof -
  have "inv (dsLedger s)" using assms(1) by (simp add: streaming_def advances_def)
  note run = ledger_append_run [OF this assms(2)]
  then show ?thesis using assms(1,3) advances_trans by (auto simp: streaming_def)
qed

lemma pending_observed: "pending q s \<Longrightarrow> observes s s' \<Longrightarrow> pending q s'"
  by (simp add: pending_def observes_def)

lemma pending_written: "pending q s \<Longrightarrow> stream_Write w limit e s = (err, s') \<Longrightarrow> pending q s'"
  using stream_Write_run(1) [of w limit e s err s'] by (simp add: pending_def)

text \<open>An append of an event that ends nothing leaves a history unfinished; a refused one does too, unless the outcome of a
  commit can be lost.\<close>

lemma pending_chunk:
  assumes "inv (dsLedger s)" "pending q s" "ledger_append append w e s = (ok, s')" "evInvocationID e = dqInvocationID q"
    and "\<not> terminal_type (evType e)"
  shows "pending q s'"
proof -
  obtain r l where run: "append (wLedger w (dsTick s)) (dsLedger s) e = (r, l)" by fastforce
  then have "dsLedger s' = l" using assms(3) by (auto simp: ledger_append_def)
  then show ?thesis using append_result [OF assms(1) run] assms(2,4,5) by (auto simp: pending_def unfinished_def)
qed

lemma pending_refused:
  assumes "inv (dsLedger s)" "pending q s" "ledger_append append w e s = (False, s')"
  shows "pending q s' \<or> lossy w"
proof (rule disjCI)
  assume "\<not> lossy w"
  obtain r l where run: "append (wLedger w (dsTick s)) (dsLedger s) e = (r, l)" by fastforce
  then obtain err where "r = Some err" "dsLedger s' = l" using assms(3) by (auto simp: ledger_append_def)
  moreover from this run have "l = dsLedger s"
    using append_refused [OF assms(1), of "wLedger w (dsTick s)" e err l] \<open>\<not> lossy w\<close> by (simp add: lossy_def)
  ultimately show "pending q s'" using assms(2) by (simp add: pending_def)
qed

lemma streaming_inv: "streaming q s0 es v s \<Longrightarrow> inv (dsLedger s)"
  by (simp add: streaming_def advances_def)

lemma streaming_streamed: "streaming q s0 es v s \<Longrightarrow> dsLedger s' = dsLedger s \<Longrightarrow> dsReplies s' = dsReplies s \<Longrightarrow> streamed w q s0 s'"
  using open_stream_frames by (fastforce simp: streaming_def streamed_def advances_def)

lemma streaming_next:
  assumes "streaming q s0 es v s" "stream_Accept v e = Inr v'" "seType e = ''chunk''" "stream_Write w limit e s = (err, s')"
  shows "streaming q s0 (es @ [e]) v' s'"
proof -
  obtain new where new: "dsReplies s = dsReplies s0 @ new" "list_all sse_reply new" "subseq (frames new) es"
    using assms(1) by (auto simp: streaming_def)
  obtain add where add: "dsReplies s' = dsReplies s @ add" "list_all sse_reply add" "subseq (frames add) [e]"
    using stream_Write_run(2) [OF assms(4)] by blast
  have "subseq (frames (new @ add)) (es @ [e])" using new(3) add(3) by (simp add: list_emb_append_mono)
  with new add have "\<exists>new. dsReplies s' = dsReplies s0 @ new \<and> list_all sse_reply new \<and> subseq (frames new) (es @ [e])"
    by (intro exI [of _ "new @ add"]) simp
  then show ?thesis
    using assms stream_Write_run(1) [OF assms(4)]
    by (simp add: streaming_def stream_accept_all_append open_stream_snoc advances_def)
qed

lemma emit_terminal_streamed:
  assumes run: "streaming q s0 es v s" and agree: "frame_agrees (lossy w) (history (dsLedger s) (dqInvocationID q)) e"
  shows "streamed w q s0 (emit_terminal w limit v e s)"
proof (cases "stream_Accept v e")
  case (Inl err)
  then show ?thesis using streaming_streamed [OF run] by (simp add: emit_terminal_def)
next
  case (Inr v')
  obtain err s' where wr: "stream_Write w limit e s = (err, s')" by fastforce
  obtain new where new: "dsReplies s = dsReplies s0 @ new" "list_all sse_reply new" "subseq (frames new) es"
    using run by (auto simp: streaming_def)
  obtain add where add: "dsReplies s' = dsReplies s @ add" "list_all sse_reply add" "subseq (frames add) [e]"
    using stream_Write_run(2) [OF wr] by blast
  have l: "dsLedger s' = dsLedger s" by (rule stream_Write_run(1) [OF wr])
  have "list_all (frame_agrees (lossy w) (history (dsLedger s) (dqInvocationID q))) (frames (new @ add))"
    using open_stream_frames [of es "frames new"] run new(3) set_subseq [OF add(3)] agree
    by (auto simp: streaming_def list_all_iff)
  moreover have "subseq (frames (new @ add)) (es @ [e])" using new(3) add(3) by (simp add: list_emb_append_mono)
  moreover have "stream_accept_all (base_validator q) (es @ [e]) = Inr v'"
    using run Inr by (simp add: streaming_def stream_accept_all_append)
  moreover have "dsReplies s' = dsReplies s0 @ (new @ add)" "list_all sse_reply (new @ add)" using new add by simp_all
  ultimately have "streamed w q s0 s'" using run l unfolding streamed_def streaming_def advances_def by metis
  then have "streamed w q s0 s'" "streamed w q s0 (cancel s')" by (auto simp: streamed_def advances_def)
  then show ?thesis using Inr wr by (auto simp: emit_terminal_def split: option.splits)
qed

lemma failure_without_ledger_streamed:
  assumes "streaming q s0 es v s" "code \<in> {''DEPENDENCY_ERROR'', ''INTERNAL_ERROR''}"
    and "pending q s \<or> code = ''DEPENDENCY_ERROR'' \<and> lossy w"
  shows "streamed w q s0 (finishStreamingFailureWithoutLedger w limit v q n code s)"
proof -
  have ty: "streamFailureType code = (''failed'', ''failed'')" using assms(2) by (auto simp: streamFailureType_def)
  show ?thesis
  proof (cases "streamFailureEvent q n ''failed'' ''failed'' code")
    case (Inl err)
    then show ?thesis using streaming_streamed [OF assms(1)] ty by (simp add: finishStreamingFailureWithoutLedger_def)
  next
    case (Inr e)
    note e = streamFailureEvent_Inr [OF Inr]
    then have "frame_agrees (lossy w) (history (dsLedger s) (dqInvocationID q)) e"
      using assms(2,3) by (auto simp: frame_agrees_def error_code_of_def pending_def)
    with emit_terminal_streamed [OF assms(1), of w e limit] Inr ty show ?thesis by (simp add: finishStreamingFailureWithoutLedger_def)
  qed
qed

text \<open>A recorded terminal event: its frame agrees with the history, and the validator accepts it.\<close>

lemma recorded_frame_agrees:
  assumes "streaming q s0 es v s" "ledger_append append w e s = (True, s')"
    and "evInvocationID e = dqInvocationID q" "terminal_type (evType e)"
    and "seType f = (if evType e = ''succeeded'' then ''completed'' else evType e)" "seError f = evError e"
  shows "frame_agrees lost (history (dsLedger s') (dqInvocationID q)) f"
proof -
  have "inv (dsLedger s)" using assms(1) by (simp add: streaming_def advances_def)
  from ledger_append_run(4) [OF this assms(2)] assms(3-)
  show ?thesis by (auto simp: frame_agrees_def terminal_type_def)
qed

lemma recorded_terminal:
  assumes run: "streaming q s0 es v s" and app: "ledger_append append w e s = (True, s')"
    and e: "e = request_event q n ty st t None None (Some lat) er"
    and f: "f = (stream_event_of q (int (length es)) (if ty = ''succeeded'' then ''completed'' else ty) st)\<lparr>seError := er\<rparr>"
    and ty: "terminal_type ty"
  shows "\<exists>v'. stream_Accept v f = Inr v'"
proof -
  have inv: "inv (dsLedger s)" using run by (simp add: streaming_def advances_def)
  note r = ledger_append_run [OF inv app]
  have h: "history (dsLedger s') (dqInvocationID q) = history (dsLedger s) (dqInvocationID q) @ [e]"
    using r(4) e by simp
  have valid: "ValidateInvocationEventV03 strict e = None"
    using history_lifecycle [OF advances_inv [OF r(1)], of "dqInvocationID q"] h by (simp add: well_formed_snoc)
  then have sch: "event_members_schema strict e" "event_type_rules e"
    and corr: "validateRuntimeNestedErrorCorrelation (dqInvocationID q) (dqRootTaskID q) (dqTraceID q) er = None"
    using e by (auto simp: ValidateInvocationEventV03_def event_schema_def request_event_def lifecycleEvent_def
        first_error_None split: if_splits)
  have ids: "safe_identifier (dqInvocationID q)" "safe_identifier (dqRootTaskID q)" "safe_identifier (dqTraceID q)"
    and er: "case er of None \<Rightarrow> True | Some p \<Rightarrow> correlated_schema p"
    using sch(1) e by (simp_all add: event_members_schema_def request_event_def lifecycleEvent_def)
  have rules: "evType e = ty" "evStatus e = st" "evError e = er" using e by simp_all
  have "ValidateInvocationResultStreamEventV2 f = None"
  proof (cases "ty = ''succeeded''")
    case True
    then have "st = ''succeeded''" "er = None" using sch(2) rules by (simp_all add: event_type_rules_def)
    with True show ?thesis using stream_event_valid(1) [OF ids] by (simp add: f)
  next
    case False
    then have "ty = ''failed'' \<or> ty = ''canceled'' \<or> ty = ''timed_out''" using ty by (simp add: terminal_type_def)
    then obtain p where p: "er = Some p" "streamFailureType (errCode p) = (ty, st)"
      using failure_rules [OF sch(2)] rules by metis
    then show ?thesis using stream_event_valid(2) [OF ids, of p] er corr False by (simp add: f)
  qed
  moreover have "v = stream_validator_of (dqInvocationID q) (dqRootTaskID q) (dqTraceID q) es"
    using run by (simp add: streaming_def stream_accept_all_iff)
  moreover have "\<not> isResultStreamTerminal (seType (last es))" "es \<noteq> []"
    using run open_stream_no_terminal [of "map seType es"] by (auto simp: streaming_def last_map)
  ultimately show "\<exists>v'. stream_Accept v f = Inr v'"
    using f ty by (auto simp: stream_Accept_Inr stream_validator_of_def stream_event_of_def terminal_type_def)
qed

lemma appendStreamingTerminal_run:
  assumes "streaming q s0 es v s" "appendStreamingTerminal append w q n a lat code ty st s = (ok, s')"
  shows "streaming q s0 es v s'"
    and "ok \<Longrightarrow> \<exists>s1 t p. streaming q s0 es v s1 \<and>
      NewCorrelatedPlatformErrorV4 code (dqTraceID q) (dqInvocationID q) (dqRootTaskID q) = Inr p \<and>
      ledger_append append w (request_event q n ty st t None None (Some lat) (Some p)) s1 = (True, s')"
proof -
  obtain t s1 where t: "terminalOccurredAt w a n s = (t, s1)" by fastforce
  have s1: "streaming q s0 es v s1" by (rule streaming_observed [OF assms(1) terminalOccurredAt_observes [OF t]])
  have "streaming q s0 es v s' \<and> (ok \<longrightarrow> (\<exists>p.
      NewCorrelatedPlatformErrorV4 code (dqTraceID q) (dqInvocationID q) (dqRootTaskID q) = Inr p \<and>
      ledger_append append w (request_event q n ty st t None None (Some lat) (Some p)) s1 = (True, s')))"
  proof (cases "terminalLifecycleEvent q n ty st t lat code")
    case (Inl err)
    then show ?thesis using assms(2) t s1 by (simp add: appendStreamingTerminal_def)
  next
    case (Inr e)
    then have app: "ledger_append append w e s1 = (ok, s')" using assms(2) t by (simp add: appendStreamingTerminal_def)
    obtain p where "NewCorrelatedPlatformErrorV4 code (dqTraceID q) (dqInvocationID q) (dqRootTaskID q) = Inr p"
      "e = request_event q n ty st t None None (Some lat) (Some p)"
      using Inr by (auto simp: terminalLifecycleEvent_def built_request_events(3))
    then show ?thesis using app streaming_append [OF s1 app] by auto
  qed
  then show "streaming q s0 es v s'"
    and "ok \<Longrightarrow> \<exists>s1 t p. streaming q s0 es v s1 \<and>
      NewCorrelatedPlatformErrorV4 code (dqTraceID q) (dqInvocationID q) (dqRootTaskID q) = Inr p \<and>
      ledger_append append w (request_event q n ty st t None None (Some lat) (Some p)) s1 = (True, s')"
    using s1 by blast+
qed

lemma appendStreamingTerminal_refused:
  assumes "inv (dsLedger s)" "pending q s" "appendStreamingTerminal append w q n a lat code ty st s = (False, s')"
  shows "pending q s' \<or> lossy w"
proof -
  obtain t s1 where t: "terminalOccurredAt w a n s = (t, s1)" by fastforce
  have s1: "inv (dsLedger s1)" "pending q s1"
    using assms(1,2) terminalOccurredAt_observes [OF t] by (simp_all add: pending_def observes_def)
  show ?thesis
    using assms(3) t s1(2) pending_refused [OF s1] by (auto simp: appendStreamingTerminal_def split: sum.splits)
qed

lemma finishStreamingFailure_streamed:
  assumes run: "streaming q s0 es v s" and open_: "pending q s"
  shows "streamed w q s0 (finishStreamingFailure append w limit v q a n k code s)"
proof -
  obtain ty st where ty: "streamFailureType code = (ty, st)" by fastforce
  note unfold = finishStreamingFailure_def ty
  show ?thesis
  proof (cases "streamFailureEvent q n ty st code")
    case (Inl err)
    then show ?thesis using streaming_streamed [OF run] by (simp add: unfold)
  next
    case (Inr f)
    note f = streamFailureEvent_Inr [OF Inr]
    obtain d s1 where d: "time_Since w a s = (d, s1)" by fastforce
    note s1 = streaming_observed [OF run time_Since_observes [OF d]]
    obtain ok s2 where app: "appendStreamingTerminal append w q k a (Milliseconds d) code ty st s1 = (ok, s2)" by fastforce
    note r = appendStreamingTerminal_run [OF s1 app]
    show ?thesis
    proof (cases ok)
      case False
      with appendStreamingTerminal_refused [OF streaming_inv [OF s1] pending_observed [OF open_ time_Since_observes [OF d]]] app
      have "pending q s2 \<or> lossy w" by (cases ok) auto
      with False failure_without_ledger_streamed [OF r(1), of "''DEPENDENCY_ERROR''" w limit n] Inr d app show ?thesis by (simp add: unfold)
    next
      case True
      obtain s' t p where p: "streaming q s0 es v s'" "NewCorrelatedPlatformErrorV4 code (dqTraceID q) (dqInvocationID q) (dqRootTaskID q) = Inr p"
        "ledger_append append w (request_event q k ty st t None None (Some (Milliseconds d)) (Some p)) s' = (True, s2)"
        using r(2) [OF True] by blast
      have "frame_agrees (lossy w) (history (dsLedger s2) (dqInvocationID q)) f"
        by (rule recorded_frame_agrees [OF p(1,3)]) (use f p(2) failure_types [OF ty] in \<open>auto simp: terminal_type_def\<close>)
      from emit_terminal_streamed [OF r(1) this] True Inr d app show ?thesis by (simp add: unfold)
    qed
  qed
qed

end

context invocation_ledger
begin

lemma deliver_emits:
  assumes "stream_Accept v f = Inr v'"
  shows "(case stream_Accept v f of
      Inl _ \<Rightarrow> g s
    | Inr _ \<Rightarrow> (case stream_Write w limit f s of (Some _, s') \<Rightarrow> cancel s' | (None, s') \<Rightarrow> s')) = emit_terminal w limit v f s"
  using assms by (simp add: emit_terminal_def)

lemma terminal_types: "streamTerminalType x y = (ty, st) \<Longrightarrow>
  (ty, st) \<in> {(''completed'', ''succeeded''), (''canceled'', ''canceled''), (''timed_out'', ''timed_out''), (''failed'', ''failed'')}"
  by (auto simp: streamTerminalType_def split: if_splits)

lemma completed_streamed:
  assumes s1: "streaming q s0 es v s1" and open_: "pending q s1"
  shows "streamed w q s0
     (case terminalOccurredAt w a k s1 of (occurredAt, s2) \<Rightarrow>
      case time_Since w a s2 of (elapsed, s3) \<Rightarrow>
      case ledger_append append w ((lifecycleEvent q k ''succeeded'' ''succeeded'' occurredAt)
             \<lparr>evLatencyMS := Some (Milliseconds elapsed)\<rparr>) s3 of
        (False, s4) \<Rightarrow> finishStreamingFailureWithoutLedger w limit v q (int (length es)) ''DEPENDENCY_ERROR'' s4
      | (True, s4) \<Rightarrow>
        (case stream_Accept v (stream_event_of q (int (length es)) ''completed'' ''succeeded'') of
           Inl _ \<Rightarrow> g s4
         | Inr _ \<Rightarrow> (case stream_Write w limit (stream_event_of q (int (length es)) ''completed'' ''succeeded'') s4 of
             (Some _, s') \<Rightarrow> cancel s' | (None, s') \<Rightarrow> s')))"
proof -
  obtain t s2 where t: "terminalOccurredAt w a k s1 = (t, s2)" by fastforce
  obtain d s3 where d: "time_Since w a s2 = (d, s3)" by fastforce
  note o3 = observes_trans [OF terminalOccurredAt_observes [OF t] time_Since_observes [OF d]]
  have s3: "streaming q s0 es v s3" by (rule streaming_observed [OF s1 o3])
  let ?e = "request_event q k ''succeeded'' ''succeeded'' t None None (Some (Milliseconds d)) None"
  let ?f = "stream_event_of q (int (length es)) ''completed'' ''succeeded''"
  obtain ok s4 where app: "ledger_append append w ?e s3 = (ok, s4)" by fastforce
  have s4: "streaming q s0 es v s4" by (rule streaming_append [OF s3 app]) simp
  show ?thesis
  proof (cases ok)
    case False
    with app have "ledger_append append w ?e s3 = (False, s4)" by simp
    then have "pending q s4 \<or> lossy w" by (rule pending_refused [OF streaming_inv [OF s3] pending_observed [OF open_ o3]])
    with False failure_without_ledger_streamed [OF s4, of "''DEPENDENCY_ERROR''" w limit "int (length es)"] app
    show ?thesis by (simp add: t d built_request_events(2))
  next
    case True
    with app have app': "ledger_append append w ?e s3 = (True, s4)" by simp
    have "frame_agrees (lossy w) (history (dsLedger s4) (dqInvocationID q)) ?f"
      by (rule recorded_frame_agrees [OF s3 app']) (simp_all add: terminal_type_def stream_event_of_def)
    moreover obtain v' where "stream_Accept v ?f = Inr v'"
      using recorded_terminal [OF s3 app' refl, of ?f] by (auto simp: terminal_type_def stream_event_of_def)
    ultimately show ?thesis
      using emit_terminal_streamed [OF s4, of w ?f limit] True app deliver_emits [of v ?f v' g s4 w limit]
      by (simp add: t d built_request_events(2))
  qed
qed

lemma failed_streamed:
  assumes s1: "streaming q s0 es v s1" and open_: "pending q s1" and ty: "terminal_type ty" "ty \<noteq> ''succeeded''"
    and f: "streamFailureEvent q (int (length es)) ty st code = Inr f"
  shows "streamed w q s0
     (case time_Since w a s1 of (elapsed, s2) \<Rightarrow>
      case appendStreamingTerminal append w q k a (Milliseconds elapsed) code ty st s2 of
        (False, s3) \<Rightarrow> finishStreamingFailureWithoutLedger w limit v q (int (length es)) ''DEPENDENCY_ERROR'' s3
      | (True, s3) \<Rightarrow>
        (case stream_Accept v f of
           Inl _ \<Rightarrow> g s3
         | Inr _ \<Rightarrow> (case stream_Write w limit f s3 of (Some _, s') \<Rightarrow> cancel s' | (None, s') \<Rightarrow> s')))"
proof -
  obtain d s2 where d: "time_Since w a s1 = (d, s2)" by fastforce
  note s2 = streaming_observed [OF s1 time_Since_observes [OF d]]
  obtain ok s3 where app: "appendStreamingTerminal append w q k a (Milliseconds d) code ty st s2 = (ok, s3)" by fastforce
  note r = appendStreamingTerminal_run [OF s2 app]
  show ?thesis
  proof (cases ok)
    case False
    with appendStreamingTerminal_refused [OF streaming_inv [OF s2] pending_observed [OF open_ time_Since_observes [OF d]]] app
    have "pending q s3 \<or> lossy w" by (cases ok) auto
    with False failure_without_ledger_streamed [OF r(1), of "''DEPENDENCY_ERROR''" w limit "int (length es)"] app d
    show ?thesis by simp
  next
    case True
    obtain s' t p where p: "streaming q s0 es v s'" "NewCorrelatedPlatformErrorV4 code (dqTraceID q) (dqInvocationID q) (dqRootTaskID q) = Inr p"
      "ledger_append append w (request_event q k ty st t None None (Some (Milliseconds d)) (Some p)) s' = (True, s3)"
      using r(2) [OF True] by blast
    have f': "f = (stream_event_of q (int (length es)) ty st)\<lparr>seError := Some p\<rparr>"
      using f p(2) by (simp add: streamFailureEvent_def)
    have "frame_agrees (lossy w) (history (dsLedger s3) (dqInvocationID q)) f"
      by (rule recorded_frame_agrees [OF p(1,3)]) (use ty f' in \<open>simp_all add: stream_event_of_def\<close>)
    moreover obtain v' where "stream_Accept v f = Inr v'"
      using recorded_terminal [OF p(1,3) refl _ ty(1), of f] f' ty(2) by auto
    ultimately show ?thesis
      using emit_terminal_streamed [OF r(1), of w f limit] True app d deliver_emits [of v f v' g s3 w limit] by simp
  qed
qed

lemma stream_terminal_streamed:
  assumes run: "streaming q s0 es v s" and open_: "pending q s"
  shows "streamed w q s0 (stream_terminal append w limit ctx q a event v (int (length es)) k s)"
proof -
  obtain ce s1 where ce: "ctx_Err w ctx s = (ce, s1)" by fastforce
  note s1 = streaming_observed [OF run ctx_Err_observes [OF ce]]
  note p1 = pending_observed [OF open_ ctx_Err_observes [OF ce]]
  note unfold = stream_terminal_def ce Let_def
  show ?thesis
  proof (cases ce)
    case (Some e)
    obtain code s2 where c: "streamErrorCode w ctx (ctx_go_error e) s1 = (code, s2)" by fastforce
    from finishStreamingFailure_streamed [OF streaming_observed [OF s1 streamErrorCode_observes [OF c]]
        pending_observed [OF p1 streamErrorCode_observes [OF c]]] Some c
    show ?thesis by (simp add: unfold)
  next
    case None
    obtain ty st where ty: "streamTerminalType (upTerminalType event) (upTerminalStatus event) = (ty, st)" by fastforce
    note t = terminal_types [OF ty]
    show ?thesis
    proof (cases "ty = ''completed''")
      case True
      with t have "st = ''succeeded''" by auto
      with True completed_streamed [OF s1 p1] None ty show ?thesis by (simp add: unfold)
    next
      case False
      with t have ty': "terminal_type ty" "ty \<noteq> ''succeeded''" by (auto simp: terminal_type_def)
      show ?thesis
      proof (cases "upErrorCode event = []")
        case True
        with finishStreamingFailure_streamed [OF s1 p1] False None ty show ?thesis by (simp add: unfold)
      next
        case code: False
        show ?thesis
        proof (cases "streamFailureEvent q (int (length es)) ty st (upErrorCode event)")
          case (Inl err)
          with failure_without_ledger_streamed [OF s1, of "''INTERNAL_ERROR''"] p1 code False None ty
          show ?thesis by (simp add: unfold)
        next
          case (Inr f)
          with failed_streamed [OF s1 p1 ty' Inr] code False None ty show ?thesis by (simp add: unfold)
        qed
      qed
    qed
  qed
qed

lemma stream_loop_streamed:
  assumes "streaming q s0 es v s" "pending q s"
  shows "streamed w q s0 (stream_loop append w limit ctx q a items v (int (length es)) c k s)"
  using assms
proof (induction items arbitrary: es v c k s)
  case Nil
  obtain ce s1 where ce: "ctx_Err w ctx s = (ce, s1)" by fastforce
  note s1 = streaming_observed [OF Nil(1) ctx_Err_observes [OF ce]]
  note p1 = pending_observed [OF Nil(2) ctx_Err_observes [OF ce]]
  show ?case
  proof (cases ce)
    case None
    then show ?thesis using ce finishStreamingFailure_streamed [OF s1 p1] by simp
  next
    case (Some e)
    obtain code s2 where c: "streamErrorCode w ctx (ctx_go_error e) s1 = (code, s2)" by fastforce
    from finishStreamingFailure_streamed [OF streaming_observed [OF s1 streamErrorCode_observes [OF c]]
        pending_observed [OF p1 streamErrorCode_observes [OF c]]] Some c ce
    show ?thesis by simp
  qed
next
  case (Cons item items)
  show ?case
  proof (cases item)
    case (Inl err)
    obtain code s1 where c: "streamErrorCode w ctx err s = (code, s1)" by fastforce
    from finishStreamingFailure_streamed [OF streaming_observed [OF Cons.prems(1) streamErrorCode_observes [OF c]]
        pending_observed [OF Cons.prems(2) streamErrorCode_observes [OF c]]] Inl c
    show ?thesis by simp
  next
    case (Inr event)
    show ?thesis
    proof (cases "upPayload event")
      case (RawJSON json)
      let ?chunk = "chunk_event q (int (length es)) c (upPayload event)"
      let ?e = "ledger_chunk q a k c (upPayload event)"
      obtain ok s1 where app: "ledger_append append w ?e s = (ok, s1)" by fastforce
      have s1: "streaming q s0 es v s1"
        by (rule streaming_append [OF Cons.prems(1) app]) (simp add: ledger_chunk_def)
      have p1: "pending q s1"
        by (rule pending_chunk [OF streaming_inv [OF Cons.prems(1)] Cons.prems(2) app]) (simp_all add: ledger_chunk_def terminal_type_def)
      consider (invalid) "ValidateInvocationResultStreamEventV2 ?chunk \<noteq> None"
        | (unrecorded) "ValidateInvocationResultStreamEventV2 ?chunk = None" "\<not> ok"
        | (recorded) "ValidateInvocationResultStreamEventV2 ?chunk = None" ok by blast
      then show ?thesis
      proof cases
        case invalid
        then show ?thesis using finishStreamingFailure_streamed [OF Cons.prems] Inr RawJSON by simp
      next
        case unrecorded
        obtain r s2 where ct: "contextTerminal w ctx s1 = (r, s2)" by fastforce
        note s2 = streaming_observed [OF s1 contextTerminal_observes [OF ct]]
        note p2 = pending_observed [OF p1 contextTerminal_observes [OF ct]]
        show ?thesis
          using finishStreamingFailure_streamed [OF s2 p2] p2 failure_without_ledger_streamed [OF s2, of "''DEPENDENCY_ERROR''" w]
            unrecorded app ct Inr RawJSON by (simp split: option.splits)
      next
        case recorded
        show ?thesis
        proof (cases "stream_Accept v ?chunk")
          case (Inl err)
          then show ?thesis using finishStreamingFailure_streamed [OF s1 p1] recorded app Inr RawJSON by simp
        next
          case acc: (Inr v')
          obtain err s2 where wr: "stream_Write w limit ?chunk s1 = (err, s2)" by fastforce
          have s2: "streaming q s0 (es @ [?chunk]) v' s2"
            by (rule streaming_next [OF s1 acc _ wr]) (simp add: chunk_event_def stream_event_of_def)
          note p2 = pending_written [OF p1 wr]
          have len: "int (length es) + 1 = int (length (es @ [?chunk]))" by simp
          show ?thesis
          proof (cases err)
            case None
            then show ?thesis
              using stream_terminal_streamed [OF s2 p2, of w limit ctx a event "k + 1"]
                Cons.IH [OF s2 p2, of "c + 1" "k + 1"] recorded app acc wr Inr RawJSON by (simp add: add.commute)
          next
            case (Some e)
            obtain code s3 where code: "streamWriteErrorCode w ctx e s2 = (code, s3)" by fastforce
            note s3 = streaming_observed [OF s2 streamWriteErrorCode_observes [OF code]]
            from finishStreamingFailure_streamed [OF s3 pending_observed [OF p2 streamWriteErrorCode_observes [OF code]]] show ?thesis
              using Some code recorded app acc wr Inr RawJSON by simp
          qed
        qed
      qed
    qed (use finishStreamingFailure_streamed [OF Cons.prems] Inr in simp_all)
  qed
qed

end

lemma stream_Write_uncommitted:
  "stream_Write w limit e s = (err, s') \<Longrightarrow> \<not> dsCommitted s' \<Longrightarrow> dsReplies s' = dsReplies s \<and> dsLedger s' = dsLedger s"
  by (auto simp: stream_Write_def Let_def split: option.splits if_splits write_outcome.splits)

lemma valid_event_ids:
  assumes "ValidateInvocationEventV03 strict e = None"
  shows "safe_identifier (evInvocationID e)" "safe_identifier (evRootTaskID e)" "safe_identifier (evTraceID e)"
  using valid_event_schema [OF assms] by (simp_all add: event_members_schema_def)

lemma accepted_frame:
  assumes "safe_identifier (dqInvocationID q)" "safe_identifier (dqRootTaskID q)" "safe_identifier (dqTraceID q)"
  shows "NewRuntimeResultStreamSequenceValidator (Some c) (dqInvocationID q) (dqRootTaskID q) (dqTraceID q) = Inr (base_validator q)"
    and "\<exists>v. stream_Accept (base_validator q) (stream_event_of q 0 ''accepted'' ''pending'') = Inr v"
  using assms
  by (auto simp: NewRuntimeResultStreamSequenceValidator_def stream_validator_of_def validateSafeContractIdentifier_def
      ParseTraceID_def stream_Accept_Inr ValidateInvocationResultStreamEventV2_def stream_event_schema_def stream_shape_def
      stream_event_of_def encodable_def raw_present_def nonnegative_def validateRuntimeNestedErrorCorrelation_def)

context invocation_ledger
begin

lemma initial_ids:
  assumes "inv (dsLedger s)" "history (dsLedger s) (dqInvocationID q) = h @ map stored (initialEvents q a True)"
  shows "safe_identifier (dqInvocationID q)" "safe_identifier (dqRootTaskID q)" "safe_identifier (dqTraceID q)"
proof -
  let ?e = "stored (lifecycleEvent q 0 ''created'' ''pending'' a)"
  have "?e \<in> set (history (dsLedger s) (dqInvocationID q))" using assms(2) by (simp add: initialEvents_def)
  then have "ValidateInvocationEventV03 strict ?e = None"
    using history_lifecycle [OF assms(1), of "dqInvocationID q"] by (auto simp: well_formed_lifecycle_def list_all_iff)
  from valid_event_ids [OF this]
  show "safe_identifier (dqInvocationID q)" "safe_identifier (dqRootTaskID q)" "safe_identifier (dqTraceID q)"
    by (simp_all add: stored_def lifecycleEvent_def)
qed

lemma accept_failure_answered:
  assumes s: "advances (dqInvocationID q) s0 s" "dsReplies s = dsReplies s0"
    and app: "appendStreamingTerminal append w q 3 a lat code ''failed'' ''failed'' s = (ok, s')"
  shows "answered (dqInvocationID q) s0 (writeCorrelatedError q (if ok then code else ''DEPENDENCY_ERROR'') s')"
proof -
  obtain t s1 where t: "terminalOccurredAt w a 3 s = (t, s1)" by fastforce
  have s1: "advances (dqInvocationID q) s0 s1" "dsReplies s1 = dsReplies s0"
    using s terminalOccurredAt_observes [OF t] advances_observed by (auto simp: observes_def)
  have "writeCorrelatedError q (if ok then code else ''DEPENDENCY_ERROR'') s' =
      record_failure append w q (terminalLifecycleEvent q 3 ''failed'' ''failed'' t lat code) code s1"
    using app t by (auto simp: appendStreamingTerminal_def record_failure_def split: sum.splits prod.splits bool.splits)
  with record_failure_answered [where n = 3 and ty = "''failed''" and st = "''failed''" and t = t and lat = lat
      and code = code and w = w, OF s1 refl] show ?thesis by (simp add: terminal_type_def)
qed

lemma dispatchStreaming_run:
  assumes inv: "inv (dsLedger s)"
  shows "streamed w q s (dispatchStreamingWithLedger append w tp limit ctx q res s) \<or>
    answered (dqInvocationID q) s (dispatchStreamingWithLedger append w tp limit ctx q res s)"
proof -
  let ?i = "dqInvocationID q" and ?acc = "stream_event_of q 0 ''accepted'' ''pending''"
  obtain now s1 where now: "time_Now w s = (now, s1)" by fastforce
  define a where "a = time_Truncate now Microsecond"
  obtain ok s2 where init: "appendInitialLedgerEventsMode append w ctx q a (dqParentInvocationID q \<noteq> []) (initialEvents q a True) s1 = (ok, s2)"
    by fastforce
  have o1: "observes s s1" by (rule time_Now_observes [OF now])
  have s1: "advances ?i s s1" "dsReplies s1 = dsReplies s" "inv (dsLedger s1)"
    using observed_advances [OF inv o1] o1 inv by (simp_all add: observes_def)
  have "list_all (\<lambda>e. evInvocationID e = ?i) (initialEvents q a True)" by (simp add: initialEvents_def)
  note run = appendInitial_run [OF init s1(3) this]
  note unfold = dispatchStreamingWithLedger_def now a_def [symmetric] Let_def init
  show ?thesis
  proof (cases ok)
    case False
    then have "answered ?i s1 s2" using run by simp
    with s1(1,2) have "answered ?i s s2" by (auto simp: answered_def intro: advances_trans)
    with False show ?thesis by (simp add: unfold)
  next
    case True
    then have s2: "advances ?i s s2" "dsReplies s2 = dsReplies s" "inv (dsLedger s2)"
      and ids: "safe_identifier (dqInvocationID q)" "safe_identifier (dqRootTaskID q)" "safe_identifier (dqTraceID q)"
      using run s1 advances_trans [OF s1(1)] initial_ids [of s2 q "history (dsLedger s1) ?i" a] by (auto simp: advances_def)
    have "history (dsLedger s2) ?i = history (dsLedger s1) ?i @ map stored (initialEvents q a True)" using run True by simp
    then have p2: "pending q s2" by (simp add: pending_def unfinished_def initialEvents_def terminal_type_def)
    obtain v where v: "stream_Accept (base_validator q) ?acc = Inr v" using accepted_frame(2) [OF ids] by blast
    note unfold' = unfold accepted_frame(1) [OF ids] v
    let ?s3 = "s2\<lparr>dsTraceHeader := dqTraceID q\<rparr>"
    obtain err s4 where wr: "stream_Write w limit ?acc ?s3 = (err, s4)" by fastforce
    have s4: "streaming q s [?acc] v s4"
      using stream_Write_run [OF wr] s2 v
      by (auto simp: streaming_def advances_def open_stream_def stream_event_of_def)
    have p4: "pending q s4" by (rule pending_written [OF _ wr]) (use p2 in \<open>simp add: pending_def\<close>)
    show ?thesis
    proof (cases "newResultStreamWriter (wFlusher w) limit")
      case nw: False
      obtain ok' s3 where app: "appendStreamingTerminal append w q 3 a 0 ''DEPENDENCY_ERROR'' ''failed'' ''failed'' s2 = (ok', s3)" by fastforce
      from accept_failure_answered [OF s2(1,2) app] show ?thesis using nw True app by (simp add: unfold' split: if_splits)
    next
      case nw: True
      show ?thesis
      proof (cases err)
        case None
        from stream_loop_streamed [OF s4 p4] show ?thesis using None nw True wr by (simp add: unfold')
      next
        case (Some e)
        obtain code s5 where code: "streamWriteErrorCode w ctx e s4 = (code, s5)" by fastforce
        note o5 = streamWriteErrorCode_observes [OF code]
        show ?thesis
        proof (cases "dsCommitted s5")
          case c: True
          from finishStreamingFailure_streamed [OF streaming_observed [OF s4 o5] pending_observed [OF p4 o5]]
          show ?thesis using c Some nw True wr code by (simp add: unfold')
        next
          case c: False
          then have "dsReplies s4 = dsReplies s" "dsLedger s4 = dsLedger s2"
            using stream_Write_uncommitted [OF wr] o5 s2(2) by (auto simp: observes_def)
          then have s5: "advances ?i s s5" "dsReplies s5 = dsReplies s"
            using s2(1) o5 by (auto simp: observes_def advances_def)
          obtain ok' s6 where app: "appendStreamingTerminal append w q 3 a 0 code ''failed'' ''failed'' s5 = (ok', s6)" by fastforce
          from accept_failure_answered [OF s5 app] show ?thesis
            using c Some nw True wr code app by (cases ok') (simp_all add: unfold')
        qed
      qed
    qed
  qed
qed

text \<open>The whole handler only touches the invocation of a validated request.\<close>

lemma streamed_advances: "streamed w q s s' \<Longrightarrow> advances (dqInvocationID q) s s'"
  by (simp add: streamed_def)

lemma answered_advances: "answered i s s' \<Longrightarrow> advances i s s'"
  by (simp add: answered_def)

lemma dispatch_resolved_advances:
  assumes "inv (dsLedger s)" "dhLedger handler = None \<or> dhLedger handler = Some append"
  shows "advances (dqInvocationID q) s (dispatch_resolved handler w ctx started q res s)"
proof -
  have same: "advances (dqInvocationID q) s s'" if "dsLedger s' = dsLedger s" for s' :: "'l dispatch_state"
    using assms(1) that by (rule advances_same)
  have st: "advances (dqInvocationID q) s (dispatchStreamingWithLedger append w tp limit ctx' q res s)" for tp limit ctx'
    using dispatchStreaming_run [OF assms(1), of w q tp limit ctx' res] by (elim disjE) (rule streamed_advances answered_advances, assumption)+
  note ns = answered_advances [OF nonstreaming_answered [OF assms(1)]]
  show ?thesis
    using assms(2) by (elim disjE) (simp_all add: dispatch_resolved_def same ns st split: option.split sum.split)
qed

lemma DispatchChild_advances:
  assumes inv: "inv (dsLedger s)" and "dhLedger handler = None \<or> dhLedger handler = Some append"
  shows "advances (dqInvocationID q) s (DispatchChild strict' handler w parent q accept s)"
proof -
  have "advances (dqInvocationID q) s (dispatch_resolved handler w ctx a q res (tick (tick s)))" for ctx a res
    using dispatch_resolved_advances [of "tick (tick s)" handler q w ctx a res] assms by (simp add: advances_def)
  moreover have "advances (dqInvocationID q) s s'" if "dsLedger s' = dsLedger s" for s' :: "'l dispatch_state"
    using inv that by (rule advances_same)
  ultimately show ?thesis
    by (auto simp: DispatchChild_def time_Now_def Let_def split: sum.splits resolve_error.splits)
qed

lemma dispatch_advances:
  assumes inv: "inv (dsLedger s)" and "dhLedger handler = None \<or> dhLedger handler = Some append"
  shows "dsLedger (dispatch strict' scan dec handler w hq s) = dsLedger s \<or>
    (\<exists>q. readRequest scan dec (dhRequestLimit handler) hq = Inr q \<and> validateDispatch strict' q \<and>
      advances (dqInvocationID q) s (dispatch strict' scan dec handler w hq s))"
proof -
  have "advances (dqInvocationID q) s (dispatch_resolved handler w ctx a q res (tick (tick s)))" for q ctx a res
    using dispatch_resolved_advances [of "tick (tick s)" handler q w ctx a res] assms by (simp add: advances_def)
  then show ?thesis
    by (auto simp: dispatch_def time_Now_def Let_def split: sum.splits resolve_error.splits if_splits)
qed

end

end
