(* ===== verification/Dispatch_Writes.thy ===== *)
theory Dispatch_Writes
  imports Dispatch_Stream
begin

text \<open>
  What the dispatch handler writes to the ledger: every event it appends, on every path and whatever fails,
  is an event of the request it serves, with the identifiers, the caller, the agent, the version, the
  Release and the capability of that request.
\<close>

section \<open>Events of a request\<close>

definition of_request :: "dispatch_request \<Rightarrow> invocation_event \<Rightarrow> bool" where
  "of_request q e \<longleftrightarrow> evInvocationID e = dqInvocationID q \<and> evRootTaskID e = dqRootTaskID q \<and>
     evParentInvocationID e = dqParentInvocationID q \<and> evTraceID e = dqTraceID q \<and> evCaller e = dqCaller q \<and>
     evWorkspaceID e = dqWorkspaceID q \<and> evTargetAgentID e = dqTargetAgentID q \<and>
     evAgentCardVersion e = dqAgentCardVersion q \<and> evAgentReleaseID e = dqAgentReleaseID q \<and>
     evAgentCardDigest e = dqAgentCardDigest q \<and> evCapability e = dqCapability q"

lemma of_request_built [simp]:
  "of_request q (lifecycleEvent q n ty st t)" "of_request q (e\<lparr>evLatencyMS := x\<rparr>) \<longleftrightarrow> of_request q e"
  "of_request q (e\<lparr>evError := y\<rparr>) \<longleftrightarrow> of_request q e" "of_request q (ledger_chunk q a n i raw)"
  "of_request q (stored e) \<longleftrightarrow> of_request q e"
  by (simp_all add: of_request_def lifecycleEvent_def ledger_chunk_def stored_def)

lemma of_request_terminal: "terminalLifecycleEvent q n ty st t l code = Inr e \<Longrightarrow> of_request q e"
  by (auto simp: terminalLifecycleEvent_def)

lemma of_request_initial: "e \<in> set (initialEvents q a b) \<Longrightarrow> of_request q e"
  by (auto simp: initialEvents_def split: if_splits)

section \<open>Ledgers reached by appends\<close>

inductive appended :: "('env \<Rightarrow> 'l \<Rightarrow> invocation_event \<Rightarrow> 'e option \<times> 'l) \<Rightarrow> dispatch_request \<Rightarrow> 'l \<Rightarrow> 'l \<Rightarrow> bool"
  for app q l where
  appended_none: "appended app q l l"
| appended_next: "appended app q l l1 \<Longrightarrow> of_request q e \<Longrightarrow> app env l1 e = (r, l2) \<Longrightarrow> appended app q l l2"

lemma appended_ledger_append:
  "ledger_append app w e s = (ok, s') \<Longrightarrow> appended app q l (dsLedger s) \<Longrightarrow> of_request q e \<Longrightarrow> appended app q l (dsLedger s')"
  by (auto simp: ledger_append_def split: prod.splits intro: appended_next)

lemma observed_ledger:
  "time_Now w s = (t, s') \<Longrightarrow> dsLedger s' = dsLedger s" "time_Since w a s = (d, s') \<Longrightarrow> dsLedger s' = dsLedger s"
  "terminalOccurredAt w a n s = (t, s') \<Longrightarrow> dsLedger s' = dsLedger s" "ctx_Err w ctx s = (e, s') \<Longrightarrow> dsLedger s' = dsLedger s"
  "contextTerminal w ctx s = (r, s') \<Longrightarrow> dsLedger s' = dsLedger s" "streamErrorCode w ctx err s = (c, s') \<Longrightarrow> dsLedger s' = dsLedger s"
  "streamWriteErrorCode w ctx err s = (c, s') \<Longrightarrow> dsLedger s' = dsLedger s"
  by (metis time_Now_observes observes_def, metis time_Since_observes observes_def, metis terminalOccurredAt_observes observes_def,
      metis ctx_Err_observes observes_def, metis contextTerminal_observes observes_def, metis streamErrorCode_observes observes_def,
      metis streamWriteErrorCode_observes observes_def)

lemma stream_Write_ledger: "stream_Write w limit e s = (r, s') \<Longrightarrow> dsLedger s' = dsLedger s"
  by (auto simp: stream_Write_def Let_def split: option.splits if_splits write_outcome.splits)

lemma emit_terminal_ledger [simp]: "dsLedger (emit_terminal w limit v e s) = dsLedger s"
  by (auto simp: emit_terminal_def dest: stream_Write_ledger split: sum.splits prod.splits option.splits)

lemma withoutLedger_ledger [simp]: "dsLedger (finishStreamingFailureWithoutLedger w limit v q n code s) = dsLedger s"
  by (auto simp: finishStreamingFailureWithoutLedger_def split: prod.splits sum.splits)

lemma appended_initial:
  "appendInitialLedgerEventsMode app w ctx q a child events s = (ok, s') \<Longrightarrow> appended app q l (dsLedger s) \<Longrightarrow>
     \<forall>e\<in>set events. of_request q e \<Longrightarrow> appended app q l (dsLedger s')"
proof (induction app w ctx q a child events s arbitrary: ok s' rule: appendInitialLedgerEventsMode.induct)
  case (2 app w ctx q a child event events s)
  obtain ok1 s1 where first: "ledger_append app w event s = (ok1, s1)" by fastforce
  have s1: "appended app q l (dsLedger s1)" using appended_ledger_append [OF first "2.prems"(2)] "2.prems"(3) by simp
  show ?case
  proof (cases ok1)
    case True
    show ?thesis using "2.IH" [OF first [symmetric]] True s1 "2.prems" first by simp
  next
    case False
    then show ?thesis
      using "2.prems"(1) first s1
      by (auto simp: Let_def dest!: observed_ledger dest: appended_ledger_append of_request_terminal
          split: prod.splits if_splits option.splits sum.splits bool.splits)
  qed
qed simp

lemma appended_record_failure:
  assumes "appended app q l (dsLedger s)" "\<And>e. built = Inr e \<Longrightarrow> of_request q e"
  shows "appended app q l (dsLedger (record_failure app w q built code s))"
  using assms
  by (auto simp: record_failure_def dest: appended_ledger_append split: sum.splits prod.splits bool.splits)

lemma appended_nonstreaming:
  assumes "appended app q l (dsLedger s)"
  shows "appended app q l (dsLedger (dispatchNonStreamingWithLedger app w tp ctx q res targetErr s))"
proof -
  obtain now s1 where now: "time_Now w s = (now, s1)" by fastforce
  define a where "a = time_Truncate now Microsecond"
  define started where "started = (targetErr = None)"
  obtain ok s2 where init: "appendInitialLedgerEventsMode app w ctx q a (dqParentInvocationID q \<noteq> []) (initialEvents q a started) s1 = (ok, s2)"
    by fastforce
  have s2: "appended app q l (dsLedger s2)"
    using appended_initial [OF init] observed_ledger(1) [OF now] assms of_request_initial by auto
  note unfold = dispatchNonStreamingWithLedger_def now a_def [symmetric] Let_def
  show ?thesis
  proof (cases targetErr)
    case (Some err)
    then have "appendInitialLedgerEventsMode app w ctx q a (dqParentInvocationID q \<noteq> []) (initialEvents q a False) s1 = (ok, s2)"
      using init by (simp add: started_def)
    note unfold = unfold this
    obtain t s3 where t: "terminalOccurredAt w a 2 s2 = (t, s3)" by fastforce
    show ?thesis
      using s2 observed_ledger(3) [OF t] by (cases ok) (simp_all add: unfold Some t appended_record_failure of_request_terminal)
  next
    case None
    then have "appendInitialLedgerEventsMode app w ctx q a (dqParentInvocationID q \<noteq> []) (initialEvents q a True) s1 = (ok, s2)"
      using init by (simp add: started_def)
    note unfold = unfold this
    obtain err s3 where sent: "(case tpSendNonStreaming tp q res of Inl e \<Rightarrow> (Some e, s2)
        | Inr _ \<Rightarrow> (case ctx_Err w ctx s2 of (ce, s3) \<Rightarrow> (map_option ctx_go_error ce, s3))) = (err, s3)" by fastforce
    obtain d s4 where d: "time_Since w a s3 = (d, s4)" by fastforce
    obtain t s5 where t: "terminalOccurredAt w a 3 s4 = (t, s5)" by fastforce
    have s5: "appended app q l (dsLedger s5)"
      using s2 sent observed_ledger(2) [OF d] observed_ledger(3) [OF t]
      by (auto dest!: observed_ledger(4) split: sum.splits prod.splits)
    obtain ty st where ty: "streamFailureType (dispatchErrorCode (the err)) = (ty, st)" by fastforce
    obtain ok' s6 where fin: "ledger_append app w ((lifecycleEvent q 3 ''succeeded'' ''succeeded'' t)\<lparr>evLatencyMS := Some (Milliseconds d)\<rparr>) s5 = (ok', s6)"
      by fastforce
    have s6: "appended app q l (dsLedger s6)" by (rule appended_ledger_append [OF fin s5]) simp
    show ?thesis
      using s2 s5 s6 ty
      by (cases ok; cases err; cases ok') (simp_all add: unfold None sent d t fin appended_record_failure of_request_terminal)
  qed
qed

lemma appended_streaming_terminal:
  assumes "appendStreamingTerminal app w q n a latency code ty st s = (ok, s')" "appended app q l (dsLedger s)"
  shows "appended app q l (dsLedger s')"
  using assms
  by (auto simp: appendStreamingTerminal_def dest!: observed_ledger dest: appended_ledger_append of_request_terminal
      split: prod.splits sum.splits)

lemma appended_finish:
  assumes "appended app q l (dsLedger s)"
  shows "appended app q l (dsLedger (finishStreamingFailure app w limit v q a n m code s))"
  using assms
  by (auto simp: finishStreamingFailure_def dest!: observed_ledger dest: appended_streaming_terminal
      split: prod.splits sum.splits bool.splits)

lemma appended_stream_terminal:
  fixes s :: "'l dispatch_state"
  assumes "appended app q l (dsLedger s)"
  shows "appended app q l (dsLedger (stream_terminal app w limit ctx q a event v n m s))"
proof -
  obtain e s1 where e: "ctx_Err w ctx s = (e, s1)" by fastforce
  have s1: "appended app q l (dsLedger s1)" using assms observed_ledger(4) [OF e] by simp
  obtain ty st where ty: "streamTerminalType (upTerminalType event) (upTerminalStatus event) = (ty, st)" by fastforce
  note unfold = stream_terminal_def e ty Let_def
  have deliver: "dsLedger (case stream_Accept v terminal of
        Inl _ \<Rightarrow> finishStreamingFailureWithoutLedger w limit v q n code s
      | Inr _ \<Rightarrow> (case stream_Write w limit terminal s of (Some _, s') \<Rightarrow> cancel s' | (None, s') \<Rightarrow> s')) = dsLedger s" for terminal code and s :: "'l dispatch_state"
    by (auto dest: stream_Write_ledger split: sum.split prod.split option.split)
  show ?thesis
  proof (cases e)
    case (Some c)
    obtain code s2 where "streamErrorCode w ctx (ctx_go_error c) s1 = (code, s2)" by fastforce
    then show ?thesis using s1 observed_ledger(6) by (fastforce simp: unfold Some intro: appended_finish)
  next
    case None
    show ?thesis
    proof (cases "ty = ''completed''")
      case True
      obtain t s2 where t: "terminalOccurredAt w a m s1 = (t, s2)" by fastforce
      obtain d s3 where d: "time_Since w a s2 = (d, s3)" by fastforce
      obtain ok s4 where app: "ledger_append app w ((lifecycleEvent q m ''succeeded'' ''succeeded'' t)\<lparr>evLatencyMS := Some (Milliseconds d)\<rparr>) s3 = (ok, s4)"
        by fastforce
      have "appended app q l (dsLedger s4)"
        by (rule appended_ledger_append [OF app]) (simp_all add: observed_ledger(2) [OF d] observed_ledger(3) [OF t] s1)
      then show ?thesis using deliver by (cases ok) (simp_all add: unfold None True t d app)
    next
      case False
      obtain d s2 where d: "time_Since w a s1 = (d, s2)" by fastforce
      obtain ok s3 where app: "appendStreamingTerminal app w q m a (Milliseconds d) (upErrorCode event) ty st s2 = (ok, s3)" by fastforce
      have "appended app q l (dsLedger s3)"
        by (rule appended_streaming_terminal [OF app]) (simp add: observed_ledger(2) [OF d] s1)
      then show ?thesis
        using deliver s1 by (cases ok) (simp_all add: unfold None False d app appended_finish split: sum.split)
    qed
  qed
qed

lemma appended_stream_loop:
  "appended app q l (dsLedger s) \<Longrightarrow> appended app q l (dsLedger (stream_loop app w limit ctx q a items v n i m s))"
proof (induction app w limit ctx q a items v n i m s rule: stream_loop.induct)
  case (3 app w limit ctx q a event items v n i m s)
  show ?case
  proof (cases "upPayload event")
    case (RawJSON json)
    let ?chunk = "chunk_event q n i (upPayload event)"
    obtain ok s1 where first: "ledger_append app w (ledger_chunk q a m i (upPayload event)) s = (ok, s1)" by fastforce
    have s1: "appended app q l (dsLedger s1)" using appended_ledger_append [OF first "3.prems"] by simp
    show ?thesis
    proof (cases "ok \<and> ValidateInvocationResultStreamEventV2 ?chunk = None \<and> \<not> isl (stream_Accept v ?chunk)")
      case True
      then obtain v' where v': "stream_Accept v ?chunk = Inr v'" by (cases "stream_Accept v ?chunk") auto
      obtain err s2 where wr: "stream_Write w limit ?chunk s1 = (err, s2)" by fastforce
      have s2: "appended app q l (dsLedger s2)" using s1 stream_Write_ledger [OF wr] by simp
      show ?thesis
        using "3.IH" [OF RawJSON refl refl _ first [symmetric]] True RawJSON first v' wr s2
        by (cases err) (auto simp: Let_def dest!: observed_ledger intro: appended_stream_terminal appended_finish split: prod.splits)
    next
      case False
      then show ?thesis
        using RawJSON first s1 "3.prems"
        by (auto simp: Let_def isl_def dest!: observed_ledger intro: appended_finish split: prod.splits option.splits bool.splits sum.splits)
    qed
  qed (use "3.prems" in \<open>simp_all add: appended_finish\<close>)
qed (auto dest!: observed_ledger intro: appended_finish split: prod.splits option.splits)

lemma appended_streaming:
  assumes "appended app q l (dsLedger s)"
  shows "appended app q l (dsLedger (dispatchStreamingWithLedger app w tp limit ctx q res s))"
proof -
  let ?acc = "stream_event_of q 0 ''accepted'' ''pending''"
  obtain now s1 where now: "time_Now w s = (now, s1)" by fastforce
  define a where "a = time_Truncate now Microsecond"
  obtain ok s2 where init: "appendInitialLedgerEventsMode app w ctx q a (dqParentInvocationID q \<noteq> []) (initialEvents q a True) s1 = (ok, s2)"
    by fastforce
  have s2: "appended app q l (dsLedger s2)"
    using appended_initial [OF init] observed_ledger(1) [OF now] assms of_request_initial by auto
  obtain ok3 s3 where app3: "appendStreamingTerminal app w q 3 a 0 ''DEPENDENCY_ERROR'' ''failed'' ''failed'' s2 = (ok3, s3)" by fastforce
  have s3: "appended app q l (dsLedger s3)" by (rule appended_streaming_terminal [OF app3 s2])
  obtain err s4 where wr: "stream_Write w limit ?acc (s2\<lparr>dsTraceHeader := dqTraceID q\<rparr>) = (err, s4)" by fastforce
  have s4: "appended app q l (dsLedger s4)" using s2 stream_Write_ledger [OF wr] by simp
  obtain code s5 where code: "streamWriteErrorCode w ctx (the err) s4 = (code, s5)" by fastforce
  have s5: "appended app q l (dsLedger s5)" using s4 observed_ledger(7) [OF code] by simp
  obtain ok6 s6 where app6: "appendStreamingTerminal app w q 3 a 0 code ''failed'' ''failed'' s5 = (ok6, s6)" by fastforce
  have s6: "appended app q l (dsLedger s6)" by (rule appended_streaming_terminal [OF app6 s5])
  show ?thesis
    using s2 s3 s4 s5 s6 code app6
    by (cases ok; cases err; cases ok6) (simp_all add: dispatchStreamingWithLedger_def now init a_def [symmetric] Let_def app3 wr
        appended_finish appended_stream_loop split: sum.split)
qed

lemma appended_resolved:
  assumes "appended app q l (dsLedger s)" "dhLedger handler = None \<or> dhLedger handler = Some app"
  shows "appended app q l (dsLedger (dispatch_resolved handler w ctx started q res s))"
  using assms by (auto simp: dispatch_resolved_def appended_nonstreaming appended_streaming split: option.split sum.split)

text \<open>The ledger changes only after the agent was resolved, to the Release the request names.\<close>

definition resolved_for :: "('env, 'l, 'e) dispatch_handler \<Rightarrow> dispatch_request \<Rightarrow> bool" where
  "resolved_for handler q \<longleftrightarrow> (\<exists>res. dhResolve handler q = Inr res \<and> validateResolvedReleaseProvenance q res)"

lemma DispatchChild_writes:
  assumes "dhLedger handler = None \<or> dhLedger handler = Some app"
  shows "dsLedger (DispatchChild strict handler w parent q accept s) = dsLedger s \<or>
    validateChildDispatch strict q \<and> resolved_for handler q \<and>
    appended app q (dsLedger s) (dsLedger (DispatchChild strict handler w parent q accept s))"
  using appended_resolved [OF _ assms, of q "dsLedger s" "tick (tick s)"]
  by (auto simp: DispatchChild_def time_Now_def Let_def resolved_for_def appended_none split: sum.splits resolve_error.splits)

lemma dispatch_writes:
  assumes "dhLedger handler = None \<or> dhLedger handler = Some app"
  shows "dsLedger (dispatch strict scan dec handler w hq s) = dsLedger s \<or>
    (\<exists>q. readRequest scan dec (dhRequestLimit handler) hq = Inr q \<and> validateDispatch strict q \<and> resolved_for handler q \<and>
      appended app q (dsLedger s) (dsLedger (dispatch strict scan dec handler w hq s)))"
  using appended_resolved [OF _ assms, of _ "dsLedger s" "tick (tick s)"]
  by (auto simp: dispatch_def time_Now_def Let_def resolved_for_def appended_none split: sum.splits resolve_error.splits if_splits)

section \<open>Histories\<close>

context invocation_ledger
begin

lemma appended_history:
  assumes "appended append q l l'" "inv l"
  shows "inv l' \<and> (\<exists>es. history l' (dqInvocationID q) = history l (dqInvocationID q) @ es \<and> (\<forall>e\<in>set es. of_request q e)) \<and>
    (\<forall>i. i \<noteq> dqInvocationID q \<longrightarrow> history l' i = history l i)"
  using assms
proof (induction rule: appended.induct)
  case (appended_next l1 e env r l2)
  then have IH: "inv l1" "\<forall>i. i \<noteq> dqInvocationID q \<longrightarrow> history l1 i = history l i" by blast+
  obtain es where es: "history l1 (dqInvocationID q) = history l (dqInvocationID q) @ es" "\<forall>e\<in>set es. of_request q e"
    using appended_next by blast
  have id: "evInvocationID e = dqInvocationID q" using appended_next(2) by (simp add: of_request_def)
  have "\<exists>es'. history l2 (dqInvocationID q) = history l1 (dqInvocationID q) @ es' \<and> (\<forall>e\<in>set es'. of_request q e)"
    using append_result [OF IH(1) appended_next(3)] appended_next(2) unfolding id
    by (metis append_Nil2 empty_iff list.set(1) of_request_built(5) set_ConsD)
  then obtain es' where "history l2 (dqInvocationID q) = history l1 (dqInvocationID q) @ es'" "\<forall>e\<in>set es'. of_request q e" by blast
  with es have "history l2 (dqInvocationID q) = history l (dqInvocationID q) @ (es @ es')" "\<forall>e\<in>set (es @ es'). of_request q e" by auto
  moreover have "inv l2" by (rule append_inv [OF IH(1) appended_next(3)])
  moreover have "\<forall>i. i \<noteq> dqInvocationID q \<longrightarrow> history l2 i = history l i"
    using append_other [OF IH(1) appended_next(3)] IH(2) id by metis
  ultimately show ?case by blast
qed auto

end

end
