(* ===== verification/Nested.thy ===== *)
theory Nested
  imports Resolution Dispatch_Writes
begin

text \<open>
  Invocations started by agents: the authentication of an agent by its bearer credential (\<^verbatim>\<open>nested/binding.go\<close>),
  the context a child invocation inherits from its parent (\<^verbatim>\<open>nested/context.go\<close>) and the handler of the agent
  boundary (\<^verbatim>\<open>api/agent_invocation_handler.go\<close>), which ends in \<^const>\<open>DispatchChild\<close>.
\<close>

section \<open>Agent credentials\<close>

record agent_principal =
  apWorkspaceID :: string
  apAgentID :: string
  apTokenSHA256 :: string

record authenticated_agent =
  aaWorkspaceID :: string
  aaAgentID :: string

text \<open>The loop of \<^verbatim>\<open>NewAgentBinding\<close> with the two maps built so far; the binding is the map from digests.\<close>

fun binding_loop ::
    "(string \<times> authenticated_agent) list \<Rightarrow> authenticated_agent list \<Rightarrow> agent_principal list \<Rightarrow>
     (string \<times> authenticated_agent) list option" where
  "binding_loop digests identities [] = Some digests" |
  "binding_loop digests identities (p # ps) =
     (if \<not> validIdentifier (apWorkspaceID p) then None
      else if \<not> validIdentifier (apAgentID p) then None
      else if (case hex_DecodeString (apTokenSHA256 p) of None \<Rightarrow> True
               | Some decoded \<Rightarrow> length decoded \<noteq> 32 \<or> apTokenSHA256 p \<noteq> map to_lower (apTokenSHA256 p)) then None
      else let identity = \<lparr>aaWorkspaceID = apWorkspaceID p, aaAgentID = apAgentID p\<rparr> in
        if identity \<in> set identities then None
        else if apTokenSHA256 p \<in> fst ` set digests then None
        else binding_loop ((apTokenSHA256 p, identity) # digests) (identity # identities) ps)"

definition NewAgentBinding :: "agent_principal list \<Rightarrow> (string \<times> authenticated_agent) list option" where
  "NewAgentBinding principals = (if principals = [] then None else binding_loop [] [] principals)"

definition CutPrefix :: "string \<Rightarrow> string \<Rightarrow> string option" where
  "CutPrefix s p = (if take (length p) s = p then Some (drop (length p) s) else None)"

text \<open>\<^verbatim>\<open>values\<close> are the values of the header \<^verbatim>\<open>Authorization\<close>. The map is ranged over in some order; its keys differ,
  so at most one entry has the digest.\<close>

definition Authenticate :: "(string \<times> authenticated_agent) list \<Rightarrow> string list \<Rightarrow> authenticated_agent option" where
  "Authenticate binding values =
     (case values of
        [v] \<Rightarrow>
          if v = [] then None
          else (case CutPrefix v ''Bearer '' of
             None \<Rightarrow> None
           | Some token \<Rightarrow>
             if token = [] \<or> TrimSpace token \<noteq> token then None
             else map_of binding (hex_EncodeToString (sha256_Sum256 token)))
      | _ \<Rightarrow> None)"

section \<open>The context of a child\<close>

datatype parent_error = ErrParentNotFound | ErrParentNotRunning | ErrParentTargetMismatch | ErrParentWorkspaceMismatch | ErrChildID

record child_context =
  ccChildInvocationID :: string
  ccParentInvocation :: invocation_record
  ccCaller :: caller
  ccWorkspaceID :: string
  ccRootTaskID :: string
  ccTraceID :: string

text \<open>\<^verbatim>\<open>newInvocationID\<close> reads sixteen random bytes.\<close>

definition newInvocationID :: "'env world \<Rightarrow> 'l dispatch_state \<Rightarrow> string option \<times> 'l dispatch_state" where
  "newInvocationID w s =
     (case wRandom w (dsTick s) of
        None \<Rightarrow> (None, tick s)
      | Some bytes \<Rightarrow> (Some (''inv_'' @ hex_EncodeToString bytes), tick s))"

definition DeriveChildContext ::
    "'env world \<Rightarrow> invocation_detail \<Rightarrow> authenticated_agent \<Rightarrow> 'l dispatch_state \<Rightarrow>
     (parent_error, child_context) result \<times> 'l dispatch_state" where
  "DeriveChildContext w parent authenticated s =
     (let p = idInvocation parent in
      if irInvocationID p = [] then (Inl ErrParentNotFound, s)
      else if irStatus p \<noteq> ''running'' then (Inl ErrParentNotRunning, s)
      else if irTargetAgentID p \<noteq> aaAgentID authenticated then (Inl ErrParentTargetMismatch, s)
      else if irWorkspaceID p \<noteq> aaWorkspaceID authenticated then (Inl ErrParentWorkspaceMismatch, s)
      else case newInvocationID w s of
        (None, s1) \<Rightarrow> (Inl ErrChildID, s1)
      | (Some childID, s1) \<Rightarrow>
        (Inr \<lparr>ccChildInvocationID = childID, ccParentInvocation = p,
           ccCaller = \<lparr>callerType = ''agent'', callerID = aaAgentID authenticated\<rparr>, ccWorkspaceID = irWorkspaceID p,
           ccRootTaskID = irRootTaskID p, ccTraceID = irTraceID p\<rparr>, s1))"

definition BuildChildDispatchRequest ::
    "child_context \<Rightarrow> string \<Rightarrow> string \<Rightarrow> raw_message \<Rightarrow> bool \<Rightarrow> string \<Rightarrow> string \<Rightarrow> string \<Rightarrow> dispatch_request" where
  "BuildChildDispatchRequest child targetAgentID capability input stream agentCardVersion agentReleaseID agentCardDigest =
     \<lparr>dqInvocationID = ccChildInvocationID child, dqRootTaskID = ccRootTaskID child,
      dqParentInvocationID = irInvocationID (ccParentInvocation child), dqTraceID = ccTraceID child, dqCaller = ccCaller child,
      dqWorkspaceID = ccWorkspaceID child, dqTargetAgentID = targetAgentID, dqAgentCardVersion = agentCardVersion,
      dqAgentReleaseID = agentReleaseID, dqAgentCardDigest = agentCardDigest, dqCapability = capability,
      dqInput = input, dqStream = stream\<rparr>"

section \<open>The handler\<close>

record nested_request =
  nqParentInvocationID :: string
  nqTargetAgentID :: string
  nqCapability :: string
  nqInput :: raw_message
  nqStream :: "bool option"

definition trustedFields :: "string list" where
  "trustedFields = [''invocationId'', ''rootTaskId'', ''traceId'', ''workspaceId'', ''caller'', ''callerType'', ''callerId'',
     ''agentCardVersion'', ''version'', ''endpoint'', ''url'', ''credential'', ''token'', ''authorization'',
     ''childInvocationId'', ''childId'']"

text \<open>\<^verbatim>\<open>memberNames\<close> gives the member names of the text as \<^verbatim>\<open>json.Unmarshal\<close> reads it into a map.\<close>

definition rejectTrustedFields :: "(string \<Rightarrow> string list option) \<Rightarrow> string \<Rightarrow> bool" where
  "rejectTrustedFields memberNames data =
     (case memberNames data of None \<Rightarrow> False | Some names \<Rightarrow> list_all (\<lambda>f. f \<notin> set names) trustedFields)"

definition readNestedRequest ::
    "(string \<Rightarrow> json_token list) \<Rightarrow> (string \<Rightarrow> string list option) \<Rightarrow> (string \<Rightarrow> (nested_request \<times> trailing) option) \<Rightarrow>
     int \<Rightarrow> http_request \<Rightarrow> (read_error, nested_request) result" where
  "readNestedRequest scan memberNames decode requestLimit request =
     (if hqContentLength request > requestLimit then Inl PayloadTooLarge
      else case map_option (take (nat (requestLimit + 1))) (hqBody request) of
        None \<Rightarrow> Inl ReadInvalid
      | Some data \<Rightarrow>
        if int (length data) > requestLimit then Inl PayloadTooLarge
        else if \<not> rejectDuplicateMembers (scan data) then Inl ReadInvalid
        else if \<not> rejectTrustedFields memberNames data then Inl ReadInvalid
        else case decode data of
          None \<Rightarrow> Inl ReadInvalid
        | Some (dto, trail) \<Rightarrow>
          if \<not> requireEOF trail then Inl ReadInvalid
          else if nqStream dto = None then Inl ReadInvalid
          else if \<not> validIdentifier (nqParentInvocationID dto) then Inl ReadInvalid
          else if \<not> validIdentifier (nqTargetAgentID dto) then Inl ReadInvalid
          else if \<not> validIdentifier (nqCapability dto) then Inl ReadInvalid
          else if \<not> json_object (nqInput dto) then Inl ReadInvalid
          else Inr dto)"

text \<open>What the handler asks of an error with \<^verbatim>\<open>errors.Is\<close> and \<^verbatim>\<open>errors.As\<close>.\<close>

record nested_error =
  neDeadline :: bool
  neCanceled :: bool
  neLedgerNotFound :: bool
  neLedgerDependency :: bool
  neFailure :: "string option"

fun ledger_error_Is :: "ledger_error \<Rightarrow> ledger_error \<Rightarrow> bool" where
  "ledger_error_Is (LedgerErrJoined a b) target \<longleftrightarrow> ledger_error_Is a target \<or> ledger_error_Is b target" |
  "ledger_error_Is (LedgerErrDependency _) target \<longleftrightarrow> (case target of LedgerErrDependency _ \<Rightarrow> True | _ \<Rightarrow> False)" |
  "ledger_error_Is (LedgerErrValidation _) target \<longleftrightarrow> (case target of LedgerErrValidation _ \<Rightarrow> True | _ \<Rightarrow> False)" |
  "ledger_error_Is LedgerErrNotFound target \<longleftrightarrow> target = LedgerErrNotFound" |
  "ledger_error_Is LedgerErrConflict target \<longleftrightarrow> target = LedgerErrConflict"

text \<open>A dependency error of the ledger unwraps to its sentinel and hides the cause.\<close>

definition of_ledger_error :: "ledger_error \<Rightarrow> nested_error" where
  "of_ledger_error err = \<lparr>neDeadline = False, neCanceled = False, neLedgerNotFound = ledger_error_Is err LedgerErrNotFound,
     neLedgerDependency = ledger_error_Is err (LedgerErrDependency []), neFailure = None\<rparr>"

definition of_resolve_error :: "resolve_error \<Rightarrow> nested_error" where
  "of_resolve_error err =
     (case err of
        ResolutionFailure st tr body code \<Rightarrow>
          \<lparr>neDeadline = False, neCanceled = False, neLedgerNotFound = False, neLedgerDependency = False, neFailure = Some code\<rparr>
      | ResolveError e \<Rightarrow>
          \<lparr>neDeadline = geDeadline e, neCanceled = geCanceled e, neLedgerNotFound = False, neLedgerDependency = False, neFailure = None\<rparr>)"

definition classifyNestedError ::
    "'env world \<Rightarrow> time \<Rightarrow> nested_error \<Rightarrow> string \<Rightarrow> 'l dispatch_state \<Rightarrow> string \<times> 'l dispatch_state" where
  "classifyNestedError w ctx err fallback s =
     (case ctx_Err w ctx s of (e1, s1) \<Rightarrow>
      if e1 = Some CtxDeadlineExceeded then (''TIMEOUT'', s1)
      else case ctx_Err w ctx s1 of (e2, s2) \<Rightarrow>
        if e2 = Some CtxCanceled then (''CANCELED'', s2)
        else if neDeadline err then (''TIMEOUT'', s2)
        else if neCanceled err then (''CANCELED'', s2)
        else if neLedgerDependency err then (''DEPENDENCY_ERROR'', s2)
        else case neFailure err of Some code \<Rightarrow> (mapControlPlaneCodeToAgentBoundary code, s2) | None \<Rightarrow> (fallback, s2))"

definition nested_writePreError :: "'env world \<Rightarrow> string \<Rightarrow> 'l dispatch_state \<Rightarrow> 'l dispatch_state" where
  "nested_writePreError w code s =
     (case newTraceID w s of
        (None, s1) \<Rightarrow> reply ReplyServerError s1
      | (Some traceID, s1) \<Rightarrow>
        (case NewPreCorrelationPlatformErrorV4 code traceID of
           Inl _ \<Rightarrow> reply ReplyServerError s1
         | Inr payload \<Rightarrow> reply (ReplyPreError (errorStatus code) payload) (s1\<lparr>dsTraceHeader := traceID\<rparr>)))"

record ('env, 'l, 'e) agent_handler =
  ahBinding :: "(string \<times> authenticated_agent) list"
  ahLedgerReader :: "'env \<Rightarrow> 'l \<Rightarrow> string \<Rightarrow> (ledger_error, invocation_detail) result"
  ahVersionResolver :: "installed_version_request \<Rightarrow> (resolve_error, authorized_invocation) result"
  ahDispatchHandler :: "('env, 'l, 'e) dispatch_handler"
  ahRequestLimit :: int
  ahDeadline :: int

definition NewAgentInvocationHandler ::
    "(string \<times> authenticated_agent) list option \<Rightarrow> ('env \<Rightarrow> 'l \<Rightarrow> string \<Rightarrow> (ledger_error, invocation_detail) result) option \<Rightarrow>
     (installed_version_request \<Rightarrow> (resolve_error, authorized_invocation) result) option \<Rightarrow> ('env, 'l, 'e) dispatch_handler option \<Rightarrow>
     int \<Rightarrow> int \<Rightarrow> ('env, 'l, 'e) agent_handler option" where
  "NewAgentInvocationHandler binding reader resolver dispatcher requestLimit deadline =
     (case (binding, reader, resolver, dispatcher) of
        (Some b, Some r, Some v, Some d) \<Rightarrow>
          if requestLimit < 1 \<or> requestLimit > 2147483647 then None
          else if deadline < 1 * Millisecond \<or> deadline > 600000 * Millisecond then None
          else Some \<lparr>ahBinding = b, ahLedgerReader = r, ahVersionResolver = v, ahDispatchHandler = d,
            ahRequestLimit = requestLimit, ahDeadline = deadline\<rparr>
      | _ \<Rightarrow> None)"

definition parentErrorCode :: "parent_error \<Rightarrow> string" where
  "parentErrorCode err =
     (if err = ErrParentNotFound then ''NOT_FOUND''
      else if err = ErrParentNotRunning then ''CONFLICT''
      else if err = ErrParentTargetMismatch \<or> err = ErrParentWorkspaceMismatch then ''FORBIDDEN''
      else ''DEPENDENCY_ERROR'')"

definition serve ::
    "(string \<Rightarrow> bool) \<Rightarrow> (string \<Rightarrow> json_token list) \<Rightarrow> (string \<Rightarrow> string list option) \<Rightarrow>
     (string \<Rightarrow> (nested_request \<times> trailing) option) \<Rightarrow> ('env, 'l, 'e) agent_handler \<Rightarrow> 'env world \<Rightarrow> http_request \<Rightarrow>
     'l dispatch_state \<Rightarrow> 'l dispatch_state" where
  "serve strict scan memberNames decode handler w request s =
     (case Authenticate (ahBinding handler) (hqAuthorization request) of
        None \<Rightarrow> nested_writePreError w ''UNAUTHENTICATED'' s
      | Some authenticated \<Rightarrow>
        if hqContentType request \<noteq> ''application/json'' then nested_writePreError w ''VALIDATION_ERROR'' s
        else case readNestedRequest scan memberNames decode (ahRequestLimit handler) request of
          Inl err \<Rightarrow> nested_writePreError w (if err = PayloadTooLarge then ''PAYLOAD_TOO_LARGE'' else ''VALIDATION_ERROR'') s
        | Inr nested \<Rightarrow>
          if isl (NegotiateInvocationResultMode (the (nqStream nested)) (hqAccept request))
          then nested_writePreError w ''NOT_ACCEPTABLE'' s
          else case time_Now w s of (now, s1) \<Rightarrow>
            let ctx = context_WithTimeout (hqDeadline request) now (ahDeadline handler) in
            case ahLedgerReader handler (wLedger w (dsTick s1)) (dsLedger s1) (nqParentInvocationID nested) of
              Inl err \<Rightarrow>
                (case classifyNestedError w ctx (of_ledger_error err)
                    (if neLedgerNotFound (of_ledger_error err) then ''NOT_FOUND'' else ''DEPENDENCY_ERROR'') (tick s1) of
                   (code, s2) \<Rightarrow> nested_writePreError w code s2)
            | Inr parent \<Rightarrow>
              (case DeriveChildContext w parent authenticated (tick s1) of
                 (Inl err, s2) \<Rightarrow> nested_writePreError w (parentErrorCode err) s2
               | (Inr child, s2) \<Rightarrow>
                 (case ahVersionResolver handler
                     \<lparr>ivInvocationID = ccChildInvocationID child, ivRootTaskID = ccRootTaskID child, ivTraceID = ccTraceID child,
                      ivWorkspaceID = ccWorkspaceID child, ivAgentID = nqTargetAgentID nested, ivCapability = nqCapability nested\<rparr> of
                    Inl err \<Rightarrow>
                      (case classifyNestedError w ctx (of_resolve_error err) ''DEPENDENCY_ERROR'' s2 of
                         (code, s3) \<Rightarrow> nested_writePreError w code s3)
                  | Inr version \<Rightarrow>
                      DispatchChild strict (ahDispatchHandler handler) w (Some ctx)
                        (BuildChildDispatchRequest child (nqTargetAgentID nested) (nqCapability nested) (nqInput nested)
                          (the (nqStream nested)) (aiAgentCardVersion version) (aiAgentReleaseID version) (aiAgentCardDigest version))
                        (hqAccept request) s2)))"

end
