(* ===== verification/Dispatch_Properties.thy ===== *)
theory Dispatch_Properties
  imports Dispatch_Stream
begin

text \<open>
  The properties of the dispatch handler on the PostgreSQL ledger, instances of the lemmas proved
  against the ledger interface, with the samples they are evaluated on.
\<close>

section \<open>Sample data\<close>

definition sample_request :: dispatch_request where
  "sample_request = \<lparr>dqInvocationID = ''i1'', dqRootTaskID = ''t1'', dqParentInvocationID = [], dqTraceID = ''tr1'',
     dqCaller = sample_caller, dqWorkspaceID = ''w1'', dqTargetAgentID = ''a1'', dqAgentCardVersion = ''1.0.0'',
     dqAgentReleaseID = [], dqAgentCardDigest = [], dqCapability = ''c1'', dqInput = RawJSON ''{}'', dqStream = False\<rparr>"

definition sample_resolved :: resolved_agent where
  "sample_resolved = \<lparr>raInstalledReleaseID = [], raAgentCardDigest = [], raTimeoutMS = 1000\<rparr>"

definition sample_chunk :: upstream_event where
  "sample_chunk = \<lparr>upPayload = RawJSON ''{}'', upTerminalType = [], upTerminalStatus = [], upErrorCode = []\<rparr>"

definition sample_transport :: transport where
  "sample_transport = \<lparr>tpStreaming = True, tpValidateNonStreamingTarget = (\<lambda>_ _. None),
     tpValidateNonStreamingInput = (\<lambda>_ _. None), tpSendNonStreaming = (\<lambda>_ _. Inr (RawJSON ''{}'')),
     tpValidateStreamingTarget = (\<lambda>_ _. None), tpValidateStreamingInput = (\<lambda>_ _. None),
     tpSendStreaming = (\<lambda>_ _. [Inr sample_chunk])\<rparr>"

definition sample_world :: "ledger_env world" where
  "sample_world = \<lparr>wNow = (\<lambda>n. 5000 + 1000 * int n), wCtxErr = (\<lambda>_ _. None), wLedger = (\<lambda>_. healthy),
     wWrite = (\<lambda>_. WriteOk), wRandom = (\<lambda>_. None), wFlusher = True\<rparr>"

definition initial_state :: "'l \<Rightarrow> 'l dispatch_state" where
  "initial_state l = \<lparr>dsLedger = l, dsTick = 0, dsReplies = [], dsTraceHeader = [], dsCommitted = False, dsCanceled = False\<rparr>"

lemma initial_state_simps [simp]:
  "dsLedger (initial_state l) = l" "dsTick (initial_state l) = 0" "dsReplies (initial_state l) = []"
  by (simp_all add: initial_state_def)

lemma empty_ledger_inv: "ledger_inv strict empty_ledger"
  unfolding ledger_inv_def using represents_empty by blast


section \<open>Validation\<close>

text \<open>The hand-written identifier check of the dispatch boundary accepts exactly the strings the
  contracts' identifier pattern matches.\<close>

theorem identifier_check_exact: "validIdentifier s \<longleftrightarrow> MatchString safeIdentifierPattern s"
  by (simp add: validIdentifier_iff)

text \<open>C36: The deadline of a resolved invocation never exceeds the deadline of the request, is the earlier
  of that and the limit of the Agent Card whenever the card's timeout is positive and fits the
  nanosecond range, and the request keeps its own deadline when the card sets none.\<close>

theorem resolved_deadline_bounds:
  shows "resolvedDeadlineContext parent timeoutMS started \<le> parent \<and>
    (if 0 < timeoutMS \<and> timeoutMS * 1000000 < 2 ^ 63
     then resolvedDeadlineContext parent timeoutMS started = min parent (started + timeoutMS * 1000000)
     else if timeoutMS = 0 then resolvedDeadlineContext parent timeoutMS started = parent else True)"
proof -
  have "int64 n = n" if "0 \<le> n" "n < 2 ^ 63" for n
    using that by (simp add: int64_def sint_sbintrunc' signed_take_bit_int_eq_self)
  then show ?thesis by (auto simp: resolvedDeadlineContext_def Let_def min_def)
qed

section \<open>Recorded invocations\<close>

text \<open>C7: Whatever the clock, the context, the ledger environment and the agent do, a non-streaming
  dispatch answers exactly once, and the answer agrees with the record: a result is returned only if
  the history ends with success, and an error other than a dependency failure only if the history
  ends with exactly that error.\<close>

theorem nonstreaming_reply_agrees:
  assumes "ledger_inv strict (dsLedger s)"
    and "s' = dispatchNonStreamingWithLedger (Append strict) w tp ctx q res targetErr s"
  shows "\<exists>r. dsReplies s' = dsReplies s @ [r] \<and> reply_agrees (ledger_history (dsLedger s') (dqInvocationID q)) r"
  using router_ledger.nonstreaming_answered [OF assms(1), of q w tp ctx res targetErr] assms(2)
  by (auto simp: router_ledger.answered_def)

theorem nonstreaming_reply_agrees_witness:
  "\<exists>r s'. s' = dispatchNonStreamingWithLedger (Append sample_strict) sample_world sample_transport 9000000 sample_request
       sample_resolved None (initial_state empty_ledger) \<and>
     dsReplies s' = [r] \<and> reply_agrees (ledger_history (dsLedger s') ''i1'') r"
  using nonstreaming_reply_agrees [of sample_strict "initial_state empty_ledger", OF _ refl,
      of sample_world sample_transport 9000000 sample_request sample_resolved None] empty_ledger_inv
  by (auto simp: sample_request_def)












section \<open>Streamed invocations\<close>

lemma sorted_wrt_subseq: "subseq xs ys \<Longrightarrow> sorted_wrt P ys \<Longrightarrow> sorted_wrt P xs"
proof (induction rule: list_emb.induct)
  case (list_emb_Cons2 x y xs ys)
  then show ?case using set_subseq [of xs ys] by auto
qed auto

lemma subseq_butlast: "subseq xs ys \<Longrightarrow> subseq (butlast xs) (butlast ys)"
proof (induction rule: list_emb.induct)
  case (list_emb_Cons xs ys y)
  then show ?case using subseq_order.trans [of "butlast xs" xs ys] by (cases ys) (auto simp: sublist_butlast)
next
  case (list_emb_Cons2 x y xs ys)
  then show ?case by (cases xs; cases ys) auto
qed auto

lemma frames_of_numbered:
  assumes "numbered_stream i r t es" "subseq fs es" "open_stream (map seType es) \<or> complete_stream (map seType es)"
  shows "sorted_wrt (<) (map seSequence fs)" "list_all (\<lambda>e. \<not> isResultStreamTerminal (seType e)) (butlast fs)"
    "list_all (\<lambda>e. seInvocationID e = i) fs"
proof -
  have "sorted_wrt (<) (map seSequence es)"
    using assms(1) by (simp add: numbered_stream_def sorted_wrt_map)
  moreover have "subseq (map seSequence fs) (map seSequence es)" using assms(2) by (rule subseq_map)
  ultimately show "sorted_wrt (<) (map seSequence fs)" by (blast intro: sorted_wrt_subseq)
  have "list_all (\<lambda>e. \<not> isResultStreamTerminal (seType e)) (butlast es)"
  proof (cases es rule: rev_cases)
    case (snoc ys y)
    with assms(3) have "open_stream (map seType ys)"
      by (auto simp: open_stream_snoc complete_stream_snoc open_stream_def)
    then show ?thesis unfolding snoc by (cases ys) (auto simp: open_stream_def list_all_iff isResultStreamTerminal_def)
  qed simp
  moreover have "subseq (butlast fs) (butlast es)" using assms(2) by (rule subseq_butlast)
  ultimately show "list_all (\<lambda>e. \<not> isResultStreamTerminal (seType e)) (butlast fs)"
    by (auto simp: list_all_iff dest: set_subseq)
  show "list_all (\<lambda>e. seInvocationID e = i) fs"
    using assms(1) set_subseq [OF assms(2)] by (auto simp: numbered_stream_def list_all_iff)
qed

text \<open>C8: A streaming dispatch either answers once without opening the stream, in agreement with the record (an error other than a
  dependency failure is the recorded one), or sends frames of the dispatched invocation with strictly increasing sequence
  numbers, with at most one terminal frame, which is the last one. The terminal frame agrees with the record: completed is
  sent only when the history ends with success, and any other terminal frame is the failure with which the history ends, with two exceptions. A
  failed frame with the code of a dependency or an internal error may be sent while the history has no
  terminal event; and when the outcome of a commit was lost, one with the code of a dependency error may be sent whatever was recorded.\<close>

theorem streaming_frames_agree:
  assumes "ledger_inv strict (dsLedger s)"
    and "s' = dispatchStreamingWithLedger (Append strict) w tp limit ctx q res s"
    and "h = ledger_history (dsLedger s') (dqInvocationID q)"
  shows "\<exists>new. dsReplies s' = dsReplies s @ new \<and>
    ((\<exists>r. new = [r] \<and> reply_agrees h r) \<or>
     list_all sse_reply new \<and> sorted_wrt (<) (map seSequence (frames new)) \<and>
     list_all (\<lambda>f. seInvocationID f = dqInvocationID q) (frames new) \<and>
     list_all (\<lambda>f. \<not> isResultStreamTerminal (seType f)) (butlast (frames new)) \<and>
     list_all (frame_agrees (\<exists>n. leCommit (wLedger w n) = CommitLost) h) (frames new))"
  using router_ledger.dispatchStreaming_run [OF assms(1), of w q tp limit ctx res, folded assms(2)]
proof (elim disjE)
  assume "router_ledger.answered strict (dqInvocationID q) s s'"
  then show ?thesis using assms(3) by (auto simp: router_ledger.answered_def)
next
  assume "router_ledger.streamed strict w q s s'"
  then obtain new es v where run: "dsReplies s' = dsReplies s @ new" "list_all sse_reply new" "subseq (frames new) es"
      "stream_accept_all (base_validator q) es = Inr v"
      "list_all (frame_agrees (\<exists>n. leCommit (wLedger w n) = CommitLost) h) (frames new)"
    using assms(3) by (auto simp: router_ledger.streamed_def router_ledger.lossy_def)
  with frames_of_numbered [OF _ run(3)] show ?thesis by (auto simp: stream_accept_all_iff)
qed

theorem streaming_frames_agree_witness:
  "\<exists>new s' h. s' = dispatchStreamingWithLedger (Append sample_strict) sample_world sample_transport 400 9000000
       (sample_request\<lparr>dqStream := True\<rparr>) sample_resolved (initial_state empty_ledger) \<and>
     h = ledger_history (dsLedger s') ''i1'' \<and> dsReplies s' = new \<and>
     ((\<exists>r. new = [r] \<and> reply_agrees h r) \<or> list_all (frame_agrees False h) (frames new))"
  using streaming_frames_agree [of sample_strict "initial_state empty_ledger", OF _ refl refl,
      of sample_world sample_transport 400 9000000 "sample_request\<lparr>dqStream := True\<rparr>" sample_resolved] empty_ledger_inv
  by (auto simp: sample_request_def sample_world_def healthy_def)











section \<open>The handler\<close>

text \<open>C10: A request to the dispatch endpoint leaves the ledger as it is unless it was read and validated,
  and then extends only the history of the invocation it names: no other invocation's record changes
  and no recorded event is lost, whatever the environment does.\<close>

theorem dispatch_isolated:
  assumes "ledger_inv strict (dsLedger s)" "dhLedger handler = None \<or> dhLedger handler = Some (Append strict)"
    and "s' = dispatch strict scan dec handler w hq s"
  shows "ledger_inv strict (dsLedger s') \<and>
    (dsLedger s' = dsLedger s \<or>
     (\<exists>q. readRequest scan dec (dhRequestLimit handler) hq = Inr q \<and> validateDispatch strict q \<and>
       prefix (ledger_history (dsLedger s) (dqInvocationID q)) (ledger_history (dsLedger s') (dqInvocationID q)) \<and>
       (\<forall>j. j \<noteq> dqInvocationID q \<longrightarrow> ledger_history (dsLedger s') j = ledger_history (dsLedger s) j)))"
  using router_ledger.dispatch_advances [OF assms(1,2), of strict scan dec w hq] assms(1,3)
  by (auto simp: router_ledger.advances_def)

definition sample_handler :: "(ledger_env, ledger_db, ledger_error) dispatch_handler" where
  "sample_handler = \<lparr>dhAuthenticate = (\<lambda>_. Inr ''svc''), dhResolve = (\<lambda>_. Inr sample_resolved),
     dhTransport = Some sample_transport, dhStreaming = Some sample_transport, dhLedger = Some (Append sample_strict),
     dhRequestLimit = 1000, dhDeadline = 30000000000, dhSseEventLimit = 400\<rparr>"

definition sample_http :: http_request where
  "sample_http = \<lparr>hqAuthorization = [], hqContentType = ''application/json'', hqAccept = ''application/json'',
     hqContentLength = 2, hqBody = Some ''{}'', hqDeadline = None\<rparr>"

theorem dispatch_isolated_witness:
  "ledger_inv sample_strict (dsLedger (dispatch sample_strict (\<lambda>_. []) (\<lambda>_. Some (sample_request, TrailingEOF))
     sample_handler sample_world sample_http (initial_state empty_ledger)))"
  using dispatch_isolated [of sample_strict "initial_state empty_ledger" sample_handler, OF _ _ refl,
      of "\<lambda>_. []" "\<lambda>_. Some (sample_request, TrailingEOF)" sample_world sample_http] empty_ledger_inv
  by (simp add: sample_handler_def)

end
