(* ===== verification/Workspace_Correct.thy ===== *)
theory Workspace_Correct
  imports Workspace_Service
begin

text \<open>
  The tables of the Workspaces under the store's transactions: keys stay unique, an agent has at most
  one current Installation in a Workspace, rows keep their checks, and what an Installation pins stays
  pinned while its status moves forward in time.
\<close>

section \<open>Invariants\<close>

text \<open>What the contract promises about the pin of an Installation, and how its times are stored.\<close>

definition pin_valid :: "contract_library \<Rightarrow> installation \<Rightarrow> bool" where
  "pin_valid lib i \<longleftrightarrow>
     (case inAcceptedPermissions i of None \<Rightarrow> False
      | Some ps \<Rightarrow> strictly_ascending ps \<and> list_all (MatchString safeIdentifierPattern) ps) \<and>
     clConstraint lib (inVersionConstraint i) \<and> clStrict lib (inInstalledVersion i) \<and>
     clCheck lib (inVersionConstraint i) (inInstalledVersion i)"

definition stored_times :: "installation \<Rightarrow> bool" where
  "stored_times i \<longleftrightarrow> timestamptz (inInstalledAt i) = inInstalledAt i \<and> timestamptz (inUpdatedAt i) = inUpdatedAt i \<and>
     time_Marshal (inInstalledAt i)"

definition workspace_inv :: "contract_library \<Rightarrow> workspace_db \<Rightarrow> bool" where
  "workspace_inv lib db \<longleftrightarrow>
     distinct (map wkWorkspaceID (wdWorkspaces db)) \<and> distinct (map inInstallationID (wdInstallations db)) \<and>
     distinct (map current_key (filter current (wdInstallations db))) \<and>
     list_all workspace_checks (wdWorkspaces db) \<and> list_all installation_checks (wdInstallations db) \<and>
     list_all (pin_valid lib) (wdInstallations db) \<and> list_all stored_times (wdInstallations db) \<and>
     inWorkspaceID ` set (wdInstallations db) \<subseteq> wkWorkspaceID ` set (wdWorkspaces db)"

section \<open>Growth\<close>

definition same_pin :: "installation \<Rightarrow> installation \<Rightarrow> bool" where
  "same_pin i j \<longleftrightarrow> inInstallationID j = inInstallationID i \<and> inWorkspaceID j = inWorkspaceID i \<and> inAgentID j = inAgentID i \<and>
     inVersionConstraint j = inVersionConstraint i \<and> inInstalledVersion j = inInstalledVersion i \<and>
     inInstalledReleaseID j = inInstalledReleaseID i \<and> inAcceptedPermissions j = inAcceptedPermissions i \<and>
     inInstalledAt j = inInstalledAt i"

text \<open>One change of an Installation, and any number of them.\<close>

definition transition :: "installation \<Rightarrow> installation \<Rightarrow> bool" where
  "transition i j \<longleftrightarrow> same_pin i j \<and> inUpdatedAt i < inUpdatedAt j \<and>
     (inStatus i, inStatus j) \<in> {(''enabled'', ''disabled''), (''disabled'', ''enabled''), (''disabled'', ''uninstalled'')}"

definition installation_kept :: "installation \<Rightarrow> installation \<Rightarrow> bool" where
  "installation_kept = transition\<^sup>*\<^sup>*"

lemma installation_kept_refl [simp]: "reflp installation_kept" "installation_kept i i"
  by (auto intro!: reflpI simp: installation_kept_def)

lemma installation_kept_trans: "transp installation_kept"
  by (auto intro!: transpI simp: installation_kept_def)

lemma transition_kept: "transition i j \<Longrightarrow> installation_kept i j"
  by (simp add: installation_kept_def r_into_rtranclp)

lemma same_pin_simps [simp]: "same_pin i i" "same_pin i j \<Longrightarrow> same_pin j k \<Longrightarrow> same_pin i k"
  by (simp_all add: same_pin_def)

lemma kept_pin: "installation_kept i j \<Longrightarrow> same_pin i j"
  unfolding installation_kept_def by (induction rule: rtranclp_induct) (auto simp: transition_def intro: same_pin_simps(2))

lemma kept_uninstalled: "installation_kept i j \<Longrightarrow> inStatus i = ''uninstalled'' \<Longrightarrow> j = i"
  unfolding installation_kept_def by (induction rule: converse_rtranclp_induct) (auto simp: transition_def)

definition workspace_grows :: "workspace_db \<Rightarrow> workspace_db \<Rightarrow> bool" where
  "workspace_grows db db' \<longleftrightarrow> grown (=) (wdWorkspaces db) (wdWorkspaces db') \<and>
     grown installation_kept (wdInstallations db) (wdInstallations db')"

lemma reflp_eq [simp]: "reflp (=)"
  by (auto intro: reflpI)

lemma workspace_grows_refl [simp]: "workspace_grows db db"
  by (simp add: workspace_grows_def grown_refl)

lemma workspace_grows_trans: "workspace_grows a b \<Longrightarrow> workspace_grows b c \<Longrightarrow> workspace_grows a c"
  unfolding workspace_grows_def using grown_trans [OF installation_kept_trans] grown_trans [of "(=)"]
  by (auto intro: transpI)

section \<open>Transactions\<close>

definition workspace_sound :: "contract_library \<Rightarrow> workspace_db \<Rightarrow> workspace_db \<Rightarrow> bool" where
  "workspace_sound lib db db' \<longleftrightarrow> (workspace_inv lib db \<longrightarrow> workspace_inv lib db' \<and> workspace_grows db db')"

lemma workspace_sound_refl [simp]: "workspace_sound lib db db"
  by (simp add: workspace_sound_def)

lemma create_workspace_sound:
  assumes "store_CreateWorkspace env db v = (r, db')"
  shows "workspace_sound lib db db'"
  using assms unfolding store_CreateWorkspace_def
proof (cases rule: run_tx_cases)
  case (committed a)
  then obtain row where "insert_workspace db row = Inr db'"
    by (auto simp: Let_def split: sum.splits if_splits)
  then show ?thesis
    by (clarsimp simp: insert_workspace_def workspace_sound_def workspace_inv_def workspace_grows_def grown_refl grown_append
        list_ex_key subset_insertI2 split: if_splits)
qed simp

lemma insert_installation_sound:
  assumes "insert_installation db i = Inr db'" "pin_valid lib i" "stored_times i"
  shows "workspace_sound lib db db'"
proof -
  have new: "inInstallationID i \<notin> inInstallationID ` set (wdInstallations db)" "installation_checks i"
      "inWorkspaceID i \<in> wkWorkspaceID ` set (wdWorkspaces db)" "db' = db\<lparr>wdInstallations := wdInstallations db @ [i]\<rparr>"
      "current i \<longrightarrow> current_key i \<notin> current_key ` set (filter current (wdInstallations db))"
    using assms(1) by (simp_all add: insert_installation_def list_ex_key split: if_splits) (fastforce simp: list_ex_iff)+
  then show ?thesis
    using assms(2,3) by (clarsimp simp: workspace_sound_def workspace_inv_def workspace_grows_def grown_refl grown_append)
qed

lemma create_installation_sound:
  assumes "CreateInstallation env db caller i = (r, db')" "pin_valid lib i" "time_Marshal (timestamptz (inInstalledAt i))"
  shows "workspace_sound lib db db'"
  using assms(1) unfolding CreateInstallation_def
proof (cases rule: run_tx_cases)
  case (committed a)
  then have "insert_installation db (installation_row i) = Inr db'"
    by (auto simp: create_installation_body_def split: sum.splits if_splits bool.splits)
  then show ?thesis
    by (rule insert_installation_sound) (use assms in \<open>auto simp: installation_row_def pin_valid_def stored_times_def\<close>)
qed simp

lemma update_installation_sound:
  assumes upd: "update_installation db ws k f = Inr (row, db')"
    and old: "find (\<lambda>i. inWorkspaceID i = ws \<and> inInstallationID i = k) (wdInstallations db) = Some i"
    and f: "transition i (f i)" "stored_times (f i)"
  shows "workspace_sound lib db db'"
proof -
  let ?sel = "\<lambda>i. inWorkspaceID i = ws \<and> inInstallationID i = k"
  let ?rows = "update_where ?sel f (wdInstallations db)"
  have db': "db' = db\<lparr>wdInstallations := ?rows\<rparr>" and chk: "installation_checks (f i)"
    and cur: "distinct (map current_key (filter current ?rows))"
    using upd old by (auto simp: update_installation_def Let_def split: if_splits)
  have i: "i \<in> set (wdInstallations db)" "?sel i" using find_Some_in_set [OF old] by auto
  show ?thesis unfolding workspace_sound_def
  proof
    assume inv: "workspace_inv lib db"
    have only: "x = i" if "x \<in> set (wdInstallations db)" "?sel x" for x
    proof -
      have "distinct (map inInstallationID (wdInstallations db))" using inv by (simp add: workspace_inv_def)
      then show ?thesis by (rule distinct_map_inj_key) (use i that in simp_all)
    qed
    have pin: "same_pin i (f i)" using f(1) by (simp add: transition_def)
    have rows: "?rows = update_where (\<lambda>x. x = i) f (wdInstallations db)"
      unfolding update_where_def
    proof (rule map_cong [OF refl])
      fix x assume "x \<in> set (wdInstallations db)"
      then have "?sel x \<longleftrightarrow> x = i" using only i(2) by blast
      then show "(if ?sel x then f x else x) = (if x = i then f x else x)" by simp
    qed
    have key: "map inInstallationID ?rows = map inInstallationID (wdInstallations db)"
      "map inWorkspaceID ?rows = map inWorkspaceID (wdInstallations db)"
      using pin by (simp_all only: rows) (simp_all add: update_where_def same_pin_def)
    from arg_cong [OF key(2), of set] have ws: "inWorkspaceID ` set ?rows = inWorkspaceID ` set (wdInstallations db)" by simp
    have "pin_valid lib (f i)"
      using inv i(1) pin by (auto simp: workspace_inv_def list_all_iff pin_valid_def same_pin_def)
    then have "list_all (pin_valid lib) ?rows" "list_all installation_checks ?rows" "list_all stored_times ?rows"
      using inv chk f(2) by (auto simp: rows workspace_inv_def list_all_iff set_update_where)
    moreover have "grown installation_kept (wdInstallations db) ?rows"
      unfolding rows by (rule grown_update) (use f(1) transition_kept in auto)
    ultimately show "workspace_inv lib db' \<and> workspace_grows db db'"
      using inv cur key(1) ws by (simp add: db' workspace_inv_def workspace_grows_def grown_refl)
  qed
qed

lemma Microsecond_truncate [simp]: "timestamptz (timestamptz t + Microsecond) = timestamptz t + Microsecond"
  by (simp add: timestamptz_def time_Truncate_def)

lemma nextLifecycleTime_later:
  "timestamptz p = p \<Longrightarrow> p < nextLifecycleTime p t" "timestamptz (nextLifecycleTime p t) = nextLifecycleTime p t"
  using Microsecond_truncate [of p] by (auto simp: nextLifecycleTime_def Let_def simp flip: timestamptz_def)

text \<open>The two lifecycle operations either change nothing or rewrite the one row they select.\<close>

definition lifecycle_write :: "contract_library \<Rightarrow> workspace_db \<Rightarrow> string \<Rightarrow> string \<Rightarrow> workspace_db \<Rightarrow> bool" where
  "lifecycle_write lib db ws k db' \<longleftrightarrow> db' = db \<or>
     (\<exists>i f row. find (\<lambda>i. inWorkspaceID i = ws \<and> inInstallationID i = k) (wdInstallations db) = Some i \<and>
        update_installation db ws k f = Inr (row, db') \<and> (workspace_inv lib db \<longrightarrow> transition i (f i) \<and> stored_times (f i)))"

lemma find_stored: "workspace_inv lib db \<Longrightarrow> find P (wdInstallations db) = Some i \<Longrightarrow> stored_times i"
  using find_Some_in_set [of P "wdInstallations db" i] by (auto simp: workspace_inv_def list_all_iff)

lemma change_status_write:
  assumes "ChangeInstallationStatus env db ws k s t = (r, db')"
  shows "lifecycle_write lib db ws k db'"
  using assms unfolding ChangeInstallationStatus_def
proof (cases rule: run_tx_cases)
  case (committed row)
  let ?f = "\<lambda>u i. i\<lparr>inStatus := s, inUpdatedAt := timestamptz u\<rparr>"
  obtain i where old: "find (\<lambda>i. inWorkspaceID i = ws \<and> inInstallationID i = k) (wdInstallations db) = Some i"
    and tr: "(inStatus i, s) \<in> {(''enabled'', ''disabled''), (''disabled'', ''enabled'')}"
    and upd: "update_installation db ws k (?f (nextLifecycleTime (inUpdatedAt i) t)) = Inr (row, db')"
    using committed(1) by (auto simp: change_status_body_def Let_def split: if_splits)
  have "transition i (?f (nextLifecycleTime (inUpdatedAt i) t) i) \<and> stored_times (?f (nextLifecycleTime (inUpdatedAt i) t) i)"
    if "workspace_inv lib db"
    using find_stored [OF that old] tr nextLifecycleTime_later by (auto simp: transition_def same_pin_def stored_times_def)
  with old upd show ?thesis unfolding lifecycle_write_def by blast
qed (simp add: lifecycle_write_def)

lemma uninstall_write:
  assumes "UninstallInstallation env db ws k t = (r, db')"
  shows "lifecycle_write lib db ws k db'"
  using assms unfolding UninstallInstallation_def
proof (cases rule: run_tx_cases)
  case (committed row)
  let ?f = "\<lambda>u i. i\<lparr>inStatus := ''uninstalled'', inUpdatedAt := timestamptz u, inUninstalledAt := Some (timestamptz u)\<rparr>"
  obtain i where old: "find (\<lambda>i. inWorkspaceID i = ws \<and> inInstallationID i = k) (wdInstallations db) = Some i"
    and tr: "inStatus i = ''disabled''"
    and upd: "update_installation db ws k (?f (nextLifecycleTime (inUpdatedAt i) t)) = Inr (row, db')"
    using committed(1) by (auto simp: uninstall_body_def Let_def split: if_splits)
  have "transition i (?f (nextLifecycleTime (inUpdatedAt i) t) i) \<and> stored_times (?f (nextLifecycleTime (inUpdatedAt i) t) i)"
    if "workspace_inv lib db"
    using find_stored [OF that old] tr nextLifecycleTime_later by (auto simp: transition_def same_pin_def stored_times_def)
  with old upd show ?thesis unfolding lifecycle_write_def by blast
qed (simp add: lifecycle_write_def)

lemma lifecycle_sound:
  assumes "lifecycle_write lib db ws k db'"
  shows "workspace_sound lib db db'"
proof (cases "workspace_inv lib db")
  case True
  with assms show ?thesis using update_installation_sound by (auto simp: lifecycle_write_def)
qed (simp add: workspace_sound_def)

text \<open>The rows after a lifecycle operation.\<close>

lemma lifecycle_rows:
  assumes w: "lifecycle_write lib db ws k db'" and inv: "workspace_inv lib db" and j: "j \<in> set (wdInstallations db')"
  shows "j \<in> set (wdInstallations db) \<or> (\<exists>i\<in>set (wdInstallations db). transition i j \<and> inWorkspaceID i = ws \<and> inInstallationID i = k)"
  using w unfolding lifecycle_write_def
proof (elim disjE exE conjE)
  fix i f row
  let ?sel = "\<lambda>i. inWorkspaceID i = ws \<and> inInstallationID i = k"
  assume old: "find ?sel (wdInstallations db) = Some i" and upd: "update_installation db ws k f = Inr (row, db')"
    and tr: "workspace_inv lib db \<longrightarrow> transition i (f i) \<and> stored_times (f i)"
  have i: "i \<in> set (wdInstallations db)" "?sel i" using find_Some_in_set [OF old] by auto
  obtain x where x: "x \<in> set (wdInstallations db)" "j = (if ?sel x then f x else x)"
    using upd old j by (auto simp: update_installation_def Let_def set_update_where split: if_splits)
  show ?thesis
  proof (cases "?sel x")
    case True
    have "distinct (map inInstallationID (wdInstallations db))" using inv by (simp add: workspace_inv_def)
    then have "x = i" by (rule distinct_map_inj_key) (use x(1) i True in simp_all)
    then show ?thesis using x True tr inv i by auto
  qed (use x in auto)
qed (use j in simp)

end
