(* ===== verification/Trust.thy ===== *)
theory Trust
  imports Catalog_Service
begin

text \<open>
  Trusted publication (\<^verbatim>\<open>catalog/trust.go\<close>): the declared endpoint of an agent, the network policy of the
  verification request, and the service that binds endpoints and checks ownership challenges. The
  result of \<^verbatim>\<open>url.Parse\<close> is a record, and the letter case and the ASCII form of Unicode host names are left to the library; name
  resolution is part of the environment, and so is the exchange, given the address the client connects to, the server name it
  demands of the certificate and the URL it asks for.
\<close>

unbundle bit_operations_syntax

section \<open>Endpoints\<close>

record parsed_url =
  puScheme :: string
  puOpaque :: string
  puUser :: bool
  puHost :: string
  puHostname :: string
  puPort :: string
  puPath :: string
  puRawPath :: string
  puEscapedPath :: string
  puRawQuery :: string
  puForceQuery :: bool
  puFragment :: string
  puRawFragment :: string

record endpoint =
  epCanonical :: string
  epOrigin :: string
  epPath :: string
  epHost :: string

record url_library =
  ulParse :: "string \<Rightarrow> parsed_url option"
  ulParseIP :: "string \<Rightarrow> bool"
  ulToLower :: "string \<Rightarrow> string"
  ulHostASCII :: "string \<Rightarrow> string"

definition TrimSuffixDot :: "string \<Rightarrow> string" where
  "TrimSuffixDot s = (if s \<noteq> [] \<and> last s = CHR ''.'' then butlast s else s)"

definition strconv_Atoi :: "string \<Rightarrow> int option" where
  "strconv_Atoi s = (case big_SetString s of None \<Rightarrow> None
     | Some n \<Rightarrow> if - (2 ^ 63) \<le> n \<and> n < 2 ^ 63 then Some n else None)"

definition JoinHostPort :: "string \<Rightarrow> string \<Rightarrow> string" where
  "JoinHostPort host port = (if CHR '':'' \<in> set host then ''['' @ host @ '']:'' @ port else host @ '':'' @ port)"

fun split_slash :: "string \<Rightarrow> string \<Rightarrow> string list" where
  "split_slash part [] = [rev part]" |
  "split_slash part (c # cs) = (if c = CHR ''/'' then rev part # split_slash [] cs else split_slash (c # part) cs)"

definition line_break :: "string \<Rightarrow> bool" where
  "line_break s \<longleftrightarrow> CHR 0x0D \<in> set s \<or> CHR 0x0A \<in> set s"

definition endpoint_hostPort :: "url_library \<Rightarrow> string \<Rightarrow> string \<Rightarrow> int \<Rightarrow> string" where
  "endpoint_hostPort lib scheme host port =
     (if (scheme = ''http'' \<and> port = 80) \<or> (scheme = ''https'' \<and> port = 443)
      then (if CHR '':'' \<in> set host then ''['' @ host @ '']'' else host)
      else if ulParseIP lib host then
        (if port \<noteq> 0 then JoinHostPort host (int_text port)
         else if CHR '':'' \<in> set host then ''['' @ host @ '']'' else host)
      else if port \<noteq> 0 then host @ '':'' @ int_text port else host)"

definition ParseEndpoint :: "url_library \<Rightarrow> string \<Rightarrow> (catalog_error, endpoint) result" where
  "ParseEndpoint lib raw =
     (if TrimSpace raw \<noteq> raw \<or> line_break raw then Inl [CatErrEndpointInvalid]
      else case ulParse lib raw of
        None \<Rightarrow> Inl [CatErrEndpointInvalid]
      | Some u \<Rightarrow>
        if puOpaque u \<noteq> [] \<or> puHost u = [] \<or> puUser u \<or> puRawQuery u \<noteq> [] \<or> puForceQuery u \<or>
           puFragment u \<noteq> [] \<or> puRawFragment u \<noteq> [] then Inl [CatErrEndpointInvalid]
        else (let scheme = ulToLower lib (puScheme u); host = TrimSuffixDot (ulToLower lib (puHostname u)) in
          if scheme \<noteq> ''http'' \<and> scheme \<noteq> ''https'' then Inl [CatErrEndpointInvalid]
          else if host = [] \<or> CHR ''%'' \<in> set host \<or> line_break host then Inl [CatErrEndpointInvalid]
          else if puPort u = [] \<and> last (puHost u) = CHR '':'' then Inl [CatErrEndpointInvalid]
          else case (if puPort u = [] then Some 0
                     else case strconv_Atoi (puPort u) of None \<Rightarrow> None
                       | Some port \<Rightarrow> if port < 1 \<or> port > 65535 then None else Some port) of
            None \<Rightarrow> Inl [CatErrEndpointInvalid]
          | Some port \<Rightarrow>
            (let path = (if puEscapedPath u = [] then ''/'' else puEscapedPath u) in
             if puRawPath u \<noteq> [] \<or> CHR ''%'' \<in> set path \<or> CHR 0x5C \<in> set (puPath u) \<or> line_break (puPath u)
             then Inl [CatErrEndpointInvalid]
             else if list_ex (\<lambda>segment. segment = ''.'' \<or> segment = ''..'') (split_slash [] (puPath u))
             then Inl [CatErrEndpointInvalid]
             else (let origin = scheme @ ''://'' @ endpoint_hostPort lib scheme host port in
               Inr \<lparr>epCanonical = origin @ path, epOrigin = origin, epPath = path, epHost = host\<rparr>))))"

section \<open>Addresses\<close>

text \<open>\<^verbatim>\<open>net.IP\<close>: a slice of bytes, and the predicates of the package.\<close>

type_synonym ip = "8 word list"

definition To4 :: "ip \<Rightarrow> ip option" where
  "To4 a = (if length a = 4 then Some a
     else if length a = 16 \<and> take 10 a = replicate 10 0 \<and> a ! 10 = 255 \<and> a ! 11 = 255 then Some (drop 12 a) else None)"

definition IsUnspecified :: "ip \<Rightarrow> bool" where
  "IsUnspecified a \<longleftrightarrow> To4 a = Some [0, 0, 0, 0] \<or> a = replicate 16 0"

definition IsLoopback :: "ip \<Rightarrow> bool" where
  "IsLoopback a = (case To4 a of Some b \<Rightarrow> b ! 0 = 127 | None \<Rightarrow> a = replicate 15 0 @ [1])"

definition IsPrivate :: "ip \<Rightarrow> bool" where
  "IsPrivate a = (case To4 a of
     Some b \<Rightarrow> b ! 0 = 10 \<or> (b ! 0 = 172 \<and> b ! 1 AND 0xf0 = 16) \<or> (b ! 0 = 192 \<and> b ! 1 = 168)
   | None \<Rightarrow> length a = 16 \<and> a ! 0 AND 0xfe = 0xfc)"

definition IsMulticast :: "ip \<Rightarrow> bool" where
  "IsMulticast a = (case To4 a of Some b \<Rightarrow> b ! 0 AND 0xf0 = 0xe0 | None \<Rightarrow> length a = 16 \<and> a ! 0 = 0xff)"

definition IsLinkLocalMulticast :: "ip \<Rightarrow> bool" where
  "IsLinkLocalMulticast a = (case To4 a of Some b \<Rightarrow> b ! 0 = 224 \<and> b ! 1 = 0 \<and> b ! 2 = 0
   | None \<Rightarrow> length a = 16 \<and> a ! 0 = 0xff \<and> a ! 1 AND 0x0f = 0x02)"

definition IsLinkLocalUnicast :: "ip \<Rightarrow> bool" where
  "IsLinkLocalUnicast a = (case To4 a of Some b \<Rightarrow> b ! 0 = 169 \<and> b ! 1 = 254
   | None \<Rightarrow> length a = 16 \<and> a ! 0 = 0xfe \<and> a ! 1 AND 0xc0 = 0x80)"

definition IsGlobalUnicast :: "ip \<Rightarrow> bool" where
  "IsGlobalUnicast a \<longleftrightarrow> (length a = 4 \<or> length a = 16) \<and> To4 a \<noteq> Some [255, 255, 255, 255] \<and> \<not> IsUnspecified a \<and>
     \<not> IsLoopback a \<and> \<not> IsMulticast a \<and> \<not> IsLinkLocalUnicast a"

text \<open>A network is its address and the number of leading bits; \<^verbatim>\<open>Contains\<close> compares byte by byte under the mask.\<close>

type_synonym network = "ip \<times> nat"

definition CIDRMask :: "nat \<Rightarrow> nat \<Rightarrow> ip" where
  "CIDRMask ones len = map (\<lambda>i. if 8 * Suc i \<le> ones then 0xff else if ones \<le> 8 * i then 0 else push_bit (8 - (ones - 8 * i)) 0xff)
     [0..<len]"

definition network_Contains :: "network \<Rightarrow> ip \<Rightarrow> bool" where
  "network_Contains = (\<lambda>(net, ones) a.
     let x = (case To4 a of Some b \<Rightarrow> b | None \<Rightarrow> a); m = CIDRMask ones (length net) in
     length x = length net \<and> list_all (\<lambda>i. net ! i AND m ! i = x ! i AND m ! i) [0..<length x])"

definition reservedTrustNetworks :: "network list" where
  "reservedTrustNetworks =
     [([0, 0, 0, 0], 8), ([100, 64, 0, 0], 10), ([192, 0, 0, 0], 24), ([192, 0, 2, 0], 24), ([192, 31, 196, 0], 24),
      ([192, 52, 193, 0], 24), ([192, 88, 99, 0], 24), ([192, 175, 48, 0], 24), ([198, 18, 0, 0], 15),
      ([198, 51, 100, 0], 24), ([203, 0, 113, 0], 24), ([240, 0, 0, 0], 4),
      ([0x01, 0x00] @ replicate 14 0, 64), ([0x20, 0x01, 0x00, 0x01] @ replicate 12 0, 48),
      ([0x20, 0x01, 0x00, 0x02] @ replicate 12 0, 48), ([0x20, 0x01, 0x00, 0x10] @ replicate 12 0, 28),
      ([0x20, 0x01, 0x00, 0x20] @ replicate 12 0, 28), ([0x20, 0x01, 0x0d, 0xb8] @ replicate 12 0, 32)]"

definition isReservedIP :: "ip \<Rightarrow> bool" where
  "isReservedIP a = list_ex (\<lambda>network. network_Contains network a) reservedTrustNetworks"

definition isDisallowedIP :: "ip \<Rightarrow> bool" where
  "isDisallowedIP a \<longleftrightarrow> a = [] \<or> \<not> IsGlobalUnicast a \<or> IsPrivate a \<or> IsLoopback a \<or> IsLinkLocalUnicast a \<or>
     IsLinkLocalMulticast a \<or> IsUnspecified a \<or> IsMulticast a \<or> isReservedIP a"

definition isAlwaysDisallowedIP :: "ip \<Rightarrow> bool" where
  "isAlwaysDisallowedIP a \<longleftrightarrow>
     (a = [] \<or> IsUnspecified a \<or> IsMulticast a \<or> IsLinkLocalMulticast a \<or> isReservedIP a) \<or>
     (\<not> IsGlobalUnicast a \<and> \<not> IsLoopback a \<and> \<not> IsLinkLocalUnicast a)"

record endpoint_policy =
  plLookupIP :: "(string \<Rightarrow> ip list option) option"
  plAllowedPrivateHosts :: "string list"

definition NewEndpointPolicy :: "url_library \<Rightarrow> (string \<Rightarrow> ip list option) \<Rightarrow> string list \<Rightarrow> endpoint_policy" where
  "NewEndpointPolicy lib resolver allowedPrivateHosts =
     \<lparr>plLookupIP = Some resolver,
      plAllowedPrivateHosts = map (\<lambda>host. TrimSuffixDot (ulToLower lib host)) (filter (\<lambda>host. host \<noteq> []) allowedPrivateHosts)\<rparr>"

definition ResolveDestination :: "url_library \<Rightarrow> endpoint_policy \<Rightarrow> endpoint \<Rightarrow> (catalog_error, ip list) result" where
  "ResolveDestination lib policy endpoint =
     (if epHost endpoint = [] then Inl [CatErrEndpointInvalid]
      else case plLookupIP policy of
        None \<Rightarrow> Inl [CatErrTrustDependency]
      | Some lookup \<Rightarrow>
        (case lookup (epHost endpoint) of
           None \<Rightarrow> Inl [CatErrTrustDependency]
         | Some ips \<Rightarrow>
           if ips = [] then Inl [CatErrEndpointUnavailable]
           else if TrimSuffixDot (ulToLower lib (epHost endpoint)) \<in> set (plAllowedPrivateHosts policy) then
             (if list_ex isAlwaysDisallowedIP ips then Inl [CatErrDisallowedNetwork]
              else if list_ex isDisallowedIP ips \<and> list_ex (\<lambda>a. \<not> isDisallowedIP a) ips then Inl [CatErrDisallowedNetwork]
              else Inr ips)
           else if list_ex isDisallowedIP ips then Inl [CatErrDisallowedNetwork]
           else Inr ips))"

section \<open>The service\<close>

record http_reply =
  hrStatus :: int
  hrBody :: "string option"
  hrClosed :: bool

text \<open>The environment of a method beside the store: the random proof, name resolution, whether the transport of the
  client is an \<^verbatim>\<open>http.Transport\<close>, and the exchange under the given time limit: what a GET of a URL over a connection
  to an address and a port, with a server name for TLS, is answered with.\<close>

record trust_world = catalog_world +
  twProof :: "nat list option"
  twLookupIP :: "int \<Rightarrow> (string \<Rightarrow> ip list option) option"
  twTransport :: bool
  twReply :: "int \<Rightarrow> ip \<times> string \<Rightarrow> string \<Rightarrow> string \<Rightarrow> http_reply option"

record trust_service =
  tsChallengeTTL :: int
  tsVerificationTimeout :: int
  tsAllowedPrivateHosts :: "string list"

definition NewTrustService :: "int \<Rightarrow> int \<Rightarrow> string list \<Rightarrow> trust_service option" where
  "NewTrustService challengeTTL verificationTimeout allowed =
     (if challengeTTL \<le> 0 then None
      else if verificationTimeout \<le> 0 \<or> verificationTimeout \<ge> challengeTTL then None
      else Some \<lparr>tsChallengeTTL = challengeTTL, tsVerificationTimeout = verificationTimeout, tsAllowedPrivateHosts = allowed\<rparr>)"

text \<open>The client pinned to one destination: its dialer refuses every address but the expected one, and connects to
  the destination in its place. An address is the pair of a host and a port that \<^verbatim>\<open>net.JoinHostPort\<close> writes and \<^verbatim>\<open>net.SplitHostPort\<close>
  reads.\<close>

record pinned_client =
  pcExpectedAddress :: "string \<times> string"
  pcServerName :: string
  pcDestination :: "ip \<times> string"

definition default_port :: "parsed_url \<Rightarrow> string" where
  "default_port u = (if puPort u \<noteq> [] then puPort u else if puScheme u = ''https'' then ''443'' else ''80'')"

definition clientForPinnedDestination ::
    "url_library \<Rightarrow> bool \<Rightarrow> endpoint \<Rightarrow> ip \<Rightarrow> (catalog_error, pinned_client) result" where
  "clientForPinnedDestination lib transport endpoint destination =
     (if \<not> transport then Inl [CatErrTrustDependency]
      else case ulParse lib (epOrigin endpoint) of
        None \<Rightarrow> Inl [CatErrEndpointInvalid]
      | Some parsed \<Rightarrow>
        (let port = default_port parsed in
         Inr \<lparr>pcExpectedAddress = (ulToLower lib (epHost endpoint), port), pcServerName = epHost endpoint,
           pcDestination = (destination, port)\<rparr>))"

definition pinned_Dial :: "url_library \<Rightarrow> pinned_client \<Rightarrow> string \<times> string \<Rightarrow> (ip \<times> string) option" where
  "pinned_Dial lib client address =
     (if (ulToLower lib (fst address), snd address) \<noteq> pcExpectedAddress client then None else Some (pcDestination client))"

text \<open>\<^verbatim>\<open>http.Client.Do\<close> of a GET request, without a proxy and without following redirects: the transport dials the host and the port of the URL, the host in its
  ASCII form, and sends the request over that connection.\<close>

definition http_Do ::
    "url_library \<Rightarrow> trust_world \<Rightarrow> int \<Rightarrow> pinned_client \<Rightarrow> string \<Rightarrow> parsed_url \<Rightarrow> http_reply option" where
  "http_Do lib w duration client request u =
     (case pinned_Dial lib client (ulHostASCII lib (puHostname u), default_port u) of
        None \<Rightarrow> None
      | Some address \<Rightarrow> twReply w duration address (pcServerName client) request)"

definition fetchVerificationProof ::
    "url_library \<Rightarrow> trust_world \<Rightarrow> int \<Rightarrow> endpoint \<Rightarrow> string \<Rightarrow> ip list \<Rightarrow> (catalog_error, string) result" where
  "fetchVerificationProof lib w duration endpoint challengeID destinationIPs =
     (case destinationIPs of
        [] \<Rightarrow> Inl [CatErrEndpointUnavailable]
      | destination # _ \<Rightarrow>
        (let request = epOrigin endpoint @ ''/.well-known/nekiro/challenges/'' @ challengeID in
         case ulParse lib request of
           None \<Rightarrow> Inl [CatErrEndpointInvalid]
         | Some u \<Rightarrow>
           (case clientForPinnedDestination lib (twTransport w) endpoint destination of
              Inl err \<Rightarrow> Inl err
            | Inr client \<Rightarrow>
              (case http_Do lib w duration client request u of
                 None \<Rightarrow> Inl [CatErrEndpointUnavailable]
               | Some response \<Rightarrow>
                 if hrStatus response \<noteq> 200 then
                   (if 300 \<le> hrStatus response \<and> hrStatus response < 400 then Inl [CatErrRedirectNotAllowed] else Inl [CatErrWrongProof])
                 else (case map_option (take 4097) (hrBody response) of
                    None \<Rightarrow> Inl [CatErrWrongProof]
                  | Some body \<Rightarrow>
                    if length body > 4096 then Inl [CatErrWrongProof]
                    else if \<not> hrClosed response then Inl [CatErrEndpointUnavailable]
                    else Inr body)))))"

definition verificationFailureCode :: "catalog_error \<Rightarrow> string option" where
  "verificationFailureCode err =
     (if errors_Is err CatErrWrongProof then Some ''wrong_proof''
      else if errors_Is err CatErrRedirectNotAllowed then Some ''redirect_not_allowed''
      else if errors_Is err CatErrChallengeExpired then Some ''challenge_expired''
      else if errors_Is err CatErrEndpointUnavailable then Some ''endpoint_unavailable''
      else if errors_Is err CatErrDisallowedNetwork then Some ''disallowed_network''
      else if errors_Is err CatErrEndpointInvalid then Some ''invalid_endpoint''
      else if errors_Is err CatErrTrustDependency then Some ''dependency_failure''
      else None)"

definition authorizeProvider :: "trust_world \<Rightarrow> string \<Rightarrow> string \<Rightarrow> catalog_error option" where
  "authorizeProvider w caller providerID =
     (case store_GetProvider (cwEnv w 0) (cwDb w 0) providerID of
        Inl err \<Rightarrow> Some err
      | Inr provider \<Rightarrow>
        if pvOwnerIdentity provider \<noteq> caller then Some [CatErrForbidden]
        else if pvVerificationStatus provider = ''suspended'' then Some [CatErrForbidden]
        else None)"

definition CreateBinding ::
    "contract_library \<Rightarrow> url_library \<Rightarrow> trust_world \<Rightarrow> string \<Rightarrow> string \<Rightarrow> string \<Rightarrow> string \<Rightarrow> string \<Rightarrow> string \<Rightarrow>
     endpoint_binding outcome" where
  "CreateBinding lib urls w caller providerID agentID version endpoint method =
     (if \<not> ValidIdentifier providerID \<or> \<not> validAgentVersionIdentity lib agentID version \<or> \<not> ValidIdentifier caller \<or>
         method \<noteq> ''http_well_known'' then no_write (Inl [CatErrInvalid])
      else case ParseEndpoint urls endpoint of
        Inl err \<Rightarrow> no_write (Inl err)
      | Inr parsed \<Rightarrow>
        (case store_Get (cwEnv w 0) (cwDb w 0) agentID version of
           Inl err \<Rightarrow> no_write (Inl err)
         | Inr agentVersion \<Rightarrow>
           (case ParseEndpoint urls (apEndpoint (acProtocol (avCard agentVersion))) of
              Inl _ \<Rightarrow> no_write (Inl [CatErrTrustDependency])
            | Inr cardEndpoint \<Rightarrow>
              if epCanonical cardEndpoint \<noteq> epCanonical parsed then no_write (Inl [CatErrEndpointInvalid])
              else (case newTrustID ''binding'' (cwRandom w) of
                 None \<Rightarrow> no_write (Inl [CatErrTrustDependency])
               | Some bindingID \<Rightarrow>
                 with_write (store_CreateBinding (cwEnv w 1) (cwDb w 1)
                   \<lparr>pvProviderID = providerID, pvOwnerIdentity = caller, pvVerificationStatus = ''unverified'',
                    pvVerificationMethod = method, pvVerifiedAt = None, pvCreatedAt = cwNow w 0, pvUpdatedAt = cwNow w 0\<rparr>
                   \<lparr>ebBindingID = bindingID, ebProviderID = providerID, ebAgentID = agentID, ebAgentCardVersion = version,
                    ebEndpoint = epCanonical parsed, ebOrigin = epOrigin parsed, ebPath = epPath parsed,
                    ebVerificationMethod = method, ebVerificationStatus = ''pending'', ebVerificationEvidenceDigest = None,
                    ebVerificationFailureCode = None, ebCreatedAt = cwNow w 0, ebUpdatedAt = cwNow w 0,
                    ebVerifiedAt = None, ebRevokedAt = None\<rparr>)))))"

record challenge_response =
  crChallengeID :: string
  crBindingID :: string
  crChallengeURL :: string
  crProof :: string
  crExpiresAt :: time

definition CreateChallenge ::
    "trust_service \<Rightarrow> trust_world \<Rightarrow> string \<Rightarrow> string \<Rightarrow> string \<Rightarrow> challenge_response outcome" where
  "CreateChallenge service w caller providerID bindingID =
     (if \<not> ValidIdentifier providerID \<or> \<not> ValidIdentifier bindingID \<or> \<not> ValidIdentifier caller then no_write (Inl [CatErrInvalid])
      else case authorizeProvider w caller providerID of
        Some err \<Rightarrow> no_write (Inl err)
      | None \<Rightarrow>
        (case store_GetBinding (cwEnv w 1) (cwDb w 1) providerID bindingID of
           Inl err \<Rightarrow> no_write (Inl err)
         | Inr binding \<Rightarrow>
           if ebVerificationStatus binding = ''verified'' \<or> ebVerificationStatus binding = ''revoked''
           then no_write (Inl [CatErrTrustConflict])
           else (case newTrustID ''challenge'' (cwRandom w) of
              None \<Rightarrow> no_write (Inl [CatErrTrustDependency])
            | Some challengeID \<Rightarrow>
              (case twProof w of
                 None \<Rightarrow> no_write (Inl [CatErrTrustDependency])
               | Some proofBytes \<Rightarrow>
                 (let proof = hex_EncodeToString proofBytes; expires = cwNow w 0 + tsChallengeTTL service in
                  case store_CreateChallenge (cwEnv w 2) (cwDb w 2)
                         \<lparr>vcChallengeID = challengeID, vcBindingID = ebBindingID binding, vcProofDigest = sha256_Sum256 proof,
                          vcExpiresAt = expires, vcUsedAt = None, vcCreatedAt = cwNow w 0\<rparr> of
                    (Inl err, db) \<Rightarrow> (Inl err, Some db)
                  | (Inr _, db) \<Rightarrow>
                    (Inr \<lparr>crChallengeID = challengeID, crBindingID = ebBindingID binding,
                       crChallengeURL = ebOrigin binding @ ''/.well-known/nekiro/challenges/'' @ challengeID,
                       crProof = proof, crExpiresAt = expires\<rparr>, Some db))))))"

definition failVerification ::
    "trust_world \<Rightarrow> string \<Rightarrow> catalog_error \<Rightarrow> time \<Rightarrow> catalog_error \<times> catalog_db option" where
  "failVerification w bindingID cause now =
     (case verificationFailureCode cause of
        None \<Rightarrow> (cause, None)
      | Some code \<Rightarrow>
        (case SetBindingVerification (cwEnv w 3) (cwDb w 3) bindingID ''failed'' (Some code) None now of
           (Inl err, db) \<Rightarrow> (if errors_Is err CatErrTrustConflict then err else [CatErrTrustDependency], Some db)
         | (Inr _, db) \<Rightarrow> (cause, Some db)))"

text \<open>A completed challenge writes twice: it reserves the challenge, and then records the outcome of the
  verification. The result carries the tables after each write.\<close>

definition CompleteChallenge ::
    "url_library \<Rightarrow> trust_service \<Rightarrow> trust_world \<Rightarrow> string \<Rightarrow> string \<Rightarrow> string \<Rightarrow> string \<Rightarrow>
     (catalog_error, endpoint_binding) result \<times> catalog_db option \<times> catalog_db option" where
  "CompleteChallenge urls service w caller providerID bindingID challengeID =
     (if \<not> ValidIdentifier providerID \<or> \<not> ValidIdentifier bindingID \<or> \<not> ValidIdentifier challengeID \<or> \<not> ValidIdentifier caller
      then (Inl [CatErrInvalid], None, None)
      else case authorizeProvider w caller providerID of
        Some err \<Rightarrow> (Inl err, None, None)
      | None \<Rightarrow>
        (case store_GetBinding (cwEnv w 1) (cwDb w 1) providerID bindingID of
           Inl err \<Rightarrow> (Inl err, None, None)
         | Inr binding \<Rightarrow>
           if ebVerificationStatus binding = ''revoked'' \<or> ebVerificationStatus binding = ''verified''
           then (Inl [CatErrTrustConflict], None, None)
           else (case ParseEndpoint urls (ebEndpoint binding) of
              Inl err \<Rightarrow> (Inl err, None, None)
            | Inr endpoint \<Rightarrow>
              (case ReserveChallenge (cwEnv w 2) (cwDb w 2) bindingID challengeID (cwNow w 0) of
                 (Inl err, db) \<Rightarrow>
                   if errors_Is err CatErrChallengeExpired then
                     (case failVerification w bindingID [CatErrChallengeExpired] (cwNow w 1) of (recordErr, db') \<Rightarrow>
                        (Inl (if errors_Is recordErr CatErrTrustConflict then err else recordErr), Some db, db'))
                   else (Inl err, Some db, None)
               | (Inr (challenge, _), db) \<Rightarrow>
                 (let duration = min (tsVerificationTimeout service) (vcExpiresAt challenge - cwNow w 1);
                      policy = \<lparr>plLookupIP = twLookupIP w duration, plAllowedPrivateHosts = tsAllowedPrivateHosts service\<rparr>;
                      failed = (\<lambda>cause. case failVerification w bindingID
                          (if \<not> cwNow w 2 < vcExpiresAt challenge then [CatErrChallengeExpired] else cause) (cwNow w 3) of
                          (err, db') \<Rightarrow> (Inl err, Some db, db')) in
                  case ResolveDestination urls policy endpoint of
                    Inl err \<Rightarrow> failed err
                  | Inr destinationIPs \<Rightarrow>
                    (case fetchVerificationProof urls w duration endpoint challengeID destinationIPs of
                       Inl err \<Rightarrow> failed err
                     | Inr proof \<Rightarrow>
                       if \<not> cwNow w 2 < vcExpiresAt challenge then failed [CatErrChallengeExpired]
                       else if sha256_Sum256 proof \<noteq> vcProofDigest challenge then failed [CatErrWrongProof]
                       else (case SetBindingVerification (cwEnv w 3) (cwDb w 3) bindingID ''verified'' None
                               (Some (sha256_Sum256 proof)) (cwNow w 3) of
                          (r, db') \<Rightarrow> (r, Some db, Some db'))))))))"

definition GetBinding :: "trust_world \<Rightarrow> string \<Rightarrow> string \<Rightarrow> string \<Rightarrow> (catalog_error, endpoint_binding) result" where
  "GetBinding w caller providerID bindingID =
     (if \<not> ValidIdentifier providerID \<or> \<not> ValidIdentifier bindingID \<or> \<not> ValidIdentifier caller then Inl [CatErrInvalid]
      else case authorizeProvider w caller providerID of
        Some err \<Rightarrow> Inl err
      | None \<Rightarrow> store_GetBinding (cwEnv w 1) (cwDb w 1) providerID bindingID)"

end
