(* ===== verification/Catalog_Correct.thy ===== *)
theory Catalog_Correct
  imports Trust
begin

text \<open>
  The tables of the Catalog under every interleaving of the store's transactions: keys stay unique,
  rows keep their checks and references, a release agrees with the version it publishes, and what is
  bound once (owner, provider, release facts, used challenges) stays bound.
\<close>

section \<open>Invariants\<close>

definition unique_keys :: "catalog_db \<Rightarrow> bool" where
  "unique_keys db \<longleftrightarrow> distinct (map aiAgentID (cdIdentities db)) \<and> distinct (map aiPublicAgentID (cdIdentities db)) \<and>
     distinct (map version_key (cdVersions db)) \<and> distinct (cdCapabilities db) \<and>
     distinct (map arReleaseID (cdReleases db)) \<and> distinct (map release_key (cdReleases db)) \<and>
     distinct (map pvProviderID (cdProviders db)) \<and> distinct (map ebBindingID (cdBindings db)) \<and>
     distinct (map vcChallengeID (cdChallenges db)) \<and> distinct (List.map_filter vrSequence (cdVersions db))"

definition checked_rows :: "catalog_db \<Rightarrow> bool" where
  "checked_rows db \<longleftrightarrow> list_all identity_checks (cdIdentities db) \<and> list_all version_checks (cdVersions db) \<and>
     list_all (\<lambda>(_, _, capability). MatchString safeIdentifierPattern capability) (cdCapabilities db) \<and>
     list_all release_checks (cdReleases db) \<and> list_all provider_checks (cdProviders db) \<and>
     list_all binding_checks (cdBindings db) \<and> list_all challenge_checks (cdChallenges db)"

definition references :: "catalog_db \<Rightarrow> bool" where
  "references db \<longleftrightarrow>
     (\<forall>i\<in>set (cdIdentities db). \<forall>p. aiProviderID i = Some p \<longrightarrow> p \<in> pvProviderID ` set (cdProviders db)) \<and>
     vrAgentID ` set (cdVersions db) \<subseteq> aiAgentID ` set (cdIdentities db) \<and>
     (\<lambda>(agent, version, _). (agent, version)) ` set (cdCapabilities db) \<subseteq> version_key ` set (cdVersions db) \<and>
     release_key ` set (cdReleases db) \<subseteq> version_key ` set (cdVersions db) \<and>
     arProviderID ` set (cdReleases db) \<subseteq> pvProviderID ` set (cdProviders db) \<and>
     arEndpointBindingID ` set (cdReleases db) \<subseteq> ebBindingID ` set (cdBindings db) \<and>
     ebProviderID ` set (cdBindings db) \<subseteq> pvProviderID ` set (cdProviders db) \<and>
     (\<lambda>b. (ebAgentID b, ebAgentCardVersion b)) ` set (cdBindings db) \<subseteq> version_key ` set (cdVersions db) \<and>
     vcBindingID ` set (cdChallenges db) \<subseteq> ebBindingID ` set (cdBindings db)"

definition clock_bounds :: "catalog_db \<Rightarrow> bool" where
  "clock_bounds db \<longleftrightarrow> 0 \<le> cdClock db \<and> (\<forall>v\<in>set (cdVersions db). \<forall>n. vrSequence v = Some n \<longrightarrow> n \<le> cdClock db)"

text \<open>The card of a version names the agent and the version the row is stored under, and the time of publication
  is one the database can hold.\<close>

definition stored_version :: "version_row \<Rightarrow> bool" where
  "stored_version v \<longleftrightarrow> version_key v = (acAgentID (vrCard v), acVersion (vrCard v)) \<and>
     (case vrPublishedAt v of None \<Rightarrow> True | Some t \<Rightarrow> timestamptz t = t)"

definition card_keys :: "catalog_db \<Rightarrow> bool" where
  "card_keys db \<longleftrightarrow> list_all stored_version (cdVersions db)"

definition base_inv :: "catalog_db \<Rightarrow> bool" where
  "base_inv db \<longleftrightarrow> unique_keys db \<and> checked_rows db \<and> references db \<and> clock_bounds db \<and> card_keys db"

text \<open>What the state of a release says about its version.\<close>

definition version_agrees :: "agent_release \<Rightarrow> version_row \<Rightarrow> bool" where
  "version_agrees r v \<longleftrightarrow> version_key v = release_key r \<longrightarrow>
     (arState r = ''published'' \<longrightarrow> vrStatus v = ''published'') \<and>
     (arState r \<in> {''suspended'', ''revoked''} \<longrightarrow> vrStatus v = ''disabled'')"

definition states_agree :: "catalog_db \<Rightarrow> bool" where
  "states_agree db \<longleftrightarrow> (\<forall>r\<in>set (cdReleases db). \<forall>v\<in>set (cdVersions db). version_agrees r v)"

definition catalog_inv :: "catalog_db \<Rightarrow> bool" where
  "catalog_inv db \<longleftrightarrow> base_inv db \<and> states_agree db"

lemmas base_defs = base_inv_def unique_keys_def checked_rows_def references_def clock_bounds_def card_keys_def

section \<open>Statements\<close>

lemma map_filter_append [simp]: "List.map_filter f (xs @ ys) = List.map_filter f xs @ List.map_filter f ys"
  by (simp add: List.map_filter_def)

lemma map_filter_simp [simp]: "List.map_filter f [x] = (case f x of None \<Rightarrow> [] | Some y \<Rightarrow> [y])"
  by (simp add: List.map_filter_def split: option.splits)

lemma set_map_filter: "set (List.map_filter f xs) = {y. \<exists>x\<in>set xs. f x = Some y}"
  by (auto simp: List.map_filter_def intro: rev_image_eqI)

lemma insert_identity_base: "base_inv db \<Longrightarrow> insert_identity db r = Inr db' \<Longrightarrow> aiProviderID r = None \<Longrightarrow> base_inv db'"
  by (clarsimp simp: insert_identity_def base_defs list_ex_key subset_insertI2 split: if_splits)

lemma insert_version_base:
  "base_inv db \<Longrightarrow> insert_version db r = Inr db' \<Longrightarrow> vrSequence r = None \<Longrightarrow>
     stored_version r \<Longrightarrow> base_inv db'"
  by (clarsimp simp: insert_version_def base_defs list_ex_key subset_insertI2 split: if_splits)

lemma insert_capability_base: "base_inv db \<Longrightarrow> insert_capability db c = Inr db' \<Longrightarrow> base_inv db'"
  by (cases c) (clarsimp simp: insert_capability_def base_defs list_ex_key subset_insertI2 split: if_splits)

lemma insert_release_base: "base_inv db \<Longrightarrow> insert_release db r = Inr db' \<Longrightarrow> base_inv db'"
  by (clarsimp simp: insert_release_def base_defs list_ex_key subset_insertI2 split: if_splits)

lemma insert_provider_base: "base_inv db \<Longrightarrow> insert_provider db p = Inr db' \<Longrightarrow> base_inv db'"
  by (clarsimp simp: insert_provider_def base_defs list_ex_key subset_insertI2 split: if_splits)

lemma insert_binding_base: "base_inv db \<Longrightarrow> insert_binding db b = Inr db' \<Longrightarrow> base_inv db'"
  by (clarsimp simp: insert_binding_def base_defs list_ex_key subset_insertI2 split: if_splits)

lemma insert_challenge_base: "base_inv db \<Longrightarrow> insert_challenge db c = Inr db' \<Longrightarrow> base_inv db'"
  by (clarsimp simp: insert_challenge_def base_defs list_ex_key subset_insertI2 split: if_splits)

lemma advance_clock_base:
  assumes "base_inv db" "advance_clock db = (n, db')"
  shows "base_inv db'" "n = cdClock db'"
proof -
  have "clock_bounds db" using assms(1) by (simp add: base_inv_def)
  then have "clock_bounds (db\<lparr>cdClock := cdClock db + 1\<rparr>)" by (force simp: clock_bounds_def)
  then show "base_inv db'" "n = cdClock db'" using assms by (clarsimp simp: advance_clock_def base_inv_def unique_keys_def checked_rows_def references_def card_keys_def)+
qed

text \<open>The rewritings of a version row keep its key.\<close>

lemma row_updates [simp]:
  "version_key (publish_row t n r) = version_key r" "version_key (disable_row t r) = version_key r"
  "vrAgentID (publish_row t n r) = vrAgentID r" "vrAgentID (disable_row t r) = vrAgentID r"
  "vrStatus (publish_row t n r) = ''published''" "vrStatus (disable_row t r) = ''disabled''"
  "vrSequence (publish_row t n r) = Some n" "vrSequence (disable_row t r) = vrSequence r"
  "stored_version r \<Longrightarrow> stored_version (publish_row t n r)" "stored_version r \<Longrightarrow> stored_version (disable_row t r)"
  by (simp_all add: publish_row_def disable_row_def version_key_def stored_version_def)

lemma update_version_base:
  assumes "base_inv db" "update_version db k f = Inr db'"
    and "\<And>r. version_key (f r) = version_key r" "\<And>r. vrAgentID (f r) = vrAgentID r"
    and "\<And>r n. vrSequence (f r) = Some n \<Longrightarrow> vrSequence r = Some n \<or> n \<le> cdClock db"
    and "\<And>r. stored_version r \<Longrightarrow> stored_version (f r)"
  shows "base_inv db'"
proof -
  let ?rows = "update_where (\<lambda>r. version_key r = k) f (cdVersions db)"
  have db': "db' = db\<lparr>cdVersions := ?rows\<rparr>"
    and chk: "\<forall>r\<in>set (cdVersions db). version_key r = k \<longrightarrow> version_checks (f r)"
    and seq: "distinct (List.map_filter vrSequence ?rows)"
    using assms(2) by (auto simp: update_version_def Let_def list_all_iff split: if_splits)
  have "map version_key ?rows = map version_key (cdVersions db)" by (rule update_where_key) (rule assms(3))
  moreover have "version_key ` set ?rows = version_key ` set (cdVersions db)" "vrAgentID ` set ?rows = vrAgentID ` set (cdVersions db)"
    by (rule image_update_where, rule assms(3), rule image_update_where, rule assms(4))
  moreover have "list_all version_checks ?rows"
    using assms(1) chk by (auto simp: base_defs list_all_iff set_update_where)
  moreover have "\<forall>v\<in>set ?rows. \<forall>n. vrSequence v = Some n \<longrightarrow> n \<le> cdClock db"
    using assms(1,5) by (fastforce simp: base_defs set_update_where)
  moreover have "list_all stored_version ?rows"
    using assms(1,6) by (auto simp: base_defs list_all_iff set_update_where)
  ultimately show ?thesis using assms(1) seq by (simp add: db' base_defs)
qed

section \<open>Growth\<close>

definition identity_kept :: "identity_row \<Rightarrow> identity_row \<Rightarrow> bool" where
  "identity_kept i j \<longleftrightarrow> aiAgentID j = aiAgentID i \<and> aiOwnerID j = aiOwnerID i \<and> aiPublicAgentID j = aiPublicAgentID i \<and>
     (aiProviderID i \<noteq> None \<longrightarrow> aiProviderID j = aiProviderID i)"

definition version_kept :: "version_row \<Rightarrow> version_row \<Rightarrow> bool" where
  "version_kept v w \<longleftrightarrow> version_key w = version_key v \<and> vrCard w = vrCard v \<and> vrCardJSON w = vrCardJSON v \<and>
     vrCardDigest w = vrCardDigest v \<and> vrRegisteredAt w = vrRegisteredAt v \<and> vrLegacyUnverified w = vrLegacyUnverified v \<and>
     (vrDisabledAt v \<noteq> None \<longrightarrow> vrDisabledAt w \<noteq> None)"

definition release_rank :: "string \<Rightarrow> nat" where
  "release_rank s = (if s = ''verified'' then 1 else if s = ''published'' then 2 else if s = ''suspended'' then 3
     else if s = ''revoked'' then 4 else 0)"

definition release_kept :: "agent_release \<Rightarrow> agent_release \<Rightarrow> bool" where
  "release_kept r s \<longleftrightarrow> arReleaseID s = arReleaseID r \<and> arProviderID s = arProviderID r \<and> release_key s = release_key r \<and>
     arCardDigest s = arCardDigest r \<and> arEndpointBindingID s = arEndpointBindingID r \<and> arEndpointOrigin s = arEndpointOrigin r \<and>
     arEndpointPath s = arEndpointPath r \<and> arVerificationMethod s = arVerificationMethod r \<and> arCreatedAt s = arCreatedAt r \<and>
     (arVerificationEvidenceDigest r \<noteq> None \<longrightarrow> arVerificationEvidenceDigest s = arVerificationEvidenceDigest r) \<and>
     release_rank (arState r) \<le> release_rank (arState s)"

definition provider_kept :: "provider \<Rightarrow> provider \<Rightarrow> bool" where
  "provider_kept p q \<longleftrightarrow> pvProviderID q = pvProviderID p \<and> pvOwnerIdentity q = pvOwnerIdentity p \<and>
     (pvVerificationStatus p = ''verified'' \<longrightarrow> pvVerificationStatus q = ''verified'')"

definition binding_kept :: "endpoint_binding \<Rightarrow> endpoint_binding \<Rightarrow> bool" where
  "binding_kept b c \<longleftrightarrow> ebBindingID c = ebBindingID b \<and> ebProviderID c = ebProviderID b \<and> ebAgentID c = ebAgentID b \<and>
     ebAgentCardVersion c = ebAgentCardVersion b \<and> ebEndpoint c = ebEndpoint b \<and> ebOrigin c = ebOrigin b \<and> ebPath c = ebPath b \<and>
     (ebVerificationStatus b = ''verified'' \<longrightarrow> c = b)"

definition challenge_kept :: "verification_challenge \<Rightarrow> verification_challenge \<Rightarrow> bool" where
  "challenge_kept c d \<longleftrightarrow> vcChallengeID d = vcChallengeID c \<and> vcBindingID d = vcBindingID c \<and> vcProofDigest d = vcProofDigest c \<and>
     vcExpiresAt d = vcExpiresAt c \<and> (vcUsedAt c \<noteq> None \<longrightarrow> d = c)"

lemmas kept_defs = identity_kept_def version_kept_def release_kept_def provider_kept_def binding_kept_def challenge_kept_def

lemma kept_refl [simp]:
  "reflp identity_kept" "reflp version_kept" "reflp release_kept" "reflp provider_kept" "reflp binding_kept" "reflp challenge_kept"
  by (auto intro!: reflpI simp: kept_defs)

lemma kept_trans:
  "transp identity_kept" "transp version_kept" "transp release_kept" "transp provider_kept" "transp binding_kept" "transp challenge_kept"
  by (auto intro!: transpI simp: kept_defs)

definition catalog_grows :: "catalog_db \<Rightarrow> catalog_db \<Rightarrow> bool" where
  "catalog_grows db db' \<longleftrightarrow> grown identity_kept (cdIdentities db) (cdIdentities db') \<and>
     grown version_kept (cdVersions db) (cdVersions db') \<and> grown release_kept (cdReleases db) (cdReleases db') \<and>
     grown provider_kept (cdProviders db) (cdProviders db') \<and> grown binding_kept (cdBindings db) (cdBindings db') \<and>
     grown challenge_kept (cdChallenges db) (cdChallenges db') \<and> cdClock db \<le> cdClock db'"

lemma catalog_grows_refl [simp]: "catalog_grows db db"
  by (simp add: catalog_grows_def grown_refl)

lemma catalog_grows_trans: "catalog_grows a b \<Longrightarrow> catalog_grows b c \<Longrightarrow> catalog_grows a c"
  unfolding catalog_grows_def using kept_trans grown_trans by (metis order_trans)

text \<open>The statements grow the tables.\<close>

lemma insert_grows:
  "insert_identity db r1 = Inr db' \<Longrightarrow> catalog_grows db db'" "insert_version db r2 = Inr db' \<Longrightarrow> catalog_grows db db'"
  "insert_capability db r3 = Inr db' \<Longrightarrow> catalog_grows db db'" "insert_release db r4 = Inr db' \<Longrightarrow> catalog_grows db db'"
  "insert_provider db r5 = Inr db' \<Longrightarrow> catalog_grows db db'" "insert_binding db r6 = Inr db' \<Longrightarrow> catalog_grows db db'"
  "insert_challenge db r7 = Inr db' \<Longrightarrow> catalog_grows db db'"
  by (auto simp: insert_identity_def insert_version_def insert_capability_def insert_release_def insert_provider_def
      insert_binding_def insert_challenge_def catalog_grows_def grown_refl grown_append split: if_splits)

lemma advance_clock_grows: "advance_clock db = (n, db') \<Longrightarrow> catalog_grows db db'"
  by (auto simp: advance_clock_def catalog_grows_def grown_refl)

lemma row_updates_kept [simp]: "version_kept v (publish_row t n v)" "version_kept v (disable_row t v)"
  by (simp_all add: version_kept_def) (simp_all add: publish_row_def disable_row_def)

lemma update_version_grows: "update_version db k f = Inr db' \<Longrightarrow> (\<And>v. version_kept v (f v)) \<Longrightarrow> catalog_grows db db'"
  by (auto simp: update_version_def Let_def catalog_grows_def grown_refl grown_update split: if_splits)

section \<open>Operations\<close>

definition sound_step :: "catalog_db \<Rightarrow> catalog_db \<Rightarrow> bool" where
  "sound_step db db' \<longleftrightarrow> (catalog_inv db \<longrightarrow> catalog_inv db' \<and> catalog_grows db db')"

lemma sound_refl [simp]: "sound_step db db"
  by (simp add: sound_step_def)

lemma sound_trans: "sound_step a b \<Longrightarrow> sound_step b c \<Longrightarrow> sound_step a c"
  using catalog_grows_trans by (auto simp: sound_step_def)

lemma run_tx_sound:
  assumes "run_tx dep env db body = (r, db')" "\<And>a d. body = Inr (a, d) \<Longrightarrow> sound_step db d"
  shows "sound_step db db'"
  using assms(1) by (rule run_tx_cases) (auto dest: assms(2))

lemma states_agree_cong:
  "cdReleases db' = cdReleases db \<Longrightarrow> cdVersions db' = cdVersions db \<Longrightarrow> states_agree db' = states_agree db"
  by (simp add: states_agree_def)

text \<open>Statements that leave releases and versions alone.\<close>

lemma insert_sound:
  "insert_identity db r1 = Inr db' \<Longrightarrow> aiProviderID r1 = None \<Longrightarrow> sound_step db db'" "insert_capability db r3 = Inr db' \<Longrightarrow> sound_step db db'"
  "insert_provider db r5 = Inr db' \<Longrightarrow> sound_step db db'" "insert_binding db r6 = Inr db' \<Longrightarrow> sound_step db db'"
  "insert_challenge db r7 = Inr db' \<Longrightarrow> sound_step db db'"
proof -
  have agree: "states_agree db' = states_agree db" if "insert_identity db r1 = Inr db' \<or> insert_capability db r3 = Inr db' \<or>
      insert_provider db r5 = Inr db' \<or> insert_binding db r6 = Inr db' \<or> insert_challenge db r7 = Inr db'"
    using that by (auto simp: insert_identity_def insert_capability_def insert_provider_def insert_binding_def
        insert_challenge_def intro!: states_agree_cong split: if_splits)
  show "insert_identity db r1 = Inr db' \<Longrightarrow> aiProviderID r1 = None \<Longrightarrow> sound_step db db'" "insert_capability db r3 = Inr db' \<Longrightarrow> sound_step db db'"
    "insert_provider db r5 = Inr db' \<Longrightarrow> sound_step db db'" "insert_binding db r6 = Inr db' \<Longrightarrow> sound_step db db'"
    "insert_challenge db r7 = Inr db' \<Longrightarrow> sound_step db db'"
    using agree insert_grows [of db _ db'] insert_identity_base [of db r1 db'] insert_capability_base [of db r3 db']
      insert_provider_base [of db r5 db'] insert_binding_base [of db r6 db'] insert_challenge_base [of db r7 db']
    by (simp_all add: sound_step_def catalog_inv_def)
qed

lemma advance_clock_sound: "advance_clock db = (n, db') \<Longrightarrow> sound_step db db'"
  using advance_clock_base(1) [of db n db'] advance_clock_grows [of db n db']
  by (auto simp: sound_step_def catalog_inv_def states_agree_def advance_clock_def)

lemma insert_version_sound:
  assumes "insert_version db r = Inr db'" "vrSequence r = None" "stored_version r"
  shows "sound_step db db'"
proof -
  have "states_agree db'" if inv: "catalog_inv db"
  proof -
    have new: "version_key r \<notin> version_key ` set (cdVersions db)" and db': "db' = db\<lparr>cdVersions := cdVersions db @ [r]\<rparr>"
      using assms(1) by (auto simp: insert_version_def list_ex_key split: if_splits)
    have "release_key ` set (cdReleases db) \<subseteq> version_key ` set (cdVersions db)"
      using inv by (simp add: catalog_inv_def base_defs)
    with new have "version_agrees x r" if "x \<in> set (cdReleases db)" for x
      using that image_subset_iff by (fastforce simp: version_agrees_def)
    then show ?thesis using inv db' by (auto simp: catalog_inv_def states_agree_def)
  qed
  then show ?thesis
    using assms insert_version_base [OF _ assms] insert_grows(2) [OF assms(1)] by (auto simp: sound_step_def catalog_inv_def)
qed

lemma insert_capabilities_sound: "insert_capabilities env n a v ss db = Inr db' \<Longrightarrow> sound_step db db'"
proof (induction ss arbitrary: n db)
  case (Cons s ss)
  then obtain d where "insert_capability db (a, v, skID s) = Inr d" "insert_capabilities env (Suc n) a v ss d = Inr db'"
    by auto
  then show ?case using sound_trans [OF insert_sound(2) Cons.IH] by blast
qed simp

lemma register_sound: "store_Register env db v = (r, db') \<Longrightarrow> sound_step db db'"
  unfolding store_Register_def
proof (rule run_tx_sound)
  fix a d assume "register_body env db v = Inr (a, d)"
  then obtain r1 db1 db2 where stmts: "insert_identity db r1 = Inr db1" "aiProviderID r1 = None" "insert_version db1 (version_row_of v) = Inr db2"
      "insert_capabilities env 4 (acAgentID (avCard v)) (acVersion (avCard v)) (acSkills (avCard v)) db2 = Inr d"
    by (auto simp: register_body_def Let_def)
  have "vrSequence (version_row_of v) = None" "stored_version (version_row_of v)"
    by (simp_all add: version_row_of_def version_key_def stored_version_def)
  note sound_trans [OF insert_sound(1) [OF stmts(1,2)] insert_version_sound [OF stmts(3) this]]
  then show "sound_step db d" using insert_capabilities_sound [OF stmts(4)] by (rule sound_trans)
qed

text \<open>Updating a version no release belongs to.\<close>

lemma update_version_sound:
  assumes "update_version db k f = Inr db'" "k \<notin> release_key ` set (cdReleases db)"
    and f: "\<And>r. version_key (f r) = version_key r" "\<And>r. vrAgentID (f r) = vrAgentID r" "\<And>v. version_kept v (f v)"
    and n: "\<And>r n. vrSequence (f r) = Some n \<Longrightarrow> vrSequence r = Some n \<or> n \<le> cdClock db"
    and stored: "\<And>r. stored_version r \<Longrightarrow> stored_version (f r)"
  shows "sound_step db db'"
proof -
  have "states_agree db'" if "states_agree db"
    using assms(1,2) that f(1)
    by (fastforce simp: update_version_def Let_def states_agree_def version_agrees_def set_update_where split: if_splits)
  then show ?thesis
    using update_version_base [OF _ assms(1) f(1,2) n stored] update_version_grows [OF assms(1) f(3)]
    by (auto simp: sound_step_def catalog_inv_def)
qed

lemma version_join_in:
  "(v, i, r) \<in> set (version_join db) \<Longrightarrow> v \<in> set (cdVersions db) \<and> i \<in> set (cdIdentities db) \<and> aiAgentID i = vrAgentID v \<and>
     r = find (\<lambda>r. release_key r = version_key v) (cdReleases db)"
  by (auto simp: version_join_def set_map_filter dest!: find_Some_in_set)

lemma query_row_Inr: "query_row P f rows = Inr a \<Longrightarrow> \<exists>r. r \<in> set rows \<and> P r \<and> find P rows = Some r \<and> f r = Inr a"
  by (auto simp: query_row_def split: option.splits dest!: find_Some_in_set)

lemma scanVersion_Inr:
  "scanVersion (v, i, r) = Inr (entry, owner) \<Longrightarrow> owner = aiOwnerID i \<and> avStatus entry = vrStatus v \<and> (avRelease entry = None \<longleftrightarrow> r = None)"
  by (auto simp: scanVersion_def split: if_splits option.splits)

lemma transition_sound: "store_transition env db agentID version caller t publish = (r, db') \<Longrightarrow> sound_step db db'"
  unfolding store_transition_def
proof (rule run_tx_sound)
  fix a d assume body: "transition_body env db agentID version caller t publish = Inr (a, d)"
  let ?k = "(agentID, version)"
  obtain entry owner where row: "query_row (\<lambda>(v, _). version_key v = ?k) scanVersion (version_join db) = Inr (entry, owner)"
      and none: "avRelease entry = None"
    using body by (auto simp: transition_body_def split: prod.splits)
  have "?k \<notin> release_key ` set (cdReleases db)"
  proof -
    obtain v i r0 where "(v, i, r0) \<in> set (version_join db)" "version_key v = ?k" "scanVersion (v, i, r0) = Inr (entry, owner)"
      using query_row_Inr [OF row] by auto
    then have "find (\<lambda>r. release_key r = ?k) (cdReleases db) = None"
      using scanVersion_Inr none version_join_in by metis
    then show ?thesis by (auto simp: find_None_all)
  qed
  note upd = update_version_sound [OF _ this]
  show "sound_step db d"
  proof (cases publish)
    case True
    obtain n db1 where clock: "advance_clock db = (n, db1)" by fastforce
    then have "update_version db1 ?k (publish_row t n) = Inr d" using body True row by (auto simp: transition_body_def)
    moreover have "cdReleases db1 = cdReleases db" "n = cdClock db1" using clock by (auto simp: advance_clock_def)
    ultimately have "sound_step db1 d"
      using \<open>?k \<notin> release_key ` set (cdReleases db)\<close>
      by (intro update_version_sound [where f = "publish_row t n" and k = ?k]) auto
    then show ?thesis using advance_clock_sound [OF clock] sound_trans by blast
  next
    case False
    then have "update_version db ?k (disable_row t) = Inr d \<or> d = db"
      using body row by (auto simp: transition_body_def split: if_splits)
    then show ?thesis by (auto intro: upd)
  qed
qed

lemma scanRelease_Inr: "scanRelease r = Inr s \<Longrightarrow> arState s = arState r \<and> release_key s = release_key r \<and> arReleaseID s = arReleaseID r"
  by (auto simp: scanRelease_def release_key_def split: option.splits if_splits)

lemma insert_release_sound:
  assumes "insert_release db r = Inr db'" "arState r \<notin> {''published'', ''suspended'', ''revoked''}"
  shows "sound_step db db'"
proof -
  have "states_agree db'" if "states_agree db"
    using that assms by (auto simp: insert_release_def states_agree_def version_agrees_def split: if_splits)
  then show ?thesis
    using insert_release_base [OF _ assms(1)] insert_grows(4) [OF assms(1)] by (auto simp: sound_step_def catalog_inv_def)
qed

lemma create_release_sound:
  assumes "store_CreateRelease env db value = (r, db')" "arState value \<notin> {''published'', ''suspended'', ''revoked''}"
  shows "sound_step db db'"
  using assms(1) unfolding store_CreateRelease_def
proof (rule run_tx_sound)
  fix a d assume "create_release_body env db value = Inr (a, d)"
  then have "insert_release db (release_row value) = Inr d"
    by (auto simp: create_release_body_def split: sum.splits if_splits)
  then show "sound_step db d" using assms(2) by (auto simp: release_row_def intro: insert_release_sound)
qed

lemma prepared_state: "prepare_release lib w c p a v b = Inr value \<Longrightarrow> arState value \<in> {''pending_verification'', ''verified''}"
  by (auto simp: prepare_release_def split: option.splits if_splits)

lemma release_transition_Some:
  assumes "release_transition current target evidence t = Some f"
  shows "arState (f r) = target" "arReleaseID (f r) = arReleaseID r" "release_key (f r) = release_key r"
    "release_rank (arState current) < release_rank target" "arProviderID (f r) = arProviderID r"
    "arEndpointBindingID (f r) = arEndpointBindingID r"
  using assms by (auto simp: release_transition_def release_key_def release_rank_def Let_def split: if_splits option.splits)

text \<open>The rewriting of one release and, in the same transaction, of its version.\<close>

lemma release_update_grows:
  assumes r: "find (\<lambda>r. arReleaseID r = k) (cdReleases db) = Some r"
    and upd: "update_release db k f = Inr (s, db')"
    and f: "\<And>r. release_rank (arState r) \<le> release_rank (arState (f r)) \<or> arState r \<noteq> arState r0"
    and u: "distinct (map arReleaseID (cdReleases db))" "arState r = arState r0"
  shows "catalog_grows db db'"
proof -
  have db': "db' = db\<lparr>cdReleases := update_where (\<lambda>r. arReleaseID r = k) f (cdReleases db)\<rparr>" "\<not> release_bound_mutation r (f r)"
    using upd r by (auto simp: update_release_def split: if_splits)
  have "x = r" if "x \<in> set (cdReleases db)" "arReleaseID x = k" for x
    using that r u(1) find_Some_in_set [OF r] by (auto dest: distinct_map_inj_key)
  moreover have "release_kept r (f r)"
    using db'(2) f [of r] u(2) by (auto simp: release_bound_mutation_def release_kept_def release_key_def)
  ultimately have "grown release_kept (cdReleases db) (cdReleases db')"
    unfolding db'(1) by (auto intro!: grown_update)
  then show ?thesis by (simp add: catalog_grows_def db'(1) grown_refl)
qed

lemma release_update_base:
  assumes "base_inv db" "update_release db k f = Inr (s, db')"
    and f: "\<And>r. arReleaseID (f r) = arReleaseID r" "\<And>r. release_key (f r) = release_key r"
      "\<And>r. arProviderID (f r) = arProviderID r" "\<And>r. arEndpointBindingID (f r) = arEndpointBindingID r"
  shows "base_inv db'"
proof -
  let ?rows = "update_where (\<lambda>r. arReleaseID r = k) f (cdReleases db)"
  obtain r where r: "find (\<lambda>r. arReleaseID r = k) (cdReleases db) = Some r" and chk: "release_checks (f r)"
    and db': "db' = db\<lparr>cdReleases := ?rows\<rparr>"
    using assms(2) by (auto simp: update_release_def split: option.splits if_splits)
  have uniq: "x = r" if "x \<in> set (cdReleases db)" "arReleaseID x = k" for x
    using that assms(1) find_Some_in_set [OF r] by (auto simp: base_defs dest: distinct_map_inj_key)
  have "list_all release_checks ?rows"
    using assms(1) chk uniq by (auto simp: base_defs list_all_iff set_update_where)
  moreover have "map arReleaseID ?rows = map arReleaseID (cdReleases db)" "map release_key ?rows = map release_key (cdReleases db)"
    by (rule update_where_key, rule f)+
  moreover have "release_key ` set ?rows = release_key ` set (cdReleases db)" "arProviderID ` set ?rows = arProviderID ` set (cdReleases db)"
      "arEndpointBindingID ` set ?rows = arEndpointBindingID ` set (cdReleases db)"
    by (rule image_update_where, rule f)+
  ultimately show ?thesis using assms(1) by (simp add: db' base_defs)
qed

lemma transition_states_agree:
  assumes inv: "catalog_inv db" and r: "r \<in> set (cdReleases db)" "arReleaseID r = k"
    and rels: "cdReleases d = update_where (\<lambda>r. arReleaseID r = k) f (cdReleases db)"
    and vers: "cdVersions d = update_where (\<lambda>v. version_key v = release_key r) g (cdVersions db)"
    and f: "arState (f r) = target" "release_key (f r) = release_key r"
    and g: "\<And>v. version_key (g v) = version_key v" "\<And>v. target = ''published'' \<Longrightarrow> vrStatus (g v) = ''published''"
      "\<And>v. target \<in> {''suspended'', ''revoked''} \<Longrightarrow> vrStatus (g v) = ''disabled''"
  shows "states_agree d"
  unfolding states_agree_def
proof (intro ballI)
  fix x v assume x: "x \<in> set (cdReleases d)" and v: "v \<in> set (cdVersions d)"
  have uniq: "y = r" if "y \<in> set (cdReleases db)" "arReleaseID y = k \<or> release_key y = release_key r" for y
    using that r inv by (auto simp: catalog_inv_def base_defs dest: distinct_map_inj_key)
  from v obtain v0 where v0: "v0 \<in> set (cdVersions db)" "v = (if version_key v0 = release_key r then g v0 else v0)"
    by (auto simp: vers set_update_where)
  from x consider "x = f r" | "x \<in> set (cdReleases db)" "arReleaseID x \<noteq> k"
    using uniq by (auto simp: rels set_update_where)
  then show "version_agrees x v"
  proof cases
    case 1
    then show ?thesis using f g v0(2) by (auto simp: version_agrees_def)
  next
    case 2
    then have "release_key x \<noteq> release_key r" using uniq r(2) by blast
    moreover have "version_agrees x v0" using inv 2 v0(1) by (auto simp: catalog_inv_def states_agree_def)
    ultimately show ?thesis using g(1) v0(2) by (auto simp: version_agrees_def split: if_splits)
  qed
qed

text \<open>The first phase of a transition: what happens to the version.\<close>

definition version_phase :: "string \<Rightarrow> time \<Rightarrow> int \<Rightarrow> version_row \<Rightarrow> version_row" where
  "version_phase target t n = (if target = ''published'' then publish_row t n
     else if target = ''suspended'' \<or> target = ''revoked'' then disable_row t else id)"

lemma version_phase_simps [simp]:
  "version_key (version_phase target t n v) = version_key v" "vrAgentID (version_phase target t n v) = vrAgentID v"
  "version_kept v (version_phase target t n v)"
  by (simp_all add: version_phase_def) (simp add: version_kept_def)

lemma transition_release_phases:
  assumes "transition_release_body env db k target ev t = Inr (a, d)"
  obtains r current f d1 s where "find (\<lambda>r. arReleaseID r = k) (cdReleases db) = Some r" "scanRelease r = Inr current"
    "release_transition current target ev t = Some f" "update_release d1 k f = Inr (s, d)" "cdReleases d1 = cdReleases db"
    "cdVersions d1 = update_where (\<lambda>v. version_key v = release_key r) (version_phase target t (cdClock d1)) (cdVersions db)"
    "base_inv db \<longrightarrow> base_inv d1" "catalog_grows db d1"
proof -
  have "\<exists>current f d1 s. query_row (\<lambda>r. arReleaseID r = k) scanRelease (cdReleases db) = Inr current \<and>
      release_transition current target ev t = Some f \<and> update_release d1 k f = Inr (s, d) \<and>
      (if target = ''published'' then
          update_version (snd (advance_clock db)) (release_key current) (publish_row t (fst (advance_clock db))) = Inr d1
        else if target = ''suspended'' \<or> target = ''revoked'' then update_version db (release_key current) (disable_row t) = Inr d1
        else d1 = db)"
    using assms by (auto simp: transition_release_body_def split: option.splits if_splits prod.splits)
  then obtain current f d1 s where row: "query_row (\<lambda>r. arReleaseID r = k) scanRelease (cdReleases db) = Inr current"
      and tr: "release_transition current target ev t = Some f" and upd: "update_release d1 k f = Inr (s, d)"
      and phase: "(if target = ''published'' then
          update_version (snd (advance_clock db)) (release_key current) (publish_row t (fst (advance_clock db))) = Inr d1
        else if target = ''suspended'' \<or> target = ''revoked'' then update_version db (release_key current) (disable_row t) = Inr d1
        else d1 = db)"
    by blast
  obtain r where r: "find (\<lambda>r. arReleaseID r = k) (cdReleases db) = Some r" "scanRelease r = Inr current"
    using query_row_Inr [OF row] by auto
  have key: "release_key current = release_key r" using scanRelease_Inr [OF r(2)] by simp
  obtain n db1 where clock: "advance_clock db = (n, db1)" by fastforce
  have same: "update_where P id xs = xs" for P and xs :: "version_row list"
    by (simp add: update_where_def map_idI)
  consider "target = ''published''" | "target = ''suspended'' \<or> target = ''revoked''"
    | "target \<noteq> ''published''" "target \<noteq> ''suspended''" "target \<noteq> ''revoked''" by blast
  then have "cdReleases d1 = cdReleases db \<and> (base_inv db \<longrightarrow> base_inv d1) \<and> catalog_grows db d1 \<and>
      cdVersions d1 = update_where (\<lambda>v. version_key v = release_key r) (version_phase target t (cdClock d1)) (cdVersions db)"
  proof cases
    case 1
    then have u: "update_version db1 (release_key r) (publish_row t n) = Inr d1" using phase clock key by simp
    have eqs: "cdVersions db1 = cdVersions db" "cdReleases db1 = cdReleases db" "n = cdClock db1"
      using clock by (auto simp: advance_clock_def)
    have "base_inv d1" if "base_inv db"
      by (rule update_version_base [OF advance_clock_base(1) [OF that clock] u]) (use eqs in auto)
    moreover have "catalog_grows db d1"
      by (rule catalog_grows_trans [OF advance_clock_grows [OF clock] update_version_grows [OF u]]) simp
    ultimately show ?thesis
      using 1 u eqs by (auto simp: update_version_def Let_def version_phase_def split: if_splits)
  next
    case 2
    then have u: "update_version db (release_key r) (disable_row t) = Inr d1" using phase key by auto
    have "base_inv d1" if "base_inv db" by (rule update_version_base [OF that u]) auto
    moreover have "catalog_grows db d1" by (rule update_version_grows [OF u]) simp
    ultimately show ?thesis
      using 2 u by (auto simp: update_version_def Let_def version_phase_def split: if_splits)
  next
    case 3
    then show ?thesis using phase by (simp add: version_phase_def same)
  qed
  then show ?thesis using that r tr upd by blast
qed

lemma transition_release_sound: "store_TransitionRelease env db k target ev t = (r, db') \<Longrightarrow> sound_step db db'"
  unfolding store_TransitionRelease_def
proof (rule run_tx_sound)
  fix a d assume "transition_release_body env db k target ev t = Inr (a, d)"
  then obtain r current f d1 s where r: "find (\<lambda>r. arReleaseID r = k) (cdReleases db) = Some r" "scanRelease r = Inr current"
    and f: "release_transition current target ev t = Some f" and upd: "update_release d1 k f = Inr (s, d)"
    and rels: "cdReleases d1 = cdReleases db"
    and vers: "cdVersions d1 = update_where (\<lambda>v. version_key v = release_key r) (version_phase target t (cdClock d1)) (cdVersions db)"
    and d1: "base_inv db \<longrightarrow> base_inv d1" "catalog_grows db d1"
    by (rule transition_release_phases)
  note tr = release_transition_Some [OF f]
  have st: "arState current = arState r" using scanRelease_Inr [OF r(2)] by simp
  have "catalog_inv d \<and> catalog_grows db d" if inv: "catalog_inv db"
  proof -
    have base: "base_inv d1" using inv d1(1) by (simp add: catalog_inv_def)
    have u: "distinct (map arReleaseID (cdReleases d1))" using base by (simp add: base_defs)
    have "catalog_grows d1 d"
      by (rule release_update_grows [where r = r and ?r0.0 = r, OF _ upd _ u refl]) (use r rels tr st in \<open>auto simp: less_imp_le\<close>)
    moreover have "base_inv d" by (rule release_update_base [OF base upd]) (use tr in auto)
    moreover have "states_agree d"
    proof (rule transition_states_agree [OF inv, where f = f and target = target and k = k and r = r])
      show "r \<in> set (cdReleases db)" "arReleaseID r = k" using find_Some_in_set [OF r(1)] by auto
      show "cdReleases d = update_where (\<lambda>r. arReleaseID r = k) f (cdReleases db)"
        using upd rels r by (auto simp: update_release_def split: if_splits)
      show "cdVersions d = update_where (\<lambda>v. version_key v = release_key r) (version_phase target t (cdClock d1)) (cdVersions db)"
        using upd vers by (auto simp: update_release_def split: if_splits option.splits)
    qed (use tr in \<open>auto simp: version_phase_def\<close>)
    ultimately show ?thesis using d1(2) catalog_grows_trans by (auto simp: catalog_inv_def)
  qed
  then show "sound_step db d" by (simp add: sound_step_def)
qed

text \<open>Updates of the tables beside releases and versions.\<close>

lemma update_where_map:
  "(\<And>x. x \<in> set xs \<Longrightarrow> P x \<Longrightarrow> h (f x) = h x) \<Longrightarrow> map h (update_where P f xs) = map h xs"
  by (simp add: update_where_def)

lemma update_where_image:
  "(\<And>x. x \<in> set xs \<Longrightarrow> P x \<Longrightarrow> h (f x) = h x) \<Longrightarrow> h ` set (update_where P f xs) = h ` set xs"
  using update_where_map [of xs P h f] by (metis set_map)

lemma list_all_update_where:
  "list_all Q xs \<Longrightarrow> (\<And>x. x \<in> set xs \<Longrightarrow> P x \<Longrightarrow> Q (f x)) \<Longrightarrow> list_all Q (update_where P f xs)"
  by (auto simp: list_all_iff set_update_where)

lemma update_identities_sound:
  assumes "\<And>i. i \<in> set (cdIdentities db) \<Longrightarrow> P i \<Longrightarrow> identity_kept i (f i)"
    and "\<And>i q. P i \<Longrightarrow> aiProviderID (f i) = Some q \<Longrightarrow> q \<in> pvProviderID ` set (cdProviders db)"
  shows "sound_step db (db\<lparr>cdIdentities := update_where P f (cdIdentities db)\<rparr>)"
proof -
  note m = update_where_map [of "cdIdentities db" P _ f] update_where_image [of "cdIdentities db" P _ f]
  have chk: "list_all identity_checks (update_where P f (cdIdentities db))" if all: "list_all identity_checks (cdIdentities db)"
    by (rule list_all_update_where [OF all]) (use assms(1) all in \<open>simp add: list_all_iff identity_checks_def identity_kept_def\<close>)
  have prov: "\<forall>i\<in>set (update_where P f (cdIdentities db)). \<forall>q. aiProviderID i = Some q \<longrightarrow> q \<in> pvProviderID ` set (cdProviders db)"
    if "\<forall>i\<in>set (cdIdentities db). \<forall>q. aiProviderID i = Some q \<longrightarrow> q \<in> pvProviderID ` set (cdProviders db)"
    using that assms(2) by (auto simp: set_update_where)
  show ?thesis
    using assms(1) prov by (simp add: sound_step_def catalog_inv_def base_defs states_agree_def m chk identity_kept_def
        catalog_grows_def grown_refl grown_update)
qed

lemma update_bindings_sound:
  assumes "\<And>b. b \<in> set (cdBindings db) \<Longrightarrow> P b \<Longrightarrow> binding_kept b (f b) \<and> binding_checks (f b)"
  shows "sound_step db (db\<lparr>cdBindings := update_where P f (cdBindings db)\<rparr>)"
proof -
  note m = update_where_map [of "cdBindings db" P _ f] update_where_image [of "cdBindings db" P _ f]
    list_all_update_where [of binding_checks "cdBindings db" P f]
  show ?thesis
    using assms by (simp add: sound_step_def catalog_inv_def base_defs states_agree_def m binding_kept_def
        catalog_grows_def grown_refl grown_update)
qed

lemma update_providers_sound:
  assumes "\<And>p. p \<in> set (cdProviders db) \<Longrightarrow> P p \<Longrightarrow> provider_kept p (f p) \<and> provider_checks (f p)"
  shows "sound_step db (db\<lparr>cdProviders := update_where P f (cdProviders db)\<rparr>)"
proof -
  note m = update_where_map [of "cdProviders db" P _ f] update_where_image [of "cdProviders db" P _ f]
    list_all_update_where [of provider_checks "cdProviders db" P f]
  show ?thesis
    using assms by (simp add: sound_step_def catalog_inv_def base_defs states_agree_def m provider_kept_def
        catalog_grows_def grown_refl grown_update)
qed

lemma update_challenges_sound:
  assumes "\<And>c. c \<in> set (cdChallenges db) \<Longrightarrow> P c \<Longrightarrow> challenge_kept c (f c)"
  shows "sound_step db (db\<lparr>cdChallenges := update_where P f (cdChallenges db)\<rparr>)"
proof -
  note m = update_where_map [of "cdChallenges db" P _ f] update_where_image [of "cdChallenges db" P _ f]
  have chk: "list_all challenge_checks (update_where P f (cdChallenges db))" if all: "list_all challenge_checks (cdChallenges db)"
    by (rule list_all_update_where [OF all]) (use assms all in \<open>simp add: list_all_iff challenge_checks_def challenge_kept_def\<close>)
  show ?thesis
    using assms by (simp add: sound_step_def catalog_inv_def base_defs states_agree_def m chk challenge_kept_def
        catalog_grows_def grown_refl grown_update)
qed

lemma create_binding_sound: "store_CreateBinding env db p b = (r, db') \<Longrightarrow> sound_step db db'"
  unfolding store_CreateBinding_def
proof (rule run_tx_sound)
  fix a d assume run: "create_binding_body env db p b = Inr (a, d)"
  let ?claim = "\<lambda>i. i\<lparr>aiProviderID := Some (pvProviderID p)\<rparr>"
  let ?P = "\<lambda>i. aiAgentID i = ebAgentID b"
  have "\<exists>db1 db2 i. insert_provider db (provider_row p) = Inr db1 \<and> insert_binding db2 (binding_row b) = Inr d \<and>
      find ?P (cdIdentities db1) = Some i \<and> (\<exists>x. find (\<lambda>x. pvProviderID x = pvProviderID p) (cdProviders db1) = Some x) \<and>
      (db2 = db1 \<or> aiProviderID i = None \<and> db2 = db1\<lparr>cdIdentities := update_where ?P ?claim (cdIdentities db1)\<rparr>)"
    using run by (auto simp: create_binding_body_def query_row_def split: option.splits if_splits prod.splits)
  then obtain db1 db2 i x where p: "insert_provider db (provider_row p) = Inr db1" and b: "insert_binding db2 (binding_row b) = Inr d"
    and i: "find ?P (cdIdentities db1) = Some i" and x: "find (\<lambda>x. pvProviderID x = pvProviderID p) (cdProviders db1) = Some x"
    and claim: "db2 = db1 \<or> aiProviderID i = None \<and> db2 = db1\<lparr>cdIdentities := update_where ?P ?claim (cdIdentities db1)\<rparr>"
    by blast
  have owner: "pvProviderID p \<in> pvProviderID ` set (cdProviders db1)" using find_Some_in_set [OF x] by (metis imageI)
  have "sound_step db1 db2" if "catalog_inv db1"
  proof -
    have "distinct (map aiAgentID (cdIdentities db1))" using that by (simp add: catalog_inv_def base_defs)
    then have "j = i" if "j \<in> set (cdIdentities db1)" "?P j" for j
      using that find_Some_in_set [OF i] by (auto dest: distinct_map_inj_key)
    then have keep: "identity_kept j (?claim j)" if "aiProviderID i = None" "j \<in> set (cdIdentities db1)" "?P j" for j
      using that by (simp add: identity_kept_def)
    from claim show ?thesis
      by (elim disjE conjE) (simp, simp only:, rule update_identities_sound, erule keep, use owner in auto)
  qed
  then have "sound_step db1 db2" by (auto simp: sound_step_def)
  then show "sound_step db d" using insert_sound(3) [OF p] insert_sound(4) [OF b] sound_trans by blast
qed

lemma create_challenge_sound: "store_CreateChallenge env db c = (r, db') \<Longrightarrow> sound_step db db'"
  using insert_sound(5) [of db "challenge_row c"] by (auto simp: store_CreateChallenge_def split: sum.splits if_splits)

lemma reserve_sound: "ReserveChallenge env db bid cid t = (r, db') \<Longrightarrow> sound_step db db'"
  unfolding ReserveChallenge_def
proof (rule run_tx_sound)
  fix a d assume run: "reserve_challenge_body env db bid cid t = Inr (a, d)"
  let ?P = "\<lambda>c. vcBindingID c = bid \<and> vcChallengeID c = cid"
  have "\<exists>c. find ?P (cdChallenges db) = Some c \<and> vcUsedAt c = None \<and>
      d = db\<lparr>cdChallenges := update_where ?P (\<lambda>c. c\<lparr>vcUsedAt := Some (timestamptz t)\<rparr>) (cdChallenges db)\<rparr>"
    using run by (auto simp: reserve_challenge_body_def query_row_def split: option.splits if_splits prod.splits)
  then obtain c where c: "find ?P (cdChallenges db) = Some c" "vcUsedAt c = None"
    and d: "d = db\<lparr>cdChallenges := update_where ?P (\<lambda>c. c\<lparr>vcUsedAt := Some (timestamptz t)\<rparr>) (cdChallenges db)\<rparr>" by blast
  have "sound_step db d" if "catalog_inv db"
  proof -
    have "distinct (map vcChallengeID (cdChallenges db))" using that by (simp add: catalog_inv_def base_defs)
    then have "x = c" if "x \<in> set (cdChallenges db)" "?P x" for x
      using that find_Some_in_set [OF c(1)] by (auto dest: distinct_map_inj_key)
    then show ?thesis using c(2) unfolding d by (intro update_challenges_sound) (auto simp: challenge_kept_def)
  qed
  then show "sound_step db d" by (auto simp: sound_step_def)
qed

lemma set_verification_sound: "SetBindingVerification env db bid status code digest t = (r, db') \<Longrightarrow> sound_step db db'"
  unfolding SetBindingVerification_def
proof (rule run_tx_sound)
  fix a d assume run: "set_verification_body env db bid status code digest t = Inr (a, d)"
  let ?P = "\<lambda>b. ebBindingID b = bid \<and> ebVerificationStatus b \<in> {''pending'', ''failed''}"
  let ?f = "verification_row status code digest t"
  let ?db1 = "db\<lparr>cdBindings := update_where ?P ?f (cdBindings db)\<rparr>"
  let ?g = "\<lambda>p. p\<lparr>pvVerificationStatus := ''verified'', pvVerifiedAt := Some (timestamptz t), pvUpdatedAt := timestamptz t\<rparr>"
  have "\<exists>b Q. find ?P (cdBindings db) = Some b \<and> binding_checks (?f b) \<and>
      (d = ?db1 \<or> list_all (\<lambda>p. Q p \<longrightarrow> provider_checks (?g p)) (cdProviders ?db1) \<and>
         d = ?db1\<lparr>cdProviders := update_where Q ?g (cdProviders ?db1)\<rparr>)"
    using run by (cases "find ?P (cdBindings db)")
      (auto simp: set_verification_body_def Let_def query_row_def sql_def split: sum.splits if_splits prod.splits)
  then obtain b Q where b: "find ?P (cdBindings db) = Some b" "binding_checks (?f b)"
    and d: "d = ?db1 \<or> list_all (\<lambda>p. Q p \<longrightarrow> provider_checks (?g p)) (cdProviders ?db1) \<and>
         d = ?db1\<lparr>cdProviders := update_where Q ?g (cdProviders ?db1)\<rparr>" by blast
  have "sound_step db ?db1" if "catalog_inv db"
  proof (rule update_bindings_sound)
    have "distinct (map ebBindingID (cdBindings db))" using that by (simp add: catalog_inv_def base_defs)
    then have "x = b" if "x \<in> set (cdBindings db)" "?P x" for x
      using that find_Some_in_set [OF b(1)] by (auto dest: distinct_map_inj_key)
    then show "binding_kept x (?f x) \<and> binding_checks (?f x)" if "x \<in> set (cdBindings db)" "?P x" for x
      using that b(2) by (auto simp: binding_kept_def verification_row_def)
  qed
  then have 1: "sound_step db ?db1" by (auto simp: sound_step_def)
  have "sound_step ?db1 d"
    using d by (elim disjE conjE) (simp, simp only:, rule update_providers_sound, auto simp: provider_kept_def list_all_iff)
  with 1 show "sound_step db d" by (rule sound_trans)
qed

end
