(* ===== verification/Catalog_Run.thy ===== *)
theory Catalog_Run
  imports Catalog_Correct
begin

text \<open>
  Runs of the Catalog and Trust services: any number of requests are in flight at once, each reads the
  tables as earlier transactions left them and writes them as they are when its own transaction comes.
  Every reachable state satisfies the invariants of the tables, and every release that left its pending
  state is backed by the verified endpoint binding it names.
\<close>

section \<open>Runs\<close>

definition reads_from :: "'a catalog_world_scheme \<Rightarrow> nat \<Rightarrow> catalog_db list \<Rightarrow> bool" where
  "reads_from w n h \<longleftrightarrow> (\<forall>k<n. cwDb w k \<in> set h)"

text \<open>One write. \<open>h\<close> holds the states of the tables so far; a request's earlier calls to the store
  read states of \<open>h\<close>, and its write finds the present state.\<close>

inductive catalog_step ::
    "contract_library \<Rightarrow> url_library \<Rightarrow> trust_service \<Rightarrow> catalog_db list \<Rightarrow> catalog_db \<Rightarrow> catalog_db \<Rightarrow> bool"
  for lib urls service h where
  step_Register: "Register lib marshal publicOrigin w caller decoded = (r, Some db') \<Longrightarrow>
     catalog_step lib urls service h (cwDb w 0) db'"
| step_transition: "service_transition lib publicOrigin w caller agentID version publish = (r, Some db') \<Longrightarrow>
     catalog_step lib urls service h (cwDb w 0) db'"
| step_CreateRelease: "CreateRelease lib w caller providerID agentID version bindingID = (r, Some db') \<Longrightarrow> reads_from w 3 h \<Longrightarrow>
     catalog_step lib urls service h (cwDb w 3) db'"
| step_VerifyRelease: "VerifyRelease w caller releaseID = (r, Some db') \<Longrightarrow> reads_from w 5 h \<Longrightarrow>
     catalog_step lib urls service h (cwDb w 5) db'"
| step_PublishRelease: "PublishRelease w caller releaseID = (r, Some db') \<Longrightarrow> reads_from w 4 h \<Longrightarrow>
     catalog_step lib urls service h (cwDb w 4) db'"
| step_SuspendRelease: "SuspendRelease w caller releaseID = (r, Some db') \<Longrightarrow> reads_from w 2 h \<Longrightarrow>
     catalog_step lib urls service h (cwDb w 2) db'"
| step_RevokeRelease: "RevokeRelease w caller releaseID = (r, Some db') \<Longrightarrow> reads_from w 2 h \<Longrightarrow>
     catalog_step lib urls service h (cwDb w 2) db'"
| step_CreateBinding: "CreateBinding lib urls t caller providerID agentID version endpoint verification = (r, Some db') \<Longrightarrow>
     reads_from t 1 h \<Longrightarrow> catalog_step lib urls service h (cwDb t 1) db'"
| step_CreateChallenge: "CreateChallenge service t caller providerID bindingID = (r, Some db') \<Longrightarrow> reads_from t 2 h \<Longrightarrow>
     catalog_step lib urls service h (cwDb t 2) db'"
| step_reserve: "CompleteChallenge urls service t caller providerID bindingID challengeID = (r, Some db', later) \<Longrightarrow>
     reads_from t 2 h \<Longrightarrow> catalog_step lib urls service h (cwDb t 2) db'"
| step_complete: "CompleteChallenge urls service t caller providerID bindingID challengeID = (r, Some earlier, Some db') \<Longrightarrow>
     reads_from t 3 h \<Longrightarrow> earlier \<in> set h \<Longrightarrow> catalog_step lib urls service h (cwDb t 3) db'"

text \<open>The states of a run, the latest first.\<close>

inductive catalog_run :: "contract_library \<Rightarrow> url_library \<Rightarrow> trust_service \<Rightarrow> catalog_db list \<Rightarrow> bool"
  for lib urls service where
  run_start: "catalog_run lib urls service [empty_catalog]"
| run_step: "catalog_run lib urls service (db # h) \<Longrightarrow> catalog_step lib urls service (db # h) db db' \<Longrightarrow>
     catalog_run lib urls service (db' # db # h)"

section \<open>Soundness of every write\<close>

text \<open>The writes of a request in terms of the store.\<close>

definition verification_write :: "db_env \<Rightarrow> catalog_db \<Rightarrow> string \<Rightarrow> catalog_db \<Rightarrow> bool" where
  "verification_write env db bid db' \<longleftrightarrow>
     (\<exists>status code digest t. db' = snd (SetBindingVerification env db bid status code digest t))"

lemma verification_writeI: "SetBindingVerification env db bid status code digest t = (r, db') \<Longrightarrow> verification_write env db bid db'"
  unfolding verification_write_def by (metis snd_conv)

lemma failVerification_write:
  "failVerification w bid cause now = (err, Some db') \<Longrightarrow> verification_write (cwEnv w 3) (cwDb w 3) bid db'"
  by (auto simp: failVerification_def dest: verification_writeI split: option.splits prod.splits sum.splits)

lemma Register_write:
  "Register lib marshal origin w caller decoded = (r, Some db') \<Longrightarrow> \<exists>v s. store_Register (cwEnv w 0) (cwDb w 0) v = (s, db')"
  by (auto simp: Register_def split: option.splits if_splits sum.splits prod.splits)

lemma transition_write:
  "service_transition lib origin w caller a v p = (r, Some db') \<Longrightarrow>
     \<exists>s. store_transition (cwEnv w 0) (cwDb w 0) a v caller (cwNow w 0) p = (s, db')"
  by (auto simp: service_transition_def split: if_splits prod.splits)

lemma CreateRelease_write:
  "CreateRelease lib w caller p a v b = (r, Some db') \<Longrightarrow>
     \<exists>value. prepare_release lib w caller p a v b = Inr value \<and> store_CreateRelease (cwEnv w 3) (cwDb w 3) value = (r, db')"
  by (auto simp: CreateRelease_def split: sum.splits)

lemma VerifyRelease_write:
  "VerifyRelease w caller k = (r, Some db') \<Longrightarrow>
     \<exists>rel b. authorizeRelease w caller k = Inr rel \<and> requireCurrentVerifiedBinding w rel = None \<and>
       trust_GetBinding w 4 (arProviderID rel) (arEndpointBindingID rel) = Inr b \<and> ebVerificationEvidenceDigest b \<noteq> None \<and>
       store_TransitionRelease (cwEnv w 5) (cwDb w 5) k ''verified'' (ebVerificationEvidenceDigest b) (cwNow w 0) = (r, db')"
  by (auto simp: VerifyRelease_def split: sum.splits if_splits option.splits)

lemma PublishRelease_write:
  "PublishRelease w caller k = (r, Some db') \<Longrightarrow>
     \<exists>rel. authorizeRelease w caller k = Inr rel \<and> arState rel = ''verified'' \<and> requireCurrentVerifiedBinding w rel = None \<and>
       store_TransitionRelease (cwEnv w 4) (cwDb w 4) k ''published'' None (cwNow w 0) = (r, db')"
  by (auto simp: PublishRelease_def split: sum.splits if_splits option.splits)

lemma SuspendRelease_write:
  "SuspendRelease w caller k = (r, Some db') \<Longrightarrow>
     store_TransitionRelease (cwEnv w 2) (cwDb w 2) k ''suspended'' None (cwNow w 0) = (r, db')"
  by (auto simp: SuspendRelease_def split: sum.splits if_splits)

lemma RevokeRelease_write:
  "RevokeRelease w caller k = (r, Some db') \<Longrightarrow>
     store_TransitionRelease (cwEnv w 2) (cwDb w 2) k ''revoked'' None (cwNow w 0) = (r, db')"
  by (auto simp: RevokeRelease_def split: sum.splits if_splits)

lemma CreateBinding_write:
  "CreateBinding lib urls w caller p a v e m = (r, Some db') \<Longrightarrow> \<exists>x y. store_CreateBinding (cwEnv w 1) (cwDb w 1) x y = (r, db')"
  by (auto simp: CreateBinding_def split: sum.splits if_splits option.splits)

lemma CreateChallenge_write:
  "CreateChallenge service w caller p b = (r, Some db') \<Longrightarrow> \<exists>c s. store_CreateChallenge (cwEnv w 2) (cwDb w 2) c = (s, db')"
  by (auto simp: CreateChallenge_def Let_def split: sum.splits if_splits option.splits prod.splits)

lemma CompleteChallenge_writes:
  assumes "CompleteChallenge urls service w caller p b c = (r, Some d, later)"
  shows "\<exists>s. ReserveChallenge (cwEnv w 2) (cwDb w 2) b c (cwNow w 0) = (s, d)"
    and "later = Some d' \<Longrightarrow> verification_write (cwEnv w 3) (cwDb w 3) b d'"
  using assms
  by (auto simp: CompleteChallenge_def Let_def dest: failVerification_write verification_writeI
      split: sum.splits if_splits option.splits prod.splits)

lemma catalog_step_sound: "catalog_step lib urls service h db db' \<Longrightarrow> sound_step db db'"
proof (induction rule: catalog_step.induct)
  case (step_CreateRelease w caller providerID agentID version bindingID r db')
  then obtain rel where "prepare_release lib w caller providerID agentID version bindingID = Inr rel"
    "store_CreateRelease (cwEnv w 3) (cwDb w 3) rel = (r, db')" using CreateRelease_write by blast
  then show ?case using prepared_state create_release_sound by fastforce
next
  case (step_complete t caller providerID bindingID challengeID r earlier db')
  then have "verification_write (cwEnv t 3) (cwDb t 3) bindingID db'" using CompleteChallenge_writes(2) by blast
  then show ?case unfolding verification_write_def using set_verification_sound by (metis prod.collapse)
qed (auto dest!: Register_write transition_write VerifyRelease_write PublishRelease_write SuspendRelease_write RevokeRelease_write
    CreateBinding_write CreateChallenge_write CompleteChallenge_writes(1)
    intro: register_sound transition_sound transition_release_sound create_binding_sound create_challenge_sound
      reserve_sound)

lemma empty_catalog_inv: "catalog_inv empty_catalog"
  by (simp add: empty_catalog_def catalog_inv_def base_defs states_agree_def List.map_filter_def)

lemma run_sound:
  assumes "catalog_run lib urls service h"
  shows "(\<forall>db\<in>set h. catalog_inv db) \<and> (\<forall>db\<in>set h. catalog_grows db (hd h))"
  using assms
proof (induction rule: catalog_run.induct)
  case (run_step db h db')
  then have "sound_step db db'" using catalog_step_sound by blast
  with run_step.IH have 1: "catalog_inv db'" "catalog_grows db db'" by (auto simp: sound_step_def)
  then show ?case using run_step.IH catalog_grows_trans by auto
qed (simp add: empty_catalog_inv)

section \<open>Releases are backed by verified bindings\<close>

definition release_binding :: "catalog_db \<Rightarrow> agent_release \<Rightarrow> endpoint_binding \<Rightarrow> bool" where
  "release_binding db r b \<longleftrightarrow> b \<in> set (cdBindings db) \<and> ebBindingID b = arEndpointBindingID r \<and> ebProviderID b = arProviderID r \<and>
     ebAgentID b = arAgentID r \<and> ebAgentCardVersion b = arAgentCardVersion r \<and> ebOrigin b = arEndpointOrigin r \<and>
     ebPath b = arEndpointPath r \<and> ebVerificationStatus b = ''verified'' \<and>
     ebVerificationEvidenceDigest b = arVerificationEvidenceDigest r \<and> arVerificationEvidenceDigest r \<noteq> None"

definition provider_verified :: "catalog_db \<Rightarrow> string \<Rightarrow> bool" where
  "provider_verified db k \<longleftrightarrow> list_ex (\<lambda>p. pvProviderID p = k \<and> pvVerificationStatus p = ''verified'') (cdProviders db)"

definition backed :: "catalog_db \<Rightarrow> agent_release \<Rightarrow> bool" where
  "backed db r \<longleftrightarrow> arState r \<notin> {''draft'', ''pending_verification''} \<longrightarrow>
     (\<exists>b. release_binding db r b) \<and> (arState r = ''published'' \<longrightarrow> provider_verified db (arProviderID r))"

definition releases_backed :: "catalog_db \<Rightarrow> bool" where
  "releases_backed db \<longleftrightarrow> (\<forall>r\<in>set (cdReleases db). backed db r)"

text \<open>A verified binding and a verified provider stay verified.\<close>

lemma binding_stays:
  assumes "catalog_grows db db'" "b \<in> set (cdBindings db)" "ebVerificationStatus b = ''verified''"
  shows "b \<in> set (cdBindings db')"
  using assms grown_in [of binding_kept "cdBindings db" "cdBindings db'" b] by (auto simp: catalog_grows_def binding_kept_def)

lemma provider_stays: "catalog_grows db db' \<Longrightarrow> provider_verified db k \<Longrightarrow> provider_verified db' k"
  using grown_in [of provider_kept "cdProviders db" "cdProviders db'"]
  by (fastforce simp: catalog_grows_def provider_verified_def provider_kept_def list_ex_iff)

lemma backed_grows: "catalog_grows db db' \<Longrightarrow> backed db r \<Longrightarrow> backed db' r"
  using binding_stays [of db db'] provider_stays [of db db' "arProviderID r"] by (fastforce simp: backed_def release_binding_def)

lemma releases_backed_kept:
  "catalog_grows db db' \<Longrightarrow> cdReleases db' = cdReleases db \<Longrightarrow> releases_backed db \<Longrightarrow> releases_backed db'"
  using backed_grows by (auto simp: releases_backed_def)

text \<open>Checked rows are read as they are.\<close>

lemma scan_checked:
  "release_checks r \<Longrightarrow> scanRelease r = Inr s \<Longrightarrow> s = r" "binding_checks b \<Longrightarrow> scanBinding b = Inr c \<Longrightarrow> c = b"
  by (auto simp: scanRelease_def release_checks_def scanBinding_def binding_checks_def split: option.splits if_splits)

lemma read_release:
  assumes inv: "catalog_inv db" and get: "store_GetRelease env db k = Inr r"
  shows "r \<in> set (cdReleases db) \<and> arReleaseID r = k"
proof -
  obtain x where x: "find (\<lambda>r. arReleaseID r = k) (cdReleases db) = Some x" "scanRelease x = Inr r"
    using get by (auto simp: store_GetRelease_def query_row_def split: option.splits)
  have "release_checks x" using inv find_Some_in_set [OF x(1)] by (auto simp: catalog_inv_def base_defs list_all_iff)
  then show ?thesis using scan_checked(1) x(2) find_Some_in_set [OF x(1)] by blast
qed

lemma read_binding:
  assumes inv: "catalog_inv db" and get: "store_GetBinding env db p k = Inr b"
  shows "b \<in> set (cdBindings db) \<and> ebBindingID b = k \<and> ebProviderID b = p"
proof -
  obtain x where x: "find (\<lambda>b. ebProviderID b = p \<and> ebBindingID b = k) (cdBindings db) = Some x" "scanBinding x = Inr b"
    using get by (auto simp: store_GetBinding_def query_row_def split: option.splits)
  have "binding_checks x" using inv find_Some_in_set [OF x(1)] by (auto simp: catalog_inv_def base_defs list_all_iff)
  then show ?thesis using scan_checked(2) x(2) find_Some_in_set [OF x(1)] by blast
qed

lemma read_provider:
  "store_GetProvider env db k = Inr p \<Longrightarrow> p \<in> set (cdProviders db) \<and> pvProviderID p = k"
  using find_Some_in_set [of "\<lambda>p. pvProviderID p = k" "cdProviders db"]
  by (auto simp: store_GetProvider_def query_row_def split: option.splits)

text \<open>What the writes do to the releases.\<close>

lemma run_tx_releases:
  "run_tx dep env db body = (r, db') \<Longrightarrow> (\<And>a d. body = Inr (a, d) \<Longrightarrow> cdReleases d = cdReleases db) \<Longrightarrow> cdReleases db' = cdReleases db"
  by (erule run_tx_cases) auto

lemma statement_releases:
  "insert_identity db x1 = Inr db' \<Longrightarrow> cdReleases db' = cdReleases db" "insert_version db x2 = Inr db' \<Longrightarrow> cdReleases db' = cdReleases db"
  "insert_capability db x3 = Inr db' \<Longrightarrow> cdReleases db' = cdReleases db" "insert_provider db x4 = Inr db' \<Longrightarrow> cdReleases db' = cdReleases db"
  "insert_binding db x5 = Inr db' \<Longrightarrow> cdReleases db' = cdReleases db" "insert_challenge db x6 = Inr db' \<Longrightarrow> cdReleases db' = cdReleases db"
  "update_version db k f = Inr db' \<Longrightarrow> cdReleases db' = cdReleases db" "advance_clock db = (n, db') \<Longrightarrow> cdReleases db' = cdReleases db"
  by (auto simp: insert_identity_def insert_version_def insert_capability_def insert_provider_def insert_binding_def
      insert_challenge_def update_version_def advance_clock_def Let_def split: if_splits)

lemma insert_capabilities_releases: "insert_capabilities env n a v ss db = Inr db' \<Longrightarrow> cdReleases db' = cdReleases db"
  by (induction ss arbitrary: n db) (auto dest!: statement_releases(3))

lemma untouched_releases:
  "store_Register env db x1 = (r1, db') \<Longrightarrow> cdReleases db' = cdReleases db"
  "store_transition env db a v c t p = (r1, db') \<Longrightarrow> cdReleases db' = cdReleases db"
  "store_CreateBinding env db x2 x3 = (r2, db') \<Longrightarrow> cdReleases db' = cdReleases db"
  "store_CreateChallenge env db x4 = (r3, db') \<Longrightarrow> cdReleases db' = cdReleases db"
  "ReserveChallenge env db bid cid t = (r4, db') \<Longrightarrow> cdReleases db' = cdReleases db"
  unfolding store_Register_def store_transition_def store_CreateBinding_def ReserveChallenge_def
  by (erule run_tx_releases, auto simp: register_body_def Let_def dest!: statement_releases insert_capabilities_releases,
      erule run_tx_releases, auto simp: transition_body_def split: if_splits prod.splits dest!: statement_releases,
      erule run_tx_releases, auto simp: create_binding_body_def split: if_splits dest!: statement_releases,
      auto simp: store_CreateChallenge_def split: sum.splits if_splits dest!: statement_releases,
      erule run_tx_releases, auto simp: reserve_challenge_body_def)

lemma verification_releases: "verification_write env db bid db' \<Longrightarrow> cdReleases db' = cdReleases db"
proof -
  assume "verification_write env db bid db'"
  then obtain status code digest t r where "SetBindingVerification env db bid status code digest t = (r, db')"
    unfolding verification_write_def by (metis prod.collapse)
  then show ?thesis
    unfolding SetBindingVerification_def
    by (rule run_tx_releases)
      (auto simp: set_verification_body_def Let_def sql_def split: sum.splits if_splits prod.splits)
qed

text \<open>A row read earlier and the same row now.\<close>

lemma release_now:
  assumes "catalog_grows d db" "catalog_inv db" "r \<in> set (cdReleases d)" "x \<in> set (cdReleases db)" "arReleaseID x = arReleaseID r"
  shows "release_kept r x"
proof -
  obtain y where y: "y \<in> set (cdReleases db)" "release_kept r y"
    using assms(1,3) grown_in by (fastforce simp: catalog_grows_def)
  then have "y = x" using assms by (auto simp: catalog_inv_def base_defs release_kept_def dest: distinct_map_inj_key)
  then show ?thesis using y by simp
qed

lemma binding_now:
  assumes "catalog_grows d db" "catalog_inv db" "b \<in> set (cdBindings d)" "x \<in> set (cdBindings db)" "ebBindingID x = ebBindingID b"
  shows "binding_kept b x"
proof -
  obtain y where y: "y \<in> set (cdBindings db)" "binding_kept b y"
    using assms(1,3) grown_in by (fastforce simp: catalog_grows_def)
  then have "y = x" using assms by (auto simp: catalog_inv_def base_defs binding_kept_def dest: distinct_map_inj_key)
  then show ?thesis using y by simp
qed

lemma verified_evidence:
  "catalog_inv db \<Longrightarrow> b \<in> set (cdBindings db) \<Longrightarrow> ebVerificationStatus b = ''verified'' \<longleftrightarrow> ebVerificationEvidenceDigest b \<noteq> None"
  by (auto simp: catalog_inv_def base_defs list_all_iff binding_checks_def binding_state_timestamps_def Let_def)

definition past_of :: "catalog_db list \<Rightarrow> catalog_db \<Rightarrow> bool" where
  "past_of h db \<longleftrightarrow> catalog_inv db \<and> (\<forall>d\<in>set h. catalog_inv d \<and> catalog_grows d db)"

lemma past_reads: "past_of h db \<Longrightarrow> reads_from w n h \<Longrightarrow> k < n \<Longrightarrow> catalog_inv (cwDb w k) \<and> catalog_grows (cwDb w k) db"
  by (auto simp: past_of_def reads_from_def)

lemma create_backed:
  assumes past: "past_of h db" "reads_from w 3 h" and rel: "prepare_release lib w caller p a v k = Inr rel"
  shows "backed db (release_row rel)"
proof -
  obtain b where b: "trust_GetBinding w 1 p k = Inr b" "ebAgentID b = a" "ebAgentCardVersion b = v"
      "arEndpointBindingID rel = ebBindingID b" "arEndpointOrigin rel = ebOrigin b" "arEndpointPath rel = ebPath b"
      "arAgentID rel = a" "arAgentCardVersion rel = v" "arVerificationEvidenceDigest rel = ebVerificationEvidenceDigest b"
      "arState rel = (if ebVerificationStatus b = ''verified'' then ''verified'' else ''pending_verification'')" "arProviderID rel = p"
    using rel by (auto simp: prepare_release_def authorizeBinding_def dest!: read_provider split: if_splits option.splits)
  note seen = past_reads [OF past, of 1, simplified]
  have "b \<in> set (cdBindings (cwDb w 1))" "ebProviderID b = p" using read_binding [of "cwDb w 1"] b(1) seen by auto
  then show ?thesis
    using b seen binding_stays [of "cwDb w 1" db b] verified_evidence [of "cwDb w 1" b]
    by (auto simp: backed_def release_binding_def release_row_def)
qed

lemma TransitionRelease_releases:
  assumes "store_TransitionRelease env db k target ev t = (r, db')" "catalog_inv db"
  shows "db' = db \<or> (\<exists>x f. x \<in> set (cdReleases db) \<and> arReleaseID x = k \<and> release_transition x target ev t = Some f \<and>
     cdReleases db' = update_where (\<lambda>r. arReleaseID r = k) f (cdReleases db))"
  using assms(1) unfolding store_TransitionRelease_def
proof (cases rule: run_tx_cases)
  case (committed a)
  then obtain x current f d1 s where x: "find (\<lambda>r. arReleaseID r = k) (cdReleases db) = Some x" "scanRelease x = Inr current"
    and f: "release_transition current target ev t = Some f" and upd: "update_release d1 k f = Inr (s, db')"
    and rels: "cdReleases d1 = cdReleases db"
    by (auto elim: transition_release_phases)
  have "release_checks x" using assms(2) find_Some_in_set [OF x(1)] by (auto simp: catalog_inv_def base_defs list_all_iff)
  then have "current = x" using scan_checked(1) x(2) by blast
  moreover have "cdReleases db' = update_where (\<lambda>r. arReleaseID r = k) f (cdReleases db)"
    using upd rels x(1) by (auto simp: update_release_def split: if_splits)
  ultimately show ?thesis using f find_Some_in_set [OF x(1)] by blast
qed simp

lemma transition_backed:
  assumes tr: "store_TransitionRelease env db k target ev t = (r, db')" and inv: "catalog_inv db"
    and old: "releases_backed db" and grows: "catalog_grows db db'"
    and verify: "\<And>x. x \<in> set (cdReleases db) \<Longrightarrow> arReleaseID x = k \<Longrightarrow> target = ''verified'' \<Longrightarrow>
      \<exists>b. release_binding db (x\<lparr>arVerificationEvidenceDigest := ev\<rparr>) b"
    and publish: "\<And>x. x \<in> set (cdReleases db) \<Longrightarrow> arReleaseID x = k \<Longrightarrow> target = ''published'' \<Longrightarrow> provider_verified db (arProviderID x)"
  shows "releases_backed db'"
  using TransitionRelease_releases [OF tr inv]
proof (elim disjE exE conjE)
  fix x f assume x: "x \<in> set (cdReleases db)" "arReleaseID x = k" and f: "release_transition x target ev t = Some f"
    and rels: "cdReleases db' = update_where (\<lambda>r. arReleaseID r = k) f (cdReleases db)"
  have uniq: "y = x" if "y \<in> set (cdReleases db)" "arReleaseID y = k" for y
    using that x inv by (auto simp: catalog_inv_def base_defs dest: distinct_map_inj_key)
  have "\<exists>b. release_binding db (f x) b"
  proof (cases "target = ''verified''")
    case True
    then show ?thesis using f verify [OF x] by (auto simp: release_transition_def release_binding_def Let_def split: if_splits option.splits)
  next
    case False
    then have "\<exists>b. release_binding db x b"
      using f old x(1) by (auto simp: release_transition_def releases_backed_def backed_def Let_def split: if_splits)
    then show ?thesis using f False by (auto simp: release_transition_def release_binding_def Let_def split: if_splits)
  qed
  moreover have "arState (f x) = target" "arProviderID (f x) = arProviderID x" using release_transition_Some [OF f] by auto
  ultimately have "backed db (f x)" using publish [OF x] by (auto simp: backed_def)
  then show ?thesis
    using rels uniq old backed_grows [OF grows] by (auto simp: releases_backed_def set_update_where)
qed (use old in simp)

text \<open>What the check before publication has seen still holds.\<close>

lemma current_binding:
  assumes past: "past_of h db" "reads_from w n h" "4 \<le> n" and req: "requireCurrentVerifiedBinding w rel = None"
    and auth: "authorizeRelease w caller k = Inr rel" and x: "x \<in> set (cdReleases db)" "arReleaseID x = k"
  obtains b where "release_kept rel x" "provider_verified db (arProviderID x)"
    "b \<in> set (cdBindings db)" "ebBindingID b = arEndpointBindingID x" "ebProviderID b = arProviderID x" "ebAgentID b = arAgentID x"
    "ebAgentCardVersion b = arAgentCardVersion x" "ebOrigin b = arEndpointOrigin x" "ebPath b = arEndpointPath x"
    "ebVerificationStatus b = ''verified''"
proof -
  have seen: "catalog_inv (cwDb w i) \<and> catalog_grows (cwDb w i) db" if "i < 4" for i
    using past_reads [OF past(1,2), of i] past(3) that by simp
  have inv: "catalog_inv db" using past(1) by (simp add: past_of_def)
  have "store_GetRelease (cwEnv w 0) (cwDb w 0) k = Inr rel" using auth by (auto simp: authorizeRelease_def split: if_splits)
  then have rel: "rel \<in> set (cdReleases (cwDb w 0))" "arReleaseID rel = k" using read_release seen [of 0] by auto
  have kept: "release_kept rel x" by (rule release_now [OF _ inv rel(1) x(1)]) (use seen [of 0] rel x in auto)
  obtain p b where p: "trust_GetProvider w 2 (arProviderID rel) = Inr p" "pvVerificationStatus p = ''verified''"
    and b: "trust_GetBinding w 3 (arProviderID rel) (arEndpointBindingID rel) = Inr b" "ebVerificationStatus b = ''verified''"
      "ebAgentID b = arAgentID rel" "ebAgentCardVersion b = arAgentCardVersion rel" "ebOrigin b = arEndpointOrigin rel"
      "ebPath b = arEndpointPath rel"
    using req by (auto simp: requireCurrentVerifiedBinding_def split: sum.splits if_splits)
  have "provider_verified (cwDb w 2) (arProviderID rel)"
    using read_provider [OF p(1)] p(2) by (auto simp: provider_verified_def list_ex_iff)
  then have "provider_verified db (arProviderID rel)" using provider_stays seen [of 2] by auto
  moreover have "b \<in> set (cdBindings (cwDb w 3))" "ebBindingID b = arEndpointBindingID rel" "ebProviderID b = arProviderID rel"
    using read_binding [OF _ b(1)] seen [of 3] by auto
  moreover from this have "b \<in> set (cdBindings db)" using binding_stays seen [of 3] b(2) by auto
  ultimately show ?thesis using that [of b] kept b by (auto simp: release_kept_def release_key_def)
qed

lemma verify_backed:
  assumes past: "past_of h db" "reads_from w 5 h" and auth: "authorizeRelease w caller k = Inr rel"
    and req: "requireCurrentVerifiedBinding w rel = None"
    and get: "trust_GetBinding w 4 (arProviderID rel) (arEndpointBindingID rel) = Inr c" "ebVerificationEvidenceDigest c \<noteq> None"
    and x: "x \<in> set (cdReleases db)" "arReleaseID x = k"
  shows "\<exists>b. release_binding db (x\<lparr>arVerificationEvidenceDigest := ebVerificationEvidenceDigest c\<rparr>) b"
proof -
  obtain b where kept: "release_kept rel x" and b: "b \<in> set (cdBindings db)" "ebBindingID b = arEndpointBindingID x"
    "ebProviderID b = arProviderID x" "ebAgentID b = arAgentID x" "ebAgentCardVersion b = arAgentCardVersion x"
    "ebOrigin b = arEndpointOrigin x" "ebPath b = arEndpointPath x" "ebVerificationStatus b = ''verified''"
    by (rule current_binding [OF past _ req auth x]) simp
  have seen: "catalog_inv (cwDb w 4)" "catalog_grows (cwDb w 4) db" using past_reads [OF past, of 4] by auto
  have c: "c \<in> set (cdBindings (cwDb w 4))" "ebBindingID c = arEndpointBindingID rel" using read_binding [OF seen(1) get(1)] by auto
  then have "ebVerificationStatus c = ''verified''" using verified_evidence [OF seen(1)] get(2) by blast
  moreover have "binding_kept c b"
    by (rule binding_now [OF seen(2) _ c(1) b(1)]) (use past(1) c(2) kept b(2) in \<open>auto simp: past_of_def release_kept_def\<close>)
  ultimately have "b = c" by (simp add: binding_kept_def)
  then show ?thesis using b get(2) by (auto simp: release_binding_def)
qed

lemma catalog_step_backed:
  assumes step: "catalog_step lib urls service h db db'" and past: "past_of h db" and old: "releases_backed db"
  shows "releases_backed db'"
proof -
  have grows: "catalog_grows db db'" and inv: "catalog_inv db"
    using catalog_step_sound [OF step] past by (auto simp: sound_step_def past_of_def)
  note kept = releases_backed_kept [OF grows _ old]
  show ?thesis
    using step
  proof (cases rule: catalog_step.cases)
    case (step_CreateRelease w caller p a v k r)
    then obtain rel where rel: "prepare_release lib w caller p a v k = Inr rel" "store_CreateRelease (cwEnv w 3) db rel = (r, db')"
      using CreateRelease_write by blast
    have "cdReleases db' = cdReleases db \<or> cdReleases db' = cdReleases db @ [release_row rel]"
      using rel(2) unfolding store_CreateRelease_def
      by (rule run_tx_cases) (auto simp: create_release_body_def insert_release_def split: sum.splits if_splits)
    moreover have "backed db' (release_row rel)"
      using create_backed [OF past _ rel(1)] step_CreateRelease backed_grows [OF grows] by blast
    ultimately show ?thesis using kept old backed_grows [OF grows] by (auto simp: releases_backed_def)
  next
    case (step_VerifyRelease w caller k r)
    then obtain rel b where w: "authorizeRelease w caller k = Inr rel" "requireCurrentVerifiedBinding w rel = None"
       "trust_GetBinding w 4 (arProviderID rel) (arEndpointBindingID rel) = Inr b" "ebVerificationEvidenceDigest b \<noteq> None"
       "store_TransitionRelease (cwEnv w 5) db k ''verified'' (ebVerificationEvidenceDigest b) (cwNow w 0) = (r, db')"
      using VerifyRelease_write by blast
    show ?thesis
      by (rule transition_backed [OF w(5) inv old grows]) (use step_VerifyRelease w verify_backed [OF past _ w(1-4)] in auto)
  next
    case (step_PublishRelease w caller k r)
    then obtain rel where w: "authorizeRelease w caller k = Inr rel" "requireCurrentVerifiedBinding w rel = None"
       "store_TransitionRelease (cwEnv w 4) db k ''published'' None (cwNow w 0) = (r, db')"
      using PublishRelease_write by blast
    have "provider_verified db (arProviderID x)" if "x \<in> set (cdReleases db)" "arReleaseID x = k" for x
      by (rule current_binding [OF past _ _ w(2,1) that, where n = 4]) (use step_PublishRelease in auto)
    then show ?thesis by (intro transition_backed [OF w(3) inv old grows]) auto
  next
    case (step_SuspendRelease w caller k r)
    then have w: "store_TransitionRelease (cwEnv w 2) db k ''suspended'' None (cwNow w 0) = (r, db')"
      using SuspendRelease_write by blast
    show ?thesis by (rule transition_backed [OF w inv old grows]) auto
  next
    case (step_RevokeRelease w caller k r)
    then have w: "store_TransitionRelease (cwEnv w 2) db k ''revoked'' None (cwNow w 0) = (r, db')"
      using RevokeRelease_write by blast
    show ?thesis by (rule transition_backed [OF w inv old grows]) auto
  next
    case (step_complete t caller p b c r earlier)
    then show ?thesis using kept CompleteChallenge_writes(2) verification_releases by blast
  qed (auto intro!: kept dest!: Register_write transition_write CreateBinding_write CreateChallenge_write CompleteChallenge_writes(1)
      untouched_releases)
qed

lemma run_backed:
  assumes "catalog_run lib urls service h"
  shows "\<forall>db\<in>set h. releases_backed db"
  using assms
proof (induction rule: catalog_run.induct)
  case (run_step db h db')
  have "past_of (db # h) db" using run_sound [OF run_step.hyps(1)] by (auto simp: past_of_def)
  then show ?case using catalog_step_backed [OF run_step.hyps(2)] run_step.IH by auto
qed (simp add: empty_catalog_def releases_backed_def)

end
