(* ===== verification/Catalog_Cards.thy ===== *)
theory Catalog_Cards
  imports Catalog_Run
begin

text \<open>
  Every card the Catalog holds passed the validation of the Agent Card contract and is stored with the digest
  of its text: cards enter the tables only by registration and no other operation rewrites them.
\<close>

definition stored_card :: "version_row \<Rightarrow> agent_card \<times> string \<times> nat list" where
  "stored_card v = (vrCard v, vrCardJSON v, vrCardDigest v)"

definition stored_cards :: "catalog_db \<Rightarrow> (agent_card \<times> string \<times> nat list) list" where
  "stored_cards db = map stored_card (cdVersions db)"

definition card_ok :: "contract_library \<Rightarrow> agent_card \<times> string \<times> nat list \<Rightarrow> bool" where
  "card_ok lib = (\<lambda>(acard, text', digest). ValidateAgentCard lib acard = None \<and> digest = sha256_Sum256 text')"

lemma row_update_cards [simp]: "stored_card (publish_row t n v) = stored_card v" "stored_card (disable_row t v) = stored_card v"
  by (simp_all add: stored_card_def publish_row_def disable_row_def)

lemma update_version_cards: "update_version db k f = Inr db' \<Longrightarrow> (\<And>v. stored_card (f v) = stored_card v) \<Longrightarrow> stored_cards db' = stored_cards db"
  by (auto simp: update_version_def Let_def stored_cards_def update_where_def split: if_splits)

lemma run_tx_cards:
  assumes "run_tx dep env db body = (r, db')" "\<And>a d. body = Inr (a, d) \<Longrightarrow> stored_cards d = stored_cards db"
  shows "stored_cards db' = stored_cards db"
  using assms(1) by (rule run_tx_cases) (auto dest: assms(2))

lemma advance_clock_cards: "advance_clock db = (n, db') \<Longrightarrow> stored_cards db' = stored_cards db"
  by (auto simp: advance_clock_def stored_cards_def)

lemma insert_cards:
  "insert_provider db p = Inr db' \<Longrightarrow> stored_cards db' = stored_cards db"
  "insert_binding db b = Inr db' \<Longrightarrow> stored_cards db' = stored_cards db"
  "insert_challenge db c = Inr db' \<Longrightarrow> stored_cards db' = stored_cards db"
  "insert_release db r = Inr db' \<Longrightarrow> stored_cards db' = stored_cards db"
  "insert_identity db i = Inr db' \<Longrightarrow> stored_cards db' = stored_cards db"
  "insert_capability db k = Inr db' \<Longrightarrow> stored_cards db' = stored_cards db"
  "update_release db k' f = Inr (s, db') \<Longrightarrow> stored_cards db' = stored_cards db"
  by (auto simp: insert_provider_def insert_binding_def insert_challenge_def insert_release_def insert_identity_def
      insert_capability_def update_release_def stored_cards_def split: if_splits option.splits)

lemma transition_cards: "store_transition env db a v c t p = (r, db') \<Longrightarrow> stored_cards db' = stored_cards db"
  unfolding store_transition_def
proof (rule run_tx_cards)
  fix e d assume "transition_body env db a v c t p = Inr (e, d)"
  then consider n db1 where "advance_clock db = (n, db1)" "update_version db1 (a, v) (publish_row t n) = Inr d"
    | "update_version db (a, v) (disable_row t) = Inr d" | "d = db"
    by (auto simp: transition_body_def split: if_splits prod.splits)
  then show "stored_cards d = stored_cards db"
    by cases (auto dest!: advance_clock_cards update_version_cards)
qed

lemma transition_release_cards: "store_TransitionRelease env db k s e t = (r, db') \<Longrightarrow> stored_cards db' = stored_cards db"
  unfolding store_TransitionRelease_def
proof (rule run_tx_cards)
  fix x d assume "transition_release_body env db k s e t = Inr (x, d)"
  then obtain current f d1 y where upd: "update_release d1 k f = Inr (y, d)"
    and "(\<exists>n db1. advance_clock db = (n, db1) \<and> update_version db1 (release_key current) (publish_row t n) = Inr d1) \<or>
      update_version db (release_key current) (disable_row t) = Inr d1 \<or> d1 = db"
    by (auto simp: transition_release_body_def split: if_splits prod.splits option.splits)
  then have "stored_cards d1 = stored_cards db"
    by (auto dest!: advance_clock_cards update_version_cards)
  then show "stored_cards d = stored_cards db" using insert_cards(7) [OF upd] by simp
qed

lemma other_cards:
  "store_CreateRelease env db v = (r1, db') \<Longrightarrow> stored_cards db' = stored_cards db"
  "store_CreateBinding env db p b = (r2, db') \<Longrightarrow> stored_cards db' = stored_cards db"
  "store_CreateChallenge env db c = (r3, db') \<Longrightarrow> stored_cards db' = stored_cards db"
  "ReserveChallenge env db x y t = (r4, db') \<Longrightarrow> stored_cards db' = stored_cards db"
  "SetBindingVerification env db x st code digest t = (r5, db') \<Longrightarrow> stored_cards db' = stored_cards db"
proof -
  show "store_CreateRelease env db v = (r1, db') \<Longrightarrow> stored_cards db' = stored_cards db"
    unfolding store_CreateRelease_def
    by (erule run_tx_cards) (auto simp: create_release_body_def dest: insert_cards split: sum.splits if_splits)
  show "store_CreateBinding env db p b = (r2, db') \<Longrightarrow> stored_cards db' = stored_cards db"
    unfolding store_CreateBinding_def
  proof (erule run_tx_cards)
    fix x d assume "create_binding_body env db p b = Inr (x, d)"
    then obtain db1 db2 where "insert_provider db (provider_row p) = Inr db1" "insert_binding db2 (binding_row b) = Inr d"
      "cdVersions db2 = cdVersions db1" by (auto simp: create_binding_body_def split: if_splits)
    then show "stored_cards d = stored_cards db" using insert_cards(1,2) by (simp add: stored_cards_def)
  qed
  show "store_CreateChallenge env db c = (r3, db') \<Longrightarrow> stored_cards db' = stored_cards db"
    using insert_cards(3) by (auto simp: store_CreateChallenge_def split: sum.splits if_splits)
  show "ReserveChallenge env db x y t = (r4, db') \<Longrightarrow> stored_cards db' = stored_cards db"
    unfolding ReserveChallenge_def
    by (erule run_tx_cards) (auto simp: reserve_challenge_body_def stored_cards_def split: if_splits)
  show "SetBindingVerification env db x st code digest t = (r5, db') \<Longrightarrow> stored_cards db' = stored_cards db"
    unfolding SetBindingVerification_def
    by (erule run_tx_cards) (auto simp: set_verification_body_def Let_def stored_cards_def split: if_splits sum.splits prod.splits)
qed

lemma insert_capabilities_cards: "insert_capabilities env n a v ss db = Inr db' \<Longrightarrow> stored_cards db' = stored_cards db"
proof (induction ss arbitrary: n db)
  case (Cons s ss)
  then obtain d where "insert_capability db (a, v, skID s) = Inr d" "insert_capabilities env (Suc n) a v ss d = Inr db'" by auto
  then show ?case using Cons.IH insert_cards(6) by metis
qed simp

lemma register_cards:
  assumes "store_Register env db v = (r, db')"
  shows "set (stored_cards db') \<subseteq> insert (avCard v, avCardJSON v, avCardDigest v) (set (stored_cards db))"
  using assms unfolding store_Register_def
proof (cases rule: run_tx_cases)
  case (committed a)
  then obtain r1 db1 db2 where stmts: "insert_identity db r1 = Inr db1" "insert_version db1 (version_row_of v) = Inr db2"
      "insert_capabilities env 4 (acAgentID (avCard v)) (acVersion (avCard v)) (acSkills (avCard v)) db2 = Inr db'"
    by (auto simp: register_body_def Let_def)
  have "stored_cards db2 = stored_cards db1 @ [(avCard v, avCardJSON v, avCardDigest v)]"
    using stmts(2) by (auto simp: insert_version_def version_row_of_def stored_cards_def stored_card_def split: if_splits)
  then show ?thesis using insert_cards(5) [OF stmts(1)] insert_capabilities_cards [OF stmts(3)] by simp
qed auto

lemma Register_validated:
  "Register lib marshal origin w caller decoded = (r, Some db') \<Longrightarrow>
     \<exists>v s. store_Register (cwEnv w 0) (cwDb w 0) v = (s, db') \<and> card_ok lib (avCard v, avCardJSON v, avCardDigest v)"
  by (auto simp: Register_def card_ok_def split: option.splits if_splits sum.splits prod.splits)

lemma catalog_step_cards:
  assumes "catalog_step lib urls service h db db'" "x \<in> set (stored_cards db')"
  shows "x \<in> set (stored_cards db) \<or> card_ok lib x"
  using assms
proof (induction rule: catalog_step.induct)
  case (step_Register marshal publicOrigin w caller decoded r db')
  then obtain v s where "store_Register (cwEnv w 0) (cwDb w 0) v = (s, db')" "card_ok lib (avCard v, avCardJSON v, avCardDigest v)"
    using Register_validated by blast
  then show ?case using register_cards [of "cwEnv w 0" "cwDb w 0" v s db'] step_Register(2) by auto
next
  case (step_complete t caller providerID bindingID challengeID r earlier db')
  then have "verification_write (cwEnv t 3) (cwDb t 3) bindingID db'" using CompleteChallenge_writes(2) by blast
  then have "stored_cards db' = stored_cards (cwDb t 3)" unfolding verification_write_def using other_cards(5) by (metis prod.collapse)
  then show ?case using step_complete by simp
next
  case (step_CreateRelease w caller providerID agentID version bindingID r db')
  then show ?case using CreateRelease_write other_cards(1) by metis
qed (auto dest!: transition_write VerifyRelease_write PublishRelease_write SuspendRelease_write RevokeRelease_write
    CreateBinding_write CreateChallenge_write CompleteChallenge_writes(1)
    dest: transition_cards transition_release_cards other_cards)

lemma run_cards: "catalog_run lib urls service h \<Longrightarrow> db \<in> set h \<Longrightarrow> x \<in> set (stored_cards db) \<Longrightarrow> card_ok lib x"
proof (induction arbitrary: db rule: catalog_run.induct)
  case (run_step d h d')
  then show ?case using catalog_step_cards [OF run_step(2), of x] by (cases "db = d'") auto
qed (simp add: empty_catalog_def stored_cards_def)

end
