(* ===== verification/Catalog_Reads.thy ===== *)
theory Catalog_Reads
  imports Catalog_Cards
begin

text \<open>
  What the reads of the Catalog return, in terms of its rows: an entry is the version, identity and release
  stored under the key that was asked for, and a stored version is found.
\<close>

section \<open>Rows found by their keys\<close>

lemma identifier_nonempty: "MatchString safeIdentifierPattern s \<Longrightarrow> s \<noteq> []"
  by auto

lemma find_iff:
  assumes "\<And>x y. x \<in> set xs \<Longrightarrow> y \<in> set xs \<Longrightarrow> P x \<Longrightarrow> P y \<Longrightarrow> x = y"
  shows "find P xs = Some x \<longleftrightarrow> x \<in> set xs \<and> P x"
proof
  assume x: "x \<in> set xs \<and> P x"
  then obtain y where y: "find P xs = Some y" using find_None_iff [of P xs] by (cases "find P xs") auto
  from find_Some_in_set [OF y] show "find P xs = Some x" using assms x y by blast
qed (rule find_Some_in_set)

lemma key_found: "distinct (map key xs) \<Longrightarrow> find (\<lambda>x. key x = k) xs = Some x \<longleftrightarrow> x \<in> set xs \<and> key x = k"
  by (rule find_iff) (simp add: distinct_map_inj_key)

lemma distinct_finer:
  assumes "distinct (map k xs)" "\<And>x y. k' x = k' y \<Longrightarrow> k x = k y"
  shows "distinct (map k' xs)"
  using assms(1)
proof (induction xs)
  case (Cons x xs)
  have "k' x \<notin> k' ` set xs"
  proof
    assume "k' x \<in> k' ` set xs"
    then obtain y where "y \<in> set xs" "k' x = k' y" by auto
    then have "k x \<in> k ` set xs" using assms(2) by blast
    then show False using Cons.prems by simp
  qed
  then show ?case using Cons by simp
qed simp

lemma key_filter_length: "distinct (map key xs) \<Longrightarrow> length (filter (\<lambda>x. key x = k) xs) \<le> 1"
  by (induction xs) (auto simp: filter_empty_conv image_iff)

section \<open>What the Catalog returns\<close>

text \<open>An entry the Catalog returned, with the row it was read from.\<close>

definition read_version :: "catalog_db \<Rightarrow> agent_version \<Rightarrow> version_row \<Rightarrow> bool" where
  "read_version c e v \<longleftrightarrow> v \<in> set (cdVersions c) \<and> avCard e = vrCard v \<and> avCardDigest e = vrCardDigest v \<and>
     avStatus e = vrStatus v \<and> avLegacyUnverified e = vrLegacyUnverified v \<and>
     avRelease e = find (\<lambda>r. release_key r = version_key v) (cdReleases c) \<and>
     version_key v = (acAgentID (avCard e), acVersion (avCard e))"

lemma scanVersion_read:
  assumes inv: "catalog_inv c" and row: "x \<in> set (version_join c)" and scan: "scanVersion x = Inr (e, owner)"
  shows "read_version c e (fst x)"
proof -
  obtain v i r where x: "x = (v, i, r)" by (cases x) auto
  have v: "v \<in> set (cdVersions c)" "r = find (\<lambda>r. release_key r = version_key v) (cdReleases c)"
    using version_join_in [of v i r c] row x by auto
  have "release_checks y" if "r = Some y" for y
    using that v(2) inv find_Some_in_set [of "\<lambda>r. release_key r = version_key v" "cdReleases c" y]
    by (auto simp: catalog_inv_def base_defs list_all_iff)
  then have "avRelease e = r" using scan scan_checked(1) by (cases r) (auto simp: x scanVersion_def split: if_splits)
  moreover have "version_key v = (acAgentID (vrCard v), acVersion (vrCard v))"
    using inv v(1) by (auto simp: catalog_inv_def base_defs list_all_iff stored_version_def)
  ultimately show ?thesis using scan v by (auto simp: x scanVersion_def read_version_def split: if_splits)
qed

lemma GetVersion_read:
  assumes "catalog_inv c" "GetVersion lib env c agentID version = Inr e"
  shows "\<exists>v. read_version c e v \<and> version_key v = (agentID, version)"
proof -
  obtain owner where "query_row (\<lambda>(v, _). version_key v = (agentID, version)) scanVersion (version_join c) = Inr (e, owner)"
    using assms(2) by (auto simp: GetVersion_def store_Get_def split: if_splits)
  then obtain x where "x \<in> set (version_join c)" "version_key (fst x) = (agentID, version)" "scanVersion x = Inr (e, owner)"
    using query_row_Inr by fastforce
  then show ?thesis using scanVersion_read [OF assms(1)] by blast
qed

lemma scan_rows_in: "scan_rows f rows = Inr as \<Longrightarrow> a \<in> set as \<Longrightarrow> \<exists>r\<in>set rows. f r = Inr a"
  by (induction rows arbitrary: as) auto

lemma select_loop_in: "select_loop lib k sel cs = Inr (Some e) \<Longrightarrow> sel = Some e \<or> e \<in> set cs"
  by (induction lib k sel cs rule: select_loop.induct) (auto simp: Let_def split: if_splits option.splits)

lemma SelectInstallable_read:
  assumes "catalog_inv c" "SelectInstallable lib env c agentID constraint = Inr e"
  shows "\<exists>v. read_version c e v \<and> vrAgentID v = agentID"
proof -
  obtain cs where cs: "InstallationCandidates env c agentID = Inr cs" "select_loop lib constraint None cs = Inr (Some e)"
    using assms(2) by (auto simp: SelectInstallable_def split: if_splits option.splits)
  let ?rows = "sort_key (\<lambda>(v, _). vrVersion v)
    (filter (\<lambda>(v, _, r). vrAgentID v = agentID \<and> (vrStatus v = ''published'' \<or> r \<noteq> None)) (version_join c))"
  obtain es where es: "scan_rows scanVersion ?rows = Inr es" "cs = map fst es" using cs(1) by (auto simp: InstallationCandidates_def)
  have "e \<in> set cs" using cs(2) select_loop_in by fastforce
  then obtain owner where "(e, owner) \<in> set es" using es(2) by auto
  from scan_rows_in [OF es(1) this] obtain x
    where "x \<in> set (version_join c)" "vrAgentID (fst x) = agentID" "scanVersion x = Inr (e, owner)" by auto
  then show ?thesis using scanVersion_read [OF assms(1)] by blast
qed

lemma release_found:
  assumes "catalog_inv c" "read_version c e v"
  shows "avRelease e = Some r \<longleftrightarrow> r \<in> set (cdReleases c) \<and> release_key r = version_key v"
proof -
  have "distinct (map release_key (cdReleases c))" using assms(1) by (simp add: catalog_inv_def base_defs)
  then show ?thesis using assms(2) key_found by (simp add: read_version_def)
qed

lemma version_unique:
  assumes "catalog_inv c" "v \<in> set (cdVersions c)" "u \<in> set (cdVersions c)" "version_key u = version_key v"
  shows "u = v"
proof -
  have "distinct (map version_key (cdVersions c))" using assms(1) by (simp add: catalog_inv_def base_defs)
  then show ?thesis by (rule distinct_map_inj_key) (rule assms)+
qed

text \<open>A stored version is found.\<close>

lemma scan_succeeds:
  assumes inv: "catalog_inv c" and x: "x \<in> set (version_join c)"
  shows "\<exists>e owner. scanVersion x = Inr (e, owner)"
proof -
  obtain v i r where x': "x = (v, i, r)" by (cases x) auto
  have v: "v \<in> set (cdVersions c)" "r = find (\<lambda>r. release_key r = version_key v) (cdReleases c)"
    using version_join_in [of v i r c] x x' by auto
  have "version_checks v" using inv v(1) by (auto simp: catalog_inv_def base_defs list_all_iff)
  moreover have "release_checks y" if "r = Some y" for y
    using that v(2) inv find_Some_in_set [of "\<lambda>r. release_key r = version_key v" "cdReleases c" y]
    by (auto simp: catalog_inv_def base_defs list_all_iff)
  ultimately show ?thesis
    by (cases r) (auto simp: x' scanVersion_def version_checks_def release_checks_def scanRelease_def split: option.splits)
qed

lemma version_joined:
  assumes inv: "catalog_inv c" and v: "v \<in> set (cdVersions c)"
  shows "\<exists>x\<in>set (version_join c). fst x = v"
proof -
  have "vrAgentID v \<in> aiAgentID ` set (cdIdentities c)" using inv v by (auto simp: catalog_inv_def base_defs)
  then obtain i where "find (\<lambda>i. aiAgentID i = vrAgentID v) (cdIdentities c) = Some i"
    using find_None_iff [of "\<lambda>i. aiAgentID i = vrAgentID v" "cdIdentities c"]
    by (cases "find (\<lambda>i. aiAgentID i = vrAgentID v) (cdIdentities c)") auto
  then have "(v, i, find (\<lambda>r. release_key r = version_key v) (cdReleases c)) \<in> set (version_join c)"
    using v by (auto simp: version_join_def set_map_filter)
  then show ?thesis by force
qed

lemma GetVersion_found:
  assumes inv: "catalog_inv c" and v: "v \<in> set (cdVersions c)" "version_key v = (a, ver)"
    and ok: "deCall env 0" "ValidIdentifier a" "clStrict lib ver"
  shows "\<exists>e. GetVersion lib env c a ver = Inr e \<and> read_version c e v"
proof -
  let ?P = "\<lambda>(u, _). version_key u = (a, ver)"
  obtain x where x: "find ?P (version_join c) = Some x"
  proof (cases "find ?P (version_join c)")
    case None
    obtain y where "y \<in> set (version_join c)" "fst y = v" using version_joined [OF inv v(1)] by blast
    then have False using None v(2) by (simp add: find_None_iff) (metis prod.collapse)
    then show ?thesis ..
  qed auto
  have in': "x \<in> set (version_join c)" "?P x" using find_Some_in_set [OF x] by auto
  obtain e owner where e: "scanVersion x = Inr (e, owner)" using scan_succeeds [OF inv in'(1)] by blast
  have read: "read_version c e (fst x)" by (rule scanVersion_read [OF inv in'(1) e])
  then have "fst x = v" using version_unique [OF inv v(1), of "fst x"] in'(2) v(2) by (auto simp: read_version_def case_prod_beta)
  then show ?thesis
    using e x read ok by (auto simp: GetVersion_def validAgentVersionIdentity_def store_Get_def query_row_def)
qed

section \<open>Earlier and later states\<close>

lemma run_suffix: "catalog_run lib urls service (xs @ y # ys) \<Longrightarrow> catalog_run lib urls service (y # ys)"
proof (induction xs)
  case (Cons x xs)
  from Cons.prems have "catalog_run lib urls service (xs @ y # ys)"
    by (cases rule: catalog_run.cases) auto
  then show ?case by (rule Cons.IH)
qed simp

lemma run_later:
  assumes run: "catalog_run lib urls service (hc @ c # old)" and later: "c' \<in> set (hc @ [c])"
  shows "catalog_inv c' \<and> catalog_inv c \<and> catalog_grows c c'"
proof -
  obtain xs ys where zs: "hc @ [c] = xs @ c' # ys" using split_list [OF later] by blast
  from arg_cong [OF zs, of "\<lambda>zs. zs @ old"] have split: "hc @ c # old = xs @ c' # (ys @ old)" by simp
  have "c \<in> set (c' # ys)"
  proof (cases ys rule: rev_cases)
    case Nil
    then show ?thesis using zs by simp
  next
    case (snoc zs z)
    then have "hc @ [c] = (xs @ c' # zs) @ [z]" using zs by simp
    then show ?thesis using snoc by (simp only: append1_eq_conv) simp
  qed
  moreover have run': "catalog_run lib urls service (xs @ c' # (ys @ old))" using run unfolding split .
  from run_suffix [OF this] have "catalog_run lib urls service (c' # (ys @ old))" .
  from run_sound [OF this] have "\<forall>d\<in>set (c' # ys @ old). catalog_inv d \<and> catalog_grows d c'" by simp
  ultimately show ?thesis by auto
qed

lemma run_clock: "catalog_run lib urls service h \<Longrightarrow> db \<in> set h \<Longrightarrow> 0 \<le> cdClock db"
proof (induction arbitrary: db rule: catalog_run.induct)
  case (run_step d h d')
  have "catalog_run lib urls service (d' # d # h)" using run_step(1,2) by (rule catalog_run.intros)
  then have "catalog_grows d d'" using run_sound by fastforce
  then have "cdClock d \<le> cdClock d'" by (simp add: catalog_grows_def)
  moreover have "0 \<le> cdClock d" by (rule run_step.IH) simp
  ultimately have "0 \<le> cdClock d'" by simp
  then show ?case using run_step.IH run_step.prems by (cases "db = d'") auto
qed (simp add: empty_catalog_def)

end
