(* ===== verification/Workspace_Run.thy ===== *)
theory Workspace_Run
  imports Workspace_Correct Catalog_Reads
begin

text \<open>
  Runs of the control plane: Workspace requests interleave with each other and with the requests of the
  Catalog. A request reads states that earlier transactions left, of both components, and writes the
  present one. In every reachable state the tables of the Workspaces satisfy their invariant and every
  Installation pins a version, and where it names one a Release, that the Catalog holds.
\<close>

section \<open>Runs\<close>

text \<open>The Catalog behind the interface \<^verbatim>\<open>CatalogReader\<close>: its service on the tables a call finds.\<close>

definition catalog_view :: "contract_library \<Rightarrow> db_env \<Rightarrow> catalog_db \<Rightarrow> catalog_reader" where
  "catalog_view lib env db = \<lparr>crSelectInstallable = SelectInstallable lib env db, crGetVersion = GetVersion lib env db\<rparr>"

lemma catalog_view_simps [simp]:
  "crSelectInstallable (catalog_view lib env db) = SelectInstallable lib env db"
  "crGetVersion (catalog_view lib env db) = GetVersion lib env db"
  by (simp_all add: catalog_view_def)

inductive workspace_step ::
    "contract_library \<Rightarrow> catalog_db list \<Rightarrow> workspace_db list \<Rightarrow> workspace_db \<Rightarrow> workspace_db \<Rightarrow> bool"
  for lib hc h where
  ws_Create: "CreateWorkspace w caller workspaceID = (r, Some db') \<Longrightarrow> workspace_step lib hc h (wwDb w 0) db'"
| ws_Install: "Install lib (catalog_view lib env c) w caller workspaceID request = (r, Some db') \<Longrightarrow> c \<in> set hc \<Longrightarrow>
     wwDb w 0 \<in> set h \<Longrightarrow> wwDb w 1 \<in> set h \<Longrightarrow> workspace_step lib hc h (wwDb w 2) db'"
| ws_Update: "UpdateInstallation w caller workspaceID installationID status = (r, Some db') \<Longrightarrow> wwDb w 0 \<in> set h \<Longrightarrow>
     workspace_step lib hc h (wwDb w 1) db'"
| ws_Uninstall: "Uninstall w caller workspaceID installationID = (r, Some db') \<Longrightarrow> wwDb w 0 \<in> set h \<Longrightarrow>
     workspace_step lib hc h (wwDb w 1) db'"

text \<open>The states of both components, the latest first.\<close>

inductive platform_run ::
    "contract_library \<Rightarrow> url_library \<Rightarrow> trust_service \<Rightarrow> catalog_db list \<Rightarrow> workspace_db list \<Rightarrow> bool"
  for lib urls service where
  platform_start: "platform_run lib urls service [empty_catalog] [empty_workspaces]"
| platform_catalog: "platform_run lib urls service (c # hc) hw \<Longrightarrow> catalog_step lib urls service (c # hc) c c' \<Longrightarrow>
     platform_run lib urls service (c' # c # hc) hw"
| platform_workspace: "platform_run lib urls service hc (d # hw) \<Longrightarrow> workspace_step lib hc (d # hw) d d' \<Longrightarrow>
     platform_run lib urls service hc (d' # d # hw)"

lemma platform_catalog_run: "platform_run lib urls service hc hw \<Longrightarrow> catalog_run lib urls service hc"
  by (induction rule: platform_run.induct) (auto intro: catalog_run.intros)

section \<open>Writes of the requests\<close>

definition installed_pin :: "install_request \<Rightarrow> string \<Rightarrow> agent_version \<Rightarrow> installation \<Rightarrow> bool" where
  "installed_pin request workspaceID selected i \<longleftrightarrow>
     inWorkspaceID i = workspaceID \<and> inAgentID i = irAgentID request \<and> inInstalledVersion i = acVersion (avCard selected) \<and>
     inInstalledReleaseID i = releaseID selected \<and> inStatus i = ''enabled'' \<and>
     set (elems (inAcceptedPermissions i)) \<subseteq> set (map pdID (elems (acPermissions (avCard selected))))"

lemma Install_write:
  assumes "Install lib reader w caller workspaceID request = (r, Some db')"
  obtains workspace selected i where "owned w caller workspaceID = Inr workspace"
    "crSelectInstallable reader (irAgentID request) (irVersionConstraint request) = Inr selected"
    "validateReleaseEligibility selected (releaseID selected) = None" "installed_pin request workspaceID selected i"
    "ValidateInstallation lib i = None" "CreateInstallation (wwEnv w 2) (wwDb w 2) caller i = (r, db')"
proof -
  obtain workspace selected where sel: "owned w caller workspaceID = Inr workspace"
    "crSelectInstallable reader (irAgentID request) (irVersionConstraint request) = Inr selected"
    "install_selected lib w caller workspaceID request selected = (r, Some db')"
    using assms by (auto simp: Install_def split: if_splits sum.splits bool.splits)
  then obtain k ps where new: "validateReleaseEligibility selected (releaseID selected) = None"
    "validatePermissionSubset (avCard selected) (irAcceptedPermissions request) = Inr ps"
    "ValidateInstallation lib (new_installation w workspaceID request selected k ps) = None"
    "CreateInstallation (wwEnv w 2) (wwDb w 2) caller (new_installation w workspaceID request selected k ps) = (r, db')"
    by (auto simp: install_selected_def Let_def split: option.splits if_splits sum.splits)
  then have "installed_pin request workspaceID selected (new_installation w workspaceID request selected k ps)"
    by (auto simp: installed_pin_def new_installation_def validatePermissionSubset_def Let_def list_all_iff split: if_splits)
  with sel new that show ?thesis by blast
qed

lemma Update_write:
  "UpdateInstallation w caller ws k s = (r, Some db') \<Longrightarrow>
     (\<exists>x. owned w caller ws = Inr x) \<and> ChangeInstallationStatus (wwEnv w 1) (wwDb w 1) ws k s (wwNow w) = (r, db')"
  by (auto simp: UpdateInstallation_def split: if_splits sum.splits)

lemma Uninstall_write:
  "Uninstall w caller ws k = (r, Some db') \<Longrightarrow>
     (\<exists>x. owned w caller ws = Inr x) \<and> UninstallInstallation (wwEnv w 1) (wwDb w 1) ws k (wwNow w) = (r, db')"
  by (auto simp: Uninstall_def split: if_splits sum.splits)

lemma CreateWorkspace_write:
  "CreateWorkspace w caller ws = (r, Some db') \<Longrightarrow> \<exists>v. store_CreateWorkspace (wwEnv w 0) (wwDb w 0) v = (r, db')"
  by (auto simp: CreateWorkspace_def Let_def split: if_splits)

lemma owned_iff:
  "owned w caller ws = Inr x \<longleftrightarrow> deCall (wwEnv w 0) 0 \<and> find (\<lambda>x. wkWorkspaceID x = ws) (wdWorkspaces (wwDb w 0)) = Some x \<and>
     caller \<noteq> [] \<and> wkOwnerID x = caller"
  by (auto simp: owned_def store_GetWorkspace_def Authorize_def)

lemma time_Marshal_stored: "time_Marshal t \<Longrightarrow> time_Marshal (timestamptz t)"
proof -
  assume t: "time_Marshal t"
  have "timestamptz (- 31622400 * Second) = - 31622400 * Second"
    by (simp add: timestamptz_def time_Truncate_def)
  with timestamptz_mono [of "- 31622400 * Second" t] t have "- 31622400 * Second \<le> timestamptz t"
    by (simp add: time_Marshal_def)
  moreover have "timestamptz t \<le> t" by (simp add: timestamptz_def time_Truncate_le)
  ultimately show ?thesis using t by (simp add: time_Marshal_def)
qed

lemma valid_pin: "ValidateInstallation lib i = None \<Longrightarrow> pin_valid lib i \<and> time_Marshal (timestamptz (inInstalledAt i))"
  by (auto simp: ValidateInstallation_def installation_schema_def validateInstallationV2Semantics_def pin_valid_def
      intro: time_Marshal_stored split: if_splits option.splits)

section \<open>Soundness of every write\<close>

lemma workspace_step_sound: "workspace_step lib hc h db db' \<Longrightarrow> workspace_sound lib db db'"
proof (induction rule: workspace_step.induct)
  case (ws_Install env c w caller workspaceID request r db')
  from ws_Install(1) show ?case
    by (rule Install_write) (use create_installation_sound valid_pin in blast)
next
  case (ws_Create w caller workspaceID r db')
  then show ?case using CreateWorkspace_write create_workspace_sound by blast
qed (use lifecycle_sound change_status_write uninstall_write Update_write Uninstall_write in metis)+

lemma empty_workspaces_inv: "workspace_inv lib empty_workspaces"
  by (simp add: workspace_inv_def empty_workspaces_def)

lemma platform_sound:
  assumes "platform_run lib urls service hc hw"
  shows "(\<forall>d\<in>set hw. workspace_inv lib d) \<and> (\<forall>d\<in>set hw. workspace_grows d (hd hw))"
  using assms
proof (induction rule: platform_run.induct)
  case (platform_workspace hc d hw d')
  then have "workspace_sound lib d d'" using workspace_step_sound by blast
  with platform_workspace.IH have "workspace_inv lib d'" "workspace_grows d d'" by (auto simp: workspace_sound_def)
  then show ?case using platform_workspace.IH workspace_grows_trans by auto
qed (simp_all add: empty_workspaces_inv)

section \<open>Eligible entries\<close>

text \<open>When an entry may be used under a pin.\<close>

definition eligible_pin :: "agent_version \<Rightarrow> string \<Rightarrow> bool" where
  "eligible_pin e pin \<longleftrightarrow> avStatus e = ''published'' \<and>
     (if pin = [] then avLegacyUnverified e
      else \<exists>r. avRelease e = Some r \<and> arReleaseID r = pin \<and> arState r = ''published'' \<and> arCardDigest r = avCardDigest e \<and>
        release_key r = (acAgentID (avCard e), acVersion (avCard e)))"

lemma validateReleaseEligibility_None: "validateReleaseEligibility e pin = None \<longleftrightarrow> eligible_pin e pin"
  by (cases "avRelease e") (auto simp: validateReleaseEligibility_def eligible_pin_def release_key_def)

section \<open>Installations pin what the Catalog holds\<close>

definition pins_catalog :: "catalog_db \<Rightarrow> installation \<Rightarrow> bool" where
  "pins_catalog c i \<longleftrightarrow>
     (\<exists>v\<in>set (cdVersions c). version_key v = (inAgentID i, inInstalledVersion i) \<and>
        set (elems (inAcceptedPermissions i)) \<subseteq> set (map pdID (elems (acPermissions (vrCard v)))) \<and>
        (if inInstalledReleaseID i = [] then vrLegacyUnverified v
         else \<exists>r\<in>set (cdReleases c). arReleaseID r = inInstalledReleaseID i \<and> release_key r = version_key v \<and>
           arCardDigest r = vrCardDigest v \<and> arState r \<in> {''published'', ''suspended'', ''revoked''}))"

lemma rank_states:
  "release_rank s \<ge> 2 \<longleftrightarrow> s \<in> {''published'', ''suspended'', ''revoked''}"
  "release_rank s \<ge> 3 \<longleftrightarrow> s \<in> {''suspended'', ''revoked''}"
  by (auto simp: release_rank_def)

lemma pins_grow:
  assumes "pins_catalog c i" "catalog_grows c c'"
  shows "pins_catalog c' i"
proof -
  obtain v where v: "v \<in> set (cdVersions c)" "version_key v = (inAgentID i, inInstalledVersion i)"
      "set (elems (inAcceptedPermissions i)) \<subseteq> set (map pdID (elems (acPermissions (vrCard v))))"
    and r: "if inInstalledReleaseID i = [] then vrLegacyUnverified v
         else \<exists>r\<in>set (cdReleases c). arReleaseID r = inInstalledReleaseID i \<and> release_key r = version_key v \<and>
           arCardDigest r = vrCardDigest v \<and> arState r \<in> {''published'', ''suspended'', ''revoked''}"
    using assms(1) unfolding pins_catalog_def by blast
  obtain v' where v': "v' \<in> set (cdVersions c')" "version_kept v v'"
    using grown_in assms(2) v(1) unfolding catalog_grows_def by metis
  have "if inInstalledReleaseID i = [] then vrLegacyUnverified v'
      else \<exists>r\<in>set (cdReleases c'). arReleaseID r = inInstalledReleaseID i \<and> release_key r = version_key v' \<and>
        arCardDigest r = vrCardDigest v' \<and> arState r \<in> {''published'', ''suspended'', ''revoked''}"
  proof (cases "inInstalledReleaseID i = []")
    case False
    with r obtain x where x: "x \<in> set (cdReleases c)" "arReleaseID x = inInstalledReleaseID i" "release_key x = version_key v"
      "arCardDigest x = vrCardDigest v" "release_rank (arState x) \<ge> 2" unfolding rank_states(1) by auto
    then obtain y where y: "y \<in> set (cdReleases c')" "release_kept x y"
      using grown_in assms(2) unfolding catalog_grows_def by metis
    then have "release_rank (arState y) \<ge> 2" using x(5) by (simp add: release_kept_def)
    then show ?thesis using False x y v'(2) unfolding rank_states(1) by (auto simp: release_kept_def version_kept_def)
  qed (use r v'(2) in \<open>simp add: version_kept_def\<close>)
  then show ?thesis unfolding pins_catalog_def using v v' by (intro bexI [of _ v']) (simp_all add: version_kept_def)
qed

lemma pins_same: "pins_catalog c i \<Longrightarrow> same_pin i j \<Longrightarrow> pins_catalog c j"
  unfolding pins_catalog_def same_pin_def by metis

lemma pins_row: "pins_catalog c (installation_row i) = pins_catalog c i"
  by (simp add: pins_catalog_def installation_row_def cong: if_cong split del: if_split)

lemma selected_pins:
  assumes inv: "catalog_inv c" and sel: "SelectInstallable lib env c (irAgentID request) (irVersionConstraint request) = Inr e"
    and ok: "eligible_pin e (releaseID e)" and i: "installed_pin request ws e i"
  shows "pins_catalog c i"
proof -
  obtain v where v: "read_version c e v" "vrAgentID v = irAgentID request" using SelectInstallable_read [OF inv sel] by blast
  have key: "version_key v = (inAgentID i, inInstalledVersion i)"
    using v i by (auto simp: read_version_def installed_pin_def version_key_def)
  have rel: "if inInstalledReleaseID i = [] then vrLegacyUnverified v
      else \<exists>r\<in>set (cdReleases c). arReleaseID r = inInstalledReleaseID i \<and> release_key r = version_key v \<and>
        arCardDigest r = vrCardDigest v \<and> arState r \<in> {''published'', ''suspended'', ''revoked''}"
  proof (cases "releaseID e = []")
    case False
    with ok obtain r where r: "avRelease e = Some r" "arReleaseID r = releaseID e" "arState r = ''published''"
      "arCardDigest r = avCardDigest e" "release_key r = (acAgentID (avCard e), acVersion (avCard e))" by (auto simp: eligible_pin_def)
    then have "find (\<lambda>r. release_key r = version_key v) (cdReleases c) = Some r" using v(1) by (simp add: read_version_def)
    from find_Some_in_set [OF this] have "r \<in> set (cdReleases c)" by simp
    then show ?thesis using r v(1) i False by (auto simp: read_version_def installed_pin_def)
  qed (use ok v(1) i in \<open>auto simp: eligible_pin_def read_version_def installed_pin_def\<close>)
  have "v \<in> set (cdVersions c)" "set (elems (inAcceptedPermissions i)) \<subseteq> set (map pdID (elems (acPermissions (vrCard v))))"
    using v(1) i by (auto simp: read_version_def installed_pin_def)
  then show ?thesis unfolding pins_catalog_def using key rel by blast
qed

lemma create_rows:
  assumes "CreateInstallation env db caller i = (r, db')" "j \<in> set (wdInstallations db')"
  shows "j \<in> set (wdInstallations db) \<or> j = installation_row i \<and>
     (\<exists>x. find (\<lambda>x. wkWorkspaceID x = inWorkspaceID i) (wdWorkspaces db) = Some x \<and> wkOwnerID x = caller)"
  using assms(1) unfolding CreateInstallation_def
proof (cases rule: run_tx_cases)
  case (committed a)
  then obtain x where "insert_installation db (installation_row i) = Inr db'"
    "find (\<lambda>x. wkWorkspaceID x = inWorkspaceID i) (wdWorkspaces db) = Some x" "wkOwnerID x = caller"
    by (auto simp: create_installation_body_def split: sum.splits if_splits bool.splits)
  then show ?thesis using assms(2) by (auto simp: insert_installation_def split: if_splits)
qed (use assms(2) in simp)

lemma create_workspace_rows:
  "store_CreateWorkspace env db v = (r, db') \<Longrightarrow> wdInstallations db' = wdInstallations db"
  unfolding store_CreateWorkspace_def
  by (erule run_tx_cases) (auto simp: insert_workspace_def Let_def split: sum.splits if_splits)

text \<open>Every row after a write continues a row before it, or is a new pin.\<close>

lemma workspace_step_pins:
  assumes step: "workspace_step lib hc h db db'" and inv: "workspace_inv lib db" and j: "j \<in> set (wdInstallations db')"
    and cat: "\<And>c. c \<in> set hc \<Longrightarrow> catalog_inv c \<and> catalog_grows c c0"
    and old: "\<And>i. i \<in> set (wdInstallations db) \<Longrightarrow> pins_catalog c0 i"
  shows "pins_catalog c0 j"
  using step inv j old
proof (cases rule: workspace_step.cases)
  case (ws_Create w caller ws r)
  then show ?thesis using CreateWorkspace_write create_workspace_rows j old by metis
next
  case (ws_Install env c w caller ws request r)
  from ws_Install(2) obtain x e i where e: "SelectInstallable lib env c (irAgentID request) (irVersionConstraint request) = Inr e"
    "eligible_pin e (releaseID e)" "installed_pin request ws e i" "CreateInstallation (wwEnv w 2) (wwDb w 2) caller i = (r, db')"
    by (rule Install_write) (auto simp: validateReleaseEligibility_None)
  have "pins_catalog c0 i" using selected_pins [OF _ e(1,2,3)] pins_grow cat [OF ws_Install(3)] by blast
  then have "pins_catalog c0 (installation_row i)" by (simp add: pins_row)
  then show ?thesis using create_rows [OF e(4) j] old ws_Install(1) by blast
next
  case (ws_Update w caller ws k s r)
  then have "lifecycle_write lib db ws k db'" using Update_write change_status_write by metis
  then show ?thesis using lifecycle_rows [OF _ inv j] old pins_same unfolding transition_def by blast
next
  case (ws_Uninstall w caller ws k r)
  then have "lifecycle_write lib db ws k db'" using Uninstall_write uninstall_write by metis
  then show ?thesis using lifecycle_rows [OF _ inv j] old pins_same unfolding transition_def by blast
qed

lemma platform_pins:
  assumes "platform_run lib urls service hc hw"
  shows "\<forall>d\<in>set hw. \<forall>i\<in>set (wdInstallations d). pins_catalog (hd hc) i"
  using assms
proof (induction rule: platform_run.induct)
  case (platform_catalog c hc hw c')
  have "catalog_run lib urls service (c' # c # hc)"
    using platform_catalog_run [OF platform_catalog(1)] platform_catalog(2) by (rule catalog_run.intros)
  then have "catalog_grows c c'" using run_sound by fastforce
  with pins_grow have "pins_catalog c' i" if "pins_catalog c i" for i using that by blast
  then show ?case using platform_catalog.IH by simp
next
  case (platform_workspace hc d hw d')
  have "\<forall>c\<in>set hc. catalog_inv c \<and> catalog_grows c (hd hc)" using run_sound platform_catalog_run [OF platform_workspace(1)] by blast
  moreover have "workspace_inv lib d" using platform_sound [OF platform_workspace(1)] by simp
  ultimately have "pins_catalog (hd hc) j" if "j \<in> set (wdInstallations d')" for j
    using workspace_step_pins [OF platform_workspace(2) _ that] platform_workspace.IH by auto
  then show ?case using platform_workspace.IH by auto
qed (simp add: empty_workspaces_def)

end
