(* ===== verification/Listing.thy ===== *)
theory Listing
  imports Transaction
begin

text \<open>
  Listings in pages. A page holds the first rows after a position in the order of a key, with one row more
  read to see whether another page follows. The interface is the key, the condition after a position and
  the position of a row; whoever provides them with these laws lists every row exactly once, in order.
\<close>

section \<open>Pages\<close>

definition page_of :: "('r \<Rightarrow> 'k::linorder) \<Rightarrow> ('p option \<Rightarrow> 'r \<Rightarrow> bool) \<Rightarrow> nat \<Rightarrow> 'r list \<Rightarrow> 'p option \<Rightarrow> 'r list \<times> bool" where
  "page_of key after limit rows p =
     (let items = take (Suc limit) (sort_key key (filter (after p) rows)) in (take limit items, length items > limit))"

text \<open>A client that follows the cursor of each page until there is none. No result is a client that gave up.\<close>

fun follow :: "(string option \<Rightarrow> ('e, 'a list \<times> string option) result) \<Rightarrow> nat \<Rightarrow> string option \<Rightarrow> ('e, 'a list) result option" where
  "follow f 0 cursor = None" |
  "follow f (Suc n) cursor =
     (case f cursor of
        Inl err \<Rightarrow> Some (Inl err)
      | Inr (items, None) \<Rightarrow> Some (Inr items)
      | Inr (items, Some c) \<Rightarrow> map_option (map_sum id (\<lambda>rest. items @ rest)) (follow f n (Some c)))"

section \<open>The interface\<close>

locale keyset_listing =
  fixes key :: "'r \<Rightarrow> 'k::linorder" and after :: "'p option \<Rightarrow> 'r \<Rightarrow> bool" and position :: "'r \<Rightarrow> 'p" and stored :: "'r \<Rightarrow> bool"
  assumes after_None: "after None r"
    and after_position: "stored r \<Longrightarrow> stored s \<Longrightarrow> after (Some (position s)) r \<longleftrightarrow> key s < key r"
begin

text \<open>The rows after the n-th.\<close>

lemma rows_after:
  assumes st: "list_all stored rows" and d: "distinct (map key rows)" and n: "n < length rows"
  shows "sort_key key (filter (after (Some (position (sort_key key rows ! n)))) rows) = drop (Suc n) (sort_key key rows)"
proof -
  let ?all = "sort_key key rows"
  have sorted: "sorted (map key ?all)" "distinct (map key ?all)" "length ?all = length rows"
    using d by (simp_all add: distinct_map)
  have strict: "key (?all ! i) < key (?all ! j) \<longleftrightarrow> i < j" if "i < length rows" "j < length rows" for i j
  proof -
    have "key (?all ! i) \<le> key (?all ! j)" if "i \<le> j"
      using sorted_nth_mono [OF sorted(1), of i j] that \<open>j < length rows\<close> by (simp add: sorted(3))
    moreover have "key (?all ! j) \<le> key (?all ! i)" if "j \<le> i"
      using sorted_nth_mono [OF sorted(1), of j i] that \<open>i < length rows\<close> by (simp add: sorted(3))
    moreover have "key (?all ! i) = key (?all ! j) \<Longrightarrow> i = j"
      using nth_eq_iff_index_eq [OF sorted(2), of i j] \<open>i < length rows\<close> \<open>j < length rows\<close> by (simp add: sorted(3))
    ultimately show ?thesis by (metis leD le_less not_le_imp_less)
  qed
  have st': "stored r" if "r \<in> set ?all" for r using st that by (simp add: list_all_iff)
  have "filter (after (Some (position (?all ! n)))) ?all = filter (\<lambda>r. key (?all ! n) < key r) ?all"
  proof (rule filter_cong [OF refl])
    have "stored (?all ! n)" using st' nth_mem [of n ?all] n sorted(3) by simp
    then show "after (Some (position (?all ! n))) r \<longleftrightarrow> key (?all ! n) < key r" if "r \<in> set ?all" for r
      using after_position st' that by blast
  qed
  also have "\<dots> = filter (\<lambda>r. key (?all ! n) < key r) (take (Suc n) ?all) @ filter (\<lambda>r. key (?all ! n) < key r) (drop (Suc n) ?all)"
    by (metis append_take_drop_id filter_append)
  also have "filter (\<lambda>r. key (?all ! n) < key r) (take (Suc n) ?all) = []"
    using n strict [of n] sorted(3) by (auto simp: filter_empty_conv in_set_conv_nth)
  also have "filter (\<lambda>r. key (?all ! n) < key r) (drop (Suc n) ?all) = drop (Suc n) ?all"
    using n strict [of n] sorted(3) by (auto simp: filter_id_conv in_set_conv_nth)
  finally show ?thesis by (simp add: filter_sort)
qed

definition answer :: "nat \<Rightarrow> 'r list \<Rightarrow> ('r \<Rightarrow> 'a) \<Rightarrow> ('p \<Rightarrow> string) \<Rightarrow> 'p option \<Rightarrow> 'a list \<times> string option" where
  "answer limit rows g encode p =
     (case page_of key after limit rows p of
        (items, hasMore) \<Rightarrow> (map g items, if hasMore then Some (encode (position (last items))) else None))"

text \<open>Following the cursors from the n-th row lists the rest.\<close>

lemma follow_rest:
  assumes st: "list_all stored rows" and d: "distinct (map key rows)" and limit: "0 < limit"
    and f: "\<And>r. r \<in> set rows \<Longrightarrow> f (Some (encode (position r))) = Inr (answer limit rows g encode (Some (position r)))"
    and p: "f c = Inr (answer limit rows g encode p)" "sort_key key (filter (after p) rows) = drop n (sort_key key rows)"
    and fuel: "length rows - n < fuel"
  shows "follow f fuel c = Some (Inr (map g (drop n (sort_key key rows))))"
  using p fuel
proof (induction fuel arbitrary: n c p)
  case (Suc fuel)
  let ?all = "sort_key key rows"
  have pg: "page_of key after limit rows p = (take limit (drop n ?all), n + limit < length rows)"
    by (auto simp: page_of_def Suc.prems(2) Let_def min_def)
  show ?case
  proof (cases "n + limit < length rows")
    case False
    then show ?thesis using Suc.prems(1) pg by (simp add: answer_def)
  next
    case True
    let ?r = "last (take limit (drop n ?all))"
    have r: "?r = ?all ! (n + limit - 1)" "n + limit - 1 < length rows"
      using True limit by (auto simp: last_conv_nth take_eq_Nil)
    then have "?r \<in> set rows" by (metis length_sort nth_mem set_sort)
    moreover have "sort_key key (filter (after (Some (position ?r))) rows) = drop (n + limit) ?all"
      using rows_after [OF st d r(2)] r(1) limit by simp
    ultimately have "follow f fuel (Some (encode (position ?r))) = Some (Inr (map g (drop (n + limit) ?all)))"
      using Suc.prems(3) True limit by (intro Suc.IH [OF f]) simp_all
    moreover have "take limit (drop n ?all) @ drop (n + limit) ?all = drop n ?all"
      by (metis add.commute append_take_drop_id drop_drop)
    then have "map g (take limit (drop n ?all)) @ map g (drop (n + limit) ?all) = map g (drop n ?all)" by (metis map_append)
    ultimately show ?thesis using Suc.prems(1) pg True by (simp add: answer_def)
  qed
qed simp

lemma follow_complete:
  assumes "list_all stored rows" "distinct (map key rows)" "0 < limit"
    and "\<And>r. r \<in> set rows \<Longrightarrow> f (Some (encode (position r))) = Inr (answer limit rows g encode (Some (position r)))"
    and "f None = Inr (answer limit rows g encode None)"
  shows "follow f (Suc (length rows)) None = Some (Inr (map g (sort_key key rows)))"
  using follow_rest [OF assms(1-5), of 0 "Suc (length rows)"] after_None by simp

end

end
