(* ===== verification/Workspace_Access.thy ===== *)
theory Workspace_Access
  imports Workspace_Run Listing
begin

text \<open>
  Which invocations the control plane authorizes. The decision of \<^verbatim>\<open>resolveAuthorizedInvocation\<close> is related to the
  rows of both components: the current Installation of the Agent and the version and Release it pins.
\<close>

section \<open>Rows found by their keys\<close>

lemma current_found:
  assumes "workspace_inv lib d"
  shows "GetCurrentInstallation env d ws a = Inr i \<longleftrightarrow>
     deCall env 0 \<and> i \<in> set (wdInstallations d) \<and> inWorkspaceID i = ws \<and> inAgentID i = a \<and> inStatus i \<noteq> ''uninstalled''"
proof -
  have u: "distinct (map current_key (filter current (wdInstallations d)))" using assms by (simp add: workspace_inv_def)
  have "find (\<lambda>i. inWorkspaceID i = ws \<and> inAgentID i = a \<and> inStatus i \<noteq> ''uninstalled'') (wdInstallations d) = Some i \<longleftrightarrow>
      i \<in> set (wdInstallations d) \<and> inWorkspaceID i = ws \<and> inAgentID i = a \<and> inStatus i \<noteq> ''uninstalled''"
    by (rule find_iff, rule distinct_map_inj_key [OF u]) (auto simp: current_def current_key_def)
  then show ?thesis by (simp add: GetCurrentInstallation_def getInstallation_def)
qed

text \<open>The card of a version is the same in all states of a run.\<close>

lemma declared_at:
  assumes run: "platform_run lib urls service hc hw" and d: "d \<in> set hw" and c: "c \<in> set hc" and i: "i \<in> set (wdInstallations d)"
    and v: "v \<in> set (cdVersions c)" "version_key v = (inAgentID i, inInstalledVersion i)"
  shows "set (elems (inAcceptedPermissions i)) \<subseteq> set (map pdID (elems (acPermissions (vrCard v))))"
proof -
  have "pins_catalog (hd hc) i" using platform_pins [OF run] d i by blast
  then obtain u where u: "u \<in> set (cdVersions (hd hc))" "version_key u = (inAgentID i, inInstalledVersion i)"
    "set (elems (inAcceptedPermissions i)) \<subseteq> set (map pdID (elems (acPermissions (vrCard u))))"
    unfolding pins_catalog_def by blast
  have hd: "catalog_grows c (hd hc)" "catalog_inv (hd hc)"
    using run_sound [OF platform_catalog_run [OF run]] c by (cases hc; auto)+
  then obtain v' where v': "v' \<in> set (cdVersions (hd hc))" "version_kept v v'"
    using grown_in v(1) unfolding catalog_grows_def by metis
  then have "v' = u" using version_unique [OF hd(2) u(1), of v'] v(2) u(2) by (simp add: version_kept_def)
  then show ?thesis using u(3) v'(2) by (simp add: version_kept_def)
qed

section \<open>Authorized invocations\<close>

text \<open>What an Installation permits in a state of the Catalog: it is enabled, the version it pins is
  published, under the pinned Release if it pins one, and the permissions the capability requires were
  accepted. The result names exactly the pin.\<close>

definition invocable :: "catalog_db \<Rightarrow> installation \<Rightarrow> string \<Rightarrow> authorized_invocation \<Rightarrow> bool" where
  "invocable c i capability auth \<longleftrightarrow> inStatus i = ''enabled'' \<and>
     (\<exists>v\<in>set (cdVersions c). version_key v = (inAgentID i, inInstalledVersion i) \<and> vrStatus v = ''published'' \<and>
        (\<exists>s. find (\<lambda>s. skID s = capability) (acSkills (vrCard v)) = Some s \<and>
           set (elems (skRequiredPermissions s)) \<subseteq> set (elems (inAcceptedPermissions i))) \<and>
        aiAgentCardVersion auth = inInstalledVersion i \<and> aiAgentReleaseID auth = inInstalledReleaseID i \<and>
        (if inInstalledReleaseID i = [] then vrLegacyUnverified v \<and> aiAgentCardDigest auth = []
         else aiAgentCardDigest auth = hex_EncodeToString (vrCardDigest v) \<and>
           (\<exists>r\<in>set (cdReleases c). arReleaseID r = inInstalledReleaseID i \<and> release_key r = version_key v \<and>
              arCardDigest r = vrCardDigest v \<and> arState r = ''published'')))"

text \<open>The decision on the entry the Catalog returned.\<close>

definition entry_ok :: "agent_version \<Rightarrow> installation \<Rightarrow> string \<Rightarrow> authorized_invocation \<Rightarrow> bool" where
  "entry_ok e i capability auth \<longleftrightarrow> eligible_pin e (inInstalledReleaseID i) \<and>
     (\<exists>s. find (\<lambda>s. skID s = capability) (acSkills (avCard e)) = Some s \<and>
        containsAll (elems (inAcceptedPermissions i)) (elems (skRequiredPermissions s))) \<and>
     releaseProvenance e (inInstalledReleaseID i) = Some (aiAgentReleaseID auth, aiAgentCardDigest auth) \<and>
     aiAgentCardVersion auth = inInstalledVersion i"

lemma resolveAuthorizedInvocation_iff:
  "resolveAuthorizedInvocation reader w ws a capability = Inr auth \<longleftrightarrow>
     (\<exists>i e. GetCurrentInstallation (wwEnv w 1) (wwDb w 1) ws a = Inr i \<and> inStatus i = ''enabled'' \<and>
        crGetVersion reader a (inInstalledVersion i) = Inr e \<and> entry_ok e i capability auth)"
proof (cases "GetCurrentInstallation (wwEnv w 1) (wwDb w 1) ws a")
  case i: (Inr i)
  show ?thesis
  proof (cases "crGetVersion reader a (inInstalledVersion i)")
    case e: (Inr e)
    show ?thesis
      by (cases auth) (auto simp: resolveAuthorizedInvocation_def i e entry_ok_def validateReleaseEligibility_None [symmetric]
          simp del: One_nat_def split: option.splits)
  qed (auto simp: resolveAuthorizedInvocation_def i simp del: One_nat_def)
qed (auto simp: resolveAuthorizedInvocation_def simp del: One_nat_def)

lemma entry_ok_iff:
  assumes inv: "catalog_inv c" and read: "read_version c e v" and key: "version_key v = (inAgentID i, inInstalledVersion i)"
  shows "inStatus i = ''enabled'' \<and> entry_ok e i capability auth \<longleftrightarrow> invocable c i capability auth"
proof -
  have only: "u \<in> set (cdVersions c) \<and> version_key u = (inAgentID i, inInstalledVersion i) \<longleftrightarrow> u = v" for u
    using version_unique [OF inv, of v u] read key by (auto simp: read_version_def)
  have rel: "avRelease e = Some r \<longleftrightarrow> r \<in> set (cdReleases c) \<and> release_key r = version_key v" for r
    by (rule release_found [OF inv read])
  have card: "avCard e = vrCard v" "avCardDigest e = vrCardDigest v" "avStatus e = vrStatus v"
    "avLegacyUnverified e = vrLegacyUnverified v" "version_key v = (acAgentID (avCard e), acVersion (avCard e))"
    using read by (simp_all add: read_version_def)
  have pick: "(\<exists>u\<in>set (cdVersions c). version_key u = (inAgentID i, inInstalledVersion i) \<and> Q u) \<longleftrightarrow> Q v" for Q
    using only by metis
  have perms: "containsAll xs ys \<longleftrightarrow> set ys \<subseteq> set xs" for xs ys by (auto simp: containsAll_def list_all_iff)
  show ?thesis
  proof (cases "inInstalledReleaseID i = []")
    case True
    then show ?thesis unfolding invocable_def pick entry_ok_def eligible_pin_def releaseProvenance_def perms card(1-4) by auto
  next
    case False
    have key': "release_key r = (acAgentID (vrCard v), acVersion (vrCard v)) \<longleftrightarrow> release_key r = version_key v" for r
      using card(1,5) by simp
    show ?thesis
    proof (cases "avRelease e")
      case None
      then have "\<not> (r \<in> set (cdReleases c) \<and> release_key r = version_key v)" for r using rel [of r] by simp
      then show ?thesis using False None unfolding invocable_def pick entry_ok_def eligible_pin_def by auto
    next
      case (Some r0)
      then have same: "r \<in> set (cdReleases c) \<and> release_key r = version_key v \<longleftrightarrow> r = r0" for r using rel [of r] by auto
      have one: "(\<exists>r\<in>set (cdReleases c). arReleaseID r = inInstalledReleaseID i \<and> release_key r = version_key v \<and> R r) \<longleftrightarrow>
          arReleaseID r0 = inInstalledReleaseID i \<and> R r0" for R using same by metis
      have "release_key r0 = version_key v" using same [of r0] by simp
      show ?thesis
        using False Some \<open>release_key r0 = version_key v\<close>
        unfolding invocable_def pick entry_ok_def eligible_pin_def releaseProvenance_def perms card(1-4) key' one by auto
    qed
  qed
qed

lemma resolve_exact:
  assumes cinv: "catalog_inv c" and winv: "workspace_inv lib (wwDb w 1)"
    and ok: "ValidIdentifier a" "deCall env 0" "deCall (wwEnv w 1) 0"
  shows "resolveAuthorizedInvocation (catalog_view lib env c) w ws a capability = Inr auth \<longleftrightarrow>
     (\<exists>i\<in>set (wdInstallations (wwDb w 1)). inWorkspaceID i = ws \<and> inAgentID i = a \<and> invocable c i capability auth)"
    (is "?result \<longleftrightarrow> ?rows")
proof
  assume ?result
  then obtain i e where i: "i \<in> set (wdInstallations (wwDb w 1))" "inWorkspaceID i = ws" "inAgentID i = a" "inStatus i = ''enabled''"
    and e: "GetVersion lib env c a (inInstalledVersion i) = Inr e" "entry_ok e i capability auth"
    by (auto simp: resolveAuthorizedInvocation_iff current_found [OF winv] simp del: One_nat_def)
  from GetVersion_read [OF cinv e(1)] i(3) obtain v
    where "read_version c e v" "version_key v = (inAgentID i, inInstalledVersion i)" by blast
  then show ?rows using entry_ok_iff [OF cinv] i e(2) by blast
next
  assume ?rows
  then obtain i where i: "i \<in> set (wdInstallations (wwDb w 1))" "inWorkspaceID i = ws" "inAgentID i = a" "invocable c i capability auth"
    by blast
  then obtain v where v: "v \<in> set (cdVersions c)" "version_key v = (inAgentID i, inInstalledVersion i)" by (auto simp: invocable_def)
  have "clStrict lib (inInstalledVersion i)" using winv i(1) by (auto simp: workspace_inv_def list_all_iff pin_valid_def)
  with GetVersion_found [OF cinv v ok(2)] ok(1) i(3) obtain e
    where e: "GetVersion lib env c a (inInstalledVersion i) = Inr e" "read_version c e v" by blast
  have "inStatus i = ''enabled''" "entry_ok e i capability auth" using entry_ok_iff [OF cinv e(2) v(2)] i(4) by blast+
  then show ?result
    unfolding resolveAuthorizedInvocation_iff current_found [OF winv] catalog_view_simps
    using i(1-3) e(1) ok(3) by (intro exI [of _ i] exI [of _ e]) simp
qed

section \<open>Resolution\<close>

text \<open>The response \<^verbatim>\<open>Resolve\<close> builds.\<close>

definition response_of :: "agent_version \<Rightarrow> installation \<Rightarrow> authorized_invocation \<Rightarrow> resolve_response" where
  "response_of e i auth = \<lparr>rsCard = avCard e, rsInstallation =
     \<lparr>riInstallationID = inInstallationID i, riWorkspaceID = inWorkspaceID i, riAgentID = inAgentID i,
      riInstalledVersion = inInstalledVersion i, riInstalledReleaseID = aiAgentReleaseID auth, riAgentCardDigest = aiAgentCardDigest auth,
      riAcceptedPermissions = inAcceptedPermissions i, riStatus = inStatus i\<rparr>\<rparr>"

lemma entry_ok_ex:
  "(\<exists>auth. entry_ok e i cap auth \<and> P (aiAgentReleaseID auth) (aiAgentCardDigest auth)) \<longleftrightarrow>
     eligible_pin e (inInstalledReleaseID i) \<and>
     (\<exists>s. find (\<lambda>s. skID s = cap) (acSkills (avCard e)) = Some s \<and>
        containsAll (elems (inAcceptedPermissions i)) (elems (skRequiredPermissions s))) \<and>
     (\<exists>rel digest. releaseProvenance e (inInstalledReleaseID i) = Some (rel, digest) \<and> P rel digest)" (is "?l \<longleftrightarrow> ?r")
proof
  assume ?r
  then obtain rel digest where "releaseProvenance e (inInstalledReleaseID i) = Some (rel, digest)" "P rel digest" by blast
  with \<open>?r\<close> show ?l unfolding entry_ok_def
    by (intro exI [of _ "\<lparr>aiAgentCardVersion = inInstalledVersion i, aiAgentReleaseID = rel, aiAgentCardDigest = digest\<rparr>"]) simp
qed (auto simp: entry_ok_def)

lemma Resolve_iff:
  "Resolve lib reader w q = Inr response \<longleftrightarrow>
     ValidateResolveAgentRequestV1 lib q = None \<and> (\<exists>x. store_GetWorkspace (wwEnv w 0) (wwDb w 0) (rqWorkspaceID q) = Inr x) \<and>
     (\<exists>i e auth. GetCurrentInstallation (wwEnv w 1) (wwDb w 1) (rqWorkspaceID q) (rqAgentID q) = Inr i \<and>
        inInstalledVersion i = rqVersion q \<and> inStatus i = ''enabled'' \<and> crGetVersion reader (rqAgentID q) (rqVersion q) = Inr e \<and>
        entry_ok e i (rqCapability q) auth \<and> response = response_of e i auth \<and>
        ValidateResolveAgentResponseForRequest lib q response = None)"
proof (cases "ValidateResolveAgentRequestV1 lib q = None \<and> (\<exists>x. store_GetWorkspace (wwEnv w 0) (wwDb w 0) (rqWorkspaceID q) = Inr x)")
  case start: True
  show ?thesis
  proof (cases "GetCurrentInstallation (wwEnv w 1) (wwDb w 1) (rqWorkspaceID q) (rqAgentID q)")
    case i: (Inr i)
    show ?thesis
    proof (cases "crGetVersion reader (rqAgentID q) (rqVersion q)")
      case e: (Inr e)
      show ?thesis
        using start i e entry_ok_ex [of e i "rqCapability q" "\<lambda>rel digest. response = \<lparr>rsCard = avCard e, rsInstallation =
            \<lparr>riInstallationID = inInstallationID i, riWorkspaceID = inWorkspaceID i, riAgentID = inAgentID i,
             riInstalledVersion = inInstalledVersion i, riInstalledReleaseID = rel, riAgentCardDigest = digest,
             riAcceptedPermissions = inAcceptedPermissions i, riStatus = inStatus i\<rparr>\<rparr> \<and>
            ValidateResolveAgentResponseForRequest lib q response = None"]
        by (auto simp: Resolve_def response_of_def validateReleaseEligibility_None [symmetric] Let_def simp del: One_nat_def
            split: option.splits)
    qed (use start i in \<open>auto simp: Resolve_def simp del: One_nat_def\<close>)
  qed (use start in \<open>auto simp: Resolve_def simp del: One_nat_def\<close>)
qed (auto simp: Resolve_def)

text \<open>The response for an authorized invocation passes its own validation.\<close>

lemma hex_text: "list_all (\<lambda>b. b < 256) bs \<Longrightarrow> list_all is_lower_hex (hex_EncodeToString bs) \<and> length (hex_EncodeToString bs) = 2 * length bs"
proof (induction bs)
  case (Cons b bs)
  have digit: "is_lower_hex (hex_char n)" if "n < 16" for n
  proof -
    have "list_all (\<lambda>n. is_lower_hex (hex_char n)) [0..<16]" by code_simp
    then show ?thesis using that by (auto simp: list_all_iff)
  qed
  have "b div 16 < 16" "b mod 16 < 16" using Cons.prems by auto
  then show ?case using Cons digit by (simp add: hex_EncodeToString_def)
qed (simp add: hex_EncodeToString_def)

lemma response_valid:
  assumes q: "ValidateResolveAgentRequestV1 lib q = None" and acard: "card_ok lib (avCard e, text', avCardDigest e)"
    and e: "entry_ok e i (rqCapability q) auth" and enabled: "inStatus i = ''enabled''"
    and ids: "acAgentID (avCard e) = rqAgentID q" "acVersion (avCard e) = rqVersion q" "inWorkspaceID i = rqWorkspaceID q"
      "inAgentID i = rqAgentID q" "inInstalledVersion i = rqVersion q"
    and row: "installation_checks i" "pin_valid lib i"
    and declared: "set (elems (inAcceptedPermissions i)) \<subseteq> set (map pdID (elems (acPermissions (avCard e))))"
  shows "ValidateResolveAgentResponseForRequest lib q (response_of e i auth) = None"
proof -
  have safe: "validateSafeContractIdentifier n s = None" if "MatchString safeIdentifierPattern s" for n s
    using that by (simp add: validateSafeContractIdentifier_def)
  have digest: "avCardDigest e = sha256_Sum256 text'" and valid: "ValidateAgentCard lib (avCard e) = None"
    using acard by (simp_all add: card_ok_def)
  have "isLowerHexDigest (hex_EncodeToString (avCardDigest e))"
    using hex_text [of "avCardDigest e"] by (auto simp: digest list_all_iff dest: sha256_byte)
  then have prov: "ValidateInvocationReleaseProvenance (aiAgentReleaseID auth) (aiAgentCardDigest auth) = None"
    using e row(1)
    by (auto simp: provenance_None entry_ok_def releaseProvenance_def eligible_pin_def installation_checks_def split: if_splits)
  have perms: "strictly_ascending (elems (inAcceptedPermissions i))" "\<forall>p\<in>set (elems (inAcceptedPermissions i)). MatchString safeIdentifierPattern p"
    using row(2) by (auto simp: pin_valid_def list_all_iff split: option.splits)
  have each: "each_error (\<lambda>p. first_error (validateSafeContractIdentifier ''accepted permission'' p)
      (if p \<notin> set (map pdID (elems (acPermissions (avCard e)))) then Some x else None)) (elems (inAcceptedPermissions i)) = None" for x
    using perms(2) declared safe by (auto simp: each_error_None first_error_None)
  obtain s where "find (\<lambda>s. skID s = rqCapability q) (acSkills (avCard e)) = Some s"
    "containsAll (elems (inAcceptedPermissions i)) (elems (skRequiredPermissions s))" using e by (auto simp: entry_ok_def)
  moreover have "validateSafeContractIdentifier ''installation id'' (inInstallationID i) = None"
    using row(1) safe by (simp add: installation_checks_def)
  ultimately show ?thesis
    using q valid ids enabled prov perms(1) each
    by (simp add: ValidateResolveAgentResponseForRequest_def response_of_def Let_def containsAll_def del: each_error_None)
qed

end
