(* ===== verification/Catalog_Demo.thy ===== *)
theory Catalog_Demo
  imports Catalog_Run
begin

text \<open>
  A complete run of the Catalog: an Agent is registered, its endpoint is bound and verified by a
  challenge, a Release is created and published. The run inhabits the theorems on catalog runs.
\<close>

section \<open>The environment\<close>

definition demo_lib :: contract_library where
  "demo_lib = \<lparr>clStrict = (\<lambda>_. True), clConstraint = (\<lambda>_. True), clCheck = (\<lambda>_ _. True), clPrerelease = (\<lambda>_. []),
     clGreaterThan = (\<lambda>u v. length u > length v), clEqual = (\<lambda>u v. length u = length v),
     clSemverFormat = (\<lambda>_. True), clUriFormat = (\<lambda>_. True)\<rparr>"

definition demo_urls :: url_library where
  "demo_urls = \<lparr>ulParse = (\<lambda>_. Some \<lparr>puScheme = ''https'', puOpaque = [], puUser = False, puHost = ''a.example'',
     puHostname = ''a.example'', puPort = [], puPath = ''/r'', puRawPath = [], puEscapedPath = ''/r'', puRawQuery = [],
     puForceQuery = False, puFragment = [], puRawFragment = []\<rparr>), ulParseIP = (\<lambda>_. False), ulToLower = map to_lower,
     ulHostASCII = (\<lambda>host. host)\<rparr>"

definition demo_service :: trust_service where
  "demo_service = \<lparr>tsChallengeTTL = 2000000, tsVerificationTimeout = 1000000, tsAllowedPrivateHosts = []\<rparr>"

definition demo_endpoint :: string where
  "demo_endpoint = ''https://a.example/r''"

definition demo_card :: agent_card where
  "demo_card = \<lparr>acSchemaVersion = ''0.2'', acAgentID = ''echo'', acName = ''Echo'', acDescription = ''Echo'',
     acOwner = \<lparr>aoID = ''alice'', aoDisplayName = ''Alice''\<rparr>, acVersion = ''1.0.0'',
     acProtocol = \<lparr>apType = ''a2a'', apVersion = ''0.3.0'', apTransport = ''JSONRPC'', apEndpoint = demo_endpoint\<rparr>,
     acSkills = [\<lparr>skID = ''say'', skName = ''Say'', skDescription = ''Say'', skInputSchema = Some ''{}'',
       skOutputSchema = Some ''{}'', skRequiredPermissions = Some []\<rparr>],
     acAuthenticationType = ''none'', acPermissions = Some [],
     acLimits = \<lparr>alTimeoutMS = 1000, alMaxInputBytes = ''10'', alMaxOutputBytes = ''10'', alStreaming = False\<rparr>\<rparr>"

definition demo_digest :: "nat list" where
  "demo_digest = sha256_Sum256 ''{}''"

definition demo_evidence :: "nat list" where
  "demo_evidence = sha256_Sum256 ''07''"

definition demo_public :: string where
  "demo_public = ''agt_00000000000000000000000000000000''"

definition demo_world :: "catalog_db \<Rightarrow> nat list \<Rightarrow> catalog_world" where
  "demo_world db raw = \<lparr>cwDb = (\<lambda>_. db), cwEnv = (\<lambda>_. db_healthy), cwNow = (\<lambda>_. 0), cwRandom = Some raw\<rparr>"

definition demo_trust :: "(nat \<Rightarrow> catalog_db) \<Rightarrow> trust_world" where
  "demo_trust dbs = \<lparr>cwDb = dbs, cwEnv = (\<lambda>_. db_healthy), cwNow = (\<lambda>_. 0), cwRandom = Some [2], twProof = Some [7],
     twLookupIP = (\<lambda>_. Some (\<lambda>_. Some [[93, 184, 216, 34]])), twTransport = True,
     twReply = (\<lambda>_ address server url.
       if address = ([93, 184, 216, 34], ''443'') \<and> server = ''a.example'' \<and>
          url = ''https://a.example/.well-known/nekiro/challenges/challenge-02''
       then Some \<lparr>hrStatus = 200, hrBody = Some ''07'', hrClosed = True\<rparr> else None)\<rparr>"

section \<open>The states of the run\<close>

definition demo_identity :: "string option \<Rightarrow> identity_row" where
  "demo_identity p = \<lparr>aiAgentID = ''echo'', aiOwnerID = ''alice'', aiCreatedAt = 0, aiPublicAgentID = demo_public, aiProviderID = p\<rparr>"

definition demo_version :: "string \<Rightarrow> time option \<Rightarrow> int option \<Rightarrow> version_row" where
  "demo_version status published n = \<lparr>vrAgentID = ''echo'', vrVersion = ''1.0.0'', vrSchemaVersion = ''0.2'', vrCardJSON = ''{}'',
     vrCard = demo_card, vrCardName = ''Echo'', vrCardDescription = ''Echo'', vrCardDigest = demo_digest, vrStatus = status,
     vrRegisteredAt = 0, vrPublishedAt = published, vrSequence = n, vrDisabledAt = None, vrLegacyUnverified = False\<rparr>"

definition demo_provider :: "string \<Rightarrow> time option \<Rightarrow> provider" where
  "demo_provider status verified = \<lparr>pvProviderID = ''acme'', pvOwnerIdentity = ''alice'', pvVerificationStatus = status,
     pvVerificationMethod = ''http_well_known'', pvVerifiedAt = verified, pvCreatedAt = 0, pvUpdatedAt = 0\<rparr>"

definition demo_binding :: "string \<Rightarrow> nat list option \<Rightarrow> time option \<Rightarrow> endpoint_binding" where
  "demo_binding status evidence verified = \<lparr>ebBindingID = ''binding-02'', ebProviderID = ''acme'', ebAgentID = ''echo'',
     ebAgentCardVersion = ''1.0.0'', ebEndpoint = demo_endpoint, ebOrigin = ''https://a.example'', ebPath = ''/r'',
     ebVerificationMethod = ''http_well_known'', ebVerificationStatus = status, ebVerificationEvidenceDigest = evidence,
     ebVerificationFailureCode = None, ebCreatedAt = 0, ebUpdatedAt = 0, ebVerifiedAt = verified, ebRevokedAt = None\<rparr>"

definition demo_challenge :: "time option \<Rightarrow> verification_challenge" where
  "demo_challenge used = \<lparr>vcChallengeID = ''challenge-02'', vcBindingID = ''binding-02'', vcProofDigest = demo_evidence,
     vcExpiresAt = 2000000, vcUsedAt = used, vcCreatedAt = 0\<rparr>"

definition demo_release :: "string \<Rightarrow> time option \<Rightarrow> agent_release" where
  "demo_release state published = \<lparr>arReleaseID = ''release-02'', arProviderID = ''acme'', arAgentID = ''echo'',
     arAgentCardVersion = ''1.0.0'', arCardDigest = demo_digest, arEndpointBindingID = ''binding-02'',
     arEndpointOrigin = ''https://a.example'', arEndpointPath = ''/r'', arVerificationMethod = ''http_well_known'',
     arVerificationEvidenceDigest = Some demo_evidence, arState = state, arCreatedAt = 0, arUpdatedAt = 0,
     arVerifiedAt = Some 0, arPublishedAt = published, arSuspendedAt = None, arRevokedAt = None\<rparr>"

definition demo_registered :: catalog_db where
  "demo_registered = empty_catalog\<lparr>cdIdentities := [demo_identity None], cdVersions := [demo_version ''draft'' None None],
     cdCapabilities := [(''echo'', ''1.0.0'', ''say'')]\<rparr>"

definition demo_bound :: catalog_db where
  "demo_bound = demo_registered\<lparr>cdIdentities := [demo_identity (Some ''acme'')], cdProviders := [demo_provider ''unverified'' None],
     cdBindings := [demo_binding ''pending'' None None]\<rparr>"

definition demo_challenged :: catalog_db where
  "demo_challenged = demo_bound\<lparr>cdChallenges := [demo_challenge None]\<rparr>"

definition demo_reserved :: catalog_db where
  "demo_reserved = demo_bound\<lparr>cdChallenges := [demo_challenge (Some 0)]\<rparr>"

definition demo_verified :: catalog_db where
  "demo_verified = demo_reserved\<lparr>cdProviders := [demo_provider ''verified'' (Some 0)],
     cdBindings := [demo_binding ''verified'' (Some demo_evidence) (Some 0)]\<rparr>"

definition demo_released :: catalog_db where
  "demo_released = demo_verified\<lparr>cdReleases := [demo_release ''verified'' None]\<rparr>"

definition demo_published :: catalog_db where
  "demo_published = demo_verified\<lparr>cdReleases := [demo_release ''published'' (Some 0)],
     cdVersions := [demo_version ''published'' (Some 0) (Some 1)], cdClock := 1\<rparr>"

lemmas demo_defs = demo_lib_def demo_service_def demo_card_def demo_world_def
  demo_trust_def demo_identity_def demo_version_def demo_provider_def demo_binding_def demo_challenge_def demo_release_def
  demo_registered_def demo_bound_def demo_challenged_def demo_reserved_def demo_verified_def demo_released_def
  demo_published_def empty_catalog_def

section \<open>Evaluations\<close>

text \<open>The identifiers are evaluated once; the matcher is not unfolded again.\<close>

declare MatchString.simps [simp del] safe_identifier_pattern [simp del]

lemma demo_identifiers [simp]:
  "MatchString safeIdentifierPattern ''echo''" "MatchString safeIdentifierPattern ''alice''"
  "MatchString safeIdentifierPattern ''say''" "MatchString safeIdentifierPattern ''acme''"
  "MatchString safeIdentifierPattern ''binding-02''" "MatchString safeIdentifierPattern ''challenge-02''"
  "MatchString safeIdentifierPattern ''release-02''" "MatchString publicAgentIDPattern demo_public"
  by code_simp+

lemma demo_card_valid [simp]: "ValidateAgentCard demo_lib demo_card = None"
  by code_simp

lemma demo_endpoint_parsed [simp]:
  "ParseEndpoint demo_urls demo_endpoint =
     Inr \<lparr>epCanonical = demo_endpoint, epOrigin = ''https://a.example'', epPath = ''/r'', epHost = ''a.example''\<rparr>"
  by code_simp

lemma demo_names [simp]:
  "newTrustID ''binding'' (Some [2]) = Some ''binding-02''" "newTrustID ''challenge'' (Some [2]) = Some ''challenge-02''"
  "newTrustID ''release'' (Some [2]) = Some ''release-02''" "hex_EncodeToString [7] = ''07''"
  "NewPublicAgentID (Some (replicate 16 0)) = Inr demo_public"
  by code_simp+

lemma demo_times [simp]: "timestamptz 0 = 0" "timestamptz 2000000 = 2000000"
  by code_simp+

lemma demo_digests [simp]:
  "length demo_digest = 32" "length demo_evidence = 32" "sha256_Sum256 ''{}'' = demo_digest" "sha256_Sum256 ''07'' = demo_evidence"
  by (simp_all add: demo_digest_def demo_evidence_def)

lemma demo_address [simp]: "isDisallowedIP [93, 184, 216, 34] = False"
  by code_simp

section \<open>The steps of the run\<close>

lemma demo_Register:
  "Register demo_lib (\<lambda>_. Some ''{}'') [] (demo_world empty_catalog (replicate 16 0)) ''alice'' (Some demo_card) =
     (Inr (CatalogEntry \<lparr>avPublicAgentID = demo_public, avCard = demo_card, avCardJSON = ''{}'', avCardDigest = demo_digest,
        avStatus = ''draft'', avRegisteredAt = 0, avPublishedAt = None, avPublicationSequence = None, avDisabledAt = None,
        avLegacyUnverified = False, avRelease = None\<rparr>), Some demo_registered)"
proof -
  have "store_Register db_healthy empty_catalog v = (Inr v, demo_registered)"
    if "v = \<lparr>avPublicAgentID = demo_public, avCard = demo_card, avCardJSON = ''{}'', avCardDigest = demo_digest,
        avStatus = ''draft'', avRegisteredAt = 0, avPublishedAt = None, avPublicationSequence = None, avDisabledAt = None,
        avLegacyUnverified = False, avRelease = None\<rparr>" for v
    by (simp add: that store_Register_def register_body_def Let_def insert_identity_def identity_checks_def query_row_def
        insert_version_def version_checks_def version_state_timestamps_def version_row_of_def version_key_def
        insert_capability_def demo_defs)
  then show ?thesis
    by (simp add: Register_def demo_world_def ValidPublicAgentID_def catalogEntry_def) (simp add: demo_card_def)
qed

lemma demo_CreateBinding:
  "CreateBinding demo_lib demo_urls (demo_trust (\<lambda>_. demo_registered)) ''alice'' ''acme'' ''echo'' ''1.0.0'' demo_endpoint
     ''http_well_known'' = (Inr (demo_binding ''pending'' None None), Some demo_bound)"
  by (simp add: CreateBinding_def ValidIdentifier_def validAgentVersionIdentity_def store_Get_def query_row_def version_join_def
      List.map_filter_def version_key_def scanVersion_def store_CreateBinding_def create_binding_body_def insert_provider_def
      provider_checks_def provider_row_def insert_binding_def binding_checks_def binding_state_timestamps_def binding_row_def
      scanBinding_def with_write_def demo_defs Let_def)

lemma demo_CreateChallenge:
  "CreateChallenge demo_service (demo_trust (\<lambda>_. demo_bound)) ''alice'' ''acme'' ''binding-02'' =
     (Inr \<lparr>crChallengeID = ''challenge-02'', crBindingID = ''binding-02'',
        crChallengeURL = ''https://a.example/.well-known/nekiro/challenges/challenge-02'', crProof = ''07'', crExpiresAt = 2000000\<rparr>,
      Some demo_challenged)"
  by (simp add: CreateChallenge_def ValidIdentifier_def authorizeProvider_def store_GetProvider_def store_GetBinding_def
      query_row_def scanBinding_def store_CreateChallenge_def insert_challenge_def challenge_checks_def challenge_row_def
      demo_defs Let_def)

text \<open>The first write of a completed challenge finds the challenge open, the second the challenge reserved.\<close>

definition demo_completion :: trust_world where
  "demo_completion = demo_trust (\<lambda>n. if n = 3 then demo_reserved else demo_challenged)"

lemma demo_CompleteChallenge:
  "CompleteChallenge demo_urls demo_service demo_completion ''alice'' ''acme'' ''binding-02'' ''challenge-02'' =
     (Inr (demo_binding ''verified'' (Some demo_evidence) (Some 0)), Some demo_reserved, Some demo_verified)"
proof -
  have 1: "ReserveChallenge db_healthy demo_challenged ''binding-02'' ''challenge-02'' 0 =
      (Inr (demo_challenge (Some 0), demo_binding ''pending'' None None), demo_reserved)"
    by (simp add: ReserveChallenge_def reserve_challenge_body_def query_row_def scanBinding_def demo_defs)
  have 2: "SetBindingVerification db_healthy demo_reserved ''binding-02'' ''verified'' None (Some demo_evidence) 0 =
      (Inr (demo_binding ''verified'' (Some demo_evidence) (Some 0)), demo_verified)"
    by (simp add: SetBindingVerification_def set_verification_body_def query_row_def scanBinding_def verification_row_def
        binding_checks_def binding_state_timestamps_def provider_checks_def demo_defs Let_def)
  have 3: "authorizeProvider demo_completion ''alice'' ''acme'' = None"
    "store_GetBinding db_healthy demo_challenged ''acme'' ''binding-02'' = Inr (demo_binding ''pending'' None None)"
    by (simp_all add: demo_completion_def authorizeProvider_def store_GetProvider_def store_GetBinding_def query_row_def
        scanBinding_def demo_defs)
  have 4: "ResolveDestination demo_urls \<lparr>plLookupIP = twLookupIP demo_completion d, plAllowedPrivateHosts = []\<rparr>
      \<lparr>epCanonical = demo_endpoint, epOrigin = ''https://a.example'', epPath = ''/r'', epHost = ''a.example''\<rparr> = Inr [[93, 184, 216, 34]]" for d
    by (simp_all add: ResolveDestination_def demo_completion_def demo_trust_def)
  have low: "map to_lower ''a.example'' = ''a.example''" by code_simp
  have parse: "ulParse demo_urls s = Some u \<Longrightarrow> puHostname u = ''a.example'' \<and> default_port u = ''443''"
    "\<exists>u. ulParse demo_urls s = Some u" "ulToLower demo_urls = map to_lower" "ulHostASCII demo_urls = (\<lambda>host. host)" for s u
    by (auto simp: demo_urls_def default_port_def)
  have fetch: "fetchVerificationProof demo_urls demo_completion d
      \<lparr>epCanonical = demo_endpoint, epOrigin = ''https://a.example'', epPath = ''/r'', epHost = ''a.example''\<rparr> ''challenge-02''
      [[93, 184, 216, 34]] = Inr ''07''" for d
  proof -
    obtain u v where u: "ulParse demo_urls ''https://a.example'' = Some u"
        "ulParse demo_urls ''https://a.example/.well-known/nekiro/challenges/challenge-02'' = Some v"
      using parse(2) by blast
    show ?thesis
      using u parse(1) [OF u(1)] parse(1) [OF u(2)]
      by (simp add: fetchVerificationProof_def clientForPinnedDestination_def http_Do_def pinned_Dial_def parse(3,4) low
          Let_def demo_completion_def demo_trust_def del: list.map)
  qed
  have 5: "cwEnv demo_completion = (\<lambda>_. db_healthy)" "cwDb demo_completion (Suc 0) = demo_challenged" "cwDb demo_completion 2 = demo_challenged"
    "cwDb demo_completion 3 = demo_reserved" "cwNow demo_completion = (\<lambda>_. 0)" "tsAllowedPrivateHosts demo_service = []"
    by (simp_all add: demo_completion_def demo_trust_def demo_service_def)
  have 6: "ebVerificationStatus (demo_binding s e v) = s" "ebEndpoint (demo_binding s e v) = demo_endpoint"
    "vcExpiresAt (demo_challenge u) = 2000000" "vcProofDigest (demo_challenge u) = demo_evidence" for s e v u
    by (simp_all add: demo_binding_def demo_challenge_def)
  show ?thesis
    by (simp add: CompleteChallenge_def ValidIdentifier_def 1 2 3 4 fetch 5 6 Let_def)
qed

lemma demo_CreateRelease:
  "CreateRelease demo_lib (demo_world demo_verified [2]) ''alice'' ''acme'' ''echo'' ''1.0.0'' ''binding-02'' =
     (Inr (demo_release ''verified'' None), Some demo_released)"
  by (simp add: CreateRelease_def prepare_release_def ValidIdentifier_def validAgentVersionIdentity_def authorizeBinding_def
      store_GetProvider_def store_GetBinding_def store_Get_def query_row_def version_join_def List.map_filter_def version_key_def
      scanVersion_def scanBinding_def store_CreateRelease_def create_release_body_def insert_release_def release_checks_def
      release_state_timestamps_def release_row_def release_key_def scanRelease_def with_write_def demo_defs Let_def)

lemma demo_PublishRelease:
  "PublishRelease (demo_world demo_released []) ''alice'' ''release-02'' =
     (Inr (demo_release ''published'' (Some 0)), Some demo_published)"
  by (simp add: PublishRelease_def authorizeRelease_def ValidIdentifier_def requireCurrentVerifiedBinding_def
      store_GetRelease_def store_GetProvider_def store_GetBinding_def query_row_def scanRelease_def scanBinding_def
      store_TransitionRelease_def transition_release_body_def release_transition_def advance_clock_def update_version_def
      publish_row_def version_checks_def version_state_timestamps_def version_key_def release_key_def update_release_def
      release_bound_mutation_def release_checks_def release_state_timestamps_def with_write_def List.map_filter_def demo_defs Let_def)

definition demo_run :: "catalog_db list" where
  "demo_run = [demo_published, demo_released, demo_verified, demo_reserved, demo_challenged, demo_bound, demo_registered, empty_catalog]"

lemma demo_run: "catalog_run demo_lib demo_urls demo_service demo_run"
proof -
  let ?run = "catalog_run demo_lib demo_urls demo_service"
  let ?step = "catalog_step demo_lib demo_urls demo_service"
  note world [simp] = demo_world_def demo_trust_def demo_completion_def reads_from_def
  have "?run [demo_registered, empty_catalog]"
    by (rule run_step [OF run_start]) (use step_Register [OF demo_Register] in simp)
  then have "?run [demo_bound, demo_registered, empty_catalog]"
    by (rule run_step) (use step_CreateBinding [OF demo_CreateBinding] in simp)
  then have "?run [demo_challenged, demo_bound, demo_registered, empty_catalog]"
    by (rule run_step) (use step_CreateChallenge [OF demo_CreateChallenge] in simp)
  then have "?run [demo_reserved, demo_challenged, demo_bound, demo_registered, empty_catalog]"
    by (rule run_step) (use step_reserve [OF demo_CompleteChallenge] in simp)
  then have "?run [demo_verified, demo_reserved, demo_challenged, demo_bound, demo_registered, empty_catalog]"
    by (rule run_step) (use step_complete [OF demo_CompleteChallenge] in simp)
  then have "?run [demo_released, demo_verified, demo_reserved, demo_challenged, demo_bound, demo_registered, empty_catalog]"
    by (rule run_step) (use step_CreateRelease [OF demo_CreateRelease] in simp)
  then show ?thesis unfolding demo_run_def
    by (rule run_step) (use step_PublishRelease [OF demo_PublishRelease] in simp)
qed

text \<open>A shorter run: the version is disabled after its registration.\<close>

definition demo_disabled :: catalog_db where
  "demo_disabled = demo_registered\<lparr>cdVersions := [(demo_version ''disabled'' None None)\<lparr>vrDisabledAt := Some 0\<rparr>]\<rparr>"

lemma demo_Disable:
  "snd (service_transition demo_lib [] (demo_world demo_registered []) ''alice'' ''echo'' ''1.0.0'' False) = Some demo_disabled"
  by (simp add: service_transition_def validAgentVersionIdentity_def ValidIdentifier_def store_transition_def transition_body_def
      query_row_def version_join_def List.map_filter_def version_key_def scanVersion_def update_version_def disable_row_def
      version_checks_def version_state_timestamps_def demo_disabled_def demo_defs Let_def)

lemma demo_disabled_run: "catalog_run demo_lib demo_urls demo_service [demo_disabled, demo_registered, empty_catalog]"
proof -
  have "catalog_run demo_lib demo_urls demo_service [demo_registered, empty_catalog]"
    by (rule run_step [OF run_start]) (use step_Register [OF demo_Register] in \<open>simp add: demo_world_def\<close>)
  moreover obtain r where "service_transition demo_lib [] (demo_world demo_registered []) ''alice'' ''echo'' ''1.0.0'' False =
      (r, Some demo_disabled)" using demo_Disable by (metis prod.collapse)
  ultimately show ?thesis by (auto intro: run_step dest!: step_transition simp: demo_world_def)
qed

text \<open>A verified Release of a disabled version.\<close>

definition demo_stuck :: catalog_db where
  "demo_stuck = demo_released\<lparr>cdVersions := [(demo_version ''disabled'' None None)\<lparr>vrDisabledAt := Some 0\<rparr>]\<rparr>"

end
