(* ===== verification/Workspace_Demo.thy ===== *)
theory Workspace_Demo
  imports Workspace_Access Catalog_Demo
begin

text \<open>
  A run of the whole control plane: after the Release of the Catalog's run is published, a Workspace is
  created and the Agent installed in it; then the Installation is disabled, and the Release suspended.
\<close>

section \<open>The states\<close>

definition demo_calls :: "workspace_db \<Rightarrow> workspace_world" where
  "demo_calls db = \<lparr>wwDb = (\<lambda>_. db), wwEnv = (\<lambda>_. db_healthy), wwNow = 5000, wwNewID = Some ''ws_1''\<rparr>"

definition demo_space :: workspace where
  "demo_space = \<lparr>wkWorkspaceID = ''main'', wkOwnerID = ''bob'', wkCreatedAt = 5000, wkUpdatedAt = 5000\<rparr>"

definition demo_installation :: "string \<Rightarrow> time \<Rightarrow> installation" where
  "demo_installation status updated = \<lparr>inInstallationID = ''ws_1'', inWorkspaceID = ''main'', inAgentID = ''echo'',
     inVersionConstraint = ''*'', inInstalledVersion = ''1.0.0'', inInstalledReleaseID = ''release-02'',
     inAcceptedPermissions = Some [], inStatus = status, inInstalledAt = 5000, inUpdatedAt = updated, inUninstalledAt = None\<rparr>"

definition demo_created :: workspace_db where
  "demo_created = \<lparr>wdWorkspaces = [demo_space], wdInstallations = []\<rparr>"

definition demo_installed :: workspace_db where
  "demo_installed = \<lparr>wdWorkspaces = [demo_space], wdInstallations = [demo_installation ''enabled'' 5000]\<rparr>"

definition demo_paused :: workspace_db where
  "demo_paused = \<lparr>wdWorkspaces = [demo_space], wdInstallations = [demo_installation ''disabled'' 6000]\<rparr>"

definition demo_request :: install_request where
  "demo_request = \<lparr>irAgentID = ''echo'', irVersionConstraint = ''*'', irAcceptedPermissions = Some []\<rparr>"

definition demo_entry :: agent_version where
  "demo_entry = \<lparr>avPublicAgentID = demo_public, avCard = demo_card, avCardJSON = ''{}'', avCardDigest = demo_digest,
     avStatus = ''published'', avRegisteredAt = 0, avPublishedAt = Some 0, avPublicationSequence = Some 1, avDisabledAt = None,
     avLegacyUnverified = False, avRelease = Some (demo_release ''published'' (Some 0))\<rparr>"

definition demo_resolve :: resolve_request where
  "demo_resolve = \<lparr>rqInvocationID = ''inv-1'', rqRootTaskID = ''task-1'', rqTraceID = ''trc_1'', rqWorkspaceID = ''main'',
     rqAgentID = ''echo'', rqVersion = ''1.0.0'', rqCapability = ''say''\<rparr>"

definition demo_suspended :: catalog_db where
  "demo_suspended = demo_published\<lparr>cdReleases := [(demo_release ''suspended'' (Some 0))\<lparr>arSuspendedAt := Some 0\<rparr>],
     cdVersions := [(demo_version ''disabled'' (Some 0) (Some 1))\<lparr>vrDisabledAt := Some 0\<rparr>]\<rparr>"

section \<open>Evaluations\<close>

declare MatchString.simps [simp del] safe_identifier_pattern [simp del]

lemma demo_workspace_identifiers [simp]:
  "MatchString safeIdentifierPattern ''main''" "MatchString safeIdentifierPattern ''bob''" "MatchString safeIdentifierPattern ''ws_1''"
  "MatchString semverPattern ''1.0.0''" "TrimSpace ''*'' \<noteq> []"
  by code_simp+

lemma demo_workspace_times [simp]:
  "timestamptz 5000 = 5000" "timestamptz 6000 = 6000" "nextLifecycleTime 5000 5000 = 6000" "time_Marshal 5000" "\<not> time_IsZero 5000"
  by code_simp+

lemma demo_selected: "SelectInstallable demo_lib db_healthy demo_published ''echo'' ''*'' = Inr demo_entry"
proof -
  have "InstallationCandidates db_healthy demo_published ''echo'' = Inr [demo_entry]"
    by (simp add: InstallationCandidates_def version_join_def List.map_filter_def release_key_def version_key_def scanVersion_def
        scanRelease_def demo_entry_def demo_defs)
  moreover have "installabilityError demo_entry = None"
    by (simp add: installabilityError_def demo_entry_def demo_release_def demo_card_def)
  moreover have "clConstraint demo_lib x" "clStrict demo_lib x" "clCheck demo_lib x y" "constraintBranchAllowsVersion demo_lib x y" for x y
    by (simp_all add: demo_lib_def constraintBranchAllowsVersion_def)
  ultimately show ?thesis by (simp add: SelectInstallable_def ValidIdentifier_def Let_def)
qed

lemma demo_got: "GetVersion demo_lib db_healthy demo_published ''echo'' ''1.0.0'' = Inr demo_entry"
  by (simp add: GetVersion_def validAgentVersionIdentity_def ValidIdentifier_def store_Get_def query_row_def version_join_def
      List.map_filter_def release_key_def version_key_def scanVersion_def scanRelease_def demo_entry_def demo_defs)

section \<open>The steps\<close>

lemma demo_CreateWorkspace:
  "CreateWorkspace (demo_calls empty_workspaces) ''bob'' ''main'' = (Inr demo_space, Some demo_created)"
  by (simp add: CreateWorkspace_def ValidIdentifier_def ValidateWorkspace_def store_CreateWorkspace_def insert_workspace_def
      workspace_checks_def demo_calls_def demo_created_def demo_space_def empty_workspaces_def with_write_def Let_def)

lemma demo_Install:
  "Install demo_lib (catalog_view demo_lib db_healthy demo_published) (demo_calls demo_created) ''bob'' ''main'' demo_request =
     (Inr (demo_installation ''enabled'' 5000), Some demo_installed)"
proof -
  have new: "new_installation (demo_calls demo_created) ''main'' demo_request demo_entry ''ws_1'' [] = demo_installation ''enabled'' 5000"
    by (simp add: new_installation_def demo_calls_def demo_request_def demo_entry_def demo_card_def demo_release_def releaseID_def
        demo_installation_def)
  have valid: "ValidateInstallation demo_lib (demo_installation ''enabled'' 5000) = None"
    by (simp add: ValidateInstallation_def installation_schema_def validateInstallationV2Semantics_def demo_installation_def
        demo_lib_def regex_space_def)
  have create: "CreateInstallation db_healthy demo_created ''bob'' (demo_installation ''enabled'' 5000) =
      (Inr (demo_installation ''enabled'' 5000), demo_installed)"
    by (simp add: CreateInstallation_def create_installation_body_def one_row_def insert_installation_def installation_checks_def
        installation_state_timestamps_def installation_row_def demo_created_def demo_installed_def demo_space_def demo_installation_def)
  have ok: "validateReleaseEligibility demo_entry (releaseID demo_entry) = None"
    "validatePermissionSubset (avCard demo_entry) (irAcceptedPermissions demo_request) = Inr []"
    by (simp_all add: validateReleaseEligibility_def releaseID_def validatePermissionSubset_def demo_entry_def demo_release_def
        demo_card_def demo_request_def)
  have world: "wwEnv (demo_calls d) n = db_healthy" "wwDb (demo_calls d) n = d" "wwNewID (demo_calls d) = Some ''ws_1''" for d n
    by (simp_all add: demo_calls_def)
  have "owned (demo_calls demo_created) ''bob'' ''main'' = Inr demo_space"
    by (simp add: owned_iff world demo_created_def demo_space_def)
  moreover have "HasCurrentInstallation db_healthy demo_created ''main'' ''echo'' = Inr False"
    by (simp add: HasCurrentInstallation_def demo_created_def)
  moreover have "install_selected demo_lib (demo_calls demo_created) ''bob'' ''main'' demo_request demo_entry =
      (Inr (demo_installation ''enabled'' 5000), Some demo_installed)"
    by (simp add: install_selected_def ok world new valid create ValidIdentifier_def Let_def with_write_def)
  moreover have "irAgentID demo_request = ''echo''" "irVersionConstraint demo_request = ''*''"
    "irAcceptedPermissions demo_request = Some []" "clConstraint demo_lib ''*''" by (simp_all add: demo_request_def demo_lib_def)
  ultimately show ?thesis
    by (simp add: Install_def ValidIdentifier_def validConstraint_def validPermissionInput_def world demo_selected)
qed

lemma demo_Update:
  "UpdateInstallation (demo_calls demo_installed) ''bob'' ''main'' ''ws_1'' ''disabled'' =
     (Inr (demo_installation ''disabled'' 6000), Some demo_paused)"
  by (simp add: UpdateInstallation_def ValidIdentifier_def currentInstallationStatus_def owned_def store_GetWorkspace_def one_row_def
      Authorize_def ChangeInstallationStatus_def change_status_body_def update_installation_def installation_checks_def
      installation_state_timestamps_def ValidateInstallationImmutablePin_def with_write_def
      demo_calls_def demo_installed_def demo_paused_def demo_space_def demo_installation_def Let_def current_def)

lemma demo_Suspend:
  "snd (SuspendRelease (demo_world demo_published []) ''alice'' ''release-02'') = Some demo_suspended"
  by (simp add: SuspendRelease_def authorizeRelease_def ValidIdentifier_def
      store_GetRelease_def store_GetProvider_def query_row_def scanRelease_def
      store_TransitionRelease_def transition_release_body_def release_transition_def update_version_def
      disable_row_def version_checks_def version_state_timestamps_def version_key_def release_key_def update_release_def
      release_bound_mutation_def release_checks_def release_state_timestamps_def with_write_def List.map_filter_def
      demo_suspended_def demo_defs Let_def)

section \<open>The run\<close>

lemma platform_of_catalog: "catalog_run lib urls service hc \<Longrightarrow> platform_run lib urls service hc [empty_workspaces]"
  by (induction rule: catalog_run.induct) (auto intro: platform_run.intros)

lemma demo_platform_installed:
  "platform_run demo_lib demo_urls demo_service demo_run [demo_installed, demo_created, empty_workspaces]"
proof -
  let ?run = "platform_run demo_lib demo_urls demo_service"
  have world: "wwDb (demo_calls d) n = d" for d n by (simp add: demo_calls_def)
  have "?run demo_run [empty_workspaces]" by (rule platform_of_catalog [OF demo_run])
  then have "?run demo_run [demo_created, empty_workspaces]"
    by (rule platform_workspace) (use ws_Create [OF demo_CreateWorkspace] in \<open>simp add: world\<close>)
  then show ?thesis
    by (rule platform_workspace) (use ws_Install [OF demo_Install] in \<open>simp add: world demo_run_def\<close>)
qed

lemma demo_platform:
  "platform_run demo_lib demo_urls demo_service (demo_suspended # demo_run)
     [demo_paused, demo_installed, demo_created, empty_workspaces]"
proof -
  have "wwDb (demo_calls demo_installed) n = demo_installed" for n by (simp add: demo_calls_def)
  then have "platform_run demo_lib demo_urls demo_service demo_run [demo_paused, demo_installed, demo_created, empty_workspaces]"
    by (intro platform_workspace [OF demo_platform_installed]) (use ws_Update [OF demo_Update] in simp)
  moreover obtain r where "SuspendRelease (demo_world demo_published []) ''alice'' ''release-02'' = (r, Some demo_suspended)"
    using demo_Suspend by (metis prod.collapse)
  note step_SuspendRelease [OF this]
  ultimately show ?thesis unfolding demo_run_def
    by (auto intro!: platform_catalog simp: demo_world_def reads_from_def)
qed

end
