(* ===== verification/Workspace_Properties.thy ===== *)
theory Workspace_Properties
  imports Workspace_Demo
begin

text \<open>
  What the Workspace service promises over every run of the control plane: the shape of its tables, the
  life of an Installation, who may write, and which invocations are authorized and resolved.
\<close>

section \<open>Tables\<close>

text \<open>C20: In every reachable state an Agent has at most one current Installation in a Workspace, every row
  satisfies the checks of its table, every Installation belongs to a stored Workspace, and its pin is valid
  under the contract: the version satisfies the constraint and the accepted permissions are canonical.\<close>

theorem workspace_tables_well_formed:
  assumes run: "platform_run lib urls service hc hw" and d: "d \<in> set hw"
  shows "length (filter (\<lambda>i. inWorkspaceID i = ws \<and> inAgentID i = a \<and> inStatus i \<noteq> ''uninstalled'') (wdInstallations d)) \<le> 1 \<and>
    distinct (map inInstallationID (wdInstallations d)) \<and> distinct (map wkWorkspaceID (wdWorkspaces d)) \<and>
    list_all workspace_checks (wdWorkspaces d) \<and> list_all (\<lambda>i. installation_checks i \<and> pin_valid lib i) (wdInstallations d) \<and>
    inWorkspaceID ` set (wdInstallations d) \<subseteq> wkWorkspaceID ` set (wdWorkspaces d)"
proof -
  have inv: "workspace_inv lib d" using platform_sound [OF run] d by blast
  let ?rows = "filter (\<lambda>i. inWorkspaceID i = ws \<and> inAgentID i = a \<and> inStatus i \<noteq> ''uninstalled'') (wdInstallations d)"
  have "?rows = filter (\<lambda>i. current_key i = (ws, a)) (filter current (wdInstallations d))"
    unfolding filter_filter by (rule filter_cong) (auto simp: current_key_def current_def)
  moreover have "distinct (map current_key (filter current (wdInstallations d)))" using inv by (simp add: workspace_inv_def)
  ultimately have "length ?rows \<le> 1"
    by (simp only: key_filter_length)
  then show ?thesis using inv by (auto simp: workspace_inv_def list_all_iff)
qed

theorem workspace_tables_well_formed_witness:
  "list_all (\<lambda>i. installation_checks i \<and> pin_valid demo_lib i) (wdInstallations demo_installed)"
  using workspace_tables_well_formed [OF demo_platform, of demo_installed] by simp

text \<open>C6: Every Installation pins what the Catalog holds: its Agent version is registered, the permissions it
  accepted are declared by the card of that version, and the Release it names is the Release of that
  version, with the digest of its card, and has been published; it may since have been suspended or
  revoked. Without a Release the version is one from before Releases.\<close>

theorem installations_pin_catalog:
  assumes run: "platform_run lib urls service (c # hc) hw" and d: "d \<in> set hw" and i: "i \<in> set (wdInstallations d)"
  shows "\<exists>v\<in>set (cdVersions c). version_key v = (inAgentID i, inInstalledVersion i) \<and>
    set (elems (inAcceptedPermissions i)) \<subseteq> set (map pdID (elems (acPermissions (vrCard v)))) \<and>
    (if inInstalledReleaseID i = [] then vrLegacyUnverified v
     else \<exists>r\<in>set (cdReleases c). arReleaseID r = inInstalledReleaseID i \<and> release_key r = version_key v \<and>
       arCardDigest r = vrCardDigest v \<and> arState r \<in> {''published'', ''suspended'', ''revoked''})"
proof -
  have "pins_catalog c i" using platform_pins [OF run] d i by auto
  then show ?thesis by (simp only: pins_catalog_def)
qed

theorem installations_pin_catalog_witness:
  "\<exists>r\<in>set (cdReleases demo_suspended). arReleaseID r = ''release-02'' \<and> arState r \<in> {''published'', ''suspended'', ''revoked''}"
  using installations_pin_catalog [OF demo_platform, of demo_installed "demo_installation ''enabled'' 5000"]
  by (auto simp: demo_installed_def demo_installation_def)

section \<open>The life of an Installation\<close>

text \<open>C21: An Installation is never lost: a later state holds exactly one row with its identifier, reached from
  it by steps that disable, enable or uninstall it, each at a strictly later time; what it pins never
  changes, and an uninstalled Installation never changes again.\<close>

theorem installation_lifecycle:
  assumes run: "platform_run lib urls service hc (d # hw)" and d': "d' \<in> set (d # hw)" and i: "i \<in> set (wdInstallations d')"
  shows "\<exists>j. filter (\<lambda>j. inInstallationID j = inInstallationID i) (wdInstallations d) = [j] \<and> transition\<^sup>*\<^sup>* i j \<and>
    same_pin i j \<and> (inStatus i = ''uninstalled'' \<longrightarrow> j = i)"
proof -
  have d: "workspace_inv lib d" "workspace_grows d' d" using platform_sound [OF run] d' by auto
  obtain j where j: "j \<in> set (wdInstallations d)" "installation_kept i j"
    using grown_in [of installation_kept "wdInstallations d'" "wdInstallations d" i] d(2) i by (auto simp: workspace_grows_def)
  have "distinct (map inInstallationID (wdInstallations d))" using d(1) by (simp add: workspace_inv_def)
  from filter_key_single [OF this j(1)] have "filter (\<lambda>x. inInstallationID x = inInstallationID i) (wdInstallations d) = [j]"
    using kept_pin [OF j(2)] by (simp add: same_pin_def)
  then show ?thesis using j(2) kept_pin kept_uninstalled by (auto simp: installation_kept_def)
qed

theorem installation_lifecycle_witness:
  "\<exists>j. filter (\<lambda>j. inInstallationID j = ''ws_1'') (wdInstallations demo_paused) = [j] \<and>
     transition\<^sup>*\<^sup>* (demo_installation ''enabled'' 5000) j"
  using installation_lifecycle [OF demo_platform, of demo_installed "demo_installation ''enabled'' 5000"]
  by (auto simp: demo_installed_def demo_installation_def)

text \<open>C22: Only the owner of a Workspace changes its Installations: whatever row a request to install, change
  or uninstall adds or rewrites belongs to the Workspace it names, and that Workspace is owned by the
  caller when the write happens, even though ownership was read in an earlier transaction.\<close>

theorem only_owner_writes:
  assumes run: "platform_run lib urls service hc (d # hw)" and read: "wwDb w 0 \<in> set (d # hw)"
    and req: "snd (Install lib reader w caller ws request) = Some d' \<and> wwDb w 2 = d \<or>
      snd (UpdateInstallation w caller ws k status) = Some d' \<and> wwDb w 1 = d \<or>
      snd (Uninstall w caller ws k) = Some d' \<and> wwDb w 1 = d"
    and j: "j \<in> set (wdInstallations d') - set (wdInstallations d)"
  shows "inWorkspaceID j = ws \<and> (\<exists>x\<in>set (wdWorkspaces d). wkWorkspaceID x = ws \<and> wkOwnerID x = caller)"
proof -
  have inv: "workspace_inv lib d" and grows: "workspace_grows (wwDb w 0) d" using platform_sound [OF run] read by auto
  have stays: "\<exists>x\<in>set (wdWorkspaces d). wkWorkspaceID x = ws \<and> wkOwnerID x = caller" if "owned w caller ws = Inr y" for y
    using that grown_in [of "(=)" "wdWorkspaces (wwDb w 0)" "wdWorkspaces d" y] grows
      find_Some_in_set [of "\<lambda>x. wkWorkspaceID x = ws" "wdWorkspaces (wwDb w 0)" y]
    by (auto simp: owned_iff workspace_grows_def)
  have life: ?thesis if "lifecycle_write lib d ws k d'" "owned w caller ws = Inr y" for y
    using lifecycle_rows [OF that(1) inv, of j] j stays [OF that(2)] by (auto simp: transition_def same_pin_def)
  from req show ?thesis
  proof (elim disjE conjE)
    assume "snd (Install lib reader w caller ws request) = Some d'" "wwDb w 2 = d"
    then obtain r where "Install lib reader w caller ws request = (r, Some d')" by (metis prod.collapse)
    then obtain y e i where "owned w caller ws = Inr y" "installed_pin request ws e i" "CreateInstallation (wwEnv w 2) d caller i = (r, d')"
      using \<open>wwDb w 2 = d\<close> by (metis Install_write)
    then show ?thesis using create_rows [of "wwEnv w 2" d caller i r d' j] j stays
      by (auto simp: installed_pin_def installation_row_def)
  next
    assume "snd (UpdateInstallation w caller ws k status) = Some d'" "wwDb w 1 = d"
    then show ?thesis using Update_write change_status_write life by (metis prod.collapse)
  next
    assume "snd (Uninstall w caller ws k) = Some d'" "wwDb w 1 = d"
    then show ?thesis using Uninstall_write uninstall_write life by (metis prod.collapse)
  qed
qed

theorem only_owner_writes_witness:
  "\<exists>x\<in>set (wdWorkspaces demo_installed). wkWorkspaceID x = ''main'' \<and> wkOwnerID x = ''bob''"
proof -
  have "snd (UpdateInstallation (demo_calls demo_installed) ''bob'' ''main'' ''ws_1'' ''disabled'') = Some demo_paused"
    by (simp add: demo_Update)
  moreover have "demo_installation ''disabled'' 6000 \<in> set (wdInstallations demo_paused) - set (wdInstallations demo_installed)"
    by (simp add: demo_paused_def demo_installed_def demo_installation_def)
  moreover have "wwDb (demo_calls demo_installed) n = demo_installed" for n by (simp add: demo_calls_def)
  ultimately show ?thesis
    using only_owner_writes [OF demo_platform_installed, of "demo_calls demo_installed" undefined "''bob''" "''main''" undefined
        demo_paused "''ws_1''" "''disabled''" "demo_installation ''disabled'' 6000"] by simp
qed

section \<open>Invocations\<close>

text \<open>C3: An invocation is authorized exactly when the caller owns the Workspace, the Agent has an enabled
  Installation there, the version it pins is published in the Catalog, under the pinned Release if there
  is one, and the Installation accepted every permission the capability requires; the result is the pinned
  version with the pinned Release and its card digest. The reads may come from different states of the
  run. The identifiers of the request are well formed and the three reads do not fail.\<close>

theorem authorization_exact:
  assumes run: "platform_run lib urls service hc hw" and reads: "wwDb w 0 \<in> set hw" "wwDb w 1 \<in> set hw" "c \<in> set hc"
    and calls: "deCall env 0" "deCall (wwEnv w 0) 0" "deCall (wwEnv w 1) 0"
    and ids: "ValidIdentifier ws" "ValidIdentifier caller" "ValidIdentifier a" "ValidIdentifier capability"
  shows "AuthorizeInvocation (catalog_view lib env c) w caller ws a capability = Inr auth \<longleftrightarrow>
    (\<exists>x\<in>set (wdWorkspaces (wwDb w 0)). wkWorkspaceID x = ws \<and> wkOwnerID x = caller) \<and>
    (\<exists>i\<in>set (wdInstallations (wwDb w 1)). inWorkspaceID i = ws \<and> inAgentID i = a \<and> invocable c i capability auth)"
proof -
  have inv: "workspace_inv lib (wwDb w 0)" "workspace_inv lib (wwDb w 1)" "catalog_inv c"
    using platform_sound [OF run] run_sound [OF platform_catalog_run [OF run]] reads by blast+
  have "caller \<noteq> []" using ids(2) identifier_nonempty by (simp add: ValidIdentifier_def)
  moreover have "distinct (map wkWorkspaceID (wdWorkspaces (wwDb w 0)))" using inv(1) by (simp add: workspace_inv_def)
  ultimately have "(\<exists>x. owned w caller ws = Inr x) \<longleftrightarrow>
      (\<exists>x\<in>set (wdWorkspaces (wwDb w 0)). wkWorkspaceID x = ws \<and> wkOwnerID x = caller)"
    using calls(2) by (auto simp: owned_iff key_found)
  then show ?thesis
    using ids resolve_exact [OF inv(3,2) ids(3) calls(1,3), of ws capability auth] by (auto simp: AuthorizeInvocation_def)
qed

theorem authorization_exact_witness:
  "\<exists>auth. AuthorizeInvocation (catalog_view demo_lib db_healthy demo_published) (demo_calls demo_installed) ''bob'' ''main'' ''echo'' ''say'' =
     Inr auth \<and> aiAgentReleaseID auth = ''release-02''"
proof -
  let ?auth = "\<lparr>aiAgentCardVersion = ''1.0.0'', aiAgentReleaseID = ''release-02'', aiAgentCardDigest = hex_EncodeToString demo_digest\<rparr>"
  have "invocable demo_published (demo_installation ''enabled'' 5000) ''say'' ?auth"
    by (simp add: invocable_def demo_installation_def release_key_def version_key_def demo_defs)
  then have rows: "\<exists>i\<in>set (wdInstallations demo_installed). inWorkspaceID i = ''main'' \<and> inAgentID i = ''echo'' \<and>
      invocable demo_published i ''say'' ?auth" "\<exists>x\<in>set (wdWorkspaces demo_installed). wkWorkspaceID x = ''main'' \<and> wkOwnerID x = ''bob''"
    by (simp_all add: demo_installed_def demo_space_def) (simp_all add: demo_installation_def)
  have world: "wwDb (demo_calls demo_installed) n = demo_installed" "wwEnv (demo_calls demo_installed) n = db_healthy" for n
    by (simp_all add: demo_calls_def)
  have ids: "ValidIdentifier ''main''" "ValidIdentifier ''bob''" "ValidIdentifier ''echo''" "ValidIdentifier ''say''"
    by (simp_all add: ValidIdentifier_def)
  have c: "demo_published \<in> set (demo_suspended # demo_run)" by (simp add: demo_run_def)
  have "AuthorizeInvocation (catalog_view demo_lib db_healthy demo_published) (demo_calls demo_installed) ''bob'' ''main'' ''echo'' ''say'' =
      Inr ?auth"
    using rows by (subst authorization_exact [OF demo_platform _ _ c _ _ _ ids]) (simp_all add: world)
  then show ?thesis by simp
qed

text \<open>C9: Withdrawal is final. Once a Release is suspended or revoked in some state of the Catalog, no later
  read of the Catalog lets an invocation through under it: neither the authorization of a dispatch, nor the
  nested authorization, nor the resolution for the router ever names it again.\<close>

theorem withdrawn_release_refused:
  assumes run: "catalog_run lib urls service (hc @ c # old)" and r: "r \<in> set (cdReleases c)" "arState r \<in> {''suspended'', ''revoked''}"
    and later: "c' \<in> set (hc @ [c])"
  shows "(AuthorizeInvocation (catalog_view lib env c') w caller ws a capability = Inr auth \<longrightarrow> aiAgentReleaseID auth \<noteq> arReleaseID r) \<and>
    (ResolveInstalledVersion (catalog_view lib env c') w request = Inr auth \<longrightarrow> aiAgentReleaseID auth \<noteq> arReleaseID r) \<and>
    (Resolve lib (catalog_view lib env c') w q = Inr response \<longrightarrow>
       riInstalledReleaseID (rsInstallation response) \<noteq> arReleaseID r)"
proof -
  have inv: "catalog_inv c'" "catalog_inv c" and grows: "catalog_grows c c'" using run_later [OF run later] by auto
  have "release_checks r" using inv(2) r(1) by (auto simp: catalog_inv_def base_defs list_all_iff)
  then have named: "arReleaseID r \<noteq> []" using identifier_nonempty by (auto simp: release_checks_def)
  have core: "aiAgentReleaseID x \<noteq> arReleaseID r" if got: "GetVersion lib env c' b v = Inr e" "entry_ok e i cap x" for b v e i cap x
  proof
    assume same: "aiAgentReleaseID x = arReleaseID r"
    obtain u where u: "read_version c' e u" using GetVersion_read [OF inv(1) got(1)] by blast
    obtain s where s: "avRelease e = Some s" "arReleaseID s = arReleaseID r" "arState s = ''published''"
      using got(2) same named by (auto simp: entry_ok_def eligible_pin_def releaseProvenance_def split: if_splits)
    then have "s \<in> set (cdReleases c')" using release_found [OF inv(1) u] by simp
    from release_now [OF grows inv(1) r(1) this s(2)] have "release_rank (arState r) \<le> release_rank (arState s)"
      by (simp add: release_kept_def)
    then show False using r(2) s(3) by (auto simp: release_rank_def)
  qed
  show ?thesis
    by (auto simp: AuthorizeInvocation_def ResolveInstalledVersion_def resolveAuthorizedInvocation_iff Resolve_iff response_of_def
        dest!: core split: if_splits)
qed

theorem withdrawn_release_refused_witness:
  "\<not> (\<exists>auth. AuthorizeInvocation (catalog_view demo_lib db_healthy demo_suspended) (demo_calls demo_installed)
     ''bob'' ''main'' ''echo'' ''say'' = Inr auth \<and> aiAgentReleaseID auth = ''release-02'')"
proof -
  have run: "catalog_run demo_lib demo_urls demo_service ([] @ demo_suspended # demo_run)"
    using platform_catalog_run [OF demo_platform] by simp
  have "(demo_release ''suspended'' (Some 0))\<lparr>arSuspendedAt := Some 0\<rparr> \<in> set (cdReleases demo_suspended)"
    by (simp add: demo_suspended_def)
  from withdrawn_release_refused [OF run this, of demo_suspended db_healthy "demo_calls demo_installed" "''bob''" "''main''" "''echo''" "''say''"]
  show ?thesis by (auto simp: demo_release_def)
qed

text \<open>C14: The two decisions agree. For a well-formed request in an existing Workspace the router obtains a
  resolution exactly when the invocation is authorized for the version it asks for, and the response then
  carries the very Release and digest of the authorization: no authorized dispatch fails because the
  response the control plane built is refused by its own contract. The three reads do not fail.\<close>

theorem resolution_agrees:
  assumes run: "platform_run lib urls service hc hw" and reads: "wwDb w 0 \<in> set hw" "wwDb w 1 \<in> set hw" "c \<in> set hc"
    and calls: "deCall env 0" "deCall (wwEnv w 0) 0" "deCall (wwEnv w 1) 0"
    and q: "ValidateResolveAgentRequestV1 lib q = None" "rqWorkspaceID q \<in> wkWorkspaceID ` set (wdWorkspaces (wwDb w 0))"
  shows "(\<exists>response. Resolve lib (catalog_view lib env c) w q = Inr response \<and>
      riInstalledReleaseID (rsInstallation response) = rel \<and> riAgentCardDigest (rsInstallation response) = digest) \<longleftrightarrow>
    resolveAuthorizedInvocation (catalog_view lib env c) w (rqWorkspaceID q) (rqAgentID q) (rqCapability q) =
      Inr \<lparr>aiAgentCardVersion = rqVersion q, aiAgentReleaseID = rel, aiAgentCardDigest = digest\<rparr>"
    (is "?resolved \<longleftrightarrow> resolveAuthorizedInvocation ?view w ?ws ?a ?cap = Inr ?auth")
proof
  assume ?resolved
  then obtain i e auth where "GetCurrentInstallation (wwEnv w 1) (wwDb w 1) ?ws ?a = Inr i" "inInstalledVersion i = rqVersion q"
    "inStatus i = ''enabled''" "crGetVersion ?view ?a (rqVersion q) = Inr e" "entry_ok e i ?cap auth"
    "aiAgentReleaseID auth = rel" "aiAgentCardDigest auth = digest"
    by (auto simp: Resolve_iff response_of_def simp del: One_nat_def)
  moreover from this have "entry_ok e i ?cap ?auth" by (simp add: entry_ok_def)
  ultimately show "resolveAuthorizedInvocation ?view w ?ws ?a ?cap = Inr ?auth" unfolding resolveAuthorizedInvocation_iff by metis
next
  have inv: "workspace_inv lib (wwDb w 1)" "catalog_inv c"
    using platform_sound [OF run] run_sound [OF platform_catalog_run [OF run]] reads by blast+
  assume "resolveAuthorizedInvocation ?view w ?ws ?a ?cap = Inr ?auth"
  then obtain i e where i: "GetCurrentInstallation (wwEnv w 1) (wwDb w 1) ?ws ?a = Inr i" "inStatus i = ''enabled''"
    and e: "GetVersion lib env c ?a (inInstalledVersion i) = Inr e" "entry_ok e i ?cap ?auth"
    unfolding resolveAuthorizedInvocation_iff catalog_view_simps by blast
  have ver: "inInstalledVersion i = rqVersion q" using e(2) by (simp add: entry_ok_def)
  have row: "i \<in> set (wdInstallations (wwDb w 1))" "inWorkspaceID i = ?ws" "inAgentID i = ?a" using i(1) current_found [OF inv(1)] by auto
  obtain v where v: "read_version c e v" "version_key v = (?a, rqVersion q)" using GetVersion_read [OF inv(2) e(1)] ver by auto
  have acard: "card_ok lib (avCard e, vrCardJSON v, avCardDigest e)"
    using run_cards [OF platform_catalog_run [OF run] reads(3), of "stored_card v"] v(1)
    by (auto simp: read_version_def stored_cards_def stored_card_def)
  have declared: "set (elems (inAcceptedPermissions i)) \<subseteq> set (map pdID (elems (acPermissions (avCard e))))"
    using declared_at [OF run reads(2,3) row(1), of v] v ver row(3) by (simp add: read_version_def)
  have checks: "installation_checks i" "pin_valid lib i" using inv(1) row(1) by (auto simp: workspace_inv_def list_all_iff)
  have "acAgentID (avCard e) = ?a" "acVersion (avCard e) = rqVersion q" using v by (auto simp: read_version_def)
  note response_valid [OF q(1) acard e(2) i(2) this row(2,3) ver checks declared]
  moreover have "\<exists>x. store_GetWorkspace (wwEnv w 0) (wwDb w 0) ?ws = Inr x"
  proof -
    have "find (\<lambda>x. wkWorkspaceID x = ?ws) (wdWorkspaces (wwDb w 0)) \<noteq> None" using q(2) by (auto simp: find_None_iff)
    then show ?thesis using calls(2) by (auto simp: store_GetWorkspace_def)
  qed
  ultimately have "Resolve lib ?view w q = Inr (response_of e i ?auth)"
    unfolding Resolve_iff catalog_view_simps using q(1) i e ver by metis
  then show ?resolved by (simp add: response_of_def)
qed

theorem resolution_agrees_witness:
  "\<exists>response. Resolve demo_lib (catalog_view demo_lib db_healthy demo_published) (demo_calls demo_installed) demo_resolve = Inr response \<and>
     riInstalledReleaseID (rsInstallation response) = ''release-02''"
proof -
  let ?auth = "\<lparr>aiAgentCardVersion = ''1.0.0'', aiAgentReleaseID = ''release-02'', aiAgentCardDigest = hex_EncodeToString demo_digest\<rparr>"
  have q: "ValidateResolveAgentRequestV1 demo_lib demo_resolve = None" by code_simp
  have "resolveAuthorizedInvocation (catalog_view demo_lib db_healthy demo_published) (demo_calls demo_installed) ''main'' ''echo'' ''say'' =
      Inr ?auth"
    by (simp add: resolveAuthorizedInvocation_def GetCurrentInstallation_def getInstallation_def one_row_def demo_calls_def
        demo_installed_def demo_installation_def demo_got)
      (simp add: validateReleaseEligibility_def releaseProvenance_def containsAll_def demo_entry_def demo_release_def demo_card_def)
  moreover have world: "wwDb (demo_calls demo_installed) n = demo_installed" "wwEnv (demo_calls demo_installed) n = db_healthy" for n
    by (simp_all add: demo_calls_def)
  moreover have "rqWorkspaceID demo_resolve = ''main''" "rqAgentID demo_resolve = ''echo''" "rqCapability demo_resolve = ''say''"
    "rqVersion demo_resolve = ''1.0.0''" "''main'' \<in> wkWorkspaceID ` set (wdWorkspaces demo_installed)"
    by (simp_all add: demo_resolve_def demo_installed_def demo_space_def)
  moreover have c: "demo_published \<in> set (demo_suspended # demo_run)" by (simp add: demo_run_def)
  ultimately show ?thesis
    using resolution_agrees [OF demo_platform _ _ c _ _ _ q, of "demo_calls demo_installed" db_healthy
        "''release-02''" "hex_EncodeToString demo_digest"] by auto
qed

end
