(* ===== verification/Nested_Properties.thy ===== *)
theory Nested_Properties
  imports Nested Dispatch_Properties Workspace_Properties
begin

text \<open>
  What the agent boundary promises: a credential stands for one agent of one Workspace, and an agent can only
  start children of invocations it is executing, in the Workspace and the trace of that invocation.
\<close>

section \<open>Credentials\<close>

definition identity_of :: "agent_principal \<Rightarrow> authenticated_agent" where
  "identity_of p = \<lparr>aaWorkspaceID = apWorkspaceID p, aaAgentID = apAgentID p\<rparr>"

lemma binding_loop_Cons:
  "binding_loop digests identities (p # ps) = Some b \<Longrightarrow>
     identity_of p \<notin> set identities \<and> apTokenSHA256 p \<notin> fst ` set digests \<and>
     binding_loop ((apTokenSHA256 p, identity_of p) # digests) (identity_of p # identities) ps = Some b"
  by (simp add: Let_def identity_of_def split: if_splits)

lemma binding_loop_digests:
  "binding_loop digests identities ps = Some b \<Longrightarrow> distinct (map fst digests) \<Longrightarrow>
     distinct (map fst b) \<and> set b = set digests \<union> (\<lambda>p. (apTokenSHA256 p, identity_of p)) ` set ps"
proof (induction ps arbitrary: digests identities)
  case (Cons p ps)
  note step = binding_loop_Cons [OF Cons.prems(1)]
  have "distinct (map fst ((apTokenSHA256 p, identity_of p) # digests))" using step Cons.prems(2) by simp
  from Cons.IH [OF step [THEN conjunct2, THEN conjunct2] this] show ?case by simp
qed simp

lemma CutPrefix_Some: "CutPrefix v p = Some t \<longleftrightarrow> v = p @ t"
proof
  assume "CutPrefix v p = Some t"
  then have "take (length p) v = p" "drop (length p) v = t" by (simp_all add: CutPrefix_def split: if_splits)
  then show "v = p @ t" using append_take_drop_id [of "length p" v] by simp
qed (simp add: CutPrefix_def)

text \<open>C27: A credential identifies its agent: with a binding the constructor accepted, a request with one
  Authorization header of the Bearer scheme and a token without surrounding white space is authenticated exactly as the principal that was
  configured with the SHA-256 digest of that token, and every other form of the header is refused.\<close>

theorem credential_identifies_agent:
  assumes "NewAgentBinding principals = Some binding"
  shows "Authenticate binding values = Some agent \<longleftrightarrow>
    (\<exists>token p. values = [''Bearer '' @ token] \<and> token \<noteq> [] \<and> TrimSpace token = token \<and> p \<in> set principals \<and>
       apTokenSHA256 p = hex_EncodeToString (sha256_Sum256 token) \<and>
       agent = \<lparr>aaWorkspaceID = apWorkspaceID p, aaAgentID = apAgentID p\<rparr>)"
proof -
  from assms have "binding_loop [] [] principals = Some binding" by (simp add: NewAgentBinding_def split: if_splits)
  from binding_loop_digests [OF this] have b: "distinct (map fst binding)"
    "set binding = (\<lambda>p. (apTokenSHA256 p, identity_of p)) ` set principals"
    by simp_all
  have found: "map_of binding d = Some agent \<longleftrightarrow>
      (\<exists>p\<in>set principals. apTokenSHA256 p = d \<and> agent = \<lparr>aaWorkspaceID = apWorkspaceID p, aaAgentID = apAgentID p\<rparr>)" for d
    unfolding map_of_eq_Some_iff [OF b(1)] b(2) by (auto simp: identity_of_def)
  show ?thesis
  proof (cases "\<exists>token. values = [''Bearer '' @ token]")
    case True
    then obtain token where v: "values = [''Bearer '' @ token]" by blast
    have "Authenticate binding values = (if token = [] \<or> TrimSpace token \<noteq> token then None
        else map_of binding (hex_EncodeToString (sha256_Sum256 token)))"
      unfolding v by (simp add: Authenticate_def CutPrefix_def)
    then show ?thesis using found by (auto simp: v)
  next
    case False
    then have "CutPrefix v ''Bearer '' = None" if "values = [v]" for v
      using that CutPrefix_Some by (cases "CutPrefix v ''Bearer ''") auto
    then have "Authenticate binding values = None"
      by (auto simp: Authenticate_def split: list.split)
    with False show ?thesis by auto
  qed
qed

definition demo_principal :: agent_principal where
  "demo_principal = \<lparr>apWorkspaceID = ''main'', apAgentID = ''echo'', apTokenSHA256 = hex_EncodeToString (sha256_Sum256 ''s3cret'')\<rparr>"

lemma demo_binding: "NewAgentBinding [demo_principal] = Some [(apTokenSHA256 demo_principal, identity_of demo_principal)]"
proof -
  let ?d = "hex_EncodeToString (sha256_Sum256 ''s3cret'')"
  have "list_all (\<lambda>b. b < 256) (sha256_Sum256 ''s3cret'')" by (simp add: list_all_iff sha256_byte)
  from hex_text [OF this] have "isLowerHexDigest ?d" by simp
  then have "?d = map to_lower ?d \<and> (\<exists>bs. hex_DecodeString ?d = Some bs \<and> length bs = 32)"
    unfolding canonical_digest [symmetric] by blast
  moreover have "validIdentifier ''main''" "validIdentifier ''echo''" by code_simp+
  ultimately show ?thesis by (auto simp: NewAgentBinding_def demo_principal_def identity_of_def)
qed

theorem credential_identifies_agent_witness:
  "Authenticate [(apTokenSHA256 demo_principal, identity_of demo_principal)] [''Bearer s3cret''] = Some \<lparr>aaWorkspaceID = ''main'', aaAgentID = ''echo''\<rparr>"
proof -
  have "TrimSpace ''s3cret'' = ''s3cret''" by code_simp
  then show ?thesis
    unfolding credential_identifies_agent [OF demo_binding]
    by (intro exI [of _ "''s3cret''"] exI [of _ demo_principal]) (simp add: demo_principal_def)
qed

section \<open>Children\<close>

lemma parent_detail:
  assumes inv: "ledger_inv strict db" and read: "GetInvocationByParentID strict env db i = Inr detail"
  shows "ledger_history db i \<noteq> [] \<and> idInvocation detail = record_of (ledger_history db i)"
proof -
  obtain hs where rep: "represents strict hs db" using inv by (auto simp: ledger_inv_def)
  note D = representsD [OF rep]
  have "select_projection env db (\<lambda>row. prInvocationID row = i) = Inr (idInvocation detail)"
    using read by (auto simp: GetInvocationByParentID_def read_detail_def Let_def split: if_splits sum.splits)
  then obtain row where row: "find (\<lambda>row. prInvocationID row = i) (dbInvocations db) = Some row" "scanProjection row = Inr (idInvocation detail)"
    by (auto simp: select_projection_def split: if_splits option.splits)
  then obtain h where h: "find (\<lambda>h. hist_id h = i) hs = Some h" "row = proj_of h"
    using find_proj [OF D(7), of "\<lambda>_. True" i] D(2) by (auto split: option.splits)
  then have in_hs: "h \<in> set hs" "hist_id h = i" by (auto dest: find_Some_in_set)
  have "ledger_history db i = h" using ledger_history_represented [OF rep, of i] h(1) by simp
  moreover have "scanProjection (proj_of h) = Inr (record_of h)" using scanProjection_proj_of D(6) [OF in_hs(1)] by blast
  moreover have "h \<noteq> []" using D(6) [OF in_hs(1)] by (simp add: valid_history_def)
  ultimately show ?thesis using row(2) h(2) by simp
qed

lemma nested_writePreError_ledger [simp]: "dsLedger (nested_writePreError w code s) = dsLedger s"
  by (auto simp: nested_writePreError_def newTraceID_def split: option.splits sum.splits)

lemma classifyNestedError_ledger: "classifyNestedError w ctx err fb s = (code, s') \<Longrightarrow> dsLedger s' = dsLedger s"
  by (auto simp: classifyNestedError_def ctx_Err_def split: if_splits option.splits)

lemma DeriveChildContext_result:
  "DeriveChildContext w parent agent s = (r, s') \<Longrightarrow> dsLedger s' = dsLedger s \<and>
     (\<forall>child. r = Inr child \<longrightarrow> irStatus (idInvocation parent) = ''running'' \<and>
        irTargetAgentID (idInvocation parent) = aaAgentID agent \<and> irWorkspaceID (idInvocation parent) = aaWorkspaceID agent \<and>
        ccParentInvocation child = idInvocation parent \<and> ccCaller child = \<lparr>callerType = ''agent'', callerID = aaAgentID agent\<rparr> \<and>
        ccWorkspaceID child = irWorkspaceID (idInvocation parent) \<and> ccRootTaskID child = irRootTaskID (idInvocation parent) \<and>
        ccTraceID child = irTraceID (idInvocation parent))"
  by (auto simp: DeriveChildContext_def newInvocationID_def Let_def split: if_splits option.splits)

text \<open>The request for a version the handler makes for a child, and the request it dispatches.\<close>

definition version_request :: "child_context \<Rightarrow> nested_request \<Rightarrow> installed_version_request" where
  "version_request child nested =
     \<lparr>ivInvocationID = ccChildInvocationID child, ivRootTaskID = ccRootTaskID child, ivTraceID = ccTraceID child,
      ivWorkspaceID = ccWorkspaceID child, ivAgentID = nqTargetAgentID nested, ivCapability = nqCapability nested\<rparr>"

definition child_request :: "child_context \<Rightarrow> nested_request \<Rightarrow> authorized_invocation \<Rightarrow> dispatch_request" where
  "child_request child nested version =
     BuildChildDispatchRequest child (nqTargetAgentID nested) (nqCapability nested) (nqInput nested)
       (the (nqStream nested)) (aiAgentCardVersion version) (aiAgentReleaseID version) (aiAgentCardDigest version)"

lemma serve_writes:
  fixes s :: "'l dispatch_state"
  assumes "dhLedger (ahDispatchHandler handler) = None \<or> dhLedger (ahDispatchHandler handler) = Some app"
  shows "dsLedger (serve strict scan names dec handler w hq s) = dsLedger s \<or>
    (\<exists>agent nested parent child version env (s2 :: 'l dispatch_state) s3.
       Authenticate (ahBinding handler) (hqAuthorization hq) = Some agent \<and>
       readNestedRequest scan names dec (ahRequestLimit handler) hq = Inr nested \<and>
       ahLedgerReader handler env (dsLedger s) (nqParentInvocationID nested) = Inr parent \<and>
       DeriveChildContext w parent agent s2 = (Inr child, s3) \<and>
       ahVersionResolver handler (version_request child nested) = Inr version \<and>
       resolved_for (ahDispatchHandler handler) (child_request child nested version) \<and>
       appended app (child_request child nested version) (dsLedger s) (dsLedger (serve strict scan names dec handler w hq s)))"
proof (cases "dsLedger (serve strict scan names dec handler w hq s) = dsLedger s")
  case False
  obtain agent where agent: "Authenticate (ahBinding handler) (hqAuthorization hq) = Some agent"
    using False by (auto simp: serve_def split: option.splits)
  have media: "hqContentType hq = ''application/json''" using False agent by (auto simp: serve_def split: if_splits)
  obtain nested where nested: "readNestedRequest scan names dec (ahRequestLimit handler) hq = Inr nested"
    using False agent media by (auto simp: serve_def split: sum.splits)
  have mode: "\<not> isl (NegotiateInvocationResultMode (the (nqStream nested)) (hqAccept hq))"
    using False agent media nested by (auto simp: serve_def)
  obtain now s1 where now: "time_Now w s = (now, s1)" by fastforce
  note unfold = serve_def agent media nested mode now Let_def
  let ?ctx = "context_WithTimeout (hqDeadline hq) now (ahDeadline handler)"
  have s1: "dsLedger s1 = dsLedger s" using observed_ledger(1) [OF now] .
  obtain parent where parent: "ahLedgerReader handler (wLedger w (dsTick s1)) (dsLedger s) (nqParentInvocationID nested) = Inr parent"
    using False s1 by (auto simp: unfold dest: classifyNestedError_ledger split: sum.splits prod.splits)
  have eq: "serve strict scan names dec handler w hq s =
      (case DeriveChildContext w parent agent (tick s1) of
         (Inl err, s2) \<Rightarrow> nested_writePreError w (parentErrorCode err) s2
       | (Inr child, s2) \<Rightarrow>
         (case ahVersionResolver handler (version_request child nested) of
            Inl err \<Rightarrow> (case classifyNestedError w ?ctx (of_resolve_error err) ''DEPENDENCY_ERROR'' s2 of
              (code, s3) \<Rightarrow> nested_writePreError w code s3)
          | Inr version \<Rightarrow> DispatchChild strict (ahDispatchHandler handler) w (Some ?ctx)
              (child_request child nested version) (hqAccept hq) s2))"
    unfolding version_request_def child_request_def using mode parent
    by (simp add: serve_def agent media nested now Let_def s1)
  obtain r s2 where derive: "DeriveChildContext w parent agent (tick s1) = (r, s2)"
    by (cases "DeriveChildContext w parent agent (tick s1)") (rule that)
  note D = DeriveChildContext_result [OF derive]
  have s2: "dsLedger s2 = dsLedger s" using D s1 by simp
  obtain child where child: "r = Inr child" using False s2 unfolding eq derive by (cases r) simp_all
  obtain version where version: "ahVersionResolver handler (version_request child nested) = Inr version"
    using False s2 unfolding eq derive child
    by (cases "ahVersionResolver handler (version_request child nested)")
      (auto dest: classifyNestedError_ledger split: prod.splits)
  have run: "serve strict scan names dec handler w hq s =
      DispatchChild strict (ahDispatchHandler handler) w (Some ?ctx) (child_request child nested version) (hqAccept hq) s2"
    unfolding eq derive child by (simp add: version)
  have "resolved_for (ahDispatchHandler handler) (child_request child nested version)"
    "appended app (child_request child nested version) (dsLedger s) (dsLedger (serve strict scan names dec handler w hq s))"
    using DispatchChild_writes [OF assms, of strict w "Some ?ctx" "child_request child nested version" "hqAccept hq" s2] False s2
    unfolding run by simp_all
  with agent nested parent derive [unfolded child] version show ?thesis by blast
qed simp

text \<open>C11: An agent can only start children of what it is executing. A request at the agent boundary leaves
  the ledger as it is unless its credential authenticates an agent whose own running invocation, in the
  Workspace of the credential, is the parent it names; and then it extends a single history, and every
  event it adds is an event of a child of that invocation, with the parent's Workspace, root task and
  trace, called by that agent, for the target and the capability requested.\<close>

theorem nested_invocation_confined:
  assumes inv: "ledger_inv strict (dsLedger s)" and reader: "ahLedgerReader handler = GetInvocationByParentID strict"
    and writer: "dhLedger (ahDispatchHandler handler) = None \<or> dhLedger (ahDispatchHandler handler) = Some (Append strict)"
    and s': "s' = serve strict scan names dec handler w hq s"
  shows "ledger_inv strict (dsLedger s') \<and> (dsLedger s' = dsLedger s \<or>
    (\<exists>agent nested i es. Authenticate (ahBinding handler) (hqAuthorization hq) = Some agent \<and>
       readNestedRequest scan names dec (ahRequestLimit handler) hq = Inr nested \<and>
       (let parent = ledger_history (dsLedger s) (nqParentInvocationID nested) in
        parent \<noteq> [] \<and> evStatus (last parent) = ''running'' \<and>
        evTargetAgentID (hd parent) = aaAgentID agent \<and> evWorkspaceID (hd parent) = aaWorkspaceID agent \<and>
        ledger_history (dsLedger s') i = ledger_history (dsLedger s) i @ es \<and>
        (\<forall>e\<in>set es. child_of (hd parent) e \<and> evTargetAgentID e = nqTargetAgentID nested \<and> evCapability e = nqCapability nested) \<and>
        (\<forall>j. j \<noteq> i \<longrightarrow> ledger_history (dsLedger s') j = ledger_history (dsLedger s) j))))"
proof (cases "dsLedger s' = dsLedger s")
  case False
  with serve_writes [OF writer, of strict scan names dec w hq s] s' obtain agent nested parent child version env
      and s2 s3 :: "ledger_db dispatch_state" where
    auth: "Authenticate (ahBinding handler) (hqAuthorization hq) = Some agent"
    and nested: "readNestedRequest scan names dec (ahRequestLimit handler) hq = Inr nested"
    and parent: "GetInvocationByParentID strict env (dsLedger s) (nqParentInvocationID nested) = Inr parent"
    and child: "DeriveChildContext w parent agent s2 = (Inr child, s3)"
    and app: "appended (Append strict) (child_request child nested version) (dsLedger s) (dsLedger s')"
    unfolding reader by blast
  let ?h = "ledger_history (dsLedger s) (nqParentInvocationID nested)"
  have h: "?h \<noteq> []" "idInvocation parent = record_of ?h" using parent_detail [OF inv parent] by auto
  note D = DeriveChildContext_result [OF child]
  have "child_of (hd ?h) e \<and> evTargetAgentID e = nqTargetAgentID nested \<and> evCapability e = nqCapability nested"
    if "of_request (child_request child nested version) e" for e
    using that D h by (simp add: of_request_def child_request_def BuildChildDispatchRequest_def child_of_def record_of_def)
  moreover from router_ledger.appended_history [OF app inv] have "ledger_inv strict (dsLedger s')"
    "\<exists>es. ledger_history (dsLedger s') (dqInvocationID (child_request child nested version)) =
        ledger_history (dsLedger s) (dqInvocationID (child_request child nested version)) @ es \<and>
        (\<forall>e\<in>set es. of_request (child_request child nested version) e)"
    "\<forall>j. j \<noteq> dqInvocationID (child_request child nested version) \<longrightarrow> ledger_history (dsLedger s') j = ledger_history (dsLedger s) j"
    by blast+
  moreover have "evStatus (last ?h) = ''running''" "evTargetAgentID (hd ?h) = aaAgentID agent" "evWorkspaceID (hd ?h) = aaWorkspaceID agent"
    using D h by (simp_all add: record_of_def)
  ultimately show ?thesis using auth nested h(1) unfolding Let_def by metis
qed (use inv in simp)

definition sample_agent_handler :: "(ledger_env, ledger_db, ledger_error) agent_handler" where
  "sample_agent_handler = \<lparr>ahBinding = [(apTokenSHA256 demo_principal, identity_of demo_principal)],
     ahLedgerReader = GetInvocationByParentID sample_strict,
     ahVersionResolver = (\<lambda>_. Inr \<lparr>aiAgentCardVersion = ''1.0.0'', aiAgentReleaseID = [], aiAgentCardDigest = []\<rparr>),
     ahDispatchHandler = sample_handler, ahRequestLimit = 1000, ahDeadline = 30000000000\<rparr>"

theorem nested_invocation_confined_witness:
  "ledger_inv sample_strict (dsLedger (serve sample_strict (\<lambda>_. []) (\<lambda>_. Some []) (\<lambda>_. None) sample_agent_handler
     sample_world sample_http (initial_state sample_ledger)))"
proof -
  have "ledger_inv sample_strict (dsLedger (initial_state sample_ledger))"
    unfolding ledger_inv_def using sample_represents by auto
  from nested_invocation_confined [OF this _ _ refl, of sample_agent_handler "\<lambda>_. []" "\<lambda>_. Some []" "\<lambda>_. None" sample_world sample_http]
  show ?thesis by (simp add: sample_agent_handler_def sample_handler_def)
qed

end
