(* ===== verification/Platform_Properties.thy ===== *)
theory Platform_Properties
  imports Nested_Properties
begin

text \<open>
  The router and the control plane together: what the resolution API carries between them, and that every
  event the router records was permitted by the tables of the control plane. The connection is a function
  from requests to responses; for the safety result it may fail, and each call may read another state.
\<close>

declare MatchString.simps [simp del] safe_identifier_pattern [simp del]

section \<open>What the resolution API carries\<close>

lemma request_valid:
  "ValidateResolveAgentRequestV1 lib q = None \<longleftrightarrow>
     MatchString safeIdentifierPattern (rqInvocationID q) \<and> MatchString safeIdentifierPattern (rqRootTaskID q) \<and>
     MatchString safeIdentifierPattern (rqWorkspaceID q) \<and> MatchString safeIdentifierPattern (rqAgentID q) \<and>
     MatchString safeIdentifierPattern (rqCapability q) \<and> MatchString safeIdentifierPattern (rqTraceID q) \<and> clStrict lib (rqVersion q)"
  by (auto simp: ValidateResolveAgentRequestV1_def validateSafeContractIdentifier_def ParseTraceID_def first_error_None)

lemma workspace_code_known:
  "\<exists>status message. workspaceErrorStatus (workspaceErrorCode err) = Some status \<and> status \<noteq> 200 \<and>
     map_of platformErrorV3Messages (workspaceErrorCode err) = Some message"
  unfolding workspaceErrorCode_def
  by (simp add: workspaceErrorStatus_def platformErrorV3Messages_def platformErrorV2Messages_def)

text \<open>The answer the router obtains for a failed resolution.\<close>

definition resolution_failure :: "json_codec \<Rightarrow> resolve_request \<Rightarrow> workspace_error \<Rightarrow> resolve_error" where
  "resolution_failure codec q err =
     (let code = workspaceErrorCode err in
      ResolutionFailure (the (workspaceErrorStatus code)) (rqTraceID q)
        (jcEncodeError codec (the (NewCorrelatedPlatformErrorV3 code (rqTraceID q) (rqInvocationID q) (rqRootTaskID q)))) code)"

lemma readBounded_fits: "xrBody response = Inr body \<Longrightarrow> int (length body) \<le> limit \<Longrightarrow> readBounded response limit = Inr body"
  by (simp add: readBounded_def Let_def)

lemma readBounded_Inr: "readBounded response limit = Inr data \<Longrightarrow> xrBody response = Inr data"
  by (auto simp: readBounded_def Let_def split: sum.splits if_splits)

text \<open>C15: The resolution API is transparent. For a contract valid request the client of the router returns
  exactly what the control plane decided: the response itself on success and, on failure, the error code of
  the decision with the status of that code and the identifiers of the request; no decision is turned into
  another one by the error contract, the correlation checks or the validation on either side. The hypotheses are that the
  credential is accepted, that the encoder and the decoder agree on the values exchanged, and that these
  fit the size limits.\<close>

theorem resolution_carried:
  assumes q: "ValidateResolveAgentRequestV1 lib q = None"
    and auth: "authenticate [''Bearer '' @ rcToken client] = Some caller" "caller \<noteq> []"
    and request: "jcEncodeRequest codec q = Some b" "length b \<le> 1048576" "rejectDuplicateMembers (jcTokens codec b)"
      "jcDecodeRequest codec b = Some (q, TrailingEOF)"
    and response: "\<And>r. Resolve lib reader w q = Inr r \<Longrightarrow> jcDecodeResponse codec (jcEncodeResponse codec r) = Some (r, TrailingEOF) \<and>
      int (length (jcEncodeResponse codec r)) \<le> rcResponseLimit client"
    and failure: "\<And>err e. Resolve lib reader w q = Inl err \<Longrightarrow>
        NewCorrelatedPlatformErrorV3 (workspaceErrorCode err) (rqTraceID q) (rqInvocationID q) (rqRootTaskID q) = Some e \<Longrightarrow>
      jcDecodeError codec (jcEncodeError codec e) = Some e \<and>
      int (length (jcEncodeError codec e)) \<le> rcResponseLimit client"
  shows "client_Resolve lib codec client (\<lambda>req. Inr (resolveAgent lib codec authenticate reader w generated req)) q =
    (case Resolve lib reader w q of Inr r \<Rightarrow> Inr r | Inl err \<Rightarrow> Inl (resolution_failure codec q err))"
proof -
  note ids = q [unfolded request_valid]
  have corr: "validCorrelation q" using ids by (simp add: validCorrelation_def ValidIdentifier_def ParseTraceID_def)
  have read: "readStrictJSON codec (jcDecodeRequest codec) (bearer client b) = Some q"
    using request by (simp add: readStrictJSON_def readStrictJSONWithLimit_def bearer_def)
  have granted: "authenticate (xqAuthorization (bearer client b)) = Some caller" using auth(1) by (simp add: bearer_def)
  have sent: "resolveAgent lib codec authenticate reader w generated (bearer client b) =
      (case Resolve lib reader w q of
         Inl err \<Rightarrow> writeWorkspaceError codec generated (rqTraceID q) (workspaceErrorCode err) (Some q)
       | Inr value \<Rightarrow> handler_writeJSON (rqTraceID q) 200 (jcEncodeResponse codec value))"
    using granted auth(2) by (simp add: resolveAgent_def read corr q)
  show ?thesis
  proof (cases "Resolve lib reader w q")
    case (Inr r)
    then have "ValidateResolveAgentResponseForRequest lib q r = None" unfolding Resolve_iff by blast
    then show ?thesis
      using response [OF Inr] sent
      by (simp add: client_Resolve_def exchange_def request(1) Inr handler_writeJSON_def readBounded_fits requireEOF_def)
  next
    case (Inl err)
    obtain status message where code: "workspaceErrorStatus (workspaceErrorCode err) = Some status" "status \<noteq> 200"
      "map_of platformErrorV3Messages (workspaceErrorCode err) = Some message" using workspace_code_known by blast
    define e where "e = \<lparr>e3Code = workspaceErrorCode err, e3Message = message, e3TraceID = rqTraceID q,
      e3InvocationID = rqInvocationID q, e3RootTaskID = rqRootTaskID q\<rparr>"
    have new: "NewCorrelatedPlatformErrorV3 (workspaceErrorCode err) (rqTraceID q) (rqInvocationID q) (rqRootTaskID q) = Some e"
      using ids by (simp add: NewCorrelatedPlatformErrorV3_def NewPlatformErrorV3_def ParseTraceID_def
          validateSafeContractIdentifier_def code(3) e_def)
    have valid: "ValidatePlatformErrorV3 e"
      using ids code(3) identifier_nonempty by (auto simp: ValidatePlatformErrorV3_def e_def)
    moreover from this have "ValidateResolveAgentErrorCorrelationV3 lib q e"
      using q by (simp add: ValidateResolveAgentErrorCorrelationV3_def e_def)
    moreover have "e3TraceID e = rqTraceID q" "e3Code e = workspaceErrorCode err" "\<not> isl (ParseTraceID (rqTraceID q))"
      using ids by (simp_all add: e_def ParseTraceID_def)
    ultimately show ?thesis
      using failure [OF Inl new] code(2) sent
      by (simp add: client_Resolve_def exchange_def request(1) Inl writeWorkspaceError_def write_error_def new code(1)
          readBounded_fits resolution_failure_def e_def Let_def)
  qed
qed

definition demo_response :: resolve_response where
  "demo_response = response_of demo_entry (demo_installation ''enabled'' 5000)
     \<lparr>aiAgentCardVersion = ''1.0.0'', aiAgentReleaseID = ''release-02'', aiAgentCardDigest = hex_EncodeToString demo_digest\<rparr>"

definition demo_codec :: json_codec where
  "demo_codec = \<lparr>jcTokens = (\<lambda>_. [TokObj, TokObjEnd]),
     jcEncodeRequest = (\<lambda>q. if q = demo_resolve then Some ''q'' else None), jcDecodeRequest = (\<lambda>_. Some (demo_resolve, TrailingEOF)),
     jcEncodeResponse = (\<lambda>r. if r = demo_response then ''r'' else []),
     jcDecodeResponse = (\<lambda>data. if data = ''r'' then Some (demo_response, TrailingEOF) else None),
     jcEncodeVersionRequest = (\<lambda>_. None), jcDecodeVersionRequest = (\<lambda>_. None),
     jcEncodeVersion = (\<lambda>_. ''v''), jcDecodeVersion = (\<lambda>_. None),
     jcEncodeError = (\<lambda>_. ''e''),
     jcDecodeError = (\<lambda>_. NewCorrelatedPlatformErrorV3 ''NOT_FOUND'' ''trc_1'' ''inv-1'' ''task-1'')\<rparr>"

definition demo_client :: resolution_client where
  "demo_client = \<lparr>rcToken = ''t'', rcResponseLimit = 1000, rcVersionURL = []\<rparr>"

theorem resolution_carried_witness:
  "client_Resolve demo_lib demo_codec demo_client (\<lambda>req. Inr (resolveAgent demo_lib demo_codec (\<lambda>_. Some ''router'')
      (catalog_view demo_lib db_healthy demo_published) (demo_calls empty_workspaces) ''trc_2'' req)) demo_resolve =
    Inl (ResolutionFailure 404 ''trc_1'' ''e'' ''NOT_FOUND'')"
proof -
  let ?reader = "catalog_view demo_lib db_healthy demo_published" and ?w = "demo_calls empty_workspaces"
  have q: "ValidateResolveAgentRequestV1 demo_lib demo_resolve = None" by code_simp
  have none: "Resolve demo_lib ?reader ?w demo_resolve = Inl [WsErrNotFound]"
    by (simp add: Resolve_def q store_GetWorkspace_def one_row_def demo_calls_def empty_workspaces_def)
  have code: "workspaceErrorCode [WsErrNotFound] = ''NOT_FOUND''" by (simp add: workspaceErrorCode_def errors_Is_def)
  have fields: "rqTraceID demo_resolve = ''trc_1''" "rqInvocationID demo_resolve = ''inv-1''" "rqRootTaskID demo_resolve = ''task-1''"
    by (simp_all add: demo_resolve_def)
  have request: "jcEncodeRequest demo_codec demo_resolve = Some ''q''" "length ''q'' \<le> 1048576"
    "rejectDuplicateMembers (jcTokens demo_codec ''q'')" "jcDecodeRequest demo_codec ''q'' = Some (demo_resolve, TrailingEOF)"
    by (simp_all add: demo_codec_def) code_simp
  show ?thesis
    by (subst resolution_carried [OF q _ _ request, of "\<lambda>_. Some ''router''" demo_client "''router''" ?reader ?w])
      (simp_all add: none code fields resolution_failure_def workspaceErrorStatus_def, auto simp: demo_codec_def demo_client_def code)
qed

section \<open>What is recorded was permitted\<close>

lemma resolution_invocable:
  assumes run: "platform_run lib urls service hc hw" and reads: "wwDb w 1 \<in> set hw" "c \<in> set hc"
    and resolved: "Resolve lib (catalog_view lib env c) w q = Inr r"
  shows "\<exists>i\<in>set (wdInstallations (wwDb w 1)). inWorkspaceID i = rqWorkspaceID q \<and> inAgentID i = rqAgentID q \<and>
    invocable c i (rqCapability q) \<lparr>aiAgentCardVersion = rqVersion q,
      aiAgentReleaseID = riInstalledReleaseID (rsInstallation r), aiAgentCardDigest = riAgentCardDigest (rsInstallation r)\<rparr>"
proof -
  have inv: "workspace_inv lib (wwDb w 1)" "catalog_inv c"
    using platform_sound [OF run] run_sound [OF platform_catalog_run [OF run]] reads by blast+
  obtain i e auth where i: "GetCurrentInstallation (wwEnv w 1) (wwDb w 1) (rqWorkspaceID q) (rqAgentID q) = Inr i"
      "inInstalledVersion i = rqVersion q" "inStatus i = ''enabled''"
    and e: "GetVersion lib env c (rqAgentID q) (rqVersion q) = Inr e" "entry_ok e i (rqCapability q) auth"
    and r: "r = response_of e i auth"
    using resolved unfolding Resolve_iff catalog_view_simps by blast
  have row: "i \<in> set (wdInstallations (wwDb w 1))" "inWorkspaceID i = rqWorkspaceID q" "inAgentID i = rqAgentID q"
    using i(1) current_found [OF inv(1)] by auto
  obtain v where v: "read_version c e v" "version_key v = (inAgentID i, inInstalledVersion i)"
    using GetVersion_read [OF inv(2) e(1)] i(2) row(3) by auto
  have "invocable c i (rqCapability q) auth" using entry_ok_iff [OF inv(2) v] e(2) i(3) by blast
  moreover have "auth = \<lparr>aiAgentCardVersion = rqVersion q, aiAgentReleaseID = riInstalledReleaseID (rsInstallation r),
      aiAgentCardDigest = riAgentCardDigest (rsInstallation r)\<rparr>"
    using e(2) i(2) by (cases auth) (simp add: r response_of_def entry_ok_def)
  ultimately show ?thesis using row by blast
qed

text \<open>What the router relies on of \<^verbatim>\<open>encoding/json\<close>: a decoded value is the encoded one.\<close>

definition codec_exact :: "contract_library \<Rightarrow> json_codec \<Rightarrow> bool" where
  "codec_exact lib codec \<longleftrightarrow>
     (\<forall>q b q' trail. ValidateResolveAgentRequestV1 lib q = None \<longrightarrow> jcEncodeRequest codec q = Some b \<longrightarrow>
        jcDecodeRequest codec b = Some (q', trail) \<longrightarrow> q' = q) \<and>
     (\<forall>q r r' trail. ValidateResolveAgentResponseForRequest lib q r = None \<longrightarrow>
        jcDecodeResponse codec (jcEncodeResponse codec r) = Some (r', trail) \<longrightarrow> rsInstallation r' = rsInstallation r)"

text \<open>A connection to the control plane: a response is that of the handler, on the states it read.\<close>

definition connected ::
    "contract_library \<Rightarrow> json_codec \<Rightarrow> (string list \<Rightarrow> string option) \<Rightarrow> catalog_db list \<Rightarrow> workspace_db list \<Rightarrow>
     (wire_request \<Rightarrow> (go_error, wire_response) result) \<Rightarrow> bool" where
  "connected lib codec authenticate hc hw http \<longleftrightarrow>
     (\<forall>request response. http request = Inr response \<longrightarrow>
        (\<exists>w c env generated. wwDb w 1 \<in> set hw \<and> c \<in> set hc \<and>
           response = resolveAgent lib codec authenticate (catalog_view lib env c) w generated request))"

lemma error_never_answers:
  "\<not> (xrStatus (writeWorkspaceError codec h t code q) = 200 \<and> xrContentType (writeWorkspaceError codec h t code q) = ''application/json'')"
  by (auto simp: writeWorkspaceError_def write_error_def nothing_written_def workspaceErrorStatus_def split: option.splits if_splits)

lemma resolved_by_service:
  assumes response: "response = resolveAgent lib codec authenticate reader w generated request"
    and ok: "xrStatus response = 200" "xrContentType response = ''application/json''"
  shows "\<exists>q r. readStrictJSON codec (jcDecodeRequest codec) request = Some q \<and> Resolve lib reader w q = Inr r \<and>
    xrBody response = Inr (jcEncodeResponse codec r)"
proof -
  have never: "response \<noteq> writeWorkspaceError codec h t code q" for h t code q
    using error_never_answers [of codec h t code q] ok by blast
  note refused = never [of generated generated "''UNAUTHENTICATED''" None] never [of generated generated "''VALIDATION_ERROR''" None]
  obtain caller where caller: "authenticate (xqAuthorization request) = Some caller"
    using refused response by (cases "authenticate (xqAuthorization request)") (auto simp: resolveAgent_def)
  have named: "caller \<noteq> []" using refused(1) response caller by (auto simp: resolveAgent_def)
  obtain q where q: "readStrictJSON codec (jcDecodeRequest codec) request = Some q"
    using refused(2) response caller named
    by (cases "readStrictJSON codec (jcDecodeRequest codec) request") (simp_all add: resolveAgent_def)
  have answer: "response = (case Resolve lib reader w q of
      Inl err \<Rightarrow> writeWorkspaceError codec generated (rqTraceID q) (workspaceErrorCode err) (Some q)
    | Inr value \<Rightarrow> handler_writeJSON (rqTraceID q) 200 (jcEncodeResponse codec value))"
    using refused(2) never [of generated "rqTraceID q" "''VALIDATION_ERROR''" "Some q"] response caller named q
    by (simp add: resolveAgent_def split: if_splits)
  show ?thesis
  proof (cases "Resolve lib reader w q")
    case (Inl err)
    then show ?thesis using never [of generated "rqTraceID q" "workspaceErrorCode err" "Some q"] answer by simp
  next
    case (Inr r)
    then show ?thesis using answer q by (simp add: handler_writeJSON_def)
  qed
qed

lemma client_invocable:
  assumes run: "platform_run lib urls service hc hw" and codec: "codec_exact lib codec"
    and http: "connected lib codec authenticate hc hw http" and got: "client_Resolve lib codec client http q = Inr r"
  shows "\<exists>c\<in>set hc. \<exists>d\<in>set hw. \<exists>i\<in>set (wdInstallations d). inWorkspaceID i = rqWorkspaceID q \<and> inAgentID i = rqAgentID q \<and>
    invocable c i (rqCapability q) \<lparr>aiAgentCardVersion = rqVersion q,
      aiAgentReleaseID = riInstalledReleaseID (rsInstallation r), aiAgentCardDigest = riAgentCardDigest (rsInstallation r)\<rparr>"
proof -
  obtain response data where ex: "exchange client http (jcEncodeRequest codec q) = Inr (response, data)"
    using got by (cases "exchange client http (jcEncodeRequest codec q)") (auto simp: client_Resolve_def)
  have ok1: "xrStatus response = 200"
    using got by (simp add: client_Resolve_def ex split: if_splits option.splits)
  obtain trail where ok: "jcDecodeResponse codec data = Some (r, trail)" "ValidateResolveAgentResponseForRequest lib q r = None"
    using got ok1 by (simp add: client_Resolve_def ex split: if_splits option.splits prod.splits)
  obtain b where b: "jcEncodeRequest codec q = Some b" "http (bearer client b) = Inr response"
      "xrContentType response = ''application/json''" "xrBody response = Inr data"
    using ex by (auto simp: exchange_def dest: readBounded_Inr split: option.splits sum.splits if_splits)
  obtain w c env generated where w: "wwDb w 1 \<in> set hw" "c \<in> set hc"
      "response = resolveAgent lib codec authenticate (catalog_view lib env c) w generated (bearer client b)"
    using http b(2) unfolding connected_def by blast
  obtain q' r' where q': "readStrictJSON codec (jcDecodeRequest codec) (bearer client b) = Some q'"
      "Resolve lib (catalog_view lib env c) w q' = Inr r'" "data = jcEncodeResponse codec r'"
    using resolved_by_service [OF w(3) ok1 b(3)] b(4) by auto
  have "ValidateResolveAgentRequestV1 lib q = None"
    using ok(2) by (auto simp: ValidateResolveAgentResponseForRequest_def Let_def split: option.splits)
  moreover have "\<exists>trail. jcDecodeRequest codec b = Some (q', trail)"
    using q'(1) by (auto simp: readStrictJSON_def readStrictJSONWithLimit_def bearer_def split: if_splits option.splits)
  ultimately have "q' = q" using codec b(1) unfolding codec_exact_def by blast
  moreover have "ValidateResolveAgentResponseForRequest lib q' r' = None" using q'(2) unfolding Resolve_iff by blast
  then have "rsInstallation r = rsInstallation r'" using codec ok(1) q'(3) unfolding codec_exact_def by blast
  ultimately show ?thesis using resolution_invocable [OF run w(1,2) q'(2)] w(1,2) by auto
qed

text \<open>The resolution the dispatch handler asks for, and what it reads of the response.\<close>

definition request_of :: "dispatch_request \<Rightarrow> resolve_request" where
  "request_of q = \<lparr>rqInvocationID = dqInvocationID q, rqRootTaskID = dqRootTaskID q, rqTraceID = dqTraceID q,
     rqWorkspaceID = dqWorkspaceID q, rqAgentID = dqTargetAgentID q, rqVersion = dqAgentCardVersion q, rqCapability = dqCapability q\<rparr>"

definition resolved_view :: "resolve_response \<Rightarrow> resolved_agent" where
  "resolved_view r = \<lparr>raInstalledReleaseID = riInstalledReleaseID (rsInstallation r),
     raAgentCardDigest = riAgentCardDigest (rsInstallation r), raTimeoutMS = alTimeoutMS (acLimits (rsCard r))\<rparr>"

definition platform_resolver ::
    "contract_library \<Rightarrow> json_codec \<Rightarrow> resolution_client \<Rightarrow> (wire_request \<Rightarrow> (go_error, wire_response) result) \<Rightarrow>
     dispatch_request \<Rightarrow> (resolve_error, resolved_agent) result" where
  "platform_resolver lib codec client http q = map_sum id resolved_view (client_Resolve lib codec client http (request_of q))"

text \<open>An event that some Installation permitted in some state of the control plane.\<close>

definition authorized_event :: "catalog_db list \<Rightarrow> workspace_db list \<Rightarrow> invocation_event \<Rightarrow> bool" where
  "authorized_event hc hw e \<longleftrightarrow>
     (\<exists>c\<in>set hc. \<exists>d\<in>set hw. \<exists>i\<in>set (wdInstallations d). inWorkspaceID i = evWorkspaceID e \<and> inAgentID i = evTargetAgentID e \<and>
        invocable c i (evCapability e) \<lparr>aiAgentCardVersion = evAgentCardVersion e,
          aiAgentReleaseID = evAgentReleaseID e, aiAgentCardDigest = evAgentCardDigest e\<rparr>)"

lemma resolved_for_authorized:
  assumes run: "platform_run lib urls service hc hw" and codec: "codec_exact lib codec"
    and http: "connected lib codec authenticate hc hw http" and resolver: "dhResolve handler = platform_resolver lib codec client http"
    and resolved: "resolved_for handler q" and e: "of_request q e"
  shows "authorized_event hc hw e"
proof -
  obtain r where r: "client_Resolve lib codec client http (request_of q) = Inr r"
      "dqAgentReleaseID q = riInstalledReleaseID (rsInstallation r)" "dqAgentCardDigest q = riAgentCardDigest (rsInstallation r)"
    using resolved
    by (cases "client_Resolve lib codec client http (request_of q)")
      (auto simp: resolved_for_def resolver platform_resolver_def validateResolvedReleaseProvenance_def resolved_view_def split: if_splits)
  from client_invocable [OF run codec http r(1)] show ?thesis
    using e by (simp add: authorized_event_def request_of_def of_request_def r(2,3))
qed

text \<open>C4: Nothing is recorded that was not permitted. Let the control plane run any sequence of Catalog and
  Workspace operations and let the router resolve agents over a connection to it, which may fail, and
  whose calls may each see another state. Then whatever a request to the dispatch endpoint, or a request
  of an agent at the nested endpoint, adds to the ledger are events of an Agent with an enabled
  Installation in the Workspace, pinning exactly the version, the Release and the card digest recorded,
  with the version and its Release published and every permission of the capability accepted.\<close>

theorem recorded_invocations_authorized:
  assumes run: "platform_run lib urls service hc hw" and codec: "codec_exact lib codec"
    and http: "connected lib codec authenticate hc hw http"
    and resolver: "dhResolve (ahDispatchHandler agents) = platform_resolver lib codec client http"
    and writer: "dhLedger (ahDispatchHandler agents) = None \<or> dhLedger (ahDispatchHandler agents) = Some (Append strict)"
    and inv: "ledger_inv strict (dsLedger s)"
    and s': "s' = dispatch strict scan dec (ahDispatchHandler agents) w hq s \<or> s' = serve strict scan names nested agents w hq s"
  shows "\<exists>es. ledger_history (dsLedger s') i = ledger_history (dsLedger s) i @ es \<and> (\<forall>e\<in>set es. authorized_event hc hw e)"
proof (cases "dsLedger s' = dsLedger s")
  case False
  obtain q where q: "resolved_for (ahDispatchHandler agents) q" "appended (Append strict) q (dsLedger s) (dsLedger s')"
    using s' False dispatch_writes [OF writer, of strict scan dec w hq s] serve_writes [OF writer, of strict scan names nested w hq s]
    by blast
  from router_ledger.appended_history [OF q(2) inv]
  have "\<exists>es. ledger_history (dsLedger s') i = ledger_history (dsLedger s) i @ es \<and> (\<forall>e\<in>set es. of_request q e)"
    by (cases "i = dqInvocationID q") auto
  then show ?thesis using resolved_for_authorized [OF run codec http resolver q(1)] by blast
qed simp

definition demo_exchange :: "wire_request \<Rightarrow> (go_error, wire_response) result" where
  "demo_exchange request = Inr (resolveAgent demo_lib demo_codec (\<lambda>_. Some ''router'')
     (catalog_view demo_lib db_healthy demo_published) (demo_calls demo_installed) ''trc_2'' request)"

definition demo_dispatch :: dispatch_request where
  "demo_dispatch = \<lparr>dqInvocationID = ''inv-1'', dqRootTaskID = ''task-1'', dqParentInvocationID = [], dqTraceID = ''trc_1'',
     dqCaller = sample_caller, dqWorkspaceID = ''main'', dqTargetAgentID = ''echo'', dqAgentCardVersion = ''1.0.0'',
     dqAgentReleaseID = ''release-02'', dqAgentCardDigest = hex_EncodeToString demo_digest, dqCapability = ''say'',
     dqInput = RawJSON ''{}'', dqStream = False\<rparr>"

definition demo_agents :: "(ledger_env, ledger_db, ledger_error) agent_handler" where
  "demo_agents = sample_agent_handler\<lparr>ahDispatchHandler :=
     sample_handler\<lparr>dhResolve := platform_resolver demo_lib demo_codec demo_client demo_exchange\<rparr>\<rparr>"

theorem recorded_invocations_authorized_witness:
  "\<exists>es. ledger_history (dsLedger (dispatch sample_strict (\<lambda>_. []) (\<lambda>_. Some (demo_dispatch, TrailingEOF))
      (ahDispatchHandler demo_agents) sample_world sample_http (initial_state sample_ledger))) ''inv-1'' =
    ledger_history sample_ledger ''inv-1'' @ es \<and> (\<forall>e\<in>set es. authorized_event (demo_suspended # demo_run)
      [demo_paused, demo_installed, demo_created, empty_workspaces] e)"
proof -
  have codec: "codec_exact demo_lib demo_codec" by (simp add: codec_exact_def demo_codec_def)
  have "wwDb (demo_calls demo_installed) 1 \<in> set [demo_paused, demo_installed, demo_created, empty_workspaces]"
    "demo_published \<in> set (demo_suspended # demo_run)"
    by (simp_all add: demo_calls_def demo_run_def)
  then have http: "connected demo_lib demo_codec (\<lambda>_. Some ''router'') (demo_suspended # demo_run)
      [demo_paused, demo_installed, demo_created, empty_workspaces] demo_exchange"
    unfolding connected_def demo_exchange_def by blast
  have handler: "dhResolve (ahDispatchHandler demo_agents) = platform_resolver demo_lib demo_codec demo_client demo_exchange"
    "dhLedger (ahDispatchHandler demo_agents) = Some (Append sample_strict)"
    by (simp_all add: demo_agents_def sample_handler_def)
  have "ledger_inv sample_strict (dsLedger (initial_state sample_ledger))"
    unfolding ledger_inv_def using sample_represents by auto
  from recorded_invocations_authorized [OF demo_platform codec http handler(1) _ this disjI1 [OF refl],
      of "\<lambda>_. []" "\<lambda>_. Some (demo_dispatch, TrailingEOF)" sample_world sample_http "''inv-1''"] handler(2)
  show ?thesis by simp
qed

end
