(* ===== verification/Catalog_Properties.thy ===== *)
theory Catalog_Properties
  imports Catalog_Demo
begin

text \<open>
  What the Catalog and the Trust service promise: trusted publication over every run, the immutability
  of what is bound, the single use of challenges, the selection of the version to install, and the
  networks a verification may reach.
\<close>

section \<open>Trusted publication\<close>

text \<open>C2: Over every run of the Catalog and Trust services, with any number of requests in flight and
  database failures at any point, a published Release is backed by what it names: the endpoint binding of
  its provider, for its Agent and version, with its origin and path, is verified with the very evidence
  the Release carries, the provider is verified, and the Agent version is published.\<close>

theorem published_release_backed:
  assumes run: "catalog_run lib urls service (db # h)" and r: "r \<in> set (cdReleases db)" "arState r = ''published''"
  shows "(\<exists>b\<in>set (cdBindings db). ebBindingID b = arEndpointBindingID r \<and> ebProviderID b = arProviderID r \<and>
      ebAgentID b = arAgentID r \<and> ebAgentCardVersion b = arAgentCardVersion r \<and>
      ebOrigin b = arEndpointOrigin r \<and> ebPath b = arEndpointPath r \<and> ebVerificationStatus b = ''verified'' \<and>
      ebVerificationEvidenceDigest b = arVerificationEvidenceDigest r \<and> arVerificationEvidenceDigest r \<noteq> None) \<and>
    (\<exists>p\<in>set (cdProviders db). pvProviderID p = arProviderID r \<and> pvVerificationStatus p = ''verified'') \<and>
    (\<exists>v\<in>set (cdVersions db). version_key v = release_key r \<and> vrStatus v = ''published'')"
proof -
  have backed: "backed db r" using run_backed [OF run] r(1) by (simp add: releases_backed_def)
  have inv: "catalog_inv db" using run_sound [OF run] by simp
  then have "release_key r \<in> version_key ` set (cdVersions db)" using r(1) by (auto simp: catalog_inv_def base_defs)
  then obtain v where "v \<in> set (cdVersions db)" "version_key v = release_key r" by (metis imageE)
  then have "\<exists>v\<in>set (cdVersions db). version_key v = release_key r \<and> vrStatus v = ''published''"
    using inv r by (fastforce simp: catalog_inv_def states_agree_def version_agrees_def)
  with backed show ?thesis using r(2) by (auto simp: backed_def release_binding_def provider_verified_def list_ex_iff)
qed

theorem published_release_backed_witness:
  "\<exists>b\<in>set (cdBindings demo_published). ebBindingID b = ''binding-02'' \<and> ebVerificationStatus b = ''verified''"
proof -
  have run: "catalog_run demo_lib demo_urls demo_service (demo_published # tl demo_run)"
    using demo_run by (simp add: demo_run_def)
  have "demo_release ''published'' (Some 0) \<in> set (cdReleases demo_published)" by (simp add: demo_published_def)
  from published_release_backed [OF run this] show ?thesis by (auto simp: demo_release_def)
qed

text \<open>C19: In every reachable state the tables of the Catalog (identities, versions, their capabilities, Releases, providers, endpoint bindings and
  challenges) are well formed: primary keys and unique columns are unique, every row satisfies the checks of its table, every foreign key
  resolves, the publication clock is not negative, publication sequences are unique and at most the publication
  clock, and a Release agrees with the publication status of its version: a published Release has a published version, a
  suspended or revoked one a disabled version.\<close>

theorem catalog_tables_well_formed:
  "catalog_run lib urls service h \<Longrightarrow> db \<in> set h \<Longrightarrow>
     unique_keys db \<and> checked_rows db \<and> references db \<and> clock_bounds db \<and> states_agree db"
  using run_sound [of lib urls service h] by (auto simp: catalog_inv_def base_inv_def)

theorem catalog_tables_well_formed_witness: "unique_keys demo_published \<and> checked_rows demo_published"
  using catalog_tables_well_formed [OF demo_run, of demo_published] by (simp add: demo_run_def)

text \<open>C18: A Release once created keeps its identity, its provider, its Agent version and card digest, its
  endpoint binding and, once set, its evidence, and its state only moves forward from pending over
  verified, published and suspended to revoked: later states hold exactly one Release with its identifier,
  and that one is its continuation.\<close>

theorem release_history_fixed:
  assumes run: "catalog_run lib urls service (db # h)" and d: "d \<in> set (db # h)" and r: "r \<in> set (cdReleases d)"
  shows "\<exists>s. filter (\<lambda>s. arReleaseID s = arReleaseID r) (cdReleases db) = [s] \<and> release_kept r s"
proof -
  have db: "catalog_inv db" "catalog_grows d db" using run_sound [OF run] d by auto
  then obtain s where s: "s \<in> set (cdReleases db)" "release_kept r s"
    using r grown_in by (fastforce simp: catalog_grows_def)
  have "distinct (map arReleaseID (cdReleases db))" using db(1) by (simp add: catalog_inv_def base_defs)
  then have "filter (\<lambda>x. arReleaseID x = arReleaseID s) (cdReleases db) = [s]" using s(1) by (rule filter_key_single)
  then show ?thesis using s(2) by (auto simp: release_kept_def)
qed

theorem release_history_fixed_witness:
  "\<exists>s. filter (\<lambda>s. arReleaseID s = ''release-02'') (cdReleases demo_published) = [s] \<and> release_kept (demo_release ''verified'' None) s"
proof -
  have "catalog_run demo_lib demo_urls demo_service (demo_published # tl demo_run)" using demo_run by (simp add: demo_run_def)
  from release_history_fixed [OF this, of demo_released "demo_release ''verified'' None"] show ?thesis
    by (simp add: demo_run_def demo_released_def demo_release_def)
qed

text \<open>An Agent identifier belongs to the owner who registered it first and keeps its public
  identifier for ever; once a provider has claimed it by binding an endpoint, it stays with that provider.\<close>

theorem agent_identity_fixed:
  assumes run: "catalog_run lib urls service (db # h)" and d: "d \<in> set (db # h)" and i: "i \<in> set (cdIdentities d)"
  shows "\<exists>j. filter (\<lambda>j. aiAgentID j = aiAgentID i) (cdIdentities db) = [j] \<and> aiOwnerID j = aiOwnerID i \<and>
    aiPublicAgentID j = aiPublicAgentID i \<and> (aiProviderID i \<noteq> None \<longrightarrow> aiProviderID j = aiProviderID i)"
proof -
  have db: "catalog_inv db" "catalog_grows d db" using run_sound [OF run] d by auto
  then obtain j where j: "j \<in> set (cdIdentities db)" "identity_kept i j"
    using i grown_in by (fastforce simp: catalog_grows_def)
  have "distinct (map aiAgentID (cdIdentities db))" using db(1) by (simp add: catalog_inv_def base_defs)
  then have "filter (\<lambda>x. aiAgentID x = aiAgentID j) (cdIdentities db) = [j]" using j(1) by (rule filter_key_single)
  then show ?thesis using j(2) by (auto simp: identity_kept_def)
qed

theorem agent_identity_fixed_witness:
  "\<exists>j. filter (\<lambda>j. aiAgentID j = ''echo'') (cdIdentities demo_published) = [j] \<and> aiProviderID j = Some ''acme''"
proof -
  have "catalog_run demo_lib demo_urls demo_service (demo_published # tl demo_run)" using demo_run by (simp add: demo_run_def)
  from agent_identity_fixed [OF this, of demo_bound "demo_identity (Some ''acme'')"] show ?thesis
    by (auto simp: demo_run_def demo_bound_def demo_identity_def)
qed

section \<open>Challenges\<close>

lemma find_only: "x \<in> set xs \<Longrightarrow> P x \<Longrightarrow> (\<And>y. y \<in> set xs \<Longrightarrow> P y \<Longrightarrow> y = x) \<Longrightarrow> find P xs = Some x"
proof (induction xs)
  case (Cons a xs)
  show ?case
  proof (cases "P a")
    case True
    then show ?thesis using Cons.prems(3) [of a] by simp
  next
    case False
    then show ?thesis using Cons.IH Cons.prems by (metis find.simps(2) list.set_intros(2) set_ConsD)
  qed
qed simp

lemma ReserveChallenge_used:
  assumes inv: "catalog_inv db" and c: "c \<in> set (cdChallenges db)" "vcBindingID c = bid" "vcChallengeID c = cid" "vcUsedAt c \<noteq> None"
  shows "\<exists>err. ReserveChallenge env db bid cid t = (Inl err, db) \<and> \<not> errors_Is err CatErrChallengeExpired"
proof -
  let ?P = "\<lambda>x. vcBindingID x = bid \<and> vcChallengeID x = cid"
  have "find ?P (cdChallenges db) = Some c"
    using c inv by (intro find_only) (auto simp: catalog_inv_def base_defs dest: distinct_map_inj_key)
  then have "\<exists>err. reserve_challenge_body env db bid cid t = Inl err \<and> set err \<subseteq> {CatErrTrustDependency, CatErrChallengeReused}"
    using c(4) by (auto simp: reserve_challenge_body_def query_row_def sql_def)
  then show ?thesis by (auto simp: ReserveChallenge_def run_tx_def errors_Is_def)
qed

lemma ReserveChallenge_reserved:
  assumes "ReserveChallenge env db bid cid t = (Inr (challenge, binding), db')"
  shows "\<exists>c\<in>set (cdChallenges db'). vcBindingID c = bid \<and> vcChallengeID c = cid \<and> vcUsedAt c \<noteq> None"
proof -
  let ?P = "\<lambda>x. vcBindingID x = bid \<and> vcChallengeID x = cid"
  have "reserve_challenge_body env db bid cid t = Inr ((challenge, binding), db')"
    using assms by (simp add: ReserveChallenge_def run_tx_Inr)
  then have "\<exists>x. find ?P (cdChallenges db) = Some x \<and>
      db' = db\<lparr>cdChallenges := update_where ?P (\<lambda>c. c\<lparr>vcUsedAt := Some (timestamptz t)\<rparr>) (cdChallenges db)\<rparr>"
    by (auto simp: reserve_challenge_body_def query_row_def split: option.splits if_splits prod.splits)
  then obtain x where x: "find ?P (cdChallenges db) = Some x"
    and db': "db' = db\<lparr>cdChallenges := update_where ?P (\<lambda>c. c\<lparr>vcUsedAt := Some (timestamptz t)\<rparr>) (cdChallenges db)\<rparr>"
    by blast
  have "x\<lparr>vcUsedAt := Some (timestamptz t)\<rparr> \<in> set (cdChallenges db')"
    using find_Some_in_set [OF x] by (simp add: db' set_update_where rev_image_eqI)
  then show ?thesis using find_Some_in_set [OF x] by (intro bexI) auto
qed

text \<open>C28: A verification challenge is good for one attempt: once a completion has reserved it, whatever
  came of that attempt, every later completion of the same challenge, by any caller and in any later
  state of the run, fails and records nothing.\<close>

theorem challenge_used_once:
  assumes run: "catalog_run lib urls service (db # h)"
    and reserved: "ReserveChallenge env d bid cid t = (Inr x, d')" "d' \<in> set (db # h)"
    and again: "cwDb w 2 = db"
  shows "\<exists>err first. CompleteChallenge urls service w caller providerID bid cid = (Inl err, first, None) \<and> first \<in> {None, Some db}"
proof -
  obtain c where c: "c \<in> set (cdChallenges d')" "vcBindingID c = bid" "vcChallengeID c = cid" "vcUsedAt c \<noteq> None"
    using ReserveChallenge_reserved reserved(1) by (cases x) blast
  have db: "catalog_inv db" "catalog_grows d' db" using run_sound [OF run] reserved(2) by auto
  then have "c \<in> set (cdChallenges db)"
    using grown_in [of challenge_kept "cdChallenges d'" "cdChallenges db" c] c by (auto simp: catalog_grows_def challenge_kept_def)
  then obtain err where "ReserveChallenge (cwEnv w 2) (cwDb w 2) bid cid (cwNow w 0) = (Inl err, db)"
      "\<not> errors_Is err CatErrChallengeExpired"
    using ReserveChallenge_used [OF db(1) _ c(2-4)] again by blast
  then show ?thesis by (auto simp: CompleteChallenge_def split: option.splits sum.splits)
qed

theorem challenge_used_once_witness:
  "\<exists>err first. CompleteChallenge demo_urls demo_service (demo_trust (\<lambda>_. demo_published)) ''bob'' ''acme'' ''binding-02'' ''challenge-02'' =
     (Inl err, first, None) \<and> first \<in> {None, Some demo_published}"
proof -
  have run: "catalog_run demo_lib demo_urls demo_service (demo_published # tl demo_run)" using demo_run by (simp add: demo_run_def)
  have "ReserveChallenge db_healthy demo_challenged ''binding-02'' ''challenge-02'' 0 =
      (Inr (demo_challenge (Some 0), demo_binding ''pending'' None None), demo_reserved)"
    by (simp add: ReserveChallenge_def reserve_challenge_body_def query_row_def scanBinding_def demo_defs)
  then show ?thesis
    by (rule challenge_used_once [OF run]) (simp_all add: demo_run_def demo_trust_def)
qed

lemma ReserveChallenge_open:
  assumes "ReserveChallenge env db bid cid t = (Inr (challenge, b), db')"
  shows "\<exists>c\<in>set (cdChallenges db). vcBindingID c = bid \<and> vcChallengeID c = cid \<and> vcUsedAt c = None \<and> t < vcExpiresAt c \<and>
    vcExpiresAt challenge = vcExpiresAt c \<and> vcProofDigest challenge = vcProofDigest c"
proof -
  let ?P = "\<lambda>x. vcBindingID x = bid \<and> vcChallengeID x = cid"
  have "reserve_challenge_body env db bid cid t = Inr ((challenge, b), db')"
    using assms by (simp add: ReserveChallenge_def run_tx_Inr)
  then have "\<exists>c. find ?P (cdChallenges db) = Some c \<and> vcUsedAt c = None \<and> t < vcExpiresAt c \<and> challenge = c\<lparr>vcUsedAt := Some t\<rparr>"
    by (auto simp: reserve_challenge_body_def query_row_def split: option.splits if_splits prod.splits)
  then obtain c where c: "find ?P (cdChallenges db) = Some c" "vcUsedAt c = None" "t < vcExpiresAt c" "challenge = c\<lparr>vcUsedAt := Some t\<rparr>"
    by blast
  then show ?thesis using find_Some_in_set [OF c(1)] by (intro bexI [of _ c]) auto
qed

text \<open>A body was fetched over a connection to the pinned destination, for the challenge URL of the endpoint.\<close>

lemma fetched_body:
  assumes "fetchVerificationProof urls w d endpoint cid ips = Inr body"
  shows "\<exists>ip rest u reply. ips = ip # rest \<and> ulParse urls (epOrigin endpoint) = Some u \<and>
    twReply w d (ip, default_port u) (epHost endpoint) (epOrigin endpoint @ ''/.well-known/nekiro/challenges/'' @ cid) = Some reply \<and>
    hrStatus reply = 200 \<and> hrBody reply = Some body \<and> length body \<le> 4096"
  using assms by (auto simp: fetchVerificationProof_def clientForPinnedDestination_def http_Do_def pinned_Dial_def Let_def
      split: if_splits option.splits list.splits sum.splits)

definition admitted :: "url_library \<Rightarrow> trust_service \<Rightarrow> string \<Rightarrow> ip \<Rightarrow> bool" where
  "admitted urls service host a \<longleftrightarrow> \<not> isDisallowedIP a \<or>
     TrimSuffixDot (ulToLower urls host) \<in> set (tsAllowedPrivateHosts service) \<and> \<not> isAlwaysDisallowedIP a"

lemma destination_admitted:
  assumes "ResolveDestination urls \<lparr>plLookupIP = resolver, plAllowedPrivateHosts = tsAllowedPrivateHosts service\<rparr> endpoint = Inr ips"
  shows "\<exists>lookup. resolver = Some lookup \<and> lookup (epHost endpoint) = Some ips" "\<forall>a\<in>set ips. admitted urls service (epHost endpoint) a"
  using assms by (auto simp: ResolveDestination_def admitted_def list_ex_iff split: if_splits option.splits)

lemma SetBindingVerification_result:
  assumes "fst (SetBindingVerification env db bid ''verified'' None (Some e) t) = Inr b" "length e = 32"
  shows "ebBindingID b = bid \<and> ebVerificationStatus b = ''verified'' \<and> ebVerificationEvidenceDigest b = Some e \<and>
    (\<exists>x\<in>set (cdBindings db). ebBindingID x = bid \<and> ebEndpoint b = ebEndpoint x \<and> ebProviderID b = ebProviderID x)"
proof -
  let ?P = "\<lambda>b. ebBindingID b = bid \<and> ebVerificationStatus b \<in> {''pending'', ''failed''}"
  obtain d where "set_verification_body env db bid ''verified'' None (Some e) t = Inr (b, d)"
    using assms(1) by (cases "SetBindingVerification env db bid ''verified'' None (Some e) t") (auto simp: SetBindingVerification_def run_tx_Inr)
  then have "\<exists>x. find ?P (cdBindings db) = Some x \<and> b = verification_row ''verified'' None (Some e) t x"
    using assms(2) by (cases "find ?P (cdBindings db)")
      (auto simp: set_verification_body_def Let_def query_row_def sql_def scanBinding_def verification_row_def
        split: sum.splits if_splits prod.splits)
  then obtain x where x: "find ?P (cdBindings db) = Some x" "b = verification_row ''verified'' None (Some e) t x" by blast
  then show ?thesis using find_Some_in_set [OF x(1)] by (auto simp: verification_row_def)
qed

text \<open>A binding keeps its endpoint and its provider: two states of a run agree on them.\<close>

lemma binding_identified:
  assumes run: "catalog_run lib urls service h" and d: "d \<in> set h" "d' \<in> set h"
    and b: "b \<in> set (cdBindings d)" "b' \<in> set (cdBindings d')" "ebBindingID b = ebBindingID b'"
  shows "ebEndpoint b = ebEndpoint b' \<and> ebProviderID b = ebProviderID b'"
proof -
  have grows: "catalog_grows d (hd h)" "catalog_grows d' (hd h)" and inv: "catalog_inv (hd h)"
    using run_sound [OF run] d by (cases h; auto)+
  obtain c where c: "c \<in> set (cdBindings (hd h))" "binding_kept b c"
    using grown_in [of binding_kept "cdBindings d" _ b] grows(1) b(1) by (auto simp: catalog_grows_def)
  obtain c' where c': "c' \<in> set (cdBindings (hd h))" "binding_kept b' c'"
    using grown_in [of binding_kept "cdBindings d'" _ b'] grows(2) b(2) by (auto simp: catalog_grows_def)
  have "distinct (map ebBindingID (cdBindings (hd h)))" using inv by (simp add: catalog_inv_def base_defs)
  then have "c = c'" by (rule distinct_map_inj_key) (use c c' b(3) in \<open>auto simp: binding_kept_def\<close>)
  then show ?thesis using c(2) c'(2) by (simp add: binding_kept_def)
qed

text \<open>C13: A completed challenge proves control of the endpoint. When a completion succeeds in a run of the Catalog, the caller
  owned the provider, the binding belongs to that provider, and the challenge was stored for this binding, unused and not expired. The proof was
  fetched for the well-known URL of this very challenge at the origin of the endpoint the verified binding records, over a connection to the port
  of that origin at the first address its host resolved to, with its host as the name of the server, and every address it resolved to is one the
  network policy admits. The answer had status 200 and at most 4096 bytes and came before the expiry, its SHA-256
  digest is the stored one, and the binding is recorded as verified with that digest.\<close>

theorem completed_challenge_proved:
  assumes run: "catalog_run lib urls service h" and reads: "reads_from w 4 h"
    and ok: "CompleteChallenge urls service w caller providerID bid cid = (Inr binding, first, second)"
  shows "(\<exists>p\<in>set (cdProviders (cwDb w 0)). pvProviderID p = providerID \<and> pvOwnerIdentity p = caller) \<and>
    ebBindingID binding = bid \<and> ebProviderID binding = providerID \<and> ebVerificationStatus binding = ''verified'' \<and>
    (\<exists>c\<in>set (cdChallenges (cwDb w 2)). \<exists>endpoint u lookup ip ips reply body d.
       vcBindingID c = bid \<and> vcChallengeID c = cid \<and> vcUsedAt c = None \<and> cwNow w 0 < vcExpiresAt c \<and> cwNow w 2 < vcExpiresAt c \<and>
       ParseEndpoint urls (ebEndpoint binding) = Inr endpoint \<and> ulParse urls (epOrigin endpoint) = Some u \<and>
       twLookupIP w d = Some lookup \<and> lookup (epHost endpoint) = Some (ip # ips) \<and>
       (\<forall>a\<in>set (ip # ips). admitted urls service (epHost endpoint) a) \<and>
       twReply w d (ip, default_port u) (epHost endpoint) (epOrigin endpoint @ ''/.well-known/nekiro/challenges/'' @ cid) = Some reply \<and>
       d \<le> tsVerificationTimeout service \<and> d \<le> vcExpiresAt c - cwNow w 1 \<and>
       hrStatus reply = 200 \<and> hrBody reply = Some body \<and> length body \<le> 4096 \<and>
       sha256_Sum256 body = vcProofDigest c \<and> ebVerificationEvidenceDigest binding = Some (vcProofDigest c))"
proof -
  have prov: "\<exists>p\<in>set (cdProviders (cwDb w 0)). pvProviderID p = providerID \<and> pvOwnerIdentity p = caller"
    using ok read_provider [of "cwEnv w 0" "cwDb w 0" providerID]
    by (auto simp: CompleteChallenge_def authorizeProvider_def split: if_splits sum.splits option.splits)
  obtain b0 endpoint challenge b db ips body d where
      get: "store_GetBinding (cwEnv w 1) (cwDb w 1) providerID bid = Inr b0" and parse: "ParseEndpoint urls (ebEndpoint b0) = Inr endpoint"
    and reserve: "ReserveChallenge (cwEnv w 2) (cwDb w 2) bid cid (cwNow w 0) = (Inr (challenge, b), db)"
    and d: "d = min (tsVerificationTimeout service) (vcExpiresAt challenge - cwNow w 1)"
    and resolve: "ResolveDestination urls \<lparr>plLookupIP = twLookupIP w d, plAllowedPrivateHosts = tsAllowedPrivateHosts service\<rparr> endpoint = Inr ips"
    and fetch: "fetchVerificationProof urls w d endpoint cid ips = Inr body"
    and expiry: "cwNow w 2 < vcExpiresAt challenge" and digest: "sha256_Sum256 body = vcProofDigest challenge"
    and set: "fst (SetBindingVerification (cwEnv w 3) (cwDb w 3) bid ''verified'' None (Some (sha256_Sum256 body)) (cwNow w 3)) = Inr binding"
    using ok by (auto simp: CompleteChallenge_def Let_def split: if_splits sum.splits option.splits prod.splits)
  have states: "cwDb w 1 \<in> set h" "cwDb w 3 \<in> set h" using reads by (simp_all add: reads_from_def)
  then have "catalog_inv (cwDb w 1)" using run_sound [OF run] by blast
  note b0 = read_binding [OF this get]
  note result = SetBindingVerification_result [OF set length_sha256]
  then obtain x where x: "x \<in> set (cdBindings (cwDb w 3))" "ebBindingID x = bid" "ebEndpoint binding = ebEndpoint x"
      "ebProviderID binding = ebProviderID x" by blast
  have same: "ebEndpoint binding = ebEndpoint b0" "ebProviderID binding = providerID"
    using binding_identified [OF run states(1,2), of b0 x] b0 x by auto
  obtain c where c: "c \<in> set (cdChallenges (cwDb w 2))" "vcBindingID c = bid" "vcChallengeID c = cid" "vcUsedAt c = None"
      "cwNow w 0 < vcExpiresAt c" "vcExpiresAt challenge = vcExpiresAt c" "vcProofDigest challenge = vcProofDigest c"
    using ReserveChallenge_open [OF reserve] by blast
  obtain ip rest u reply where reply: "ips = ip # rest" "ulParse urls (epOrigin endpoint) = Some u"
      "twReply w d (ip, default_port u) (epHost endpoint) (epOrigin endpoint @ ''/.well-known/nekiro/challenges/'' @ cid) = Some reply"
      "hrStatus reply = 200" "hrBody reply = Some body" "length body \<le> 4096"
    using fetched_body [OF fetch] by blast
  obtain lookup where lookup: "twLookupIP w d = Some lookup" "lookup (epHost endpoint) = Some ips"
    using destination_admitted(1) [OF resolve] by blast
  have "\<exists>endpoint u lookup ip ips reply body d.
       vcBindingID c = bid \<and> vcChallengeID c = cid \<and> vcUsedAt c = None \<and> cwNow w 0 < vcExpiresAt c \<and> cwNow w 2 < vcExpiresAt c \<and>
       ParseEndpoint urls (ebEndpoint binding) = Inr endpoint \<and> ulParse urls (epOrigin endpoint) = Some u \<and>
       twLookupIP w d = Some lookup \<and> lookup (epHost endpoint) = Some (ip # ips) \<and>
       (\<forall>a\<in>set (ip # ips). admitted urls service (epHost endpoint) a) \<and>
       twReply w d (ip, default_port u) (epHost endpoint) (epOrigin endpoint @ ''/.well-known/nekiro/challenges/'' @ cid) = Some reply \<and>
       d \<le> tsVerificationTimeout service \<and> d \<le> vcExpiresAt c - cwNow w 1 \<and>
       hrStatus reply = 200 \<and> hrBody reply = Some body \<and> length body \<le> 4096 \<and>
       sha256_Sum256 body = vcProofDigest c \<and> ebVerificationEvidenceDigest binding = Some (vcProofDigest c)"
    by (intro exI [of _ endpoint] exI [of _ u] exI [of _ lookup] exI [of _ ip] exI [of _ rest] exI [of _ reply] exI [of _ body] exI [of _ d])
      (use c parse same(1) reply lookup destination_admitted(2) [OF resolve] d expiry digest result in simp)
  then show ?thesis using prov result same(2) c(1) by blast
qed

theorem completed_challenge_proved_witness:
  "\<exists>c\<in>set (cdChallenges demo_challenged). vcUsedAt c = None \<and> sha256_Sum256 ''07'' = vcProofDigest c"
proof -
  have reads: "reads_from demo_completion 4 demo_run"
    by (auto simp: reads_from_def demo_completion_def demo_trust_def demo_run_def)
  show ?thesis
    using completed_challenge_proved [OF demo_run reads demo_CompleteChallenge]
    by (auto simp: demo_completion_def demo_trust_def split: if_splits)
qed

section \<open>Disabled versions\<close>

lemma disabled_iff:
  "catalog_inv db \<Longrightarrow> v \<in> set (cdVersions db) \<Longrightarrow> vrStatus v = ''disabled'' \<longleftrightarrow> vrDisabledAt v \<noteq> None"
  by (auto simp: catalog_inv_def base_defs list_all_iff version_checks_def version_state_timestamps_def)

text \<open>Disabling an Agent version is final: in every later state of the run the version is there and
  still disabled, and no Release of it is published.\<close>

theorem disabled_version_final:
  assumes run: "catalog_run lib urls service (db # h)" and d: "d \<in> set (db # h)"
    and v: "v \<in> set (cdVersions d)" "vrStatus v = ''disabled''"
  shows "\<exists>x. filter (\<lambda>x. version_key x = version_key v) (cdVersions db) = [x] \<and> vrStatus x = ''disabled'' \<and>
    list_all (\<lambda>r. release_key r = version_key v \<longrightarrow> arState r \<noteq> ''published'') (cdReleases db)"
proof -
  have db: "catalog_inv db" "catalog_inv d" "catalog_grows d db" using run_sound [OF run] d by auto
  then obtain x where x: "x \<in> set (cdVersions db)" "version_kept v x"
    using v grown_in by (fastforce simp: catalog_grows_def)
  have "distinct (map version_key (cdVersions db))" using db(1) by (simp add: catalog_inv_def base_defs)
  then have single: "filter (\<lambda>y. version_key y = version_key x) (cdVersions db) = [x]" using x(1) by (rule filter_key_single)
  have key: "version_key x = version_key v" and st: "vrStatus x = ''disabled''"
    using x disabled_iff [OF db(1) x(1)] disabled_iff [OF db(2) v(1)] v(2) by (auto simp: version_kept_def)
  have "version_agrees r x" if "r \<in> set (cdReleases db)" for r
    using db(1) x(1) that by (auto simp: catalog_inv_def states_agree_def)
  then show ?thesis using single key st by (auto simp: version_agrees_def list_all_iff)
qed

theorem disabled_version_final_witness:
  "\<exists>x. filter (\<lambda>x. version_key x = (''echo'', ''1.0.0'')) (cdVersions demo_disabled) = [x] \<and> vrStatus x = ''disabled''"
  using disabled_version_final [OF demo_disabled_run, of demo_disabled "(demo_version ''disabled'' None None)\<lparr>vrDisabledAt := Some 0\<rparr>"]
  by (auto simp: demo_disabled_def demo_version_def version_key_def)

text \<open>C38: A verified Release whose version was disabled before cannot be published, and the refusal comes
  from a constraint of the version table: although every check of the service passes, the request fails
  with the dependency error of a broken database, and the tables stay as they are.\<close>

theorem publish_disabled_refused:
  assumes inv: "catalog_inv db" and w: "cwDb w = (\<lambda>_. db)" "cwEnv w = (\<lambda>_. db_healthy)"
    and checks: "authorizeRelease w caller k = Inr rel" "arState rel = ''verified''" "requireCurrentVerifiedBinding w rel = None"
    and v: "v \<in> set (cdVersions db)" "version_key v = release_key rel" "vrStatus v = ''disabled''"
  shows "PublishRelease w caller k = (Inl [CatErrDependency], Some db)"
proof -
  have "store_GetRelease db_healthy db k = Inr rel" using checks(1) w by (auto simp: authorizeRelease_def split: if_splits)
  then have row: "query_row (\<lambda>r. arReleaseID r = k) scanRelease (cdReleases db) = Inr rel"
    by (auto simp: store_GetRelease_def split: sum.splits if_splits)
  obtain n db1 where clock: "advance_clock db = (n, db1)" by fastforce
  have "v \<in> set (cdVersions db1)" using clock v(1) by (auto simp: advance_clock_def)
  moreover have "\<not> version_checks (publish_row t n v)" for t
    using disabled_iff [OF inv v(1)] v(3) by (auto simp: version_checks_def version_state_timestamps_def publish_row_def)
  ultimately have refused: "\<exists>e. update_version db1 (release_key rel) (publish_row t n) = Inl e" for t
    using v(2) by (auto simp: update_version_def Let_def list_all_iff)
  have "transition_release_body db_healthy db k ''published'' None t = Inl [CatErrDependency]" for t
    using refused [of t] row checks(2) clock by (auto simp: transition_release_body_def release_transition_def Let_def)
  then show ?thesis
    using checks w by (simp add: PublishRelease_def store_TransitionRelease_def with_write_def)
qed

theorem publish_disabled_refused_witness:
  "PublishRelease (demo_world demo_stuck []) ''alice'' ''release-02'' = (Inl [CatErrDependency], Some demo_stuck)"
proof (rule publish_disabled_refused)
  show "catalog_inv demo_stuck"
    by (simp add: catalog_inv_def base_defs stored_version_def states_agree_def version_agrees_def demo_stuck_def identity_checks_def version_checks_def
        version_state_timestamps_def release_checks_def release_state_timestamps_def provider_checks_def binding_checks_def
        binding_state_timestamps_def challenge_checks_def release_key_def version_key_def List.map_filter_def demo_defs Let_def)
  show "authorizeRelease (demo_world demo_stuck []) ''alice'' ''release-02'' = Inr (demo_release ''verified'' None)"
    by (simp add: authorizeRelease_def ValidIdentifier_def store_GetRelease_def store_GetProvider_def query_row_def scanRelease_def
        demo_stuck_def demo_defs)
  show "requireCurrentVerifiedBinding (demo_world demo_stuck []) (demo_release ''verified'' None) = None"
    by (simp add: requireCurrentVerifiedBinding_def store_GetProvider_def store_GetBinding_def query_row_def scanBinding_def
        demo_stuck_def demo_defs)
  show "(demo_version ''disabled'' None None)\<lparr>vrDisabledAt := Some 0\<rparr> \<in> set (cdVersions demo_stuck)" by (simp add: demo_stuck_def)
qed (simp_all add: demo_world_def demo_release_def demo_version_def version_key_def release_key_def)

end
