(* ===== verification/Catalog_Policies.thy ===== *)
theory Catalog_Policies
  imports Catalog_Demo
begin

unbundle bit_operations_syntax

text \<open>
  Two decisions of the control plane: which Agent version an installation gets, and which network
  addresses a verification may contact.
\<close>

section \<open>Selection of the version to install\<close>

text \<open>Precedence of semantic versions: a strict order, compatible with equality of precedence.\<close>

definition semver_order :: "contract_library \<Rightarrow> bool" where
  "semver_order lib \<longleftrightarrow>
     (\<forall>u. \<not> clGreaterThan lib u u) \<and>
     (\<forall>u v w. clGreaterThan lib u v \<longrightarrow> clGreaterThan lib v w \<longrightarrow> clGreaterThan lib u w) \<and>
     (\<forall>u v w. clEqual lib u v \<longrightarrow> clEqual lib v w \<longrightarrow> clEqual lib u w) \<and>
     (\<forall>u v w. clGreaterThan lib u v \<longrightarrow> clEqual lib v w \<longrightarrow> clGreaterThan lib u w) \<and>
     (\<forall>u v w. clEqual lib u v \<longrightarrow> clGreaterThan lib v w \<longrightarrow> clGreaterThan lib u w)"

definition preferred :: "contract_library \<Rightarrow> agent_version \<Rightarrow> agent_version \<Rightarrow> bool" where
  "preferred lib c b \<longleftrightarrow> clGreaterThan lib (acVersion (avCard c)) (acVersion (avCard b)) \<or>
     (clEqual lib (acVersion (avCard c)) (acVersion (avCard b)) \<and> acVersion (avCard c) > acVersion (avCard b))"

definition eligible :: "contract_library \<Rightarrow> string \<Rightarrow> agent_version \<Rightarrow> bool" where
  "eligible lib constraint c \<longleftrightarrow> clCheck lib constraint (acVersion (avCard c)) \<and>
     constraintBranchAllowsVersion lib constraint (acVersion (avCard c))"

definition best_of :: "contract_library \<Rightarrow> string \<Rightarrow> agent_version list \<Rightarrow> agent_version \<Rightarrow> bool" where
  "best_of lib constraint cs v \<longleftrightarrow> v \<in> set cs \<and> eligible lib constraint v \<and>
     list_all (\<lambda>c. eligible lib constraint c \<longrightarrow> \<not> preferred lib c v) cs"

lemma preferred_irrefl: "semver_order lib \<Longrightarrow> \<not> preferred lib c c"
  by (simp add: semver_order_def preferred_def)

lemma preferred_trans: "semver_order lib \<Longrightarrow> preferred lib a b \<Longrightarrow> preferred lib b c \<Longrightarrow> preferred lib a c"
  unfolding semver_order_def preferred_def by (meson less_trans)

text \<open>The loop invariant: the best of the candidates seen so far.\<close>

definition selected :: "contract_library \<Rightarrow> string \<Rightarrow> agent_version list \<Rightarrow> agent_version option \<Rightarrow> bool" where
  "selected lib constraint seen sel \<longleftrightarrow> (case sel of
     None \<Rightarrow> list_all (\<lambda>c. \<not> eligible lib constraint c) seen | Some b \<Rightarrow> best_of lib constraint seen b)"

lemma select_loop_best:
  assumes ord: "semver_order lib"
  shows "list_all (\<lambda>c. clStrict lib (acVersion (avCard c))) cs \<Longrightarrow> selected lib constraint seen sel \<Longrightarrow>
    \<exists>r. select_loop lib constraint sel cs = Inr r \<and> selected lib constraint (seen @ cs) r"
proof (induction cs arbitrary: sel seen)
  case Nil
  then show ?case by simp
next
  case (Cons c cs)
  let ?sel = "if \<not> eligible lib constraint c then sel else (case sel of None \<Rightarrow> Some c | Some b \<Rightarrow> if preferred lib c b then Some c else Some b)"
  have step: "select_loop lib constraint sel (c # cs) = select_loop lib constraint ?sel cs"
    using Cons.prems(1) by (cases sel) (simp_all add: Let_def eligible_def preferred_def)
  have "selected lib constraint (seen @ [c]) ?sel"
    using Cons.prems(2) preferred_irrefl [OF ord] preferred_trans [OF ord]
    by (auto simp: selected_def best_of_def list_all_iff split: option.splits if_splits)
  from Cons.IH [OF _ this] Cons.prems(1) show ?case unfolding step by simp
qed

text \<open>C31: Selecting the version to install returns the highest version that satisfies the constraint, by
  semantic version precedence and then by bytes, or fails: with the not-found error when no candidate
  satisfies the constraint, and otherwise with the very reason for which that highest version may not be
  installed; it never falls back to a lower version. The candidates could be read, their versions are ones that the semantic version
  library accepts and compares by a strict order compatible with its equality, and the identifier and the constraint are well formed.\<close>

theorem selection_is_best:
  assumes ord: "semver_order lib" and cs: "InstallationCandidates env db agentID = Inr cs"
    and strict: "list_all (\<lambda>c. clStrict lib (acVersion (avCard c))) cs"
    and valid: "ValidIdentifier agentID" "clConstraint lib constraint" "TrimSpace constraint \<noteq> []"
  shows "case SelectInstallable lib env db agentID constraint of
      Inr v \<Rightarrow> best_of lib constraint cs v \<and> installabilityError v = None
    | Inl err \<Rightarrow> (err = [CatErrNotFound] \<and> list_all (\<lambda>c. \<not> eligible lib constraint c) cs) \<or>
        (\<exists>v. best_of lib constraint cs v \<and> installabilityError v = Some err)"
proof -
  have "selected lib constraint [] None" by (simp add: selected_def)
  from select_loop_best [OF ord strict this] obtain r where
    "select_loop lib constraint None cs = Inr r" "selected lib constraint cs r" by auto
  then show ?thesis
    using cs valid by (cases r) (auto simp: SelectInstallable_def selected_def split: option.splits)
qed

theorem selection_is_best_witness:
  "case SelectInstallable demo_lib db_healthy demo_published ''echo'' ''*'' of Inr v \<Rightarrow> installabilityError v = None | Inl err \<Rightarrow> False"
proof -
  have cs: "InstallationCandidates db_healthy demo_published ''echo'' = Inr [\<lparr>avPublicAgentID = demo_public, avCard = demo_card,
      avCardJSON = ''{}'', avCardDigest = demo_digest, avStatus = ''published'', avRegisteredAt = 0, avPublishedAt = Some 0,
      avPublicationSequence = Some 1, avDisabledAt = None, avLegacyUnverified = False,
      avRelease = Some (demo_release ''published'' (Some 0))\<rparr>]"
    by (simp add: InstallationCandidates_def version_join_def List.map_filter_def release_key_def version_key_def scanVersion_def
        scanRelease_def demo_defs)
  have ord: "semver_order demo_lib" by (auto simp: semver_order_def demo_lib_def)
  have e: "eligible demo_lib ''*'' c" for c by (simp add: eligible_def constraintBranchAllowsVersion_def demo_lib_def)
  have "TrimSpace ''*'' \<noteq> []" by code_simp
  from selection_is_best [OF ord cs _ _ _ this] show ?thesis
    by (auto simp: ValidIdentifier_def demo_lib_def best_of_def installabilityError_def e [unfolded demo_lib_def] split: sum.splits)
      (simp_all add: demo_card_def demo_release_def)
qed

section \<open>Addresses a verification may contact\<close>

text \<open>An IPv4 address as a number, and the leading bits of a block.\<close>

definition ip4_value :: "8 word \<Rightarrow> 8 word \<Rightarrow> 8 word \<Rightarrow> 8 word \<Rightarrow> nat" where
  "ip4_value a b c d = ((unat a * 256 + unat b) * 256 + unat c) * 256 + unat d"

lemma byte_bound: "unat (a :: 8 word) < 256"
  using unsigned_less [of a] by simp

lemma high_bits: "x AND NOT (mask n) = y AND NOT (mask n) \<longleftrightarrow> unat x div 2 ^ n = unat y div 2 ^ n" for x y :: "8 word"
proof -
  have push: "z AND NOT (mask n) = push_bit n (drop_bit n z)" for z :: "8 word"
    by (rule bit_eqI) (auto simp: bit_simps)
  have drop: "drop_bit n (z AND NOT (mask n)) = drop_bit n z" for z :: "8 word"
    by (rule bit_eqI) (auto simp: bit_simps dest: bit_imp_le_length)
  have "x AND NOT (mask n) = y AND NOT (mask n) \<longleftrightarrow> drop_bit n x = drop_bit n y"
    using push [of x] push [of y] drop [of x] drop [of y] by metis
  also have "\<dots> \<longleftrightarrow> unat (drop_bit n x) = unat (drop_bit n y)" by (simp add: word_unat_eq_iff)
  also have "\<dots> \<longleftrightarrow> unat x div 2 ^ n = unat y div 2 ^ n"
    by (simp only: unat_drop_bit_eq) (simp add: drop_bit_eq_div)
  finally show ?thesis .
qed

lemma div_steps:
  "ip4_value a b c d div 2 ^ 24 = unat a" "ip4_value a b c d div 2 ^ 16 = unat a * 256 + unat b"
  "ip4_value a b c d div 2 ^ 8 = (unat a * 256 + unat b) * 256 + unat c"
proof -
  have 3: "ip4_value a b c d div 2 ^ 8 = (unat a * 256 + unat b) * 256 + unat c"
    using byte_bound [of d] by (simp add: ip4_value_def)
  have "ip4_value a b c d div 2 ^ 16 = ip4_value a b c d div 2 ^ 8 div 2 ^ 8" by (simp add: div_mult2_eq [symmetric])
  then show 2: "ip4_value a b c d div 2 ^ 16 = unat a * 256 + unat b" using 3 byte_bound [of c] by simp
  have "ip4_value a b c d div 2 ^ 24 = ip4_value a b c d div 2 ^ 16 div 2 ^ 8" by (simp add: div_mult2_eq [symmetric])
  then show "ip4_value a b c d div 2 ^ 24 = unat a" using 2 byte_bound [of b] by simp
  show "ip4_value a b c d div 2 ^ 8 = (unat a * 256 + unat b) * 256 + unat c" by (rule 3)
qed

lemma masks:
  "CIDRMask 4 (Suc (Suc (Suc (Suc 0)))) = [NOT (mask 4), NOT (mask 8), NOT (mask 8), NOT (mask 8)]"
  "CIDRMask 8 (Suc (Suc (Suc (Suc 0)))) = [NOT (mask 0), NOT (mask 8), NOT (mask 8), NOT (mask 8)]"
  "CIDRMask 10 (Suc (Suc (Suc (Suc 0)))) = [NOT (mask 0), NOT (mask 6), NOT (mask 8), NOT (mask 8)]"
  "CIDRMask 15 (Suc (Suc (Suc (Suc 0)))) = [NOT (mask 0), NOT (mask 1), NOT (mask 8), NOT (mask 8)]"
  "CIDRMask 24 (Suc (Suc (Suc (Suc 0)))) = [NOT (mask 0), NOT (mask 0), NOT (mask 0), NOT (mask 8)]"
  by code_simp+

lemma byte_eq: "x = numeral k \<longleftrightarrow> unat x = unat (numeral k :: 8 word)" "x = 0 \<longleftrightarrow> unat x = 0" for x :: "8 word"
  by (simp_all add: word_unat_eq_iff)

lemma byte_div: "unat x div 256 = 0" for x :: "8 word"
  using byte_bound [of x] by simp

definition in_block :: "nat \<times> nat \<Rightarrow> nat \<Rightarrow> bool" where
  "in_block = (\<lambda>(net, ones) v. v div 2 ^ (32 - ones) = net div 2 ^ (32 - ones))"

lemma contains_v4:
  "network_Contains ([p, q, r, s], 4) [a, b, c, d] \<longleftrightarrow> unat p div 16 = unat a div 16"
  "network_Contains ([p, q, r, s], 8) [a, b, c, d] \<longleftrightarrow> unat p = unat a"
  "network_Contains ([p, q, r, s], 10) [a, b, c, d] \<longleftrightarrow> unat p = unat a \<and> unat q div 64 = unat b div 64"
  "network_Contains ([p, q, r, s], 15) [a, b, c, d] \<longleftrightarrow> unat p = unat a \<and> unat q div 2 = unat b div 2"
  "network_Contains ([p, q, r, s], 24) [a, b, c, d] \<longleftrightarrow> unat p = unat a \<and> unat q = unat b \<and> unat r = unat c"
  by (simp_all add: network_Contains_def To4_def masks high_bits byte_div upt_rec nth_Cons' Let_def del: mask_0 mask_Suc_0)


lemma high_nibble: "unat (x AND 0xf0) = 16 \<longleftrightarrow> unat x div 16 = 1" "unat (x AND 0xf0) = 0xe0 \<longleftrightarrow> unat x div 16 = 14" for x :: "8 word"
proof -
  have m: "NOT (mask 4) = (0xf0 :: 8 word)" by code_simp
  show "unat (x AND 0xf0) = 16 \<longleftrightarrow> unat x div 16 = 1" using high_bits [of x 4 16] by (simp add: m word_unat_eq_iff)
  show "unat (x AND 0xf0) = 0xe0 \<longleftrightarrow> unat x div 16 = 14" using high_bits [of x 4 "0xe0"] by (simp add: m word_unat_eq_iff)
qed

definition dotted :: "nat \<Rightarrow> nat \<Rightarrow> nat \<Rightarrow> nat \<Rightarrow> nat" where
  "dotted a b c d = ((a * 256 + b) * 256 + c) * 256 + d"

lemma radix: "q < k \<Longrightarrow> x * k + q = n \<longleftrightarrow> x = n div k \<and> q = n mod k" for x q k n :: nat
  by auto

lemma in_block_v4:
  "in_block (net, 4) (ip4_value a b c d) \<longleftrightarrow> unat a div 16 = net div 2 ^ 28"
  "in_block (net, 8) (ip4_value a b c d) \<longleftrightarrow> unat a = net div 2 ^ 24"
  "in_block (net, 10) (ip4_value a b c d) \<longleftrightarrow> unat a = net div 2 ^ 22 div 4 \<and> unat b div 64 = net div 2 ^ 22 mod 4"
  "in_block (net, 12) (ip4_value a b c d) \<longleftrightarrow> unat a = net div 2 ^ 20 div 16 \<and> unat b div 16 = net div 2 ^ 20 mod 16"
  "in_block (net, 15) (ip4_value a b c d) \<longleftrightarrow> unat a = net div 2 ^ 17 div 128 \<and> unat b div 2 = net div 2 ^ 17 mod 128"
  "in_block (net, 16) (ip4_value a b c d) \<longleftrightarrow> unat a = net div 2 ^ 16 div 256 \<and> unat b = net div 2 ^ 16 mod 256"
  "in_block (net, 24) (ip4_value a b c d) \<longleftrightarrow> unat a = net div 2 ^ 8 div 256 div 256 \<and> unat b = net div 2 ^ 8 div 256 mod 256 \<and>
     unat c = net div 2 ^ 8 mod 256"
proof -
  let ?v = "ip4_value a b c d"
  have split: "v div 2 ^ (m + n) = v div 2 ^ m div 2 ^ n" for v m n :: nat by (simp add: power_add div_mult2_eq)
  have low: "unat b div 64 < 4" "unat b div 16 < 16" "unat b div 2 < 128" using byte_bound [of b] by auto
  have q: "(unat a * 256 + unat b) div 64 = unat a * 4 + unat b div 64" "(unat a * 256 + unat b) div 16 = unat a * 16 + unat b div 16"
    "(unat a * 256 + unat b) div 2 = unat a * 128 + unat b div 2" by arith+
  have v: "?v div 2 ^ 28 = unat a div 16" "?v div 2 ^ 22 = unat a * 4 + unat b div 64" "?v div 2 ^ 20 = unat a * 16 + unat b div 16"
      "?v div 2 ^ 17 = unat a * 128 + unat b div 2"
    using split [of ?v 24 4] split [of ?v 16 6] split [of ?v 16 4] split [of ?v 16 1] q by (simp_all add: div_steps [simplified])
  have d: "(32 :: nat) - 4 = 28" "(32 :: nat) - 8 = 24" "(32 :: nat) - 10 = 22" "(32 :: nat) - 12 = 20" "(32 :: nat) - 15 = 17"
    "(32 :: nat) - 16 = 16" "(32 :: nat) - 24 = 8" by simp_all
  note rules = in_block_def prod.case d v div_steps radix [OF low(1)] radix [OF low(2)] radix [OF low(3)]
    radix [OF byte_bound [of b]] radix [OF byte_bound [of c]]
  show "in_block (net, 4) ?v \<longleftrightarrow> unat a div 16 = net div 2 ^ 28" "in_block (net, 8) ?v \<longleftrightarrow> unat a = net div 2 ^ 24"
    "in_block (net, 10) ?v \<longleftrightarrow> unat a = net div 2 ^ 22 div 4 \<and> unat b div 64 = net div 2 ^ 22 mod 4"
    "in_block (net, 12) ?v \<longleftrightarrow> unat a = net div 2 ^ 20 div 16 \<and> unat b div 16 = net div 2 ^ 20 mod 16"
    "in_block (net, 15) ?v \<longleftrightarrow> unat a = net div 2 ^ 17 div 128 \<and> unat b div 2 = net div 2 ^ 17 mod 128"
    "in_block (net, 16) ?v \<longleftrightarrow> unat a = net div 2 ^ 16 div 256 \<and> unat b = net div 2 ^ 16 mod 256"
    "in_block (net, 24) ?v \<longleftrightarrow> unat a = net div 2 ^ 8 div 256 div 256 \<and> unat b = net div 2 ^ 8 div 256 mod 256 \<and> unat c = net div 2 ^ 8 mod 256"
    by (simp_all only: rules conj_assoc)
qed

definition special_blocks :: "(nat \<times> nat) list" where
  "special_blocks = [(dotted 0 0 0 0, 8), (dotted 10 0 0 0, 8), (dotted 100 64 0 0, 10), (dotted 127 0 0 0, 8),
     (dotted 169 254 0 0, 16), (dotted 172 16 0 0, 12), (dotted 192 0 0 0, 24), (dotted 192 0 2 0, 24),
     (dotted 192 31 196 0, 24), (dotted 192 52 193 0, 24), (dotted 192 88 99 0, 24), (dotted 192 168 0 0, 16),
     (dotted 192 175 48 0, 24), (dotted 198 18 0 0, 15), (dotted 198 51 100 0, 24), (dotted 203 0 113 0, 24),
     (dotted 224 0 0 0, 4), (dotted 240 0 0 0, 4)]"

lemma contains_v6: "length net \<noteq> 4 \<Longrightarrow> \<not> network_Contains (net, ones) [a, b, c, d]"
  by (simp add: network_Contains_def To4_def)

definition special_bytes :: "nat \<Rightarrow> nat \<Rightarrow> nat \<Rightarrow> bool" where
  "special_bytes a b c \<longleftrightarrow> a = 0 \<or> a = 10 \<or> a = 127 \<or> a = 100 \<and> b div 64 = 1 \<or> a = 169 \<and> b = 254 \<or> a = 172 \<and> b div 16 = 1 \<or>
    a = 192 \<and> b = 168 \<or> a = 192 \<and> b = 0 \<and> c = 0 \<or> a = 192 \<and> b = 0 \<and> c = 2 \<or> a = 192 \<and> b = 31 \<and> c = 196 \<or>
    a = 192 \<and> b = 52 \<and> c = 193 \<or> a = 192 \<and> b = 88 \<and> c = 99 \<or> a = 192 \<and> b = 175 \<and> c = 48 \<or>
    a = 198 \<and> b div 2 = 9 \<or> a = 198 \<and> b = 51 \<and> c = 100 \<or> a = 203 \<and> b = 0 \<and> c = 113 \<or> a div 16 = 14 \<or> a div 16 = 15"

lemma special_blocks_bytes: "list_ex (\<lambda>block. in_block block (ip4_value a b c d)) special_blocks \<longleftrightarrow> special_bytes (unat a) (unat b) (unat c)"
proof
  assume "list_ex (\<lambda>block. in_block block (ip4_value a b c d)) special_blocks"
  then show "special_bytes (unat a) (unat b) (unat c)"
    by (simp add: special_blocks_def in_block_v4 dotted_def) (elim disjE conjE; simp add: special_bytes_def; fail)
next
  assume "special_bytes (unat a) (unat b) (unat c)"
  then show "list_ex (\<lambda>block. in_block block (ip4_value a b c d)) special_blocks"
    unfolding special_bytes_def by (elim disjE conjE; simp add: special_blocks_def in_block_v4 dotted_def; fail)
qed

lemma not_v6: "[a, b, c, d] \<noteq> replicate 16 (0 :: 8 word)" "[a, b, c, d] \<noteq> replicate 15 0 @ [1 :: 8 word]"
  by (auto dest: arg_cong [of _ _ length])

lemmas address_defs = isDisallowedIP_def IsGlobalUnicast_def IsUnspecified_def IsLoopback_def IsPrivate_def IsMulticast_def
  IsLinkLocalUnicast_def IsLinkLocalMulticast_def isReservedIP_def reservedTrustNetworks_def contains_v4 contains_v6 byte_eq high_nibble not_v6

lemma disallowed_bytes: "isDisallowedIP [a, b, c, d] \<longleftrightarrow> special_bytes (unat a) (unat b) (unat c)"
proof
  assume "isDisallowedIP [a, b, c, d]"
  then show "special_bytes (unat a) (unat b) (unat c)"
    by (simp add: address_defs To4_def) (elim disjE conjE; simp add: special_bytes_def; fail)
next
  assume "special_bytes (unat a) (unat b) (unat c)"
  then show "isDisallowedIP [a, b, c, d]"
    unfolding special_bytes_def by (elim disjE conjE; simp add: address_defs To4_def; fail)
qed
text \<open>An IPv4 address in its sixteen byte form is judged as the four byte one.\<close>

definition mapped :: "8 word \<Rightarrow> 8 word \<Rightarrow> 8 word \<Rightarrow> 8 word \<Rightarrow> ip" where
  "mapped a b c d = replicate 10 0 @ [255, 255, a, b, c, d]"

lemma mapped_disallowed: "isDisallowedIP (mapped a b c d) = isDisallowedIP [a, b, c, d]"
proof -
  have to4: "To4 (mapped a b c d) = Some [a, b, c, d]" "To4 [a, b, c, d] = Some [a, b, c, d]"
    by (simp_all add: To4_def mapped_def nth_append)
  have "mapped a b c d ! 10 = 255" "replicate 16 (0 :: 8 word) ! 10 = 0"
    by (simp_all add: mapped_def nth_append nth_replicate)
  then have "mapped a b c d \<noteq> replicate 16 0" by fastforce
  moreover have "network_Contains n (mapped a b c d) = network_Contains n [a, b, c, d]" for n
    by (cases n) (simp add: network_Contains_def to4)
  ultimately show ?thesis
    using not_v6(1) [of a b c d] by (simp add: isDisallowedIP_def IsGlobalUnicast_def IsUnspecified_def IsLoopback_def IsPrivate_def IsMulticast_def
      IsLinkLocalUnicast_def IsLinkLocalMulticast_def isReservedIP_def to4) (simp add: mapped_def)
qed

text \<open>C35: The network check of the Trust service, written with the byte predicates of the net package and
  masks over a table of networks, refuses exactly the IPv4 addresses that lie in one of eighteen special
  purpose blocks (private, loopback, link-local, shared, documentation, benchmarking, relay and service
  blocks, multicast and reserved space), each given by the leading bits of the address as a number; and it
  judges an IPv4 address in its IPv6-mapped form in the same way.\<close>

theorem disallowed_v4_exact:
  "(isDisallowedIP [a, b, c, d] \<longleftrightarrow> list_ex (\<lambda>block. in_block block (ip4_value a b c d)) special_blocks) \<and>
   (isDisallowedIP (mapped a b c d) \<longleftrightarrow> list_ex (\<lambda>block. in_block block (ip4_value a b c d)) special_blocks)"
  by (simp only: mapped_disallowed disallowed_bytes special_blocks_bytes simp_thms)

end
