(* ===== verification/Catalog_Listing.thy ===== *)
theory Catalog_Listing
  imports Catalog_Reads Catalog_Demo Listing
begin

text \<open>
  Discovery provides the interface of paged listings: a client who follows the cursors of \<^verbatim>\<open>Search\<close> sees every
  matching published version once, the latest publication first.
\<close>

declare MatchString.simps [simp del] safe_identifier_pattern [simp del]

section \<open>Rows and positions\<close>

type_synonym discovery_row = "version_row \<times> identity_row \<times> agent_release option"

definition row_position :: "discovery_row \<Rightarrow> discovery_position" where
  "row_position = (\<lambda>(v, _). \<lparr>dpPublishedAt = (case vrPublishedAt v of None \<Rightarrow> 0 | Some t \<Rightarrow> t), dpAgentID = vrAgentID v, dpVersion = vrVersion v\<rparr>)"

definition published_row :: "discovery_row \<Rightarrow> bool" where
  "published_row = (\<lambda>(v, _). vrPublishedAt v \<noteq> None \<and> stored_version v)"

interpretation discovery: keyset_listing "\<lambda>(v, _). discovery_key v" "\<lambda>p (v, _). discovery_after p v" row_position published_row
  by unfold_locales
    (auto simp: discovery_after_def discovery_key_def row_position_def published_row_def stored_version_def less_prod_def
      split: option.splits)

definition matching :: "(string \<Rightarrow> string) \<Rightarrow> catalog_db \<Rightarrow> discovery_filter \<Rightarrow> int \<Rightarrow> discovery_row list" where
  "matching lower db fl snapshot = filter (discovery_matches lower db fl snapshot) (version_join db)"

definition entry_of :: "discovery_row \<Rightarrow> agent_version" where
  "entry_of x = fst (projr (scanVersion x))"

lemma scan_all:
  assumes "catalog_inv db" "set rows \<subseteq> set (version_join db)"
  shows "scan_rows scanVersion rows = Inr (map (projr \<circ> scanVersion) rows)"
  using assms(2)
proof (induction rows)
  case (Cons x rows)
  obtain e owner where "scanVersion x = Inr (e, owner)" using scan_succeeds [OF assms(1), of x] Cons.prems by auto
  then show ?case using Cons by simp
qed simp

lemma entry_of_row:
  assumes inv: "catalog_inv db" and x: "(v, i, r) \<in> set (version_join db)"
  shows "avPublishedAt (entry_of (v, i, r)) = vrPublishedAt v" "acAgentID (avCard (entry_of (v, i, r))) = vrAgentID v"
    "acVersion (avCard (entry_of (v, i, r))) = vrVersion v"
proof -
  obtain e owner where e: "scanVersion (v, i, r) = Inr (e, owner)" using scan_succeeds [OF inv x] by auto
  have "stored_version v" using inv version_join_in [OF x] by (auto simp: catalog_inv_def base_defs list_all_iff)
  then show "avPublishedAt (entry_of (v, i, r)) = vrPublishedAt v" "acAgentID (avCard (entry_of (v, i, r))) = vrAgentID v"
    "acVersion (avCard (entry_of (v, i, r))) = vrVersion v"
    using e by (auto simp: entry_of_def scanVersion_def stored_version_def version_key_def split: if_splits)
qed

section \<open>Pages\<close>

lemma discover_page:
  assumes inv: "catalog_inv db" and limit: "1 \<le> dfLimit fl" and env: "deCall env 0"
  shows "discover lower env db fl snapshot p =
    Inr (map_prod (map entry_of) id (page_of (\<lambda>(v, _). discovery_key v) (\<lambda>p (v, _). discovery_after p v) (nat (dfLimit fl))
      (matching lower db fl snapshot) p))"
proof -
  let ?rows = "filter (\<lambda>(v, i, r). discovery_matches lower db fl snapshot (v, i, r) \<and> discovery_after p v) (version_join db)"
  have rows: "?rows = filter (\<lambda>(v, _). discovery_after p v) (matching lower db fl snapshot)"
    unfolding matching_def filter_filter by (rule filter_cong) auto
  have n: "nat (dfLimit fl + 1) = Suc (nat (dfLimit fl))" using limit by simp
  have "set (take (Suc (nat (dfLimit fl))) (sort_key (\<lambda>(v, _). discovery_key v) ?rows)) \<subseteq> set (version_join db)"
    by (auto dest!: in_set_takeD)
  note scan = scan_all [OF inv this]
  show ?thesis
    unfolding discover_def n scan
    using limit env by (auto simp: sql_def page_of_def Let_def rows [symmetric] entry_of_def min_def take_map o_def)
qed

lemma join_keys: "distinct (map version_key (cdVersions db)) \<Longrightarrow> distinct (map (\<lambda>(v, _). version_key v) (version_join db))"
proof -
  have sub: "set (map (\<lambda>(v, _). version_key v) (List.map_filter f vs)) \<subseteq> version_key ` set vs"
    and "distinct (map version_key vs) \<Longrightarrow> distinct (map (\<lambda>(v, _). version_key v) (List.map_filter f vs))"
    if f: "\<And>v x. f v = Some x \<Longrightarrow> fst x = v" for f :: "version_row \<Rightarrow> discovery_row option" and vs
  proof -
    show s: "set (map (\<lambda>(v, _). version_key v) (List.map_filter f vs)) \<subseteq> version_key ` set vs" for vs
      using f by (force simp: set_map_filter)
    show "distinct (map version_key vs) \<Longrightarrow> distinct (map (\<lambda>(v, _). version_key v) (List.map_filter f vs))"
    proof (induction vs)
      case (Cons v vs)
      then show ?case using s [of vs] f [of v] by (cases "f v") (auto simp: List.map_filter_simps(1) split: prod.splits)
    qed (simp add: List.map_filter_def)
  qed
  then show "distinct (map version_key (cdVersions db)) \<Longrightarrow> distinct (map (\<lambda>(v, _). version_key v) (version_join db))"
    unfolding version_join_def by force
qed

lemma matching_ok:
  assumes inv: "catalog_inv db"
  shows "list_all published_row (matching lower db fl snapshot)"
    and "distinct (map (\<lambda>(v, _). discovery_key v) (matching lower db fl snapshot))"
proof -
  have "vrPublishedAt v \<noteq> None \<and> stored_version v" if "(v, i, r) \<in> set (version_join db)" "vrStatus v = ''published''" for v i r
    using that inv version_join_in [OF that(1)]
    by (auto simp: catalog_inv_def base_defs list_all_iff version_checks_def version_state_timestamps_def)
  then show "list_all published_row (matching lower db fl snapshot)"
    by (auto simp: list_all_iff matching_def published_row_def discovery_matches_def)
  have "distinct (map (\<lambda>(v, _). version_key v) (matching lower db fl snapshot))"
    using join_keys inv by (auto simp: matching_def catalog_inv_def base_defs distinct_map_filter)
  then show "distinct (map (\<lambda>(v, _). discovery_key v) (matching lower db fl snapshot))"
    by (rule distinct_finer) (auto simp: discovery_key_def version_key_def split: prod.splits)
qed

section \<open>Cursors\<close>

text \<open>What the standard library promises for the cursor at a row: the payload comes back from its text, and the
  hash of the filter is the hexadecimal text of thirty-two bytes.\<close>

definition search_cursor :: "cursor_codec \<Rightarrow> discovery_filter \<Rightarrow> int \<Rightarrow> discovery_row \<Rightarrow> cursor_payload" where
  "search_cursor codec fl snapshot x =
     \<lparr>cpVersion = 1, cpFilterHash = ccHash codec fl, cpSnapshot = snapshot, cpPosition = row_position x\<rparr>"

definition search_roundtrip :: "cursor_codec \<Rightarrow> discovery_filter \<Rightarrow> int \<Rightarrow> discovery_row \<Rightarrow> bool" where
  "search_roundtrip codec fl snapshot x \<longleftrightarrow>
     ccDecode codec (ccEncode codec (search_cursor codec fl snapshot x)) = Some (search_cursor codec fl snapshot x) \<and>
     (case hex_DecodeString (ccHash codec fl) of None \<Rightarrow> False | Some bytes \<Rightarrow> length bytes = 32)"

lemma search_decodes:
  assumes "search_roundtrip codec fl snapshot x" "0 \<le> snapshot" "\<not> time_IsZero (dpPublishedAt (row_position x))"
    "ValidIdentifier (dpAgentID (row_position x))" "clStrict lib (dpVersion (row_position x))"
  shows "DecodeCursor lib codec (EncodeCursor codec fl snapshot (row_position x)) fl = Inr (snapshot, row_position x)"
  using assms by (auto simp: search_roundtrip_def search_cursor_def EncodeCursor_def DecodeCursor_def split: option.splits)

lemma search_answer:
  assumes inv: "catalog_inv db" and fl: "NormalizeDiscoveryFilter query = Inr fl" and limit: "1 \<le> dfLimit fl"
  shows "buildSearchResult codec origin fl snapshot (map_prod (map entry_of) id
      (page_of (\<lambda>(v, _). discovery_key v) (\<lambda>p (v, _). discovery_after p v) (nat (dfLimit fl)) (matching lower db fl snapshot) p)) =
    Inr (discovery.answer (nat (dfLimit fl)) (matching lower db fl snapshot) (catalogEntry origin \<circ> entry_of)
      (EncodeCursor codec fl snapshot) p)"
proof -
  let ?rows = "matching lower db fl snapshot" let ?sel = "filter (\<lambda>(v, _). discovery_after p v) ?rows"
  obtain items more' where pg: "page_of (\<lambda>(v, _). discovery_key v) (\<lambda>p (v, _). discovery_after p v) (nat (dfLimit fl)) ?rows p = (items, more')"
    by force
  have "set items \<subseteq> set ?rows" "length items = min (nat (dfLimit fl)) (length ?sel)" "more' \<longleftrightarrow> nat (dfLimit fl) < length ?sel"
    using pg by (auto simp: page_of_def Let_def dest!: in_set_takeD)
  then have sub: "set items \<subseteq> set ?rows" "more' \<Longrightarrow> items \<noteq> []" using limit by auto
  show ?thesis
  proof (cases more')
    case True
    obtain v i r where l: "last items = (v, i, r)" by (cases "last items") auto
    have "(v, i, r) \<in> set ?rows" using sub True last_in_set [of items] l by auto
    then have "(v, i, r) \<in> set (version_join db)" "published_row (v, i, r)"
      using matching_ok(1) [OF inv, of lower fl snapshot] by (auto simp: matching_def list_all_iff)
    then obtain t where "vrPublishedAt v = Some t" "avPublishedAt (entry_of (v, i, r)) = Some t"
        "acAgentID (avCard (entry_of (v, i, r))) = vrAgentID v" "acVersion (avCard (entry_of (v, i, r))) = vrVersion v"
      using entry_of_row [OF inv] by (auto simp: published_row_def)
    moreover from this have "row_position (v, i, r) = \<lparr>dpPublishedAt = t, dpAgentID = vrAgentID v, dpVersion = vrVersion v\<rparr>"
      by (simp add: row_position_def)
    ultimately show ?thesis
      using True sub(2) l pg by (simp add: buildSearchResult_def discovery.answer_def Let_def last_map)
  next
    case False
    then show ?thesis using pg by (simp add: buildSearchResult_def discovery.answer_def Let_def)
  qed
qed

section \<open>The search\<close>

text \<open>C29: Discovery is complete. While the tables do not change and the database works, for rows with a publication time after the
  zero time, a version that the semantic version library accepts and a cursor that its encoding gives back, a client who searches and follows the cursors
  reaches an end, without error, after no more pages than there are matches plus one, and has then seen
  every published version that matches the filter exactly once, the latest publication first, whatever the
  page size.\<close>

theorem discovery_complete:
  assumes run: "catalog_run lib urls service h" and d: "d \<in> set h" "\<And>n. cwDb w n = d" and env: "\<And>n. cwEnv w n = db_healthy"
    and fl: "NormalizeDiscoveryFilter query = Inr fl"
    and rows: "\<And>x. x \<in> set (matching lower d fl (cdClock d)) \<Longrightarrow> search_roundtrip codec fl (cdClock d) x \<and>
      \<not> time_IsZero (dpPublishedAt (row_position x)) \<and> clStrict lib (dpVersion (row_position x))"
  shows "\<exists>entries. follow (\<lambda>c. Search lib codec lower origin w (query\<lparr>sqCursor := c\<rparr>)) (Suc (length (matching lower d fl (cdClock d)))) None =
      Some (Inr entries) \<and>
    map (\<lambda>e. (acAgentID (ceCard e), acVersion (ceCard e))) entries =
      map (\<lambda>(v, _). version_key v) (sort_key (\<lambda>(v, _). discovery_key v) (matching lower d fl (cdClock d)))"
proof -
  let ?rows = "matching lower d fl (cdClock d)" let ?g = "catalogEntry origin \<circ> entry_of"
  let ?answer = "discovery.answer (nat (dfLimit fl)) ?rows ?g (EncodeCursor codec fl (cdClock d))"
  let ?f = "\<lambda>c. Search lib codec lower origin w (query\<lparr>sqCursor := c\<rparr>)"
  have inv: "catalog_inv d" using run_sound [OF run] d(1) by blast
  have clock: "0 \<le> cdClock d" by (rule run_clock [OF run d(1)])
  have fl': "NormalizeDiscoveryFilter (query\<lparr>sqCursor := c\<rparr>) = Inr fl" for c using fl by (simp add: NormalizeDiscoveryFilter_def)
  have limit: "1 \<le> dfLimit fl" using fl by (auto simp: NormalizeDiscoveryFilter_def Let_def split: option.splits if_splits)
  note page = discover_page [OF inv limit, of db_healthy lower "cdClock d"] search_answer [OF inv fl limit, of codec origin "cdClock d" lower]
  have first: "?f None = Inr (?answer None)"
    by (simp add: Search_def fl' DiscoverFirstPage_def run_tx_def d(2) env page)
  have ids: "ValidIdentifier (dpAgentID (row_position x))" if "x \<in> set ?rows" for x
  proof -
    obtain v i r where x: "x = (v, i, r)" by (cases x) auto
    then have "v \<in> set (cdVersions d)" using that version_join_in by (fastforce simp: matching_def)
    then show ?thesis using inv by (auto simp: x row_position_def catalog_inv_def base_defs list_all_iff version_checks_def ValidIdentifier_def)
  qed
  have rest: "?f (Some (EncodeCursor codec fl (cdClock d) (row_position x))) = Inr (?answer (Some (row_position x)))" if x: "x \<in> set ?rows" for x
    using search_decodes [of codec fl "cdClock d" x lib] rows [OF x] ids [OF x] clock by (simp add: Search_def fl' d(2) env page)
  have "follow ?f (Suc (length ?rows)) None = Some (Inr (map ?g (sort_key (\<lambda>(v, _). discovery_key v) ?rows)))"
    by (rule discovery.follow_complete [OF matching_ok [OF inv] _ rest first]) (use limit in simp)
  moreover have "acAgentID (ceCard (?g x)) = vrAgentID (fst x) \<and> acVersion (ceCard (?g x)) = vrVersion (fst x)" if "x \<in> set ?rows" for x
  proof -
    obtain v i r where x: "x = (v, i, r)" by (cases x) auto
    then have "(v, i, r) \<in> set (version_join d)" using that by (simp add: matching_def)
    then show ?thesis using entry_of_row [OF inv] by (simp add: x catalogEntry_def CatalogEntry_def)
  qed
  then have "map (\<lambda>e. (acAgentID (ceCard e), acVersion (ceCard e))) (map ?g (sort_key (\<lambda>(v, _). discovery_key v) ?rows)) =
      map (\<lambda>(v, _). version_key v) (sort_key (\<lambda>(v, _). discovery_key v) ?rows)"
    by (auto simp: version_key_def split: prod.splits)
  ultimately show ?thesis by blast
qed

text \<open>A run that publishes a version without a Release, and a search for everything.\<close>

definition demo_listed_row :: version_row where
  "demo_listed_row = demo_version ''published'' (Some 5000) (Some 1)"

definition demo_listed :: catalog_db where
  "demo_listed = demo_registered\<lparr>cdVersions := [demo_listed_row], cdClock := 1\<rparr>"

definition demo_query :: search_query where
  "demo_query = \<lparr>sqQuery = None, sqCapability = None, sqOwnerID = None, sqLimit = Some 1, sqCursor = None\<rparr>"

definition demo_filter :: discovery_filter where
  "demo_filter = \<lparr>dfQuery = None, dfCapability = None, dfOwnerID = None, dfLimit = 1\<rparr>"

definition demo_search_codec :: cursor_codec where
  "demo_search_codec = \<lparr>ccEncode = (\<lambda>_. ''c''), ccDecode = (\<lambda>_. Some \<lparr>cpVersion = 1, cpFilterHash = replicate 64 CHR ''0'', cpSnapshot = 1,
     cpPosition = \<lparr>dpPublishedAt = 5000, dpAgentID = ''echo'', dpVersion = ''1.0.0''\<rparr>\<rparr>), ccHash = (\<lambda>_. replicate 64 CHR ''0'')\<rparr>"

lemma demo_listed_time [simp]: "timestamptz 5000 = 5000" "\<not> time_IsZero 5000"
  by code_simp+

lemma demo_listed_run: "catalog_run demo_lib demo_urls demo_service [demo_listed, demo_registered, empty_catalog]"
proof -
  let ?w = "(demo_world demo_registered [])\<lparr>cwNow := \<lambda>_. 5000\<rparr>"
  have "snd (service_transition demo_lib [] ?w ''alice'' ''echo'' ''1.0.0'' True) = Some demo_listed"
    by (simp add: service_transition_def validAgentVersionIdentity_def ValidIdentifier_def store_transition_def transition_body_def
        query_row_def version_join_def List.map_filter_def version_key_def scanVersion_def update_version_def publish_row_def advance_clock_def
        version_checks_def version_state_timestamps_def demo_listed_def demo_listed_row_def demo_defs Let_def)
  then obtain r where "service_transition demo_lib [] ?w ''alice'' ''echo'' ''1.0.0'' True = (r, Some demo_listed)" by (metis prod.collapse)
  moreover have "catalog_run demo_lib demo_urls demo_service [demo_registered, empty_catalog]"
    by (rule run_step [OF run_start]) (use step_Register [OF demo_Register] in \<open>simp add: demo_world_def\<close>)
  ultimately show ?thesis by (auto intro: run_step dest!: step_transition simp: demo_world_def)
qed

theorem discovery_complete_witness:
  "\<exists>entries. follow (\<lambda>c. Search demo_lib demo_search_codec id [] (demo_world demo_listed []) (demo_query\<lparr>sqCursor := c\<rparr>)) 2 None =
     Some (Inr entries) \<and> map (\<lambda>e. (acAgentID (ceCard e), acVersion (ceCard e))) entries = [(''echo'', ''1.0.0'')]"
proof -
  let ?x = "(demo_listed_row, demo_identity None, None)"
  have rows: "matching id demo_listed demo_filter 1 = [?x]"
    by (simp add: matching_def version_join_def List.map_filter_def discovery_matches_def demo_filter_def demo_listed_def demo_listed_row_def
        demo_defs)
  have fl: "NormalizeDiscoveryFilter demo_query = Inr demo_filter"
    by (simp add: NormalizeDiscoveryFilter_def demo_query_def demo_filter_def)
  have pos: "row_position ?x = \<lparr>dpPublishedAt = 5000, dpAgentID = ''echo'', dpVersion = ''1.0.0''\<rparr>"
    by (simp add: row_position_def demo_listed_row_def demo_version_def)
  have hash: "case hex_DecodeString (replicate 64 CHR ''0'') of None \<Rightarrow> False | Some bytes \<Rightarrow> length bytes = 32" by code_simp
  have codec: "search_roundtrip demo_search_codec demo_filter 1 ?x"
    using hash by (simp add: search_roundtrip_def search_cursor_def demo_search_codec_def pos)
  have world: "cwDb (demo_world demo_listed []) n = demo_listed" "cwEnv (demo_world demo_listed []) n = db_healthy" for n
    by (simp_all add: demo_world_def)
  have listed: "demo_listed \<in> set [demo_listed, demo_registered, empty_catalog]" by simp
  have "cdClock demo_listed = 1" "clStrict demo_lib v" "version_key demo_listed_row = (''echo'', ''1.0.0'')" for v
    by (simp_all add: demo_listed_def demo_lib_def demo_listed_row_def demo_version_def version_key_def)
  then show ?thesis
    using discovery_complete [OF demo_listed_run listed world fl, of id demo_search_codec "[]"] codec pos
    by (simp add: rows numeral_2_eq_2 del: follow.simps)
qed

end
