(* ===== verification/Workspace_Listing.thy ===== *)
theory Workspace_Listing
  imports Workspace_Demo
begin

text \<open>
  The list of a Workspace's Installations provides the interface of paged listings: an owner who follows the
  cursors of \<^verbatim>\<open>ListInstallations\<close> sees every Installation once, in the order of installation.
\<close>

definition installation_cursor_position :: "installation \<Rightarrow> installation_position" where
  "installation_cursor_position i = \<lparr>ipInstalledAt = inInstalledAt i, ipInstallationID = inInstallationID i\<rparr>"

interpretation installations: keyset_listing installation_order installation_after installation_cursor_position stored_times
  by unfold_locales
    (auto simp: installation_after_def installation_order_def installation_cursor_position_def stored_times_def less_prod_def)

section \<open>The cursor\<close>

text \<open>What the standard library promises for one payload: its JSON text in base64 decodes to the same payload, and
  the tokens of the text are the members of the structure in their order. The time appears as the string
  \<^verbatim>\<open>time.Time\<close> is written as.\<close>

definition cursor_tokens :: "installation_cursor \<Rightarrow> string \<Rightarrow> json_token list" where
  "cursor_tokens c time_text =
     [TokObj, TokString ''version'', TokScalar, TokString ''workspaceId'', TokString (icWorkspaceID c), TokString ''limit'', TokScalar,
      TokString ''installedAt'', TokString time_text, TokString ''installationId'', TokString (icInstallationID c), TokObjEnd]"

definition cursor_roundtrip :: "installation_codec \<Rightarrow> installation_cursor \<Rightarrow> bool" where
  "cursor_roundtrip codec c \<longleftrightarrow>
     (case icEncode codec c of None \<Rightarrow> False
      | Some s \<Rightarrow> s \<noteq> [] \<and>
        (case icDecode codec s of None \<Rightarrow> False
         | Some data \<Rightarrow> ctPayload data = Some c \<and> (\<exists>time_text. ctTokens data = cursor_tokens c time_text)))"

definition row_cursor :: "int \<Rightarrow> installation \<Rightarrow> installation_cursor" where
  "row_cursor limit i = \<lparr>icVersion = 1, icWorkspaceID = inWorkspaceID i, icLimit = limit, icInstalledAt = inInstalledAt i,
     icInstallationID = inInstallationID i\<rparr>"

text \<open>The structure's member names are distinct, so the scan for duplicates accepts them.\<close>

lemma cursor_members_accepted [simp]: "rejectDuplicateInstallationCursorMembers (cursor_tokens c time_text)"
  by (simp add: rejectDuplicateInstallationCursorMembers_def cursor_tokens_def)

lemma cursor_decodes:
  assumes rt: "cursor_roundtrip codec (row_cursor limit i)" and ids: "ValidIdentifier (inWorkspaceID i)" "ValidIdentifier (inInstallationID i)"
    and limit: "1 \<le> limit" "limit \<le> 100" and t: "\<not> time_IsZero (inInstalledAt i)"
  obtains s where "EncodeInstallationCursor codec (inWorkspaceID i) limit (installation_cursor_position i) = Inr s"
    "DecodeInstallationCursor codec s (inWorkspaceID i) limit = Inr (installation_cursor_position i)"
proof -
  obtain s data tt where s: "icEncode codec (row_cursor limit i) = Some s" "s \<noteq> []" "icDecode codec s = Some data"
    "ctPayload data = Some (row_cursor limit i)" "ctTokens data = cursor_tokens (row_cursor limit i) tt"
    using rt by (auto simp: cursor_roundtrip_def split: option.splits)
  show ?thesis
  proof (rule that [of s])
    show "EncodeInstallationCursor codec (inWorkspaceID i) limit (installation_cursor_position i) = Inr s"
      using s(1) ids limit t by (simp add: EncodeInstallationCursor_def installation_cursor_position_def row_cursor_def)
    show "DecodeInstallationCursor codec s (inWorkspaceID i) limit = Inr (installation_cursor_position i)"
      using s ids limit t by (simp add: DecodeInstallationCursor_def installation_cursor_position_def row_cursor_def)
  qed
qed

section \<open>The listing\<close>

definition cursor_of :: "installation_codec \<Rightarrow> string \<Rightarrow> int \<Rightarrow> installation_position \<Rightarrow> string" where
  "cursor_of codec ws limit p = (case EncodeInstallationCursor codec ws limit p of Inr s \<Rightarrow> s | Inl _ \<Rightarrow> [])"

lemma list_page:
  assumes "1 \<le> limit" "deCall env 0"
  shows "store_ListInstallations env d ws limit p =
    Inr (page_of installation_order installation_after (nat limit) (filter (\<lambda>i. inWorkspaceID i = ws) (wdInstallations d)) p)"
proof -
  have "nat (limit + 1) = Suc (nat limit)" using assms(1) by simp
  moreover have "(\<lambda>i. inWorkspaceID i = ws \<and> installation_after p i) = (\<lambda>i. installation_after p i \<and> inWorkspaceID i = ws)" by auto
  ultimately show ?thesis
    using assms by (auto simp: store_ListInstallations_def page_of_def Let_def sql_def min_def)
qed

text \<open>One page of the service is one answer of the interface.\<close>

lemma list_answer:
  assumes own: "owned w caller ws = Inr x" and ids: "ValidIdentifier ws" "ValidIdentifier caller" and limit: "1 \<le> limit" "limit \<le> 100"
    and w: "wwDb w 1 = d" "deCall (wwEnv w 1) 0"
    and c: "case cursor of None \<Rightarrow> p = None | Some s \<Rightarrow> (\<exists>q. p = Some q \<and> DecodeInstallationCursor codec s ws limit = Inr q)"
    and enc: "\<And>i. i \<in> set (wdInstallations d) \<Longrightarrow> inWorkspaceID i = ws \<Longrightarrow>
      \<exists>s. EncodeInstallationCursor codec ws limit (installation_cursor_position i) = Inr s"
  shows "ListInstallations codec w caller ws limit cursor =
    Inr (installations.answer (nat limit) (filter (\<lambda>i. inWorkspaceID i = ws) (wdInstallations d)) id (cursor_of codec ws limit) p)"
proof -
  let ?rows = "filter (\<lambda>i. inWorkspaceID i = ws) (wdInstallations d)"
  obtain items more' where pg: "page_of installation_order installation_after (nat limit) ?rows p = (items, more')" by force
  have "set items \<subseteq> set ?rows" "length items = min (nat limit) (length (filter (installation_after p) ?rows))"
    "more' \<longleftrightarrow> nat limit < length (filter (installation_after p) ?rows)"
    using pg by (auto simp: page_of_def Let_def dest!: in_set_takeD)
  then have sub: "set items \<subseteq> set ?rows" "more' \<Longrightarrow> items \<noteq> []" using limit by auto
  have "ListInstallations codec w caller ws limit cursor =
      (if more' \<and> items \<noteq> [] then
        (case EncodeInstallationCursor codec ws limit (installation_cursor_position (last items)) of
           Inl _ \<Rightarrow> Inl [WsErrDependency] | Inr s \<Rightarrow> Inr (items, Some s))
       else Inr (items, None))"
    using c limit ids own list_page [OF limit(1) w(2), of d ws p] pg w(1)
    by (cases cursor) (auto simp: ListInstallations_def installation_cursor_position_def)
  moreover have "\<exists>s. EncodeInstallationCursor codec ws limit (installation_cursor_position (last items)) = Inr s" if "more'"
  proof -
    have "last items \<in> set ?rows" using sub that last_in_set [of items] by blast
    then show ?thesis using enc [of "last items"] by simp
  qed
  ultimately show ?thesis using pg sub(2) by (auto simp: installations.answer_def cursor_of_def)
qed

text \<open>C30: The list of Installations is complete. While the tables do not change and the reads do not fail, for Installations made after the
  zero time whose cursor the encoding gives back, the owner who asks for the
  first page and follows the cursors reaches an end, without error, after no more pages than there are
  Installations plus one, and has then seen every Installation of the Workspace exactly once, in the order
  of installation, whatever the page size.\<close>

theorem installation_listing_complete:
  assumes run: "platform_run lib urls service hc hw" and d: "d \<in> set hw" "\<And>n. wwDb w n = d" "\<And>n. deCall (wwEnv w n) 0"
    and own: "owned w caller ws = Inr x" and ids: "ValidIdentifier ws" "ValidIdentifier caller" and limit: "1 \<le> limit" "limit \<le> 100"
    and codec: "\<And>i. i \<in> set (wdInstallations d) \<Longrightarrow> cursor_roundtrip codec (row_cursor limit i) \<and> \<not> time_IsZero (inInstalledAt i)"
  shows "follow (ListInstallations codec w caller ws limit) (Suc (length (filter (\<lambda>i. inWorkspaceID i = ws) (wdInstallations d)))) None =
    Some (Inr (sort_key installation_order (filter (\<lambda>i. inWorkspaceID i = ws) (wdInstallations d))))"
proof -
  let ?rows = "filter (\<lambda>i. inWorkspaceID i = ws) (wdInstallations d)"
  have inv: "workspace_inv lib d" using platform_sound [OF run] d(1) by blast
  then have st: "list_all stored_times ?rows" by (auto simp: workspace_inv_def list_all_iff)
  have "distinct (map inInstallationID ?rows)" using inv by (simp add: workspace_inv_def distinct_map_filter)
  then have dist: "distinct (map installation_order ?rows)"
    by (auto simp: distinct_map inj_on_def installation_order_def)
  have dec: "\<exists>s. EncodeInstallationCursor codec ws limit (installation_cursor_position i) = Inr s \<and>
      DecodeInstallationCursor codec s ws limit = Inr (installation_cursor_position i)"
    if i: "i \<in> set (wdInstallations d)" "inWorkspaceID i = ws" for i
  proof -
    have "ValidIdentifier (inInstallationID i)" using inv i(1)
      by (auto simp: workspace_inv_def list_all_iff installation_checks_def ValidIdentifier_def)
    then obtain s where "EncodeInstallationCursor codec (inWorkspaceID i) limit (installation_cursor_position i) = Inr s"
      "DecodeInstallationCursor codec s (inWorkspaceID i) limit = Inr (installation_cursor_position i)"
      using cursor_decodes codec [OF i(1)] ids(1) i(2) limit by metis
    then show ?thesis using i(2) by auto
  qed
  have page: "ListInstallations codec w caller ws limit cursor = Inr (installations.answer (nat limit) ?rows id (cursor_of codec ws limit) p)"
    if "case cursor of None \<Rightarrow> p = None | Some s \<Rightarrow> (\<exists>q. p = Some q \<and> DecodeInstallationCursor codec s ws limit = Inr q)" for cursor p
    by (rule list_answer [OF own ids limit d(2,3) that]) (use dec in blast)
  have "follow (ListInstallations codec w caller ws limit) (Suc (length ?rows)) None = Some (Inr (map id (sort_key installation_order ?rows)))"
  proof (rule installations.follow_complete [OF st dist])
    show "0 < nat limit" using limit by simp
    show "ListInstallations codec w caller ws limit None = Inr (installations.answer (nat limit) ?rows id (cursor_of codec ws limit) None)"
      by (rule page) simp
    show "ListInstallations codec w caller ws limit (Some (cursor_of codec ws limit (installation_cursor_position r))) =
        Inr (installations.answer (nat limit) ?rows id (cursor_of codec ws limit) (Some (installation_cursor_position r)))"
      if "r \<in> set ?rows" for r
      by (rule page) (use dec [of r] that in \<open>auto simp: cursor_of_def\<close>)
  qed
  then show ?thesis by simp
qed

text \<open>A codec that knows one payload.\<close>

definition demo_codec :: installation_codec where
  "demo_codec = \<lparr>icEncode = (\<lambda>_. Some ''c''),
     icDecode = (\<lambda>_. let c = row_cursor 1 (demo_installation ''enabled'' 5000) in
       Some \<lparr>ctTokens = cursor_tokens c ''0001-01-01T00:00:00.000005Z'', ctPayload = Some c\<rparr>)\<rparr>"

theorem installation_listing_complete_witness:
  "follow (ListInstallations demo_codec (demo_calls demo_installed) ''bob'' ''main'' 1) 2 None = Some (Inr [demo_installation ''enabled'' 5000])"
proof -
  have rows: "filter (\<lambda>i. inWorkspaceID i = ''main'') [demo_installation ''enabled'' 5000] = [demo_installation ''enabled'' 5000]"
    "wdInstallations demo_installed = [demo_installation ''enabled'' 5000]"
    by (simp_all add: demo_installed_def demo_installation_def)
  have codec: "cursor_roundtrip demo_codec (row_cursor 1 (demo_installation ''enabled'' 5000))"
    by (auto simp: cursor_roundtrip_def demo_codec_def Let_def)
  have world: "wwDb (demo_calls demo_installed) n = demo_installed" "deCall (wwEnv (demo_calls demo_installed) n) 0" for n
    by (simp_all add: demo_calls_def)
  have own: "owned (demo_calls demo_installed) ''bob'' ''main'' = Inr demo_space"
    by (simp add: owned_iff demo_calls_def demo_installed_def demo_space_def)
  have "demo_installed \<in> set [demo_paused, demo_installed, demo_created, empty_workspaces]" by simp
  moreover have "ValidIdentifier ''main''" "ValidIdentifier ''bob''" by (simp_all add: ValidIdentifier_def)
  moreover have "\<not> time_IsZero (inInstalledAt (demo_installation ''enabled'' 5000))" by (simp add: demo_installation_def)
  ultimately show ?thesis
    using installation_listing_complete [OF demo_platform _ world own, of 1 demo_codec] codec
    by (simp add: rows numeral_2_eq_2 del: follow.simps filter.simps)
qed

end
