(* ===== verification/Json_Scan.thy ===== *)
theory Json_Scan
  imports Json_Text
begin

text \<open>
  The recursive scan of the contracts package that refuses duplicate member names
  (\<^verbatim>\<open>rejectDuplicateJSONMemberNames\<close> and \<^verbatim>\<open>scanJSONValue\<close> in \<^verbatim>\<open>agent_card_semantics.go\<close>, \<^verbatim>\<open>requireJSONEOF\<close> in \<^verbatim>\<open>validate.go\<close>).
  It guards every contract document the platform decodes. The recursion follows the decoder, so it is
  modelled with fuel: no result is a scan that ran out of it.
\<close>

section \<open>The scan\<close>

datatype scan_error = ScanEOF | ScanSyntax | ScanName | ScanDuplicate string | ScanClosing | ScanDelimiter | ScanTrailing

text \<open>\<^verbatim>\<open>decoder.More\<close>: there is a next token and it does not close.\<close>

definition decoder_More :: "json_token list \<Rightarrow> bool" where
  "decoder_More ts \<longleftrightarrow> (case ts of [] \<Rightarrow> False | t # _ \<Rightarrow> t \<noteq> TokObjEnd \<and> t \<noteq> TokArrEnd)"

text \<open>\<^verbatim>\<open>decoder.Token\<close>: the next token and the rest of the stream.\<close>

definition decoder_Token :: "json_token list \<Rightarrow> (scan_error, json_token \<times> json_token list) result" where
  "decoder_Token ts = (case ts of [] \<Rightarrow> Inl ScanEOF | TokError # _ \<Rightarrow> Inl ScanSyntax | t # rest \<Rightarrow> Inr (t, rest))"

definition close_with :: "json_token \<Rightarrow> json_token list \<Rightarrow> (scan_error, json_token list) result" where
  "close_with delim ts = rbind (decoder_Token ts) (\<lambda>(t, rest). if t \<noteq> delim then Inl ScanClosing else Inr rest)"

fun scanJSONValue :: "nat \<Rightarrow> json_token list \<Rightarrow> (scan_error, json_token list) result option"
  and scan_members :: "nat \<Rightarrow> string list \<Rightarrow> json_token list \<Rightarrow> (scan_error, json_token list) result option"
  and scan_elements :: "nat \<Rightarrow> json_token list \<Rightarrow> (scan_error, json_token list) result option" where
  "scanJSONValue 0 ts = None" |
  "scanJSONValue (Suc n) ts =
     (case decoder_Token ts of
        Inl err \<Rightarrow> Some (Inl err)
      | Inr (TokObj, rest) \<Rightarrow> scan_members n [] rest
      | Inr (TokArr, rest) \<Rightarrow> scan_elements n rest
      | Inr (TokObjEnd, _) \<Rightarrow> Some (Inl ScanDelimiter)
      | Inr (TokArrEnd, _) \<Rightarrow> Some (Inl ScanDelimiter)
      | Inr (_, rest) \<Rightarrow> Some (Inr rest))" |
  "scan_members 0 members ts = None" |
  "scan_members (Suc n) members ts =
     (if \<not> decoder_More ts then Some (close_with TokObjEnd ts)
      else case decoder_Token ts of
        Inl err \<Rightarrow> Some (Inl err)
      | Inr (TokString name, rest) \<Rightarrow>
        if name \<in> set members then Some (Inl (ScanDuplicate name))
        else (case scanJSONValue n rest of
           None \<Rightarrow> None
         | Some (Inl err) \<Rightarrow> Some (Inl err)
         | Some (Inr rest') \<Rightarrow> scan_members n (name # members) rest')
      | Inr (_, _) \<Rightarrow> Some (Inl ScanName))" |
  "scan_elements 0 ts = None" |
  "scan_elements (Suc n) ts =
     (if \<not> decoder_More ts then Some (close_with TokArrEnd ts)
      else case scanJSONValue n ts of
        None \<Rightarrow> None
      | Some (Inl err) \<Rightarrow> Some (Inl err)
      | Some (Inr rest) \<Rightarrow> scan_elements n rest)"

text \<open>Decoding a further value must report the end of the text. Whatever else follows is an error: a
  value, or something that is none.\<close>

definition requireJSONEOF :: "json_token list \<Rightarrow> (scan_error, unit) result" where
  "requireJSONEOF ts = (if ts = [] then Inr () else Inl ScanTrailing)"

text \<open>A value takes a token before it scans members or elements, and an array asks for the next element
  before it takes one: twice the number of tokens is enough fuel.\<close>

definition rejectDuplicateJSONMemberNames :: "json_token list \<Rightarrow> (scan_error, unit) result option" where
  "rejectDuplicateJSONMemberNames ts =
     (case scanJSONValue (2 * length ts + 1) ts of
        None \<Rightarrow> None
      | Some (Inl err) \<Rightarrow> Some (Inl err)
      | Some (Inr rest) \<Rightarrow> Some (requireJSONEOF rest))"

section \<open>The scan returns\<close>

lemma decoder_Token_Inr: "decoder_Token ts = Inr (t, rest) \<Longrightarrow> ts = t # rest"
  by (auto simp: decoder_Token_def split: list.splits json_token.splits)

lemma decoder_Token_cases:
  obtains err where "decoder_Token ts = Inl err"
  | t rest where "decoder_Token ts = Inr (t, rest)" "ts = t # rest"
  by (cases "decoder_Token ts") (auto dest: decoder_Token_Inr)

lemma close_with_shorter: "close_with delim ts = Inr rest \<Longrightarrow> length rest < length ts"
  by (cases ts rule: decoder_Token_cases) (auto simp: close_with_def split: if_splits)

lemma scan_shorter:
  "(scanJSONValue n ts = Some (Inr rest) \<longrightarrow> length rest < length ts) \<and>
   (scan_members n members ts = Some (Inr rest) \<longrightarrow> length rest < length ts) \<and>
   (scan_elements n ts = Some (Inr rest) \<longrightarrow> length rest < length ts)"
proof (induction n arbitrary: ts members rest)
  case (Suc n)
  note IH = Suc.IH [THEN conjunct1, rule_format] Suc.IH [THEN conjunct2, THEN conjunct1, rule_format]
    Suc.IH [THEN conjunct2, THEN conjunct2, rule_format]
  have "length rest < length ts" if "scanJSONValue (Suc n) ts = Some (Inr rest)"
  proof (cases ts rule: decoder_Token_cases)
    case (2 t left)
    then show ?thesis using that IH(2) [of "[]" left rest] IH(3) [of left rest] by (cases t) auto
  qed (use that in simp)
  moreover have "length rest < length ts" if m: "scan_members (Suc n) members ts = Some (Inr rest)"
  proof (cases ts rule: decoder_Token_cases)
    case (2 t left)
    show ?thesis
    proof (cases "decoder_More ts")
      case True
      then obtain name mid where "scanJSONValue n left = Some (Inr mid)" "scan_members n (name # members) mid = Some (Inr rest)"
        using m 2 by (cases t) (auto split: if_splits option.splits sum.splits)
      then show ?thesis using 2 IH(1) [of left mid] IH(2) [of "name # members" mid rest] by simp
    qed (use m close_with_shorter in simp)
  qed (use m close_with_shorter in \<open>simp split: if_splits\<close>)
  moreover have "length rest < length ts" if m: "scan_elements (Suc n) ts = Some (Inr rest)"
  proof (cases "decoder_More ts")
    case True
    then obtain mid where "scanJSONValue n ts = Some (Inr mid)" "scan_elements n mid = Some (Inr rest)"
      using m by (auto split: option.splits sum.splits)
    then show ?thesis using IH(1) [of ts mid] IH(3) [of mid rest] by simp
  qed (use m close_with_shorter in simp)
  ultimately show ?case by blast
qed simp

lemmas scan_value_shorter = scan_shorter [THEN conjunct1, rule_format]

lemma scan_returns:
  "(2 * length ts < n \<longrightarrow> scanJSONValue n ts \<noteq> None) \<and>
   (2 * length ts + 1 < n \<longrightarrow> scan_members n members ts \<noteq> None) \<and>
   (2 * length ts + 1 < n \<longrightarrow> scan_elements n ts \<noteq> None)"
proof (induction n arbitrary: ts members)
  case (Suc n)
  note IH = Suc.IH [THEN conjunct1, rule_format] Suc.IH [THEN conjunct2, THEN conjunct1, rule_format]
    Suc.IH [THEN conjunct2, THEN conjunct2, rule_format]
  have "scanJSONValue (Suc n) ts \<noteq> None" if "2 * length ts < Suc n"
  proof (cases ts rule: decoder_Token_cases)
    case (2 t left)
    then show ?thesis using that IH(2) [of left "[]"] IH(3) [of left] by (cases t) auto
  qed simp
  moreover have "scan_members (Suc n) members ts \<noteq> None" if m: "2 * length ts + 1 < Suc n"
  proof (cases ts rule: decoder_Token_cases)
    case (2 t left)
    have "scan_members n (name # members) mid \<noteq> None" if "scanJSONValue n left = Some (Inr mid)" for name mid
      using scan_value_shorter [OF that] m 2 IH(2) by simp
    then show ?thesis using m 2 IH(1) [of left] by (cases t) (auto split: option.splits sum.splits)
  qed simp
  moreover have "scan_elements (Suc n) ts \<noteq> None" if m: "2 * length ts + 1 < Suc n"
  proof -
    have "scan_elements n mid \<noteq> None" if "scanJSONValue n ts = Some (Inr mid)" for mid
      using scan_value_shorter [OF that] m IH(3) by simp
    then show ?thesis using m IH(1) [of ts] by (auto split: option.splits sum.splits)
  qed
  ultimately show ?case by blast
qed simp

lemmas scan_value_returns = scan_returns [THEN conjunct1, rule_format]

text \<open>More fuel does not change a result.\<close>

lemma scan_Suc:
  "(scanJSONValue n ts = Some r \<longrightarrow> scanJSONValue (Suc n) ts = Some r) \<and>
   (scan_members n members ts = Some r \<longrightarrow> scan_members (Suc n) members ts = Some r) \<and>
   (scan_elements n ts = Some r \<longrightarrow> scan_elements (Suc n) ts = Some r)"
proof (induction n arbitrary: ts members r)
  case (Suc n)
  note IH = Suc.IH [THEN conjunct1, rule_format] Suc.IH [THEN conjunct2, THEN conjunct1, rule_format]
    Suc.IH [THEN conjunct2, THEN conjunct2, rule_format]
  have "scanJSONValue (Suc (Suc n)) ts = Some r" if "scanJSONValue (Suc n) ts = Some r"
    using that IH(2,3) by (simp del: scan_members.simps scan_elements.simps split: sum.splits prod.splits json_token.splits)
  moreover have "scan_members (Suc (Suc n)) members ts = Some r" if m: "scan_members (Suc n) members ts = Some r"
    using m by (subst scan_members.simps, subst (asm) scan_members.simps)
      (auto simp del: scanJSONValue.simps scan_members.simps simp: IH split: if_splits sum.splits prod.splits json_token.splits option.splits)
  moreover have "scan_elements (Suc (Suc n)) ts = Some r" if m: "scan_elements (Suc n) ts = Some r"
    using m by (subst scan_elements.simps, subst (asm) scan_elements.simps)
      (auto simp del: scanJSONValue.simps scan_elements.simps simp: IH split: if_splits sum.splits option.splits)
  ultimately show ?case by blast
qed simp

lemma scan_more_fuel: "scanJSONValue n ts = Some r \<Longrightarrow> n \<le> m \<Longrightarrow> scanJSONValue m ts = Some r"
  by (induction m) (auto simp: le_Suc_eq simp del: scanJSONValue.simps dest: scan_Suc [THEN conjunct1, rule_format])

section \<open>What the scan accepts\<close>

text \<open>The result of a scan over a part of a document: the rest of the stream, or a duplicate name.\<close>

definition scanned :: "(scan_error, json_token list) result option \<Rightarrow> bool \<Rightarrow> json_token list \<Rightarrow> bool" where
  "scanned r good ts \<longleftrightarrow> (if good then r = Some (Inr ts) else \<exists>name. r = Some (Inl (ScanDuplicate name)))"

lemma more_tokens [simp]: "decoder_More (tokens v @ ts)" "decoder_More (TokString s # ts)"
  "\<not> decoder_More (TokObjEnd # ts)" "\<not> decoder_More (TokArrEnd # ts)"
  by (cases v) (simp_all add: decoder_More_def)

lemma tokens_nonempty: "\<exists>k. length (tokens v) = Suc k"
  by (cases v) simp_all

lemma next_token [simp]: "t \<noteq> TokError \<Longrightarrow> decoder_Token (t # ts) = Inr (t, ts)"
  by (cases t) (simp_all add: decoder_Token_def)

lemma close_tokens [simp]: "t \<noteq> TokError \<Longrightarrow> close_with t (t # ts) = Inr ts"
  by (simp add: close_with_def)

lemma scan_document:
  "2 * length (tokens v @ ts) < n \<Longrightarrow> scanned (scanJSONValue n (tokens v @ ts)) (unique_members v) ts"
  "2 * length (member_tokens ms @ TokObjEnd # ts) + 1 < n \<Longrightarrow>
     scanned (scan_members n names (member_tokens ms @ TokObjEnd # ts))
       (distinct (map fst ms) \<and> set names \<inter> set (map fst ms) = {} \<and> list_all (\<lambda>(k, v). unique_members v) ms) ts"
  "2 * length (element_tokens vs @ TokArrEnd # ts) + 1 < n \<Longrightarrow>
     scanned (scan_elements n (element_tokens vs @ TokArrEnd # ts)) (list_all unique_members vs) ts"
proof (induction v and ms and vs arbitrary: ts n and ts n names and ts n
    rule: tokens_member_tokens_element_tokens.induct)
  case (6 k v ms)
  then obtain m where m: "n = Suc m" by (cases n) auto
  let ?rest = "member_tokens ms @ TokObjEnd # ts"
  have "scanned (scanJSONValue m (tokens v @ ?rest)) (unique_members v) ?rest"
    "scanned (scan_members m (k # names) ?rest)
       (distinct (map fst ms) \<and> set (k # names) \<inter> set (map fst ms) = {} \<and> list_all (\<lambda>(k, v). unique_members v) ms) ts"
    by (rule "6.IH"(1), use "6.prems" m in simp) (rule "6.IH"(2), use "6.prems" m in simp)
  then show ?case using m by (auto simp: scanned_def split: if_splits)
next
  case (8 v vs)
  then obtain m where m: "n = Suc m" by (cases n) auto
  let ?rest = "element_tokens vs @ TokArrEnd # ts"
  have "scanned (scanJSONValue m (tokens v @ ?rest)) (unique_members v) ?rest"
    "scanned (scan_elements m ?rest) (list_all unique_members vs) ts"
    by (rule "8.IH"(1), use "8.prems" m in simp)
      (rule "8.IH"(2), use "8.prems" m tokens_nonempty [of v] in auto)
  then show ?case using m by (auto simp: scanned_def split: if_splits)
next
  case (3 vs)
  then show ?case by (cases n) simp_all
next
  case (4 ms)
  then show ?case using "4.IH" [where names = "[]"] by (cases n) simp_all
next
  case 1
  then show ?case by (cases n) (simp_all add: scanned_def)
next
  case (2 s)
  then show ?case by (cases n) (simp_all add: scanned_def)
next
  case 5
  then show ?case by (cases n) (simp_all add: scanned_def)
next
  case 7
  then show ?case by (cases n) (simp_all add: scanned_def)
qed

text \<open>C32: The duplicate-member scan of the contracts package returns on every token stream, whatever the
  nesting and wherever the stream breaks off: twice the number of tokens bounds its recursion, and a
  larger bound gives the same result.\<close>

theorem scan_terminates:
  "rejectDuplicateJSONMemberNames ts \<noteq> None \<and>
   (2 * length ts < n \<longrightarrow> scanJSONValue n ts = scanJSONValue (2 * length ts + 1) ts)"
proof -
  obtain r where r: "scanJSONValue (2 * length ts + 1) ts = Some r"
    using scan_value_returns [of ts "2 * length ts + 1"] by auto
  moreover have "scanJSONValue n ts = Some r" if "2 * length ts < n"
    by (rule scan_more_fuel [OF r]) (use that in simp)
  ultimately show ?thesis
    by (simp add: rejectDuplicateJSONMemberNames_def del: scanJSONValue.simps split: sum.split)
qed

theorem scan_terminates_witness:
  "scanJSONValue 20 [TokObj, TokString ''a'', TokArr, TokScalar] = Some (Inl ScanEOF)"
  using scan_terminates [of "[TokObj, TokString ''a'', TokArr, TokScalar]" 20]
  by (simp add: numeral_eq_Suc decoder_Token_def decoder_More_def close_with_def)

text \<open>The scan accepts a token stream that begins with a document exactly when the stream ends there
  and no object of the document, at whatever depth, has two members of one name. On a single document
  it therefore agrees with the scan the Router keeps of its own for invocation inputs.\<close>

theorem duplicate_scans_agree:
  "(rejectDuplicateJSONMemberNames (tokens v @ ts) = Some (Inr ()) \<longleftrightarrow> unique_members v \<and> ts = []) \<and>
   (rejectDuplicateJSONMemberNames (tokens v) = Some (Inr ()) \<longleftrightarrow> rejectDuplicateMembers (tokens v))"
proof -
  have "rejectDuplicateJSONMemberNames (tokens v @ ts) = Some (Inr ()) \<longleftrightarrow> unique_members v \<and> ts = []" for ts
    using scan_document(1) [of v ts "2 * length (tokens v @ ts) + 1"]
    by (auto simp: rejectDuplicateJSONMemberNames_def scanned_def requireJSONEOF_def simp del: scanJSONValue.simps split: if_splits)
  moreover have "rejectDuplicateMembers (tokens v) \<longleftrightarrow> unique_members v"
    using reject_loop_document(1) [of "[]" v "[]"]
    by (simp add: rejectDuplicateMembers_def value_position_def markValueConsumed_def)
  ultimately show ?thesis using append_Nil2 by metis
qed

end
