(* ===== verification/Spec2Isabelle.thy ===== *)
theory Spec2Isabelle
  imports Json_Number Platform_Properties Catalog_Properties Catalog_Policies Catalog_Listing Workspace_Listing Json_Scan
begin

text \<open>
  \<^bold>\<open>The program.\<close> NeKiro is a platform that publishes software agents and routes invocations to them. It has two
  services and a package of contracts they share. The \<^emph>\<open>control plane\<close> (\<^verbatim>\<open>apps/control-plane\<close>) keeps the
  Catalog of Agent Cards, the trusted publication of their Releases (providers, endpoint bindings,
  challenges) and the Workspaces with the Installations that permit invocations. The \<^emph>\<open>A2A Router\<close>
  (\<^verbatim>\<open>apps/a2a-router\<close>) receives invocations, asks the control plane to resolve the agent, calls it, and
  records every step in the Invocation Ledger; a running agent may start child invocations through the Router.
  The contracts (\<^verbatim>\<open>contracts\<close>) are the types, JSON schemas and validators on both sides. Both services keep their
  state in PostgreSQL.

  \<^bold>\<open>How the model corresponds to the code.\<close> A Go struct is a record, with one field per member and a short field
  prefix; a function or method is a definition with its Go name, in the order of its checks and early returns. An error that the
  callers only test for nil is an option; errors they distinguish are values: a datatype of the ledger's
  errors, and for the control plane the list of the sentinels that \<^verbatim>\<open>errors.Is\<close> finds in the chain. Strings are their
  bytes, a time is a number of nanoseconds, integers are unbounded where the code checks their range
  first. A nil slice or an omitted member is \<^verbatim>\<open>None\<close>. A table is a list of rows; the constraints and the triggers of the migrations are
  checked by the operations that write, and yield the SQLSTATE the store classifies. A JSON schema is
  the conjunction of its keywords on the typed value.

  \<^item> \<^bold>\<open>Shared\<close>: \<^verbatim>\<open>Prelude\<close> (results, error sequencing, lists, times), \<^verbatim>\<open>Regex\<close> (the matcher of
    the identifier, version and digest patterns), \<^verbatim>\<open>Text\<close> (runes and \<^verbatim>\<open>strings.TrimSpace\<close> on UTF-8), \<^verbatim>\<open>Sha256\<close> (the hash and \<^verbatim>\<open>encoding/hex\<close>),
    \<^verbatim>\<open>Json_Text\<close> and \<^verbatim>\<open>Json_Scan\<close> (the two scans for duplicate member names), \<^verbatim>\<open>Json_Number\<close> (integer limits of cards),
    \<^verbatim>\<open>Transaction\<close> (database calls that may fail, transactions, sentinels), \<^verbatim>\<open>Listing\<close> (pages and cursors).
  \<^item> \<^bold>\<open>Contracts\<close>: \<^verbatim>\<open>Runtime_Contracts\<close> and \<^verbatim>\<open>Lifecycle\<close> (\<^verbatim>\<open>runtime_contracts.go\<close>, \<^verbatim>\<open>runtime_contracts_validation.go\<close>: errors
    of version 4, invocation events, result streams and their sequence validators), \<^verbatim>\<open>Agent_Card\<close> (\<^verbatim>\<open>contracts.go\<close>,
    \<^verbatim>\<open>agent_card_semantics.go\<close>, \<^verbatim>\<open>validate.go\<close>: cards, Workspaces, Installations, resolution).
  \<^item> \<^bold>\<open>Ledger\<close>: \<^verbatim>\<open>Ledger\<close> (\<^verbatim>\<open>ledger/store.go\<close> and its migrations), \<^verbatim>\<open>Ledger_Correct\<close> (the abstract ledger of event histories and the refinement),
    \<^verbatim>\<open>Ledger_Interface\<close> (the locale \<^verbatim>\<open>invocation_ledger\<close>: what the handler relies on), \<^verbatim>\<open>Ledger_Provider\<close> (its interpretation on \<^verbatim>\<open>Append\<close>).
  \<^item> \<^bold>\<open>Dispatch\<close>: \<^verbatim>\<open>Dispatch\<close> (\<^verbatim>\<open>api/dispatch_handler.go\<close>: reading, validation, the two invocation paths, stream
    frames), \<^verbatim>\<open>Dispatch_Events\<close>, \<^verbatim>\<open>Dispatch_Correct\<close>, \<^verbatim>\<open>Dispatch_Stream\<close> and \<^verbatim>\<open>Dispatch_Writes\<close> (proved in the locale), \<^verbatim>\<open>Dispatch_Properties\<close>.
  \<^item> \<^bold>\<open>Catalog and trust\<close>: \<^verbatim>\<open>Catalog_Store\<close> (\<^verbatim>\<open>catalog/postgres/store.go\<close>, \<^verbatim>\<open>trust_store.go\<close>), \<^verbatim>\<open>Catalog_Service\<close>
    (\<^verbatim>\<open>catalog/service.go\<close>, \<^verbatim>\<open>release.go\<close>, \<^verbatim>\<open>cursor.go\<close>), \<^verbatim>\<open>Trust\<close> (\<^verbatim>\<open>catalog/trust.go\<close>), \<^verbatim>\<open>Catalog_Correct\<close>, \<^verbatim>\<open>Catalog_Run\<close>, \<^verbatim>\<open>Catalog_Cards\<close>, \<^verbatim>\<open>Catalog_Reads\<close>
    (invariants and runs), \<^verbatim>\<open>Catalog_Properties\<close>, \<^verbatim>\<open>Catalog_Policies\<close>, \<^verbatim>\<open>Catalog_Listing\<close>, and the run of \<^verbatim>\<open>Catalog_Demo\<close>.
  \<^item> \<^bold>\<open>Workspaces\<close>: \<^verbatim>\<open>Workspace_Store\<close> and \<^verbatim>\<open>Workspace_Service\<close> (\<^verbatim>\<open>workspace/postgres/store.go\<close>, \<^verbatim>\<open>workspace/service.go\<close>, \<^verbatim>\<open>cursor.go\<close>),
    \<^verbatim>\<open>Workspace_Correct\<close>, \<^verbatim>\<open>Workspace_Run\<close>, \<^verbatim>\<open>Workspace_Access\<close>, \<^verbatim>\<open>Workspace_Properties\<close>, \<^verbatim>\<open>Workspace_Listing\<close>, \<^verbatim>\<open>Workspace_Demo\<close>.
  \<^item> \<^bold>\<open>Resolution and nested invocations\<close>: \<^verbatim>\<open>Resolution\<close> (the internal endpoints of \<^verbatim>\<open>gateway/workspace_handler.go\<close>, the errors of
    version 3, and \<^verbatim>\<open>resolution/client.go\<close>), \<^verbatim>\<open>Nested\<close> (\<^verbatim>\<open>nested/binding.go\<close>, \<^verbatim>\<open>nested/context.go\<close>, \<^verbatim>\<open>api/agent_invocation_handler.go\<close>),
    \<^verbatim>\<open>Nested_Properties\<close> and \<^verbatim>\<open>Platform_Properties\<close>, which join the two services.

  \<^bold>\<open>What is proved.\<close> The validators accept exactly the event sequences and frame sequences of the
  lifecycle automata. The tables of the ledger refine a list of event histories: each append is one legal step or
  changes nothing, whichever database call fails, a finished history is final, and reads return the histories.
  The dispatch handler tells its client what it recorded, up to dependency and internal errors sent when the record could not be completed; it
  records a complete lifecycle when nothing fails, except for versions and error codes that the tables refuse; and it touches only the invocation it
  serves. Over every run of the Catalog a published Release is
  backed by the verified binding it names, challenges are proved, over a connection pinned to an admitted address of the bound endpoint, and used once, and what is bound stays bound; over
  every run of the platform an Installation pins an existing version and declared permissions, only the owner
  changes a Workspace, an invocation is authorized exactly when an enabled Installation permits it, and a
  withdrawn Release is never resolved again. The resolution API carries these decisions unchanged to the Router; an agent can
  only start children of what it is executing; and every event either endpoint of the Router adds to the ledger was permitted by an Installation.
  Listings by cursor are complete, the scans terminate, and the numeric checks mean what they say.

  \<^bold>\<open>Failures and concurrency.\<close> Every call to a database, clock, context, random source, network or client
  connection is an observation of the environment, taken in the order of the code and otherwise unconstrained: \<^verbatim>\<open>ledger_env\<close> and \<^verbatim>\<open>db_env\<close> say
  which calls fail and whether the outcome of a commit is lost, and \<^verbatim>\<open>world\<close> gives the n-th observation of a dispatch.
  A transaction is one atomic step, which the code obtains by locking the rows it decides on and by the unique keys. Requests
  of the control plane interleave: in a run each earlier read of a request may see any state since the start,
  and its writing transaction the present one. A request to the Router is run to its end on its ledger; requests that interleave
  at the ledger are covered by the refinement of single appends.

  \<^bold>\<open>Bounds and fuel.\<close> The recursive JSON scan takes fuel, and twice the number of tokens plus one is shown to be
  enough for every input. The client that follows cursors takes as fuel the number of pages it is willing to
  read, and the number of rows plus one is shown to be enough. All other recursion is structural or proved terminating.

  \<^bold>\<open>Parameters.\<close> Code outside the repository is an argument: the semantic version library and the two remaining schema formats
  (\<^verbatim>\<open>contract_library\<close>), URL parsing (\<^verbatim>\<open>url_library\<close>), the encoders and decoders of \<^verbatim>\<open>encoding/json\<close> (\<^verbatim>\<open>json_codec\<close>,
  \<^verbatim>\<open>cursor_codec\<close>), DNS, TLS and the HTTP exchange with a given address, and the A2A SDK behind \<^verbatim>\<open>transport\<close>. What a theorem needs of one is a hypothesis of it, and its witness
  supplies an instance.

  \<^bold>\<open>Not modelled.\<close> The transport over the A2A SDK (its results are parameters of the dispatch model); the public HTTP handlers of the
  control plane and the proxy that forwards invocations, whose work is decoding, writing and forwarding around modelled
  services; process start-up, configuration and credentials; the runner that applies and compares migrations; the adapters to Kubernetes,
  Nacos and files under \<^verbatim>\<open>registry\<close>, \<^verbatim>\<open>config_center\<close> and \<^verbatim>\<open>gateway\<close>, which are I/O against services whose behaviour
  the repository does not define; superseded contract versions and the fixture checkers that only tests run.
\<close>

end
